(* ===== verification/Prelude.thy ===== *)
theory Prelude
  imports Main "HOL-Library.Word" "HOL-Library.Signed_Division"
begin

text \<open>
  Shared vocabulary of the development: machine integer types, the kernel's
  error numbers, C integer conversions, the log of kernel services the drivers
  call, and the generic lemmas on words and bit fields that the components use.
\<close>

unbundle bit_operations_syntax

section \<open>Machine integers\<close>

type_synonym u8 = "8 word"
type_synonym u16 = "16 word"
type_synonym u32 = "32 word"

text \<open>A C \<open>int\<close> is a mathematical integer; where a computation can leave the 32-bit
  range the wrap-around is written with \<open>s32\<close>, the conversion of the kernel's
  two's complement build.  \<open>s16\<close> is the conversion of a \<open>short\<close>.\<close>

definition s32 :: "int \<Rightarrow> int" where
  "s32 x = (x + 2 ^ 31) mod 2 ^ 32 - 2 ^ 31"

definition s16 :: "int \<Rightarrow> int" where
  "s16 x = (x + 2 ^ 15) mod 2 ^ 16 - 2 ^ 15"

lemma s32_id [simp]: "- (2 ^ 31) \<le> x \<Longrightarrow> x < 2 ^ 31 \<Longrightarrow> s32 x = x"
  by (simp add: s32_def)

lemma s16_id [simp]: "- (2 ^ 15) \<le> x \<Longrightarrow> x < 2 ^ 15 \<Longrightarrow> s16 x = x"
  by (simp add: s16_def)

lemma s32_range: "- (2 ^ 31) \<le> s32 x" "s32 x < 2 ^ 31"
  by (simp_all add: s32_def)

lemma s16_range: "- (2 ^ 15) \<le> s16 x" "s16 x < 2 ^ 15"
  by (simp_all add: s16_def)

lemma sdiv_nonneg [simp]: "0 \<le> a \<Longrightarrow> 0 < b \<Longrightarrow> (a :: int) sdiv b = a div b"
  by (cases "a = 0") (simp_all add: signed_divide_int_def)

lemma smod_nonneg [simp]: "0 \<le> a \<Longrightarrow> 0 < b \<Longrightarrow> (a :: int) smod b = a mod b"
  by (cases "a = 0") (simp_all add: signed_modulo_int_def)

text \<open>A C truth value stored in an integer, and back.\<close>

definition b2i :: "bool \<Rightarrow> int" where
  "b2i b = (if b then 1 else 0)"

lemma b2i_simps [simp]: "b2i True = 1" "b2i False = 0"
  by (simp_all add: b2i_def)

lemma b2i_eq_0 [simp]: "b2i b = 0 \<longleftrightarrow> \<not> b"
  by (simp add: b2i_def)

section \<open>Error numbers\<close>

definition ENOENT :: int where "ENOENT = 2"
definition EIO :: int where "EIO = 5"
definition ENOMEM :: int where "ENOMEM = 12"
definition EFAULT :: int where "EFAULT = 14"
definition EBUSY :: int where "EBUSY = 16"
definition ENODEV :: int where "ENODEV = 19"
definition EINVAL :: int where "EINVAL = 22"
definition EPERM :: int where "EPERM = 1"
definition EACCES :: int where "EACCES = 13"
definition ENODATA :: int where "ENODATA = 61"
definition EOPNOTSUPP :: int where "EOPNOTSUPP = 95"
definition ENOTSUPP :: int where "ENOTSUPP = 524"

named_theorems errno "the values of the kernel's error numbers"
lemmas [errno] = ENOENT_def EIO_def ENOMEM_def EFAULT_def EBUSY_def ENODEV_def EINVAL_def
  EPERM_def EACCES_def ENODATA_def EOPNOTSUPP_def ENOTSUPP_def

section \<open>Bit fields\<close>

text \<open>The read-modify-write of a field: the bits of \<open>m\<close> are taken from \<open>v\<close>.\<close>

definition merge_bits :: "'a::len word \<Rightarrow> 'a word \<Rightarrow> 'a word \<Rightarrow> 'a word" where
  "merge_bits old m v = ((old AND NOT m) OR (v AND m))"

lemma bit_merge_bits:
  "bit (merge_bits old m v) n = (if bit m n then bit v n else bit old n)"
  by (auto simp: merge_bits_def bit_and_iff bit_or_iff bit_not_iff dest: bit_imp_le_length)

lemma word_bitI: "(\<And>n. n < LENGTH('a) \<Longrightarrow> bit a n = bit b n) \<Longrightarrow> a = (b :: 'a::len word)"
  by (rule bit_word_eqI) simp

lemma merge_bits_field [simp]: "merge_bits old m v AND m = v AND m"
  by (rule word_bitI) (auto simp: bit_and_iff bit_merge_bits)

lemma merge_bits_other:
  "m AND m' = 0 \<Longrightarrow> merge_bits old m v AND m' = old AND m'"
proof (rule word_bitI)
  fix n assume z: "m AND m' = 0"
  have "bit (m AND m') n = False" by (simp add: z)
  then show "bit (merge_bits old m v AND m') n = bit (old AND m') n"
    by (auto simp: bit_and_iff bit_merge_bits)
qed

lemma merge_bits_idem [simp]: "merge_bits (merge_bits old m v) m w = merge_bits old m w"
  by (rule word_bitI) (simp add: bit_merge_bits)

lemma merge_bits_same: "v AND m = w AND m \<Longrightarrow> merge_bits old m v = merge_bits old m w"
  by (simp add: merge_bits_def)

lemma merge_bits_commute:
  "m AND m' = 0 \<Longrightarrow>
   merge_bits (merge_bits old m v) m' v' = merge_bits (merge_bits old m' v') m v"
proof (rule word_bitI)
  fix n assume z: "m AND m' = 0"
  have "bit (m AND m') n = False" by (simp add: z)
  then show "bit (merge_bits (merge_bits old m v) m' v') n
      = bit (merge_bits (merge_bits old m' v') m v) n"
    by (auto simp: bit_and_iff bit_merge_bits)
qed

lemma and_sub_mask:
  "a AND c = b AND c \<Longrightarrow> m AND c = m \<Longrightarrow> a AND m = b AND (m :: 'a::len word)"
  by (metis and.assoc and.commute)

lemma u8_and_le: "uint (w AND m) \<le> uint (m :: u8)"
  by (metis and.commute word_and_le1 word_le_def)

lemma u8_range [simp]: "0 \<le> uint (w :: u8)" "uint (w :: u8) < 256"
  using uint_lt2p [of w] by auto

lemma u8_AND_63: "(w :: u8) AND 63 = take_bit 6 w"
  by (simp add: take_bit_eq_mask mask_eq_exp_minus_1)

lemma u8_AND_31: "(w :: u8) AND 31 = take_bit 5 w"
  by (simp add: take_bit_eq_mask mask_eq_exp_minus_1)

lemma u8_AND_15: "(w :: u8) AND 15 = take_bit 4 w"
  by (simp add: take_bit_eq_mask mask_eq_exp_minus_1)

lemma unat_u8_AND_63: "unat ((w :: u8) AND 63) = unat w mod 64"
  by (simp only: u8_AND_63 unsigned_take_bit_eq) (simp add: take_bit_eq_mod)

lemma unat_u8_AND_31: "unat ((w :: u8) AND 31) = unat w mod 32"
  by (simp only: u8_AND_31 unsigned_take_bit_eq) (simp add: take_bit_eq_mod)

lemma unat_u8_AND_15: "unat ((w :: u8) AND 15) = unat w mod 16"
  by (simp only: u8_AND_15 unsigned_take_bit_eq) (simp add: take_bit_eq_mod)

lemma unat_u8_less [simp]: "unat (w :: u8) < 256"
  using unsigned_less [where 'a = nat, of w] by simp

lemma unat_u32_to_u8: "unat (ucast (x :: u32) :: u8) = unat x mod 256"
  by (simp add: unsigned_ucast_eq take_bit_eq_mod)

lemma unat_u8_to_u32 [simp]: "unat (ucast (x :: u8) :: u32) = unat x"
proof -
  have "unat x < 2 ^ 32" by (rule order.strict_trans [OF unat_u8_less]) simp
  then show ?thesis by (simp add: unsigned_ucast_eq take_bit_eq_mod)
qed

lemma unat_push_bit_u8: "unat w * 2 ^ n < 256 \<Longrightarrow> unat (push_bit n (w :: u8)) = unat w * 2 ^ n"
  by (simp only: unsigned_push_bit_eq) (simp add: take_bit_eq_mod push_bit_eq_mult)

lemma unat_drop_bit_u8: "unat (drop_bit n (w :: u8)) = unat w div 2 ^ n"
  by (simp only: unsigned_drop_bit_eq) (simp add: take_bit_eq_mod drop_bit_eq_div)

lemma div_offset:
  assumes "c \<le> x" "d dvd c" "0 < d"
  shows "(x - c) div d * d + c = x div d * (d :: nat)"
proof -
  from assms(2) obtain k where k: "c = d * k" ..
  from assms(1) obtain y where y: "x = c + y" using le_Suc_ex by blast
  show ?thesis using assms(3) by (simp add: y k algebra_simps)
qed

lemma div_bound: "x \<le> k * d + (d - 1) \<Longrightarrow> 0 < d \<Longrightarrow> x div d \<le> (k :: nat)"
  by (metis Suc_pred' add_Suc_right div_less_iff_less_mult le_imp_less_Suc less_Suc_eq_le mult_Suc
      add.commute)

lemma unat_mult_u32:
  "unat (a :: u32) * unat b < 2 ^ 32 \<Longrightarrow> unat (a * b) = unat a * unat b"
  by (simp add: unat_word_ariths)

text \<open>A field of \<open>k\<close> bits at offset \<open>n\<close>: shifting a value in and out again.\<close>

lemma field_shift:
  "m = push_bit n (mask k) \<Longrightarrow> drop_bit n (push_bit n w AND m) = w AND drop_bit n (m :: u8)"
  by (rule word_bitI) (auto simp: bit_and_iff bit_drop_bit_eq bit_push_bit_iff)

section \<open>Lookups with a default\<close>

text \<open>A lookup with a default: device-tree properties that are absent keep or
  take a default value.\<close>

definition lookup_default :: "('a \<Rightarrow> 'b option) \<Rightarrow> 'a \<Rightarrow> 'b \<Rightarrow> 'b" where
  "lookup_default f k d = (case f k of None \<Rightarrow> d | Some v \<Rightarrow> v)"

lemma lookup_default_simps [simp]:
  "f k = None \<Longrightarrow> lookup_default f k d = d"
  "f k = Some v \<Longrightarrow> lookup_default f k d = v"
  by (simp_all add: lookup_default_def)

section \<open>Decimal output\<close>

text \<open>The output of the format \<open>%d\<close>.\<close>

fun show_nat :: "nat \<Rightarrow> string" where
  "show_nat n =
    (if n < 10 then [char_of (48 + n)] else show_nat (n div 10) @ [char_of (48 + n mod 10)])"

declare show_nat.simps [simp del]

definition show_int :: "int \<Rightarrow> string" where
  "show_int n = (if n < 0 then CHR ''-'' # show_nat (nat (- n)) else show_nat (nat n))"

end
