(* ===== verification/Sgm_Bus.thy ===== *)
theory Sgm_Bus
  imports Prelude
begin

text \<open>
  Register access of the charger driver (sgm415xx.c): the SMBus transfers of
  the kernel are parameters, the driver's read and read-modify-write routines
  are definitions over them.  The locale \<open>smbus\<close> states what a client may rely
  on: a transfer that fails changes no configuration bit, one that succeeds
  reads or writes the addressed register.  The locale \<open>reg_fields\<close> is the
  interface the rest of the driver uses; \<open>smbus\<close> provides it through the
  driver's own routines.
\<close>

section \<open>Registers and fields (sgm415xx.h)\<close>

definition SGM4154x_CHRG_CTRL_0 :: u8 where "SGM4154x_CHRG_CTRL_0 = 0x00"
definition SGM4154x_CHRG_CTRL_1 :: u8 where "SGM4154x_CHRG_CTRL_1 = 0x01"
definition SGM4154x_CHRG_CTRL_2 :: u8 where "SGM4154x_CHRG_CTRL_2 = 0x02"
definition SGM4154x_CHRG_CTRL_3 :: u8 where "SGM4154x_CHRG_CTRL_3 = 0x03"
definition SGM4154x_CHRG_CTRL_4 :: u8 where "SGM4154x_CHRG_CTRL_4 = 0x04"
definition SGM4154x_CHRG_CTRL_5 :: u8 where "SGM4154x_CHRG_CTRL_5 = 0x05"
definition SGM4154x_CHRG_CTRL_6 :: u8 where "SGM4154x_CHRG_CTRL_6 = 0x06"
definition SGM4154x_CHRG_CTRL_7 :: u8 where "SGM4154x_CHRG_CTRL_7 = 0x07"
definition SGM4154x_CHRG_STAT :: u8 where "SGM4154x_CHRG_STAT = 0x08"
definition SGM4154x_CHRG_FAULT :: u8 where "SGM4154x_CHRG_FAULT = 0x09"
definition SGM4154x_CHRG_CTRL_a :: u8 where "SGM4154x_CHRG_CTRL_a = 0x0a"
definition SGM4154x_CHRG_CTRL_b :: u8 where "SGM4154x_CHRG_CTRL_b = 0x0b"
definition SGM4154x_CHRG_CTRL_d :: u8 where "SGM4154x_CHRG_CTRL_d = 0x0d"
definition SGM4154x_INPUT_DET :: u8 where "SGM4154x_INPUT_DET = 0x0e"
definition SGM4154x_CHRG_CTRL_f :: u8 where "SGM4154x_CHRG_CTRL_f = 0x0f"

named_theorems sgm_regs "the addresses of the charger's registers"
lemmas [sgm_regs] = SGM4154x_CHRG_CTRL_0_def SGM4154x_CHRG_CTRL_1_def
  SGM4154x_CHRG_CTRL_2_def SGM4154x_CHRG_CTRL_3_def SGM4154x_CHRG_CTRL_4_def
  SGM4154x_CHRG_CTRL_5_def SGM4154x_CHRG_CTRL_6_def SGM4154x_CHRG_CTRL_7_def
  SGM4154x_CHRG_STAT_def SGM4154x_CHRG_FAULT_def SGM4154x_CHRG_CTRL_a_def
  SGM4154x_CHRG_CTRL_b_def SGM4154x_CHRG_CTRL_d_def SGM4154x_INPUT_DET_def
  SGM4154x_CHRG_CTRL_f_def

definition SGM4154X_FORCE_DPDM_MASK :: u8 where "SGM4154X_FORCE_DPDM_MASK = 0x80"
definition SGM4154X_FORCE_DPDM :: u8 where "SGM4154X_FORCE_DPDM = 0x80"
definition SGM4154X_BATFET_RESET_MASK :: u8 where "SGM4154X_BATFET_RESET_MASK = 0x04"
definition SGM4154x_BATFET_RESET_OFF :: u8 where "SGM4154x_BATFET_RESET_OFF = 0"
definition SGM4154x_BATFET_DIS_MASK :: u8 where "SGM4154x_BATFET_DIS_MASK = 0x20"
definition SGM4154x_BATFET_OFF :: u8 where "SGM4154x_BATFET_OFF = 1"
definition SGM4154x_VINDPM_TRACK_MASK :: u8 where "SGM4154x_VINDPM_TRACK_MASK = 0x03"
definition SGM4154x_CHRG_EN :: u8 where "SGM4154x_CHRG_EN = 0x10"
definition SGM4154x_HIZ_EN :: u8 where "SGM4154x_HIZ_EN = 0x80"
definition SGM4154x_TERM_EN :: u8 where "SGM4154x_TERM_EN = 0x80"
definition SGM4154x_DPDM_ONGOING :: u8 where "SGM4154x_DPDM_ONGOING = 0x80"
definition SGM4154x_VBUS_GOOD :: u8 where "SGM4154x_VBUS_GOOD = 0x80"
definition SGM4154x_BOOSTV :: u8 where "SGM4154x_BOOSTV = 0x30"
definition SGM4154x_BOOST_LIM :: u8 where "SGM4154x_BOOST_LIM = 0x80"
definition SGM4154x_OTG_EN :: u8 where "SGM4154x_OTG_EN = 0x20"
definition SGM4154x_PN_MASK :: u8 where "SGM4154x_PN_MASK = 0x78"
definition SGM4154x_PN_ID :: u8 where "SGM4154x_PN_ID = 0x48"
definition SGM4154X_ENHIZ_MASK :: u8 where "SGM4154X_ENHIZ_MASK = 0x80"
definition SGM4154x_WDT_TIMER_MASK :: u8 where "SGM4154x_WDT_TIMER_MASK = 0x30"
definition SGM4154x_WDT_TIMER_DISABLE :: u8 where "SGM4154x_WDT_TIMER_DISABLE = 0"
definition SGM4154x_WDT_TIMER_40S :: u8 where "SGM4154x_WDT_TIMER_40S = 0x10"
definition SGM4154x_WDT_TIMER_80S :: u8 where "SGM4154x_WDT_TIMER_80S = 0x20"
definition SGM4154x_WDT_TIMER_160S :: u8 where "SGM4154x_WDT_TIMER_160S = 0x30"
definition SGM4154x_WDT_RST_MASK :: u8 where "SGM4154x_WDT_RST_MASK = 0x40"
definition SGM4154x_SAFETY_TIMER_EN :: u8 where "SGM4154x_SAFETY_TIMER_EN = 0x08"
definition SGM4154x_VRECHARGE :: u8 where "SGM4154x_VRECHARGE = 0x01"
definition SGM4154x_VSYS_STAT :: u8 where "SGM4154x_VSYS_STAT = 0x01"
definition SGM4154x_THERM_STAT :: u8 where "SGM4154x_THERM_STAT = 0x02"
definition SGM4154x_PG_STAT :: u8 where "SGM4154x_PG_STAT = 0x04"
definition SGM4154x_CHG_STAT_MASK :: u8 where "SGM4154x_CHG_STAT_MASK = 0x18"
definition SGM4154x_VBUS_STAT_MASK :: u8 where "SGM4154x_VBUS_STAT_MASK = 0xE0"
definition SGM4154x_PRECHRG :: int where "SGM4154x_PRECHRG = 8"
definition SGM4154x_FAST_CHRG :: int where "SGM4154x_FAST_CHRG = 16"
definition SGM4154x_TERM_CHRG :: int where "SGM4154x_TERM_CHRG = 24"
definition SGM4154x_NOT_CHRGING :: u8 where "SGM4154x_NOT_CHRGING = 0"
definition SGM4154x_USB_SDP :: u8 where "SGM4154x_USB_SDP = 0x20"
definition SGM4154x_USB_CDP :: u8 where "SGM4154x_USB_CDP = 0x40"
definition SGM4154x_USB_DCP :: u8 where "SGM4154x_USB_DCP = 0x60"
definition SGM4154x_UNKNOWN :: u8 where "SGM4154x_UNKNOWN = 0xA0"
definition SGM4154x_NON_STANDARD :: u8 where "SGM4154x_NON_STANDARD = 0xC0"
definition SGM4154x_OTG_MODE :: u8 where "SGM4154x_OTG_MODE = 0xE0"
definition SGM4154x_TEMP_MASK :: u8 where "SGM4154x_TEMP_MASK = 0x07"
definition SGM4154x_TEMP_WARM :: u8 where "SGM4154x_TEMP_WARM = 0x02"
definition SGM4154x_TEMP_COOL :: u8 where "SGM4154x_TEMP_COOL = 0x03"
definition SGM4154x_TEMP_COLD :: u8 where "SGM4154x_TEMP_COLD = 0x09"
definition SGM4154x_TEMP_HOT :: u8 where "SGM4154x_TEMP_HOT = 0x0C"
definition SGM4154x_PRECHRG_CUR_MASK :: u8 where "SGM4154x_PRECHRG_CUR_MASK = 0xF0"
definition SGM4154x_TERMCHRG_CUR_MASK :: u8 where "SGM4154x_TERMCHRG_CUR_MASK = 0x0F"
definition SGM4154x_ICHRG_I_MASK :: u8 where "SGM4154x_ICHRG_I_MASK = 0x3F"
definition SGM4154x_VREG_V_MASK :: u8 where "SGM4154x_VREG_V_MASK = 0xF8"
definition SGM4154x_IINDPM_I_MASK :: u8 where "SGM4154x_IINDPM_I_MASK = 0x1F"
definition SGM4154x_VINDPM_V_MASK :: u8 where "SGM4154x_VINDPM_V_MASK = 0x0F"
definition SGM4154x_VINDPM_OS_MASK :: u8 where "SGM4154x_VINDPM_OS_MASK = 0x03"
definition SGM4154x_DP_VSEL_MASK :: u8 where "SGM4154x_DP_VSEL_MASK = 0x18"
definition SGM4154x_DM_VSEL_MASK :: u8 where "SGM4154x_DM_VSEL_MASK = 0x06"
definition SGM4154x_EN_PUMPX :: u8 where "SGM4154x_EN_PUMPX = 0x80"
definition SGM4154x_PUMPX_UP :: u8 where "SGM4154x_PUMPX_UP = 0x40"
definition SGM4154x_PUMPX_DN :: u8 where "SGM4154x_PUMPX_DN = 0x20"
definition SGM4154x_VREG_FT_MASK :: u8 where "SGM4154x_VREG_FT_MASK = 0xC0"
definition SGM4154x_VREG_FT_EN_SHIFT :: u8 where "SGM4154x_VREG_FT_EN_SHIFT = 3"
definition SGM4154x_VREG_FT_SHIFT :: u8 where "SGM4154x_VREG_FT_SHIFT = 0"
definition SGM4154x_VREG_LOWTMP_CV :: u8 where "SGM4154x_VREG_LOWTMP_CV = 22"
definition SGM_DP_DM_VOL_HIZ :: u8 where "SGM_DP_DM_VOL_HIZ = 0"
definition SGM_DP_DM_VOL_0P0 :: u8 where "SGM_DP_DM_VOL_0P0 = 1"
definition SGM_DP_DM_VOL_0P6 :: u8 where "SGM_DP_DM_VOL_0P6 = 2"
definition SGM_DP_DM_VOL_3P3 :: u8 where "SGM_DP_DM_VOL_3P3 = 3"
definition SGM4154x_TRACK_250 :: u8 where "SGM4154x_TRACK_250 = 2"

named_theorems sgm_fields "the masks and values of the charger's bit fields"
lemmas [sgm_fields] =
  SGM4154X_FORCE_DPDM_MASK_def SGM4154X_FORCE_DPDM_def SGM4154X_BATFET_RESET_MASK_def
  SGM4154x_BATFET_RESET_OFF_def SGM4154x_BATFET_DIS_MASK_def SGM4154x_BATFET_OFF_def
  SGM4154x_VINDPM_TRACK_MASK_def SGM4154x_CHRG_EN_def SGM4154x_HIZ_EN_def SGM4154x_TERM_EN_def
  SGM4154x_DPDM_ONGOING_def SGM4154x_VBUS_GOOD_def SGM4154x_BOOSTV_def SGM4154x_BOOST_LIM_def
  SGM4154x_OTG_EN_def SGM4154x_PN_MASK_def SGM4154x_PN_ID_def SGM4154X_ENHIZ_MASK_def
  SGM4154x_WDT_TIMER_MASK_def SGM4154x_WDT_TIMER_DISABLE_def SGM4154x_WDT_TIMER_40S_def
  SGM4154x_WDT_TIMER_80S_def SGM4154x_WDT_TIMER_160S_def SGM4154x_WDT_RST_MASK_def
  SGM4154x_SAFETY_TIMER_EN_def SGM4154x_VRECHARGE_def SGM4154x_VSYS_STAT_def
  SGM4154x_THERM_STAT_def SGM4154x_PG_STAT_def SGM4154x_CHG_STAT_MASK_def
  SGM4154x_VBUS_STAT_MASK_def SGM4154x_PRECHRG_def SGM4154x_FAST_CHRG_def
  SGM4154x_TERM_CHRG_def SGM4154x_NOT_CHRGING_def SGM4154x_USB_SDP_def SGM4154x_USB_CDP_def
  SGM4154x_USB_DCP_def SGM4154x_UNKNOWN_def SGM4154x_NON_STANDARD_def SGM4154x_OTG_MODE_def
  SGM4154x_TEMP_MASK_def SGM4154x_TEMP_WARM_def SGM4154x_TEMP_COOL_def SGM4154x_TEMP_COLD_def
  SGM4154x_TEMP_HOT_def SGM4154x_PRECHRG_CUR_MASK_def SGM4154x_TERMCHRG_CUR_MASK_def
  SGM4154x_ICHRG_I_MASK_def SGM4154x_VREG_V_MASK_def SGM4154x_IINDPM_I_MASK_def
  SGM4154x_VINDPM_V_MASK_def SGM4154x_VINDPM_OS_MASK_def SGM4154x_DP_VSEL_MASK_def
  SGM4154x_DM_VSEL_MASK_def SGM4154x_EN_PUMPX_def SGM4154x_PUMPX_UP_def SGM4154x_PUMPX_DN_def
  SGM4154x_VREG_FT_MASK_def SGM4154x_VREG_FT_EN_SHIFT_def SGM4154x_VREG_FT_SHIFT_def
  SGM4154x_VREG_LOWTMP_CV_def SGM_DP_DM_VOL_HIZ_def SGM_DP_DM_VOL_0P0_def SGM_DP_DM_VOL_0P6_def
  SGM_DP_DM_VOL_3P3_def SGM4154x_TRACK_250_def

section \<open>Transfers\<close>

text \<open>The two SMBus byte transfers of the kernel, as functions on the state \<open>'w\<close>
  of everything outside the driver (the chip, its pins, the ADC).  A negative
  result is an error number, otherwise a read returns the byte.\<close>

record 'w smbus_ops =
  i2c_smbus_read_byte_data :: "'w \<Rightarrow> u8 \<Rightarrow> int \<times> 'w"
  i2c_smbus_write_byte_data :: "'w \<Rightarrow> u8 \<Rightarrow> u8 \<Rightarrow> int \<times> 'w"

text \<open>\<open>data\<close> is the caller's variable before the call: it keeps its value on failure.\<close>

definition sgm4154x_read_byte ::
  "('w, 'e) smbus_ops_scheme \<Rightarrow> u8 \<Rightarrow> u8 \<Rightarrow> 'w \<Rightarrow> int \<times> u8 \<times> 'w" where
  "sgm4154x_read_byte B reg data w =
    (let (ret, w) = i2c_smbus_read_byte_data B w reg in
     if ret < 0 then (ret, data, w) else (0, word_of_int ret, w))"

definition sgm4154x_write_byte ::
  "('w, 'e) smbus_ops_scheme \<Rightarrow> u8 \<Rightarrow> u8 \<Rightarrow> 'w \<Rightarrow> int \<times> 'w" where
  "sgm4154x_write_byte B reg val w =
    (let (ret, w) = i2c_smbus_write_byte_data B w reg val in
     if ret < 0 then (ret, w) else (0, w))"

definition read_reg_w ::
  "('w, 'e) smbus_ops_scheme \<Rightarrow> u8 \<Rightarrow> u8 \<Rightarrow> 'w \<Rightarrow> int \<times> u8 \<times> 'w" where
  "read_reg_w B reg data w =
    (let (ret, data, w) = sgm4154x_read_byte B reg data w in (ret, data, w))"

definition update_bits_w ::
  "('w, 'e) smbus_ops_scheme \<Rightarrow> u8 \<Rightarrow> u8 \<Rightarrow> u8 \<Rightarrow> 'w \<Rightarrow> int \<times> 'w" where
  "update_bits_w B reg msk val w =
    (let (ret, tmp, w) = sgm4154x_read_byte B reg 0 w in
     if ret \<noteq> 0 then (ret, w)
     else
       let tmp = tmp AND NOT msk;
           tmp = tmp OR (val AND msk);
           (ret, w) = sgm4154x_write_byte B reg tmp w
       in (ret, w))"

section \<open>The contract of the transfers\<close>

text \<open>\<open>cfg r\<close> is the mask of the bits of register \<open>r\<close> the driver owns (the
  read/write bits of the data sheet); \<open>reg w\<close> is their content in the outside
  state \<open>w\<close>.  The remaining bits (status, self-clearing commands) belong to the
  chip: a read may return anything there.\<close>

locale smbus =
  fixes B :: "('w, 'e) smbus_ops_scheme"
    and reg :: "'w \<Rightarrow> u8 \<Rightarrow> u8"
    and cfg :: "u8 \<Rightarrow> u8"
  assumes reg_cfg: "reg w r AND cfg r = reg w r"
    and rd_frame: "i2c_smbus_read_byte_data B w r = (ret, w') \<Longrightarrow> reg w' = reg w"
    and rd_value: "i2c_smbus_read_byte_data B w r = (ret, w') \<Longrightarrow> \<not> ret < 0 \<Longrightarrow>
        word_of_int ret AND cfg r = reg w r"
    and wr_done: "i2c_smbus_write_byte_data B w r v = (ret, w') \<Longrightarrow> \<not> ret < 0 \<Longrightarrow>
        reg w' = (reg w)(r := v AND cfg r)"
    and wr_fail: "i2c_smbus_write_byte_data B w r v = (ret, w') \<Longrightarrow> ret < 0 \<Longrightarrow>
        reg w' = reg w"
begin

lemma read_reg_w_frame: "read_reg_w B r d w = (ret, x, w') \<Longrightarrow> reg w' = reg w"
  by (auto simp: read_reg_w_def sgm4154x_read_byte_def rd_frame split: prod.splits if_splits)

lemma read_reg_w_value:
  "read_reg_w B r d w = (0, x, w') \<Longrightarrow> x AND cfg r = reg w r"
  by (auto simp: read_reg_w_def sgm4154x_read_byte_def rd_value split: prod.splits if_splits)

lemma read_reg_w_error: "read_reg_w B r d w = (ret, x, w') \<Longrightarrow> ret \<le> 0 \<and> (ret \<noteq> 0 \<longrightarrow> x = d)"
  by (auto simp: read_reg_w_def sgm4154x_read_byte_def split: prod.splits if_splits)

lemma merge_cfg:
  "t AND c = q \<Longrightarrow> ((t AND NOT m) OR (v AND m)) AND c = merge_bits q m v AND (c :: u8)"
  by (rule word_bitI) (auto simp: bit_merge_bits bit_and_iff bit_or_iff bit_not_iff)

lemma update_bits_w_done:
  assumes "update_bits_w B r m v w = (0, w')"
  shows "reg w' = (reg w)(r := merge_bits (reg w r) m v AND cfg r)"
  using assms
  by (auto simp: update_bits_w_def sgm4154x_read_byte_def sgm4154x_write_byte_def Let_def
        wr_done rd_frame merge_cfg [OF rd_value] split: prod.splits if_splits)

lemma update_bits_w_fail:
  assumes "update_bits_w B r m v w = (ret, w')" "ret \<noteq> 0"
  shows "reg w' = reg w" "ret < 0"
  using assms
  by (auto simp: update_bits_w_def sgm4154x_read_byte_def sgm4154x_write_byte_def Let_def
        wr_fail rd_frame split: prod.splits if_splits)

end

section \<open>Register fields, as the driver uses them\<close>

text \<open>The interface of a device with masked registers, over any driver state
  \<open>'s\<close>: \<open>content\<close> is the configuration, \<open>upd\<close> the read-modify-write, \<open>get\<close>
  the read.  Everything the setters and getters of the driver need is proved
  here once.\<close>

locale reg_fields =
  fixes content :: "'s \<Rightarrow> u8 \<Rightarrow> u8"
    and own :: "u8 \<Rightarrow> u8"
    and upd :: "u8 \<Rightarrow> u8 \<Rightarrow> u8 \<Rightarrow> 's \<Rightarrow> int \<times> 's"
    and get :: "u8 \<Rightarrow> u8 \<Rightarrow> 's \<Rightarrow> int \<times> u8 \<times> 's"
  assumes content_own: "content s r AND own r = content s r"
    and upd_done: "upd r m v s = (0, s') \<Longrightarrow>
        content s' = (content s)(r := merge_bits (content s r) m v AND own r)"
    and upd_fail: "upd r m v s = (ret, s') \<Longrightarrow> ret \<noteq> 0 \<Longrightarrow> content s' = content s \<and> ret < 0"
    and get_frame: "get r d s = (ret, x, s') \<Longrightarrow> content s' = content s"
    and get_value: "get r d s = (0, x, s') \<Longrightarrow> x AND own r = content s r"
begin

lemma upd_field:
  assumes "upd r m v s = (0, s')" "m AND own r = m"
  shows "content s' r AND m = v AND m"
proof -
  have "content s' r AND m = (merge_bits (content s r) m v AND own r) AND m"
    by (simp add: upd_done [OF assms(1)])
  also have "\<dots> = merge_bits (content s r) m v AND m"
    using assms(2) by (metis and.assoc and.commute)
  finally show ?thesis by simp
qed

lemma upd_other_field:
  assumes "upd r m v s = (ret, s')" "r' = r \<Longrightarrow> m AND m' = 0"
  shows "content s' r' AND m' = content s r' AND m'"
proof (cases "ret = 0")
  case False
  with assms(1) show ?thesis by (simp add: upd_fail)
next
  case True
  with assms(1) have c: "content s' = (content s)(r := merge_bits (content s r) m v AND own r)"
    by (simp add: upd_done)
  show ?thesis
  proof (cases "r' = r")
    case True
    have "(merge_bits (content s r) m v AND own r) AND m'
        = (merge_bits (content s r) m v AND m') AND own r"
      by (simp add: ac_simps)
    also have "\<dots> = (content s r AND own r) AND m'"
      using merge_bits_other [OF assms(2) [OF True]] by (simp add: ac_simps)
    finally show ?thesis
      using True by (simp add: c content_own)
  qed (simp add: c)
qed

lemma upd_other_reg: "upd r m v s = (ret, s') \<Longrightarrow> r' \<noteq> r \<Longrightarrow> content s' r' = content s r'"
  using upd_done upd_fail by (cases "ret = 0") fastforce+

lemma get_field:
  assumes "get r d s = (0, x, s')" "m AND own r = m"
  shows "x AND m = content s r AND m"
  using get_value [OF assms(1)] assms(2) by (metis and.assoc and.commute)

lemma upd_get:
  assumes "upd r m v s = (0, s')" "get r d s' = (0, x, s'')" "m AND own r = m"
  shows "x AND m = v AND m"
  using get_field [OF assms(2,3)] upd_field [OF assms(1,3)] by simp

text \<open>Writing a field twice is writing it once, with the last value.\<close>

lemma upd_upd:
  assumes "upd r m v s = (0, s')" "upd r m v' s' = (0, s'')" "upd r m v' s = (0, t)"
  shows "content s'' = content t"
proof -
  have "merge_bits (merge_bits q m v AND o') m v' AND o' = merge_bits q m v' AND o'"
    for q o' :: u8
    by (rule word_bitI) (auto simp: bit_merge_bits bit_and_iff)
  then show ?thesis
    by (simp add: upd_done [OF assms(1)] upd_done [OF assms(2)] upd_done [OF assms(3)])
qed

end

section \<open>A register file on the bus\<close>

text \<open>A chip whose registers are plain storage, with a plan of transfers that
  are not acknowledged (\<open>True\<close> in \<open>nacks\<close> fails the next transfer with
  \<open>-EIO\<close>).  It meets the contract, and the concrete runs of the
  development are evaluated on it.\<close>

record regfile =
  cells :: "u8 \<Rightarrow> u8"
  nacks :: "bool list"

definition regfile_read :: "regfile \<Rightarrow> u8 \<Rightarrow> int \<times> regfile" where
  "regfile_read w r =
    (case nacks w of
       True # ns \<Rightarrow> (- EIO, w\<lparr>nacks := ns\<rparr>)
     | False # ns \<Rightarrow> (uint (cells w r), w\<lparr>nacks := ns\<rparr>)
     | [] \<Rightarrow> (uint (cells w r), w))"

definition regfile_write :: "regfile \<Rightarrow> u8 \<Rightarrow> u8 \<Rightarrow> int \<times> regfile" where
  "regfile_write w r v =
    (case nacks w of
       True # ns \<Rightarrow> (- EIO, w\<lparr>nacks := ns\<rparr>)
     | False # ns \<Rightarrow> (0, w\<lparr>nacks := ns, cells := (cells w)(r := v)\<rparr>)
     | [] \<Rightarrow> (0, w\<lparr>cells := (cells w)(r := v)\<rparr>))"

definition regfile_bus :: "regfile smbus_ops" where
  "regfile_bus = \<lparr>i2c_smbus_read_byte_data = regfile_read,
                  i2c_smbus_write_byte_data = regfile_write\<rparr>"

definition all_bits :: "u8 \<Rightarrow> u8" where
  "all_bits r = 0xFF"

lemma and_all_bits [simp]: "w AND all_bits r = w"
proof -
  have "(0xFF :: u8) = - 1" by simp
  then show ?thesis by (simp only: all_bits_def) simp
qed

interpretation regfile: smbus regfile_bus cells all_bits
  by unfold_locales
    (auto simp: regfile_bus_def regfile_read_def regfile_write_def errno
       split: list.splits bool.splits)

text \<open>The same without a plan of failures: every transfer is acknowledged.\<close>

definition reliable :: "('w, 'e) smbus_ops_scheme \<Rightarrow> bool" where
  "reliable B \<longleftrightarrow> (\<forall>w r. 0 \<le> fst (i2c_smbus_read_byte_data B w r))
    \<and> (\<forall>w r v. 0 \<le> fst (i2c_smbus_write_byte_data B w r v))"

definition plain_bus :: "(u8 \<Rightarrow> u8) smbus_ops" where
  "plain_bus = \<lparr>i2c_smbus_read_byte_data = (\<lambda>w r. (uint (w r), w)),
                i2c_smbus_write_byte_data = (\<lambda>w r v. (0, w(r := v)))\<rparr>"

text \<open>Any bus, with or without further environment, whose transfers are these.\<close>

definition plain_ops :: "(u8 \<Rightarrow> u8, 'e) smbus_ops_scheme \<Rightarrow> bool" where
  "plain_ops B \<longleftrightarrow> i2c_smbus_read_byte_data B = (\<lambda>w r. (uint (w r), w))
    \<and> i2c_smbus_write_byte_data B = (\<lambda>w r v. (0, w(r := v)))"

lemma plain_smbus: "plain_ops B \<Longrightarrow> smbus B (\<lambda>w. w) all_bits"
  by unfold_locales (auto simp: plain_ops_def)

lemma plain_reliable: "plain_ops B \<Longrightarrow> reliable B"
  by (simp add: reliable_def plain_ops_def)

lemma plain_ops_bus [simp]: "plain_ops plain_bus"
  by (simp add: plain_ops_def plain_bus_def)

interpretation plain: smbus plain_bus "\<lambda>w. w" all_bits
  by (rule plain_smbus) simp

lemma reliable_update_bits_w: "reliable B \<Longrightarrow> update_bits_w B r m v w = (ret, w') \<Longrightarrow> ret = 0"
  by (auto simp: reliable_def update_bits_w_def sgm4154x_read_byte_def sgm4154x_write_byte_def
        Let_def split: prod.splits if_splits) (metis fst_conv not_less)+

lemma reliable_read_reg_w: "reliable B \<Longrightarrow> read_reg_w B r d w = (ret, x, w') \<Longrightarrow> ret = 0"
  by (auto simp: reliable_def read_reg_w_def sgm4154x_read_byte_def split: prod.splits if_splits)
    (metis fst_conv not_less)

definition regfile0 :: "(u8 \<times> u8) list \<Rightarrow> bool list \<Rightarrow> regfile" where
  "regfile0 kvs ns = \<lparr>cells = (\<lambda>r. case map_of kvs r of None \<Rightarrow> 0 | Some v \<Rightarrow> v), nacks = ns\<rparr>"

named_theorems regfile_eval "evaluation of transfers on the register file"
lemmas [regfile_eval] = regfile_bus_def regfile_read_def regfile_write_def regfile0_def

end
