(* ===== verification/Power_Supply.thy ===== *)
theory Power_Supply
  imports Prelude
begin

text \<open>
  The names the drivers share with the kernel's power-supply class: the
  properties, and the enumeration constants a property may carry.  Their
  numeric values belong to kernel headers, so they are constructors here.
\<close>

datatype psp =
    POWER_SUPPLY_PROP_STATUS | POWER_SUPPLY_PROP_CHARGE_TYPE | POWER_SUPPLY_PROP_HEALTH
  | POWER_SUPPLY_PROP_PRESENT | POWER_SUPPLY_PROP_ONLINE | POWER_SUPPLY_PROP_TECHNOLOGY
  | POWER_SUPPLY_PROP_CYCLE_COUNT | POWER_SUPPLY_PROP_VOLTAGE_NOW | POWER_SUPPLY_PROP_VOLTAGE_MAX
  | POWER_SUPPLY_PROP_CURRENT_MAX | POWER_SUPPLY_PROP_CURRENT_NOW | POWER_SUPPLY_PROP_CURRENT_AVG
  | POWER_SUPPLY_PROP_CHARGE_FULL_DESIGN | POWER_SUPPLY_PROP_CHARGE_FULL
  | POWER_SUPPLY_PROP_CHARGE_NOW | POWER_SUPPLY_PROP_CHARGE_COUNTER
  | POWER_SUPPLY_PROP_CONSTANT_CHARGE_CURRENT | POWER_SUPPLY_PROP_CONSTANT_CHARGE_CURRENT_MAX
  | POWER_SUPPLY_PROP_CONSTANT_CHARGE_VOLTAGE | POWER_SUPPLY_PROP_CONSTANT_CHARGE_VOLTAGE_MAX
  | POWER_SUPPLY_PROP_INPUT_CURRENT_LIMIT | POWER_SUPPLY_PROP_PRECHARGE_CURRENT
  | POWER_SUPPLY_PROP_CHARGE_TERM_CURRENT | POWER_SUPPLY_PROP_ENERGY_NOW
  | POWER_SUPPLY_PROP_ENERGY_EMPTY | POWER_SUPPLY_PROP_POWER_AVG | POWER_SUPPLY_PROP_POWER_NOW
  | POWER_SUPPLY_PROP_CAPACITY | POWER_SUPPLY_PROP_CAPACITY_LEVEL | POWER_SUPPLY_PROP_TEMP
  | POWER_SUPPLY_PROP_TIME_TO_EMPTY_NOW | POWER_SUPPLY_PROP_TIME_TO_EMPTY_AVG
  | POWER_SUPPLY_PROP_TIME_TO_FULL_NOW | POWER_SUPPLY_PROP_TYPE | POWER_SUPPLY_PROP_USB_TYPE
  | POWER_SUPPLY_PROP_MODEL_NAME | POWER_SUPPLY_PROP_MANUFACTURER | POWER_SUPPLY_PROP_VOLTAGE_BOOT
  | POWER_SUPPLY_PROP_ENERGY_FULL_DESIGN | POWER_SUPPLY_PROP_VOLTAGE_MIN_DESIGN

datatype psenum =
    POWER_SUPPLY_STATUS_UNKNOWN | POWER_SUPPLY_STATUS_CHARGING | POWER_SUPPLY_STATUS_DISCHARGING
  | POWER_SUPPLY_STATUS_NOT_CHARGING | POWER_SUPPLY_STATUS_FULL
  | POWER_SUPPLY_CHARGE_TYPE_UNKNOWN | POWER_SUPPLY_CHARGE_TYPE_NONE
  | POWER_SUPPLY_CHARGE_TYPE_TRICKLE | POWER_SUPPLY_CHARGE_TYPE_FAST
  | POWER_SUPPLY_HEALTH_UNKNOWN | POWER_SUPPLY_HEALTH_GOOD | POWER_SUPPLY_HEALTH_OVERHEAT | POWER_SUPPLY_HEALTH_DEAD
  | POWER_SUPPLY_HEALTH_OVERVOLTAGE | POWER_SUPPLY_HEALTH_COLD
  | POWER_SUPPLY_TECHNOLOGY_UNKNOWN | POWER_SUPPLY_TECHNOLOGY_LION
  | POWER_SUPPLY_CAPACITY_LEVEL_CRITICAL | POWER_SUPPLY_CAPACITY_LEVEL_LOW
  | POWER_SUPPLY_CAPACITY_LEVEL_NORMAL | POWER_SUPPLY_CAPACITY_LEVEL_HIGH
  | POWER_SUPPLY_CAPACITY_LEVEL_FULL
  | POWER_SUPPLY_TYPE_UNKNOWN | POWER_SUPPLY_TYPE_BATTERY | POWER_SUPPLY_TYPE_USB
  | POWER_SUPPLY_TYPE_USB_DCP | POWER_SUPPLY_TYPE_USB_CDP
  | POWER_SUPPLY_USB_TYPE_UNKNOWN | POWER_SUPPLY_USB_TYPE_SDP | POWER_SUPPLY_USB_TYPE_DCP
  | POWER_SUPPLY_USB_TYPE_CDP | POWER_SUPPLY_USB_TYPE_C | POWER_SUPPLY_USB_TYPE_PD
  | POWER_SUPPLY_USB_TYPE_APPLE_BRICK_ID

text \<open>The value of a property: a number, one of the constants, or a string.\<close>

datatype propval = intval int | enumval psenum | strval string

end
