(* ===== verification/Sgm_Charger.thy ===== *)
theory Sgm_Charger
  imports Sgm_Bus Power_Supply
begin

text \<open>
  The charger chip driver sgm415xx.c, built for \<open>__SGM41543D_CHIP_ID__\<close>: its
  device record and the operations that set and read the limits, the enable
  bits and the timers.  Each operation takes the bus and the device state and
  returns the C result with the new state; an out-parameter is passed with its
  old value and returned.  Mutexes, delays and log messages are not modelled.
\<close>

section \<open>Device state (struct sgm4154x_device)\<close>

record sgm4154x_init_data =
  ichg :: u32
  ilim :: u32
  vreg :: u32
  iterm :: u32
  iprechg :: u32
  vlim :: u32
  max_ichg :: u32
  max_vreg :: u32

record sgm4154x_state =
  vsys_stat :: bool
  therm_stat :: bool
  online :: bool
  chrg_stat :: int
  hiz_en :: bool
  term_en :: bool
  vbus_gd :: bool
  chrg_type :: u8
  health :: u8
  chrg_fault :: u8
  ntc_fault :: u8

definition state0 :: sgm4154x_state where
  "state0 = \<lparr>vsys_stat = False, therm_stat = False, online = False, chrg_stat = 0,
     hiz_en = False, term_en = False, vbus_gd = False, chrg_type = 0, health = 0,
     chrg_fault = 0, ntc_fault = 0\<rparr>"

text \<open>The delayed works of the driver and the kernel services it calls.\<close>

datatype sgm_work = charge_monitor_work | force_detect_dwork | hvdcp_work | first_sdp_detect_dwork

datatype delay = ms nat | jiffies nat

datatype sgm_call =
    schedule_delayed_work sgm_work delay
  | cancel_delayed_work_sync sgm_work
  | power_supply_changed
  | Charger_Detect_Init
  | Charger_Detect_Release
  | pm_stay_awake
  | pm_relax
  | enable_irq_wake
  | disable_irq_wake
  | enable_irq
  | disable_irq
  | request_irq
  | power_supply_register
  | power_supply_unregister
  | device_create_files
  | device_remove_files
  | regulator_unregister

text \<open>\<open>client\<close> is everything outside the driver.  \<open>irq_vbus_gd\<close> and
  \<open>wakelock_pm_flag\<close> are the function-local statics of the interrupt handler and
  of \<open>chg_wakelock\<close> (the board has one charger chip); \<open>calls\<close> is the log of
  kernel services, oldest first.\<close>

record 'w sgm4154x_device =
  client :: 'w
  force_detect_count :: int
  bc12_down :: bool
  non_std_rerun :: bool
  init_data :: sgm4154x_init_data
  state :: sgm4154x_state
  adp_type :: int
  chg_type :: psenum
  psy_usb_type :: psenum
  pd_adapter :: psenum
  is_suspend :: bool
  is_hvdcp_type :: bool
  is_nonstand_adapter :: bool
  float_count :: int
  hvdcp_detect_count :: int
  chg_done :: bool
  hvdcp_disable :: bool
  hvdcp_detach_time :: int
  hvdcp_detect_time :: int
  has_wakelock :: bool
  irq :: int
  may_wakeup :: bool
  irq_vbus_gd :: bool
  wakelock_pm_flag :: bool
  calls :: "sgm_call list"

definition call :: "sgm_call \<Rightarrow> 'w sgm4154x_device \<Rightarrow> 'w sgm4154x_device" where
  "call c s = s\<lparr>calls := calls s @ [c]\<rparr>"

lemma call_calls [simp]: "calls (call c s) = calls s @ [c]" "client (call c s) = client s"
  by (simp_all add: call_def)

lemma call_fields [simp]:
  "force_detect_count (call c s) = force_detect_count s"
  "bc12_down (call c s) = bc12_down s"
  "non_std_rerun (call c s) = non_std_rerun s"
  "init_data (call c s) = init_data s"
  "state (call c s) = state s"
  "adp_type (call c s) = adp_type s"
  "chg_type (call c s) = chg_type s"
  "psy_usb_type (call c s) = psy_usb_type s"
  "pd_adapter (call c s) = pd_adapter s"
  "is_suspend (call c s) = is_suspend s"
  "is_hvdcp_type (call c s) = is_hvdcp_type s"
  "is_nonstand_adapter (call c s) = is_nonstand_adapter s"
  "float_count (call c s) = float_count s"
  "hvdcp_detect_count (call c s) = hvdcp_detect_count s"
  "chg_done (call c s) = chg_done s"
  "hvdcp_disable (call c s) = hvdcp_disable s"
  "hvdcp_detach_time (call c s) = hvdcp_detach_time s"
  "hvdcp_detect_time (call c s) = hvdcp_detect_time s"
  "has_wakelock (call c s) = has_wakelock s"
  "irq (call c s) = irq s"
  "may_wakeup (call c s) = may_wakeup s"
  "irq_vbus_gd (call c s) = irq_vbus_gd s"
  "wakelock_pm_flag (call c s) = wakelock_pm_flag s"
  by (simp_all add: call_def)

section \<open>Register access on the device\<close>

definition sgm4154x_read_reg ::
  "('w, 'e) smbus_ops_scheme \<Rightarrow> u8 \<Rightarrow> u8 \<Rightarrow> 'w sgm4154x_device \<Rightarrow> int \<times> u8 \<times> 'w sgm4154x_device"
where
  "sgm4154x_read_reg B reg data s =
    (let (ret, data, w) = read_reg_w B reg data (client s) in (ret, data, s\<lparr>client := w\<rparr>))"

definition sgm4154x_update_bits ::
  "('w, 'e) smbus_ops_scheme \<Rightarrow> u8 \<Rightarrow> u8 \<Rightarrow> u8 \<Rightarrow> 'w sgm4154x_device \<Rightarrow> int \<times> 'w sgm4154x_device"
where
  "sgm4154x_update_bits B reg msk val s =
    (let (ret, w) = update_bits_w B reg msk val (client s) in (ret, s\<lparr>client := w\<rparr>))"

lemma read_reg_client:
  "sgm4154x_read_reg B r d s = (ret, x, s') \<Longrightarrow> s' = s\<lparr>client := client s'\<rparr>"
  by (auto simp: sgm4154x_read_reg_def split: prod.splits)

lemma update_bits_client:
  "sgm4154x_update_bits B r m v s = (ret, s') \<Longrightarrow> s' = s\<lparr>client := client s'\<rparr>"
  by (auto simp: sgm4154x_update_bits_def split: prod.splits)

lemma reliable_update_bits:
  "reliable B \<Longrightarrow> fst (sgm4154x_update_bits B r m v s) = 0"
  by (auto simp: sgm4154x_update_bits_def reliable_update_bits_w split: prod.splits)

lemma reliable_read_reg: "reliable B \<Longrightarrow> fst (sgm4154x_read_reg B r d s) = 0"
  by (auto simp: sgm4154x_read_reg_def reliable_read_reg_w split: prod.splits)

lemma read_reg_fields [simp]:
  "force_detect_count (snd (snd (sgm4154x_read_reg B r d s))) = force_detect_count s"
  "bc12_down (snd (snd (sgm4154x_read_reg B r d s))) = bc12_down s"
  "non_std_rerun (snd (snd (sgm4154x_read_reg B r d s))) = non_std_rerun s"
  "init_data (snd (snd (sgm4154x_read_reg B r d s))) = init_data s"
  "state (snd (snd (sgm4154x_read_reg B r d s))) = state s"
  "adp_type (snd (snd (sgm4154x_read_reg B r d s))) = adp_type s"
  "chg_type (snd (snd (sgm4154x_read_reg B r d s))) = chg_type s"
  "psy_usb_type (snd (snd (sgm4154x_read_reg B r d s))) = psy_usb_type s"
  "pd_adapter (snd (snd (sgm4154x_read_reg B r d s))) = pd_adapter s"
  "is_suspend (snd (snd (sgm4154x_read_reg B r d s))) = is_suspend s"
  "is_hvdcp_type (snd (snd (sgm4154x_read_reg B r d s))) = is_hvdcp_type s"
  "is_nonstand_adapter (snd (snd (sgm4154x_read_reg B r d s))) = is_nonstand_adapter s"
  "float_count (snd (snd (sgm4154x_read_reg B r d s))) = float_count s"
  "hvdcp_detect_count (snd (snd (sgm4154x_read_reg B r d s))) = hvdcp_detect_count s"
  "chg_done (snd (snd (sgm4154x_read_reg B r d s))) = chg_done s"
  "hvdcp_disable (snd (snd (sgm4154x_read_reg B r d s))) = hvdcp_disable s"
  "hvdcp_detach_time (snd (snd (sgm4154x_read_reg B r d s))) = hvdcp_detach_time s"
  "hvdcp_detect_time (snd (snd (sgm4154x_read_reg B r d s))) = hvdcp_detect_time s"
  "has_wakelock (snd (snd (sgm4154x_read_reg B r d s))) = has_wakelock s"
  "irq (snd (snd (sgm4154x_read_reg B r d s))) = irq s"
  "may_wakeup (snd (snd (sgm4154x_read_reg B r d s))) = may_wakeup s"
  "irq_vbus_gd (snd (snd (sgm4154x_read_reg B r d s))) = irq_vbus_gd s"
  "wakelock_pm_flag (snd (snd (sgm4154x_read_reg B r d s))) = wakelock_pm_flag s"
  "calls (snd (snd (sgm4154x_read_reg B r d s))) = calls s"
  by (simp_all add: sgm4154x_read_reg_def case_prod_beta Let_def)

lemma update_bits_fields [simp]:
  "force_detect_count (snd (sgm4154x_update_bits B r m v s)) = force_detect_count s"
  "bc12_down (snd (sgm4154x_update_bits B r m v s)) = bc12_down s"
  "non_std_rerun (snd (sgm4154x_update_bits B r m v s)) = non_std_rerun s"
  "init_data (snd (sgm4154x_update_bits B r m v s)) = init_data s"
  "state (snd (sgm4154x_update_bits B r m v s)) = state s"
  "adp_type (snd (sgm4154x_update_bits B r m v s)) = adp_type s"
  "chg_type (snd (sgm4154x_update_bits B r m v s)) = chg_type s"
  "psy_usb_type (snd (sgm4154x_update_bits B r m v s)) = psy_usb_type s"
  "pd_adapter (snd (sgm4154x_update_bits B r m v s)) = pd_adapter s"
  "is_suspend (snd (sgm4154x_update_bits B r m v s)) = is_suspend s"
  "is_hvdcp_type (snd (sgm4154x_update_bits B r m v s)) = is_hvdcp_type s"
  "is_nonstand_adapter (snd (sgm4154x_update_bits B r m v s)) = is_nonstand_adapter s"
  "float_count (snd (sgm4154x_update_bits B r m v s)) = float_count s"
  "hvdcp_detect_count (snd (sgm4154x_update_bits B r m v s)) = hvdcp_detect_count s"
  "chg_done (snd (sgm4154x_update_bits B r m v s)) = chg_done s"
  "hvdcp_disable (snd (sgm4154x_update_bits B r m v s)) = hvdcp_disable s"
  "hvdcp_detach_time (snd (sgm4154x_update_bits B r m v s)) = hvdcp_detach_time s"
  "hvdcp_detect_time (snd (sgm4154x_update_bits B r m v s)) = hvdcp_detect_time s"
  "has_wakelock (snd (sgm4154x_update_bits B r m v s)) = has_wakelock s"
  "irq (snd (sgm4154x_update_bits B r m v s)) = irq s"
  "may_wakeup (snd (sgm4154x_update_bits B r m v s)) = may_wakeup s"
  "irq_vbus_gd (snd (sgm4154x_update_bits B r m v s)) = irq_vbus_gd s"
  "wakelock_pm_flag (snd (sgm4154x_update_bits B r m v s)) = wakelock_pm_flag s"
  "calls (snd (sgm4154x_update_bits B r m v s)) = calls s"
  by (simp_all add: sgm4154x_update_bits_def case_prod_beta Let_def)

named_theorems plain_eval "evaluation of register accesses on the plain bus"

lemma plain_update_bits [plain_eval]:
  "plain_ops B \<Longrightarrow> sgm4154x_update_bits B r m v s
    = (0, s\<lparr>client := (client s)(r := merge_bits (client s r) m v)\<rparr>)"
  by (simp add: sgm4154x_update_bits_def update_bits_w_def sgm4154x_read_byte_def
        sgm4154x_write_byte_def plain_ops_def merge_bits_def Let_def)

lemma plain_read_reg [plain_eval]: "plain_ops B \<Longrightarrow> sgm4154x_read_reg B r d s = (0, client s r, s)"
  by (simp add: sgm4154x_read_reg_def read_reg_w_def sgm4154x_read_byte_def plain_ops_def)

text \<open>The driver's routines provide the field interface over the device state.\<close>

sublocale smbus \<subseteq> dev: reg_fields "\<lambda>s. reg (client s)" cfg
    "sgm4154x_update_bits B" "sgm4154x_read_reg B"
  by unfold_locales
    (auto simp: sgm4154x_update_bits_def sgm4154x_read_reg_def reg_cfg
       dest: update_bits_w_done update_bits_w_fail read_reg_w_frame read_reg_w_value
       split: prod.splits)

context smbus begin

lemmas dev_upd_field = dev.upd_field
lemmas dev_upd_other_field = dev.upd_other_field
lemmas dev_upd_other_reg = dev.upd_other_reg
lemmas dev_upd_get = dev.upd_get
lemmas dev_upd_done = dev.upd_done
lemmas dev_upd_fail = dev.upd_fail
lemmas dev_upd_upd = dev.upd_upd
lemmas dev_get_frame = dev.get_frame
lemmas dev_get_field = dev.get_field

lemma upd_keeps:
  "r' \<noteq> r \<or> m' AND m = 0 \<Longrightarrow>
   reg (client (snd (sgm4154x_update_bits B r' m' v s))) r AND m = reg (client s) r AND m"
  by (rule dev.upd_other_field [OF surjective_pairing]) auto

lemma upd_keeps_bit:
  "r' \<noteq> r \<Longrightarrow> reg (client (snd (sgm4154x_update_bits B r' m' v s))) r = reg (client s) r"
  by (rule dev.upd_other_reg [OF surjective_pairing]) auto

lemma get_keeps: "reg (client (snd (snd (sgm4154x_read_reg B r' d s)))) = reg (client s)"
  by (rule dev.get_frame [of _ _ _ "fst (sgm4154x_read_reg B r' d s)"
        "fst (snd (sgm4154x_read_reg B r' d s))"]) simp

lemma upd_sets:
  "fst (sgm4154x_update_bits B r m v s) = 0 \<Longrightarrow> m AND cfg r = m \<Longrightarrow>
   reg (client (snd (sgm4154x_update_bits B r m v s))) r AND m = v AND m"
  by (metis dev.upd_field prod.collapse)

end

section \<open>Setters and getters\<close>

type_synonym ('w, 'e) sgm_setter =
  "('w, 'e) smbus_ops_scheme \<Rightarrow> 'w sgm4154x_device \<Rightarrow> int \<times> 'w sgm4154x_device"

definition sgm4154x_set_watchdog_timer :: "int \<Rightarrow> ('w, 'e) sgm_setter" where
  "sgm4154x_set_watchdog_timer time B s =
    (let reg_val = (if time = 0 then SGM4154x_WDT_TIMER_DISABLE
                    else if time = 40 then SGM4154x_WDT_TIMER_40S
                    else if time = 80 then SGM4154x_WDT_TIMER_80S
                    else SGM4154x_WDT_TIMER_160S)
     in sgm4154x_update_bits B SGM4154x_CHRG_CTRL_5 SGM4154x_WDT_TIMER_MASK reg_val s)"

definition term_curr_code :: "u32 \<Rightarrow> u8" where
  "term_curr_code uA =
    (let uA = (if uA < 60000 then 60000 else if uA > 960000 then 960000 else uA)
     in ucast ((uA - 60000) div 60000))"

definition sgm4154x_set_term_curr :: "u32 \<Rightarrow> ('w, 'e) sgm_setter" where
  "sgm4154x_set_term_curr uA B s =
    sgm4154x_update_bits B SGM4154x_CHRG_CTRL_3 SGM4154x_TERMCHRG_CUR_MASK (term_curr_code uA) s"

definition sgm4154x_set_vreg_ft :: "bool \<Rightarrow> ('w, 'e) sgm_setter" where
  "sgm4154x_set_vreg_ft temp B s =
    (if temp then
       let vreg_val = push_bit 3 SGM4154x_VREG_LOWTMP_CV;
           (_, s) = sgm4154x_update_bits B SGM4154x_CHRG_CTRL_4 SGM4154x_VREG_V_MASK vreg_val s;
           reg_val = push_bit 6 SGM4154x_VREG_FT_EN_SHIFT
       in sgm4154x_update_bits B SGM4154x_CHRG_CTRL_f SGM4154x_VREG_FT_MASK reg_val s
     else
       sgm4154x_update_bits B SGM4154x_CHRG_CTRL_f SGM4154x_VREG_FT_MASK
         (push_bit 6 SGM4154x_VREG_FT_SHIFT) s)"

definition sgm4154x_set_prechrg_curr :: "int \<Rightarrow> ('w, 'e) sgm_setter" where
  "sgm4154x_set_prechrg_curr uA B s =
    (let uA = (if uA < 60000 then 60000 else if uA > 780000 then 780000 else uA);
         reg_val = word_of_int ((uA - 60000) sdiv 60000);
         reg_val = push_bit 4 reg_val
     in sgm4154x_update_bits B SGM4154x_CHRG_CTRL_3 SGM4154x_PRECHRG_CUR_MASK reg_val s)"

definition sgm4154x_get_ichg_curr ::
  "('w, 'e) smbus_ops_scheme \<Rightarrow> u32 \<Rightarrow> 'w sgm4154x_device \<Rightarrow> int \<times> u32 \<times> 'w sgm4154x_device" where
  "sgm4154x_get_ichg_curr B uA s =
    (let (ret, i, s) = sgm4154x_read_reg B SGM4154x_CHRG_CTRL_2 0 s in
     if ret \<noteq> 0 then (ret, uA, s)
     else (0, ucast (i AND SGM4154x_ICHRG_I_MASK) * 60000, s))"

text \<open>The clamp of the requested charge current (\<open>max_ichg\<close> is set by \<open>hw_init\<close>);
  \<open>uA < 0\<close> never holds for the unsigned argument.\<close>

definition ichg_code :: "u32 \<Rightarrow> u32 \<Rightarrow> u8" where
  "ichg_code mx uA =
    (let uA = (if uA < 0 then 0 else if uA > mx then mx else uA) in ucast (uA div 60000))"

definition sgm4154x_set_ichrg_curr :: "u32 \<Rightarrow> ('w, 'e) sgm_setter" where
  "sgm4154x_set_ichrg_curr uA B s =
    sgm4154x_update_bits B SGM4154x_CHRG_CTRL_2 SGM4154x_ICHRG_I_MASK
      (ichg_code (max_ichg (init_data s)) uA) s"

definition vreg_code :: "u32 \<Rightarrow> u32 \<Rightarrow> u8" where
  "vreg_code mx chrg_volt =
    (let chrg_volt = (if chrg_volt < 3856000 then 3856000
                      else if chrg_volt > mx then mx else chrg_volt)
     in ucast ((chrg_volt - 3856000) div 32000))"

definition sgm4154x_set_chrg_volt :: "u32 \<Rightarrow> ('w, 'e) sgm_setter" where
  "sgm4154x_set_chrg_volt chrg_volt B s =
    (let reg_val = push_bit 3 (vreg_code (max_vreg (init_data s)) chrg_volt)
     in sgm4154x_update_bits B SGM4154x_CHRG_CTRL_4 SGM4154x_VREG_V_MASK reg_val s)"

text \<open>\<open>volt\<close> is what the caller's variable held: it is kept for codes from 25 on.\<close>

definition sgm4154x_get_chrg_volt ::
  "('w, 'e) smbus_ops_scheme \<Rightarrow> u32 \<Rightarrow> 'w sgm4154x_device \<Rightarrow> int \<times> u32 \<times> 'w sgm4154x_device" where
  "sgm4154x_get_chrg_volt B volt s =
    (let (ret, v, s) = sgm4154x_read_reg B SGM4154x_CHRG_CTRL_4 0 s in
     if ret \<noteq> 0 then (ret, volt, s)
     else
       let v = drop_bit 3 (v AND SGM4154x_VREG_V_MASK);
           volt = (if v = 15 then 4352000
                   else if v < 25 then ucast v * 32000 + 3856000
                   else volt)
       in (0, volt, s))"

definition sgm4154x_set_vindpm_offset_os :: "u8 \<Rightarrow> ('w, 'e) sgm_setter" where
  "sgm4154x_set_vindpm_offset_os offset_os B s =
    sgm4154x_update_bits B SGM4154x_CHRG_CTRL_f SGM4154x_VINDPM_OS_MASK offset_os s"

definition vindpm_range :: "u32 \<Rightarrow> u8 \<times> u32" where
  "vindpm_range vindpm =
    (if vindpm < 5900000 then (0, 3900000)
     else if vindpm \<ge> 5900000 \<and> vindpm < 7500000 then (1, 5900000)
     else if vindpm \<ge> 7500000 \<and> vindpm < 10500000 then (2, 7500000)
     else (3, 10500000))"

definition sgm4154x_set_input_volt_lim :: "u32 \<Rightarrow> ('w, 'e) sgm_setter" where
  "sgm4154x_set_input_volt_lim vindpm B s =
    (if vindpm < 3900000 \<or> vindpm > 12000000 then (- EINVAL, s)
     else
       let (os_val, offset) = vindpm_range vindpm;
           (_, s) = sgm4154x_set_vindpm_offset_os os_val B s;
           reg_val = ucast ((vindpm - offset) div 100000)
       in sgm4154x_update_bits B SGM4154x_CHRG_CTRL_6 SGM4154x_VINDPM_V_MASK reg_val s)"

definition sgm4154x_get_input_minvolt_lim ::
  "('w, 'e) smbus_ops_scheme \<Rightarrow> 'w sgm4154x_device \<Rightarrow> int \<times> bool \<times> 'w sgm4154x_device" where
  "sgm4154x_get_input_minvolt_lim B s =
    (let (ret, reg_val, s) = sgm4154x_read_reg B SGM4154x_CHRG_CTRL_a 0 s
     in (ret, (drop_bit 6 reg_val AND 0x01) \<noteq> 0, s))"

definition iindpm_code :: "u32 \<Rightarrow> u8" where
  "iindpm_code iindpm =
    (if iindpm \<ge> 100000 \<and> iindpm \<le> 3100000 then ucast ((iindpm - 100000) div 100000)
     else if iindpm > 3100000 \<and> iindpm < 3800000 then 0x1E
     else SGM4154x_IINDPM_I_MASK)"

definition sgm4154x_set_input_curr_lim :: "u32 \<Rightarrow> ('w, 'e) sgm_setter" where
  "sgm4154x_set_input_curr_lim iindpm B s =
    (if iindpm < 100000 \<or> iindpm > 3800000 then (- EINVAL, s)
     else sgm4154x_update_bits B SGM4154x_CHRG_CTRL_0 SGM4154x_IINDPM_I_MASK
            (iindpm_code iindpm) s)"

definition sgm4154x_get_input_curr_lim ::
  "('w, 'e) smbus_ops_scheme \<Rightarrow> u32 \<Rightarrow> 'w sgm4154x_device \<Rightarrow> int \<times> u32 \<times> 'w sgm4154x_device" where
  "sgm4154x_get_input_curr_lim B il s =
    (let (ret, reg_val, s) = sgm4154x_read_reg B SGM4154x_CHRG_CTRL_0 0 s in
     if ret \<noteq> 0 then (ret, il, s)
     else if SGM4154x_IINDPM_I_MASK = reg_val AND SGM4154x_IINDPM_I_MASK then (0, 3800000, s)
     else (0, ucast (reg_val AND SGM4154x_IINDPM_I_MASK) * 100000 + 100000, s))"

definition sgm4154x_get_input_mincurr_lim :: "int \<times> u32" where
  "sgm4154x_get_input_mincurr_lim = (0, 100000)"

definition sgm4154x_get_hiz_mode ::
  "('w, 'e) smbus_ops_scheme \<Rightarrow> u8 \<Rightarrow> 'w sgm4154x_device \<Rightarrow> int \<times> u8 \<times> 'w sgm4154x_device" where
  "sgm4154x_get_hiz_mode B st s =
    (let (ret, val, s) = sgm4154x_read_reg B SGM4154x_CHRG_CTRL_0 0 s in
     if ret \<noteq> 0 then (ret, st, s)
     else (0, drop_bit 7 (val AND SGM4154X_ENHIZ_MASK), s))"

definition sgm4154x_is_enable_hiz ::
  "('w, 'e) smbus_ops_scheme \<Rightarrow> 'w sgm4154x_device \<Rightarrow> int \<times> bool \<times> 'w sgm4154x_device" where
  "sgm4154x_is_enable_hiz B s =
    (let (_, st, s) = sgm4154x_get_hiz_mode B 0 s in (0, st \<noteq> 0, s))"

definition sgm4154x_set_hiz_en :: "bool \<Rightarrow> ('w, 'e) sgm_setter" where
  "sgm4154x_set_hiz_en en B s =
    (let reg_val = (if en then SGM4154x_HIZ_EN else 0)
     in sgm4154x_update_bits B SGM4154x_CHRG_CTRL_0 SGM4154x_HIZ_EN reg_val s)"

definition sgm4154x_enable_charger :: "('w, 'e) sgm_setter" where
  "sgm4154x_enable_charger B s =
    sgm4154x_update_bits B SGM4154x_CHRG_CTRL_1 SGM4154x_CHRG_EN SGM4154x_CHRG_EN s"

definition sgm4154x_disable_charger :: "('w, 'e) sgm_setter" where
  "sgm4154x_disable_charger B s =
    sgm4154x_update_bits B SGM4154x_CHRG_CTRL_1 SGM4154x_CHRG_EN 0 s"

definition sgm4154x_is_charging ::
  "('w, 'e) smbus_ops_scheme \<Rightarrow> bool \<Rightarrow> 'w sgm4154x_device \<Rightarrow> int \<times> bool \<times> 'w sgm4154x_device" where
  "sgm4154x_is_charging B en s =
    (let (ret, val, s) = sgm4154x_read_reg B SGM4154x_CHRG_CTRL_1 0 s in
     if ret \<noteq> 0 then (ret, en, s)
     else (ret, val AND SGM4154x_CHRG_EN \<noteq> 0, s))"

definition sgm4154x_charging_switch :: "bool \<Rightarrow> ('w, 'e) sgm_setter" where
  "sgm4154x_charging_switch enable B s =
    (if enable then sgm4154x_enable_charger B s else sgm4154x_disable_charger B s)"

definition sgm4154x_set_recharge_volt :: "int \<Rightarrow> ('w, 'e) sgm_setter" where
  "sgm4154x_set_recharge_volt mV B s =
    (let reg_val = word_of_int ((mV - 200) sdiv 100)
     in sgm4154x_update_bits B SGM4154x_CHRG_CTRL_4 SGM4154x_VRECHARGE reg_val s)"

definition sgm4154x_set_wdt_rst :: "bool \<Rightarrow> ('w, 'e) sgm_setter" where
  "sgm4154x_set_wdt_rst is_rst B s =
    (let val = (if is_rst then SGM4154x_WDT_RST_MASK else 0)
     in sgm4154x_update_bits B SGM4154x_CHRG_CTRL_1 SGM4154x_WDT_RST_MASK val s)"

text \<open>The register dump: \<open>i\<close> counts up to the last register, the values are the
  array the routine fills.\<close>

fun dump_from :: "('w, 'e) smbus_ops_scheme \<Rightarrow> u8 list \<Rightarrow> u8 list \<Rightarrow> 'w sgm4154x_device
    \<Rightarrow> int \<times> u8 list \<times> 'w sgm4154x_device" where
  "dump_from B [] vals s = (0, vals, s)"
| "dump_from B (i # is) vals s =
    (let (ret, v, s) = sgm4154x_read_reg B i 0 s in
     if ret \<noteq> 0 then (1, vals, s) else dump_from B is (vals @ [v]) s)"

definition sgm4154x_dump_register ::
  "('w, 'e) smbus_ops_scheme \<Rightarrow> 'w sgm4154x_device \<Rightarrow> int \<times> u8 list \<times> 'w sgm4154x_device" where
  "sgm4154x_dump_register B s =
    dump_from B [0, 1, 2, 3, 4, 5, 6, 7, 8, 9, 10, 11, 12, 13, 14, 15] [] s"

definition sgm4154x_hw_chipid_detect ::
  "('w, 'e) smbus_ops_scheme \<Rightarrow> 'w sgm4154x_device \<Rightarrow> int \<times> 'w sgm4154x_device" where
  "sgm4154x_hw_chipid_detect B s =
    (let (ret, val, s) = sgm4154x_read_reg B SGM4154x_CHRG_CTRL_b 0 s in
     if ret < 0 then (ret, s) else (uint (val AND SGM4154x_PN_MASK), s))"

definition sgm4154x_reset_watch_dog_timer :: "('w, 'e) sgm_setter" where
  "sgm4154x_reset_watch_dog_timer B s = sgm4154x_set_wdt_rst True B s"

definition sgm4154x_set_vindpm_track :: "u8 \<Rightarrow> ('w, 'e) sgm_setter" where
  "sgm4154x_set_vindpm_track track B s =
    sgm4154x_update_bits B SGM4154x_CHRG_CTRL_7 SGM4154x_VINDPM_TRACK_MASK track s"

definition sgm4154x_set_en_timer :: "('w, 'e) sgm_setter" where
  "sgm4154x_set_en_timer B s =
    sgm4154x_update_bits B SGM4154x_CHRG_CTRL_5 SGM4154x_SAFETY_TIMER_EN SGM4154x_SAFETY_TIMER_EN s"

definition sgm4154x_set_disable_timer :: "('w, 'e) sgm_setter" where
  "sgm4154x_set_disable_timer B s =
    sgm4154x_update_bits B SGM4154x_CHRG_CTRL_5 SGM4154x_SAFETY_TIMER_EN 0 s"

definition sgm4154x_enable_safetytimer :: "bool \<Rightarrow> ('w, 'e) sgm_setter" where
  "sgm4154x_enable_safetytimer en B s =
    (if en then sgm4154x_set_en_timer B s else sgm4154x_set_disable_timer B s)"

definition sgm4154x_get_is_safetytimer_enable ::
  "('w, 'e) smbus_ops_scheme \<Rightarrow> bool \<Rightarrow> 'w sgm4154x_device \<Rightarrow> int \<times> bool \<times> 'w sgm4154x_device" where
  "sgm4154x_get_is_safetytimer_enable B en s =
    (let (ret, val, s) = sgm4154x_read_reg B SGM4154x_CHRG_CTRL_5 0 s in
     if ret < 0 then (ret, en, s) else (0, val AND SGM4154x_SAFETY_TIMER_EN \<noteq> 0, s))"

definition sgm4154x_en_pe_current_partern :: "bool \<Rightarrow> ('w, 'e) sgm_setter" where
  "sgm4154x_en_pe_current_partern up B s =
    (let (ret, s) = sgm4154x_update_bits B SGM4154x_CHRG_CTRL_d SGM4154x_EN_PUMPX
                      SGM4154x_EN_PUMPX s in
     if ret < 0 then (ret, s)
     else if up then
       sgm4154x_update_bits B SGM4154x_CHRG_CTRL_d SGM4154x_PUMPX_UP SGM4154x_PUMPX_UP s
     else
       sgm4154x_update_bits B SGM4154x_CHRG_CTRL_d SGM4154x_PUMPX_DN SGM4154x_PUMPX_DN s)"

definition sgm4154x_enable_vbus :: "('w, 'e) sgm_setter" where
  "sgm4154x_enable_vbus B s =
    sgm4154x_update_bits B SGM4154x_CHRG_CTRL_1 SGM4154x_OTG_EN SGM4154x_OTG_EN s"

definition sgm4154x_disable_vbus :: "('w, 'e) sgm_setter" where
  "sgm4154x_disable_vbus B s =
    sgm4154x_update_bits B SGM4154x_CHRG_CTRL_1 SGM4154x_OTG_EN 0 s"

definition sgm4154x_enable_otg :: "bool \<Rightarrow> ('w, 'e) sgm_setter" where
  "sgm4154x_enable_otg en B s =
    (if en then sgm4154x_enable_vbus B s else sgm4154x_disable_vbus B s)"

text \<open>\<open>char\<close> is unsigned in the kernel's build, so the guard \<open>reg_val < 0\<close> of the
  boost voltage setter is a comparison of an unsigned value.\<close>

definition BOOST_VOLT_LIMIT :: "u32 list" where
  "BOOST_VOLT_LIMIT = [4850000, 5000000, 5150000, 5300000]"

definition BOOST_CURRENT_LIMIT :: "u32 list" where
  "BOOST_CURRENT_LIMIT = [1200000, 2000000]"

fun boost_volt_search :: "u32 \<Rightarrow> u32 list \<Rightarrow> u8 \<Rightarrow> u8 \<Rightarrow> u8" where
  "boost_volt_search uV [] i reg_val = reg_val"
| "boost_volt_search uV (v # vs) i reg_val =
    (if uV = v then i else boost_volt_search uV vs (i + 1) reg_val)"

definition sgm4154x_set_boost_voltage_limit :: "u32 \<Rightarrow> ('w, 'e) sgm_setter" where
  "sgm4154x_set_boost_voltage_limit uV B s =
    (let reg_val = boost_volt_search uV BOOST_VOLT_LIMIT 0 (- 1) in
     if uint reg_val < 0 then (uint reg_val, s)
     else sgm4154x_update_bits B SGM4154x_CHRG_CTRL_6 SGM4154x_BOOSTV (push_bit 4 reg_val) s)"

definition sgm4154x_set_boost_current_limit :: "u32 \<Rightarrow> ('w, 'e) sgm_setter" where
  "sgm4154x_set_boost_current_limit uA B s =
    (if uA = BOOST_CURRENT_LIMIT ! 0 then
       sgm4154x_update_bits B SGM4154x_CHRG_CTRL_2 SGM4154x_BOOST_LIM 0 s
     else if uA = BOOST_CURRENT_LIMIT ! 1 then
       sgm4154x_update_bits B SGM4154x_CHRG_CTRL_2 SGM4154x_BOOST_LIM 0x80 s
     else (0, s))"

section \<open>Status\<close>

text \<open>\<open>st\<close> is the caller's structure: after an error the fields read so far are
  filled and the others keep their old content.\<close>

definition state_of_stat :: "u8 \<Rightarrow> sgm4154x_state \<Rightarrow> sgm4154x_state" where
  "state_of_stat chrg st = st\<lparr>
     chrg_type := chrg AND SGM4154x_VBUS_STAT_MASK,
     chrg_stat := uint (chrg AND SGM4154x_CHG_STAT_MASK),
     online := chrg AND SGM4154x_PG_STAT \<noteq> 0,
     therm_stat := chrg AND SGM4154x_THERM_STAT \<noteq> 0,
     vsys_stat := chrg AND SGM4154x_VSYS_STAT \<noteq> 0\<rparr>"

definition sgm4154x_get_state ::
  "('w, 'e) smbus_ops_scheme \<Rightarrow> sgm4154x_state \<Rightarrow> 'w sgm4154x_device
    \<Rightarrow> int \<times> sgm4154x_state \<times> 'w sgm4154x_device" where
  "sgm4154x_get_state B st s =
    (let (ret, chrg, s) = sgm4154x_read_reg B SGM4154x_CHRG_STAT 0 s;
         (ret, chrg, s) = (if ret \<noteq> 0 then sgm4154x_read_reg B SGM4154x_CHRG_STAT 0 s
                           else (ret, chrg, s)) in
     if ret \<noteq> 0 then (ret, st, s)
     else let st = state_of_stat chrg st;
              (ret, fault, s) = sgm4154x_read_reg B SGM4154x_CHRG_FAULT 0 s in
     if ret \<noteq> 0 then (ret, st, s)
     else let st = st\<lparr>chrg_fault := fault, ntc_fault := fault AND SGM4154x_TEMP_MASK,
                      health := fault AND SGM4154x_TEMP_MASK\<rparr>;
              (ret, p0, s) = sgm4154x_read_reg B SGM4154x_CHRG_CTRL_0 0 s in
     if ret \<noteq> 0 then (ret, st, s)
     else let st = st\<lparr>hiz_en := p0 AND SGM4154x_HIZ_EN \<noteq> 0\<rparr>;
              (ret, p1, s) = sgm4154x_read_reg B SGM4154x_CHRG_CTRL_5 0 s in
     if ret \<noteq> 0 then (ret, st, s)
     else let st = st\<lparr>term_en := p1 AND SGM4154x_TERM_EN \<noteq> 0\<rparr>;
              (ret, p2, s) = sgm4154x_read_reg B SGM4154x_CHRG_CTRL_a 0 s in
     if ret \<noteq> 0 then (ret, st, s)
     else (0, st\<lparr>vbus_gd := p2 AND SGM4154x_VBUS_GOOD \<noteq> 0\<rparr>, s))"

lemma get_state_fields [simp]:
  "force_detect_count (snd (snd (sgm4154x_get_state B st s))) = force_detect_count s"
  "bc12_down (snd (snd (sgm4154x_get_state B st s))) = bc12_down s"
  "non_std_rerun (snd (snd (sgm4154x_get_state B st s))) = non_std_rerun s"
  "init_data (snd (snd (sgm4154x_get_state B st s))) = init_data s"
  "state (snd (snd (sgm4154x_get_state B st s))) = state s"
  "adp_type (snd (snd (sgm4154x_get_state B st s))) = adp_type s"
  "chg_type (snd (snd (sgm4154x_get_state B st s))) = chg_type s"
  "psy_usb_type (snd (snd (sgm4154x_get_state B st s))) = psy_usb_type s"
  "pd_adapter (snd (snd (sgm4154x_get_state B st s))) = pd_adapter s"
  "is_suspend (snd (snd (sgm4154x_get_state B st s))) = is_suspend s"
  "is_hvdcp_type (snd (snd (sgm4154x_get_state B st s))) = is_hvdcp_type s"
  "is_nonstand_adapter (snd (snd (sgm4154x_get_state B st s))) = is_nonstand_adapter s"
  "float_count (snd (snd (sgm4154x_get_state B st s))) = float_count s"
  "hvdcp_detect_count (snd (snd (sgm4154x_get_state B st s))) = hvdcp_detect_count s"
  "chg_done (snd (snd (sgm4154x_get_state B st s))) = chg_done s"
  "hvdcp_disable (snd (snd (sgm4154x_get_state B st s))) = hvdcp_disable s"
  "hvdcp_detach_time (snd (snd (sgm4154x_get_state B st s))) = hvdcp_detach_time s"
  "hvdcp_detect_time (snd (snd (sgm4154x_get_state B st s))) = hvdcp_detect_time s"
  "has_wakelock (snd (snd (sgm4154x_get_state B st s))) = has_wakelock s"
  "irq (snd (snd (sgm4154x_get_state B st s))) = irq s"
  "may_wakeup (snd (snd (sgm4154x_get_state B st s))) = may_wakeup s"
  "irq_vbus_gd (snd (snd (sgm4154x_get_state B st s))) = irq_vbus_gd s"
  "wakelock_pm_flag (snd (snd (sgm4154x_get_state B st s))) = wakelock_pm_flag s"
  "calls (snd (snd (sgm4154x_get_state B st s))) = calls s"
  by (simp_all add: sgm4154x_get_state_def case_prod_beta Let_def)

definition sgm4154x_get_charging_status ::
  "('w, 'e) smbus_ops_scheme \<Rightarrow> 'w sgm4154x_device \<Rightarrow> int \<times> bool \<times> 'w sgm4154x_device" where
  "sgm4154x_get_charging_status B s =
    (let (ret, chrg, s) = sgm4154x_read_reg B SGM4154x_CHRG_STAT 0 s;
         (ret, chrg, s) = (if ret \<noteq> 0 then sgm4154x_read_reg B SGM4154x_CHRG_STAT 0 s
                           else (ret, chrg, s)) in
     if ret \<noteq> 0 then (ret, False, s)
     else (0, uint (chrg AND SGM4154x_CHG_STAT_MASK) = SGM4154x_TERM_CHRG, s))"

section \<open>Power-supply and charger-class properties\<close>

definition sgm4154x_property_is_writeable :: "psp \<Rightarrow> bool" where
  "sgm4154x_property_is_writeable prop =
    (case prop of
       POWER_SUPPLY_PROP_INPUT_CURRENT_LIMIT \<Rightarrow> True
     | POWER_SUPPLY_PROP_CONSTANT_CHARGE_VOLTAGE \<Rightarrow> True
     | POWER_SUPPLY_PROP_CONSTANT_CHARGE_CURRENT \<Rightarrow> True
     | POWER_SUPPLY_PROP_PRECHARGE_CURRENT \<Rightarrow> True
     | POWER_SUPPLY_PROP_CHARGE_TERM_CURRENT \<Rightarrow> True
     | _ \<Rightarrow> False)"

definition sgm4154x_charger_set_property :: "psp \<Rightarrow> int \<Rightarrow> ('w, 'e) sgm_setter" where
  "sgm4154x_charger_set_property prop val B s =
    (case prop of
       POWER_SUPPLY_PROP_INPUT_CURRENT_LIMIT \<Rightarrow> sgm4154x_set_input_curr_lim (word_of_int val) B s
     | _ \<Rightarrow> (- EINVAL, s))"

definition usb_type_value :: "'w sgm4154x_device \<Rightarrow> psenum" where
  "usb_type_value s =
    (let v = psy_usb_type s;
         v = (if pd_adapter s = POWER_SUPPLY_USB_TYPE_PD
                 \<and> chrg_type (state s) \<noteq> SGM4154x_USB_CDP then pd_adapter s else v)
     in if is_hvdcp_type s then POWER_SUPPLY_USB_TYPE_C else v)"

definition psy_status_value :: "'w sgm4154x_device \<Rightarrow> psenum" where
  "psy_status_value s =
    (let st = state s in
     if chrg_type st = 0 \<or> chrg_type st = SGM4154x_OTG_MODE then POWER_SUPPLY_STATUS_DISCHARGING
     else if chg_done s then POWER_SUPPLY_STATUS_FULL
     else if chrg_stat st = 0 \<or> chrg_stat st = 24 then POWER_SUPPLY_STATUS_NOT_CHARGING
     else POWER_SUPPLY_STATUS_CHARGING)"

definition charge_type_value :: "int \<Rightarrow> psenum" where
  "charge_type_value cs =
    (if cs = SGM4154x_PRECHRG then POWER_SUPPLY_CHARGE_TYPE_TRICKLE
     else if cs = SGM4154x_FAST_CHRG then POWER_SUPPLY_CHARGE_TYPE_FAST
     else if cs = SGM4154x_TERM_CHRG then POWER_SUPPLY_CHARGE_TYPE_TRICKLE
     else if cs = uint SGM4154x_NOT_CHRGING then POWER_SUPPLY_CHARGE_TYPE_NONE
     else POWER_SUPPLY_CHARGE_TYPE_UNKNOWN)"

definition psy_type_value :: "'w sgm4154x_device \<Rightarrow> psenum" where
  "psy_type_value s =
    (let ct = chrg_type (state s) in
     if ct = SGM4154x_USB_SDP then
       (if pd_adapter s = POWER_SUPPLY_USB_TYPE_PD then POWER_SUPPLY_TYPE_USB_DCP
        else POWER_SUPPLY_TYPE_USB)
     else if ct = SGM4154x_USB_CDP then POWER_SUPPLY_TYPE_USB_CDP
     else if ct = SGM4154x_USB_DCP then POWER_SUPPLY_TYPE_USB_DCP
     else if ct = SGM4154x_UNKNOWN then POWER_SUPPLY_TYPE_USB_DCP
     else POWER_SUPPLY_TYPE_UNKNOWN)"

definition psy_health_value :: "sgm4154x_state \<Rightarrow> psenum" where
  "psy_health_value st =
    (let v = (if chrg_fault st AND 0xF8 \<noteq> 0 then POWER_SUPPLY_HEALTH_OVERVOLTAGE
              else POWER_SUPPLY_HEALTH_GOOD) in
     if health st = SGM4154x_TEMP_HOT then POWER_SUPPLY_HEALTH_OVERHEAT
     else if health st = SGM4154x_TEMP_WARM then POWER_SUPPLY_HEALTH_GOOD
     else if health st = SGM4154x_TEMP_COOL then POWER_SUPPLY_HEALTH_GOOD
     else if health st = SGM4154x_TEMP_COLD then POWER_SUPPLY_HEALTH_COLD
     else v)"

text \<open>\<open>val\<close> is the caller's value; three properties leave it as it is.\<close>

definition sgm4154x_charger_get_property :: "psp \<Rightarrow> propval \<Rightarrow> 'w sgm4154x_device \<Rightarrow> int \<times> propval" where
  "sgm4154x_charger_get_property prop val s =
    (case prop of
       POWER_SUPPLY_PROP_STATUS \<Rightarrow> (0, enumval (psy_status_value s))
     | POWER_SUPPLY_PROP_CHARGE_TYPE \<Rightarrow> (0, enumval (charge_type_value (chrg_stat (state s))))
     | POWER_SUPPLY_PROP_MANUFACTURER \<Rightarrow> (0, strval ''Texas Instruments'')
     | POWER_SUPPLY_PROP_MODEL_NAME \<Rightarrow> (0, strval ''sgm41543D'')
     | POWER_SUPPLY_PROP_ONLINE \<Rightarrow> (0, intval (b2i (online (state s))))
     | POWER_SUPPLY_PROP_USB_TYPE \<Rightarrow> (0, enumval (usb_type_value s))
     | POWER_SUPPLY_PROP_PRESENT \<Rightarrow> (0, intval (b2i (vbus_gd (state s))))
     | POWER_SUPPLY_PROP_TYPE \<Rightarrow> (0, enumval (psy_type_value s))
     | POWER_SUPPLY_PROP_HEALTH \<Rightarrow> (0, enumval (psy_health_value (state s)))
     | POWER_SUPPLY_PROP_VOLTAGE_NOW \<Rightarrow> (0, val)
     | POWER_SUPPLY_PROP_CURRENT_NOW \<Rightarrow> (0, val)
     | POWER_SUPPLY_PROP_INPUT_CURRENT_LIMIT \<Rightarrow> (0, val)
     | _ \<Rightarrow> (- EINVAL, val))"

datatype charger_property =
    CHARGER_PROP_BLEED_DISCHARGE | CHARGER_PROP_ONLINE | CHARGER_PROP_STATUS
  | CHARGER_PROP_USB_TYPE | CHARGER_PROP_TYPE | CHARGER_PROP_ADP_TYPE

definition chg_status_value :: "'w sgm4154x_device \<Rightarrow> psenum" where
  "chg_status_value s =
    (let st = state s in
     if chrg_type st = 0 \<or> chrg_type st = SGM4154x_OTG_MODE then POWER_SUPPLY_STATUS_DISCHARGING
     else if chrg_stat st = 0 then POWER_SUPPLY_STATUS_NOT_CHARGING
     else if chg_done s then POWER_SUPPLY_STATUS_FULL
     else POWER_SUPPLY_STATUS_CHARGING)"

definition sgm4154x_get_property :: "charger_property \<Rightarrow> propval \<Rightarrow> 'w sgm4154x_device \<Rightarrow> int \<times> propval" where
  "sgm4154x_get_property prop val s =
    (case prop of
       CHARGER_PROP_ONLINE \<Rightarrow> (0, intval (b2i (online (state s))))
     | CHARGER_PROP_STATUS \<Rightarrow> (0, enumval (chg_status_value s))
     | CHARGER_PROP_USB_TYPE \<Rightarrow> (0, enumval (usb_type_value s))
     | CHARGER_PROP_TYPE \<Rightarrow>
         (0, enumval (if chrg_type (state s) = SGM4154x_NON_STANDARD then POWER_SUPPLY_TYPE_USB_DCP
                      else psy_type_value s))
     | CHARGER_PROP_ADP_TYPE \<Rightarrow> (0, intval (if is_nonstand_adapter s then adp_type s else 0))
     | _ \<Rightarrow> (- EINVAL, val))"

end
