(* ===== verification/Sgm_Detect.thy ===== *)
theory Sgm_Detect
  imports Sgm_Charger
begin

text \<open>
  Adapter detection in sgm415xx.c: the D+/D- control, the HVDCP work, the
  periodic monitor, the forced BC1.2 detection and the interrupt handler that
  turns the chip's status into a charger type.  A wait is not a step of the
  model; what changes outside meanwhile is seen by the next transfer.
\<close>

section \<open>What the driver sees besides its chip\<close>

text \<open>\<open>master_charger_ready\<close> is the lookup of the mtk-master-charger supply and its
  data, \<open>chan_vbus_ok\<close> its VBUS channel, \<open>iio_read_channel_processed\<close> the ADC
  (result, variable after the call), \<open>cpu_clock\<close> the clock in nanoseconds and
  \<open>get_entry_ship_mode\<close> the ship-mode request of the charger core.\<close>

record 'w sgm_env = "'w smbus_ops" +
  master_charger_ready :: "'w \<Rightarrow> bool"
  chan_vbus_ok :: "'w \<Rightarrow> bool"
  iio_read_channel_processed :: "'w \<Rightarrow> int \<Rightarrow> int \<times> int \<times> 'w"
  cpu_clock :: "'w \<Rightarrow> nat"
  get_entry_ship_mode :: "'w \<Rightarrow> int"

text \<open>A world of plain registers, whose VBUS channel reads 500 (5 V).\<close>

definition plain_env :: "(u8 \<Rightarrow> u8) sgm_env" where
  "plain_env = \<lparr>i2c_smbus_read_byte_data = (\<lambda>w r. (uint (w r), w)),
     i2c_smbus_write_byte_data = (\<lambda>w r v. (0, w(r := v))),
     master_charger_ready = (\<lambda>w. True), chan_vbus_ok = (\<lambda>w. True),
     iio_read_channel_processed = (\<lambda>w v. (0, 500, w)), cpu_clock = (\<lambda>w. 0),
     get_entry_ship_mode = (\<lambda>w. 1)\<rparr>"

lemma plain_ops_env [simp]: "plain_ops plain_env"
  by (simp add: plain_ops_def plain_env_def)

type_synonym 'w sgm_work_fun = "'w sgm_env \<Rightarrow> 'w sgm4154x_device \<Rightarrow> 'w sgm4154x_device"

definition sgm4154x_get_vbus ::
  "'w sgm_env \<Rightarrow> int \<Rightarrow> 'w sgm4154x_device \<Rightarrow> int \<times> int \<times> 'w sgm4154x_device" where
  "sgm4154x_get_vbus E vchr s =
    (if \<not> master_charger_ready E (client s) then (- 1, vchr, s)
     else
       let (ret, vchr, w) = (if chan_vbus_ok E (client s)
                             then iio_read_channel_processed E (client s) vchr
                             else (0, vchr, client s))
       in (ret, s32 (vchr * 10), s\<lparr>client := w\<rparr>))"

section \<open>D+/D- and HVDCP\<close>

definition dpdm_code :: "u8 \<Rightarrow> u8 \<Rightarrow> u8" where
  "dpdm_code dp_val dm_val =
    (push_bit 3 (dp_val AND SGM4154x_DP_VSEL_MASK)
     OR push_bit 1 (dm_val AND SGM4154x_DM_VSEL_MASK))"

definition sgm4154x_set_dpdm :: "u8 \<Rightarrow> u8 \<Rightarrow> ('w, 'e) sgm_setter" where
  "sgm4154x_set_dpdm dp_val dm_val B s =
    sgm4154x_update_bits B SGM4154x_CHRG_CTRL_d (SGM4154x_DP_VSEL_MASK OR SGM4154x_DM_VSEL_MASK)
      (dpdm_code dp_val dm_val) s"

definition sgm4154x_enable_qc20_hvdcp_9v :: "('w, 'e) sgm_setter" where
  "sgm4154x_enable_qc20_hvdcp_9v B s =
    (let (ret, s) = sgm4154x_update_bits B SGM4154x_CHRG_CTRL_d SGM4154x_DP_VSEL_MASK
                      (push_bit 3 2) s in
     if ret \<noteq> 0 then (ret, s)
     else let (ret, s) = sgm4154x_update_bits B SGM4154x_CHRG_CTRL_d SGM4154x_DM_VSEL_MASK 0 s in
     if ret \<noteq> 0 then (ret, s)
     else let (ret, s) = sgm4154x_update_bits B SGM4154x_CHRG_CTRL_d SGM4154x_DP_VSEL_MASK
                           SGM4154x_DP_VSEL_MASK s in
     if ret \<noteq> 0 then (ret, s)
     else sgm4154x_update_bits B SGM4154x_CHRG_CTRL_d SGM4154x_DM_VSEL_MASK (push_bit 1 2) s)"

definition sgm4154x_charging_set_hvdcp20 :: "nat \<Rightarrow> ('w, 'e) sgm_setter" where
  "sgm4154x_charging_set_hvdcp20 vbus_target B s =
    (let (ret, s) =
       (if vbus_target = 5 then
          let (ret, s) = sgm4154x_set_dpdm SGM_DP_DM_VOL_0P6 SGM_DP_DM_VOL_0P0 B s in
          if ret < 0 then sgm4154x_set_dpdm SGM_DP_DM_VOL_0P6 SGM_DP_DM_VOL_0P0 B s
          else (ret, s)
        else if vbus_target = 9 then sgm4154x_enable_qc20_hvdcp_9v B s
        else if vbus_target = 12 then sgm4154x_set_dpdm SGM_DP_DM_VOL_0P6 SGM_DP_DM_VOL_0P6 B s
        else sgm4154x_set_dpdm SGM_DP_DM_VOL_HIZ SGM_DP_DM_VOL_HIZ B s)
     in (if ret < 0 then ret else 0, s))"

definition sgm4154x_hvdcp_ready :: "bool \<Rightarrow> 'w sgm4154x_device \<Rightarrow> 'w sgm4154x_device" where
  "sgm4154x_hvdcp_ready en s = s\<lparr>is_hvdcp_type := en\<rparr>"

text \<open>The retry loop that brings the adapter back to 5 V, \<open>retry\<close> rounds at most.\<close>

fun hvdcp_back_to_5v :: "nat \<Rightarrow> int \<Rightarrow> 'w sgm_work_fun" where
  "hvdcp_back_to_5v 0 vbus E s = s"
| "hvdcp_back_to_5v (Suc retry) vbus E s =
    (let (_, s) = sgm4154x_charging_set_hvdcp20 5 E s;
         (_, vbus, s) = sgm4154x_get_vbus E vbus s in
     if vbus > 7600 then hvdcp_back_to_5v retry vbus E s else s)"

definition cpu_clock_ms :: "'w sgm_env \<Rightarrow> 'w \<Rightarrow> int" where
  "cpu_clock_ms E w = s32 (int (cpu_clock E w div 1000000))"

definition hvdcp_start :: "'w sgm_work_fun" where
  "hvdcp_start E s =
    (if hvdcp_detect_count s = 0 \<and> \<not> is_hvdcp_type s \<and> \<not> hvdcp_disable s then
       let (_, s) = sgm4154x_set_dpdm SGM_DP_DM_VOL_0P6 SGM_DP_DM_VOL_HIZ E s;
           s = s\<lparr>hvdcp_detect_time := cpu_clock_ms E (client s)\<rparr>;
           (_, s) = sgm4154x_charging_set_hvdcp20 9 E s
       in s
     else s)"

text \<open>\<open>vbus\<close> is the content of the uninitialised local: it is read when the ADC
  gives no value.\<close>

definition sgm4154x_chg_type_hvdcp_work :: "int \<Rightarrow> 'w sgm_work_fun" where
  "sgm4154x_chg_type_hvdcp_work vbus E s =
    (if pd_adapter s = POWER_SUPPLY_USB_TYPE_PD then
       let (_, s) = sgm4154x_set_dpdm SGM_DP_DM_VOL_HIZ SGM_DP_DM_VOL_HIZ E s
       in s\<lparr>hvdcp_detect_count := 0\<rparr>
     else
       let s = hvdcp_start E s in
       if \<not> online (state s) then s\<lparr>hvdcp_detect_count := 0\<rparr>
       else if is_hvdcp_type s then s\<lparr>hvdcp_detect_count := 0\<rparr>
       else
         let (_, vbus, s) = sgm4154x_get_vbus E vbus s in
         if pd_adapter s = POWER_SUPPLY_USB_TYPE_PD then s
         else if vbus > 7600 then
           let s = sgm4154x_hvdcp_ready True s;
               s = s\<lparr>hvdcp_detect_count := 0\<rparr>;
               s = call power_supply_changed s
           in hvdcp_back_to_5v 3 vbus E s
         else if hvdcp_disable s then sgm4154x_hvdcp_ready True s
         else
           let s = sgm4154x_hvdcp_ready False s;
               s = s\<lparr>hvdcp_detect_count := hvdcp_detect_count s + 1\<rparr> in
           if hvdcp_detect_count s \<le> 3 then call (schedule_delayed_work hvdcp_work (ms 2000)) s
           else s\<lparr>hvdcp_detect_count := 0\<rparr>)"

text \<open>\<open>chrg\<close> is the uninitialised local, read when the transfer fails.\<close>

definition sgm4154x_dpdm_detect_is_done ::
  "u8 \<Rightarrow> 'w sgm_env \<Rightarrow> 'w sgm4154x_device \<Rightarrow> bool \<times> 'w sgm4154x_device" where
  "sgm4154x_dpdm_detect_is_done chrg E s =
    (let (_, chrg, s) = sgm4154x_read_reg E SGM4154x_INPUT_DET chrg s
     in (chrg AND SGM4154x_DPDM_ONGOING \<noteq> 0, s))"

section \<open>The periodic monitor\<close>

definition monitor_vbus :: "'w sgm_work_fun" where
  "monitor_vbus E s =
    (let (_, vbus, s) = sgm4154x_get_vbus E 0 s in
     if vbus > 7600 then
       let (_, vbus, s) = sgm4154x_get_vbus E vbus s in
       if vbus > 7600 then
         let s = call (cancel_delayed_work_sync hvdcp_work) s;
             s = (if \<not> is_hvdcp_type s
                  then call power_supply_changed (sgm4154x_hvdcp_ready True s) else s);
             s = s\<lparr>hvdcp_detect_count := 0\<rparr>;
             (_, s) = sgm4154x_charging_set_hvdcp20 5 E s
         in s
       else s
     else s)"

text \<open>\<open>st\<close> is the uninitialised local structure: it is stored as the device state
  even when \<open>sgm4154x_get_state\<close> fails.\<close>

definition charger_monitor_work_func :: "sgm4154x_state \<Rightarrow> 'w sgm_work_fun" where
  "charger_monitor_work_func st E s =
    (if is_suspend s then call (schedule_delayed_work charge_monitor_work (ms 10000)) s
     else if pd_adapter s = POWER_SUPPLY_USB_TYPE_PD then s
     else
       let (_, st, s) = sgm4154x_get_state E st s;
           s = s\<lparr>state := st\<rparr>;
           s = (if \<not> vbus_gd (state s) then snd (sgm4154x_disable_charger E s)
                else if \<not> online st then s
                else monitor_vbus E s)
       in call (schedule_delayed_work charge_monitor_work (ms 10000)) s)"

section \<open>Wake lock, forced detection\<close>

definition chg_wakelock :: "bool \<Rightarrow> 'w sgm4154x_device \<Rightarrow> 'w sgm4154x_device" where
  "chg_wakelock awake s =
    (if \<not> has_wakelock s then s
     else if \<not> wakelock_pm_flag s \<and> awake then call pm_stay_awake (s\<lparr>wakelock_pm_flag := True\<rparr>)
     else if wakelock_pm_flag s \<and> \<not> awake then call pm_relax (s\<lparr>wakelock_pm_flag := False\<rparr>)
     else s)"

definition sgm4154x_force_dpdm :: "('w, 'e) sgm_setter" where
  "sgm4154x_force_dpdm B s =
    (let s = call Charger_Detect_Init s
     in sgm4154x_update_bits B SGM4154x_CHRG_CTRL_7 SGM4154X_FORCE_DPDM_MASK SGM4154X_FORCE_DPDM s)"

text \<open>The adapter power classes of mtk_charger.h.\<close>

definition NONSTAND_APPLE_12W :: int where "NONSTAND_APPLE_12W = 2400"
definition NONSTAND_APPLE_10W :: int where "NONSTAND_APPLE_10W = 2100"
definition NONSTAND_APPLE_5W :: int where "NONSTAND_APPLE_5W = 1000"
definition NONSTAND_SAMSUNG_10W :: int where "NONSTAND_SAMSUNG_10W = 2000"
definition NONSTAND_DEFAULT :: int where "NONSTAND_DEFAULT = 500"
definition NORMAL_ADAPTER :: int where "NORMAL_ADAPTER = 0"

lemmas nonstand_defs = NONSTAND_APPLE_12W_def NONSTAND_APPLE_10W_def NONSTAND_APPLE_5W_def
  NONSTAND_SAMSUNG_10W_def NONSTAND_DEFAULT_def NORMAL_ADAPTER_def

definition get_nonstand_charge_type ::
  "'w sgm_env \<Rightarrow> 'w sgm4154x_device \<Rightarrow> int \<times> 'w sgm4154x_device" where
  "get_nonstand_charge_type E s =
    (if adp_type s = NONSTAND_APPLE_12W \<or> adp_type s = NONSTAND_SAMSUNG_10W
        \<or> adp_type s = NONSTAND_APPLE_10W \<or> adp_type s = NONSTAND_APPLE_5W
        \<or> adp_type s = NONSTAND_DEFAULT then (adp_type s, s)
     else
       let (ret, il, s) = sgm4154x_get_input_curr_lim E 0 s in
       if ret = 0 then
         let curr_lim = sint il sdiv 1000 in
         if curr_lim = NONSTAND_APPLE_12W \<or> curr_lim = NONSTAND_SAMSUNG_10W
            \<or> curr_lim = NONSTAND_APPLE_10W \<or> curr_lim = NONSTAND_APPLE_5W
         then (curr_lim, s)
         else if is_nonstand_adapter s then (NONSTAND_DEFAULT, s)
         else (NORMAL_ADAPTER, s)
       else (NORMAL_ADAPTER, s))"

section \<open>The interrupt handler\<close>

text \<open>Reading the status, with one retry; a failed read stores the zeroed local.\<close>

definition irq_refresh :: "'w sgm_env \<Rightarrow> 'w sgm4154x_device \<Rightarrow> sgm4154x_state \<times> 'w sgm4154x_device" where
  "irq_refresh E s =
    (let (ret, st, s) = sgm4154x_get_state E state0 s;
         (ret, st, s) = (if ret \<noteq> 0 then sgm4154x_get_state E st s else (ret, st, s))
     in (st, s\<lparr>state := st\<rparr>))"

definition irq_inserted :: "'w sgm_work_fun" where
  "irq_inserted E s =
    (let s = chg_wakelock True s;
         s = s\<lparr>force_detect_count := 0, float_count := 0, chg_done := False,
               hvdcp_detect_count := 0, is_nonstand_adapter := False\<rparr>;
         (_, s) = sgm4154x_set_ichrg_curr 500000 E s;
         (_, s) = sgm4154x_set_vindpm_track SGM4154x_TRACK_250 E s
     in call (schedule_delayed_work force_detect_dwork (ms 50)) s)"

definition irq_removed :: "'w sgm_work_fun" where
  "irq_removed E s =
    (let s = s\<lparr>psy_usb_type := POWER_SUPPLY_USB_TYPE_UNKNOWN, chg_type := POWER_SUPPLY_TYPE_UNKNOWN,
               hvdcp_detach_time := cpu_clock_ms E (client s)\<rparr>;
         s = s\<lparr>hvdcp_disable := s32 (hvdcp_detach_time s - hvdcp_detect_time s) \<le> 800\<rparr>;
         s = s\<lparr>float_count := 0, chg_done := False, hvdcp_detect_count := 0\<rparr>;
         s = call Charger_Detect_Release s;
         s = s\<lparr>non_std_rerun := False, bc12_down := False\<rparr>;
         s = sgm4154x_hvdcp_ready False s;
         s = s\<lparr>is_nonstand_adapter := False\<rparr>;
         (_, s) = sgm4154x_update_bits E SGM4154x_CHRG_CTRL_0 SGM4154x_HIZ_EN 0 s;
         s = call (cancel_delayed_work_sync force_detect_dwork) s;
         s = call (cancel_delayed_work_sync hvdcp_work) s
     in chg_wakelock False s)"

definition irq_no_vbus :: "'w sgm_work_fun" where
  "irq_no_vbus E s =
    (let s = s\<lparr>psy_usb_type := POWER_SUPPLY_USB_TYPE_UNKNOWN, chg_type := POWER_SUPPLY_TYPE_UNKNOWN,
               state := (state s)\<lparr>chrg_type := 0\<rparr>, float_count := 0, hvdcp_detect_count := 0\<rparr>
     in snd (sgm4154x_disable_charger E s))"

definition irq_not_online :: "'w sgm4154x_device \<Rightarrow> 'w sgm4154x_device" where
  "irq_not_online s =
    s\<lparr>psy_usb_type := POWER_SUPPLY_USB_TYPE_UNKNOWN, chg_type := POWER_SUPPLY_TYPE_UNKNOWN,
      float_count := 0, hvdcp_detect_count := 0\<rparr>"

definition irq_float :: "'w sgm4154x_device \<Rightarrow> 'w sgm4154x_device" where
  "irq_float s =
    (let s = (if float_count s > 1
              then s\<lparr>float_count := 2, psy_usb_type := POWER_SUPPLY_USB_TYPE_APPLE_BRICK_ID\<rparr>
              else s\<lparr>psy_usb_type := POWER_SUPPLY_USB_TYPE_UNKNOWN\<rparr>);
         s = s\<lparr>chg_type := POWER_SUPPLY_TYPE_USB\<rparr>;
         s = (if force_detect_count s < 300 \<and> pd_adapter s \<noteq> POWER_SUPPLY_USB_TYPE_PD
              then (call (schedule_delayed_work force_detect_dwork (ms 1000)) s)\<lparr>non_std_rerun := True\<rparr>
              else s)
     in s\<lparr>float_count := float_count s + 1\<rparr>)"

definition irq_non_standard :: "'w sgm_work_fun" where
  "irq_non_standard E s =
    (if non_std_rerun s
     then (call (schedule_delayed_work force_detect_dwork (ms 1000)) s)\<lparr>non_std_rerun := False\<rparr>
     else
       let s = s\<lparr>psy_usb_type := POWER_SUPPLY_USB_TYPE_DCP, chg_type := POWER_SUPPLY_TYPE_USB_DCP\<rparr>;
           (a, s) = get_nonstand_charge_type E s
       in s\<lparr>adp_type := a, is_nonstand_adapter := True\<rparr>)"

definition irq_set_type :: "'w sgm_work_fun" where
  "irq_set_type E s =
    (let ct = chrg_type (state s) in
     if ct = SGM4154x_NOT_CHRGING then
       s\<lparr>psy_usb_type := POWER_SUPPLY_USB_TYPE_UNKNOWN, chg_type := POWER_SUPPLY_TYPE_UNKNOWN\<rparr>
     else if ct = SGM4154x_USB_SDP then
       call Charger_Detect_Release
         (s\<lparr>psy_usb_type := POWER_SUPPLY_USB_TYPE_SDP, chg_type := POWER_SUPPLY_TYPE_USB\<rparr>)
     else if ct = SGM4154x_USB_CDP then
       call Charger_Detect_Release
         (s\<lparr>psy_usb_type := POWER_SUPPLY_USB_TYPE_CDP, chg_type := POWER_SUPPLY_TYPE_USB_CDP\<rparr>)
     else if ct = SGM4154x_USB_DCP then
       let s = s\<lparr>psy_usb_type := POWER_SUPPLY_USB_TYPE_DCP, chg_type := POWER_SUPPLY_TYPE_USB_DCP\<rparr> in
       if pd_adapter s \<noteq> POWER_SUPPLY_USB_TYPE_PD \<and> \<not> is_hvdcp_type s
       then call (schedule_delayed_work hvdcp_work (jiffies 0)) s else s
     else if ct = SGM4154x_UNKNOWN then irq_float s
     else if ct = SGM4154x_NON_STANDARD then irq_non_standard E s
     else s\<lparr>psy_usb_type := POWER_SUPPLY_USB_TYPE_UNKNOWN, chg_type := POWER_SUPPLY_TYPE_UNKNOWN\<rparr>)"

text \<open>The tail of the handler once the type is known; \<open>st\<close> is its local state.\<close>

definition irq_charge :: "sgm4154x_state \<Rightarrow> 'w sgm_work_fun" where
  "irq_charge st E s =
    (let s = irq_set_type E s;
         (_, s) = sgm4154x_enable_charger E s;
         s = (if pd_adapter s = POWER_SUPPLY_USB_TYPE_PD then
                let (_, st, s) = sgm4154x_get_state E st s in s\<lparr>state := st\<rparr>
              else s);
         (_, _, s) = sgm4154x_dump_register E s
     in s)"

definition irq_checks :: "u8 \<Rightarrow> sgm4154x_state \<Rightarrow> 'w sgm_work_fun" where
  "irq_checks garbage st E s =
    (if \<not> vbus_gd (state s) then irq_no_vbus E s
     else if \<not> online st then irq_not_online s
     else
       let (done, s) = sgm4154x_dpdm_detect_is_done garbage E s in
       if \<not> done \<and> chrg_type (state s) = SGM4154x_NOT_CHRGING then s
       else irq_charge st E s)"

definition sgm4154x_irq_handler_thread :: "u8 \<Rightarrow> 'w sgm_work_fun" where
  "sgm4154x_irq_handler_thread garbage E s =
    (let old_chg_stat = chrg_stat (state s);
         (st, s) = irq_refresh E s;
         chg_stat = chrg_stat (state s);
         old_vbus_gd = irq_vbus_gd s;
         s = s\<lparr>irq_vbus_gd := online (state s)\<rparr> in
     if old_chg_stat > 0 \<and> old_chg_stat \<noteq> SGM4154x_TERM_CHRG \<and> chg_stat = SGM4154x_TERM_CHRG
     then s
     else if \<not> old_vbus_gd \<and> irq_vbus_gd s then call power_supply_changed (irq_inserted E s)
     else
       let s = (if old_vbus_gd \<and> \<not> irq_vbus_gd s then irq_removed E s else s);
           s = irq_checks garbage st E s
       in call power_supply_changed s)"

definition sgm4154x_force_detection_dwork_handler :: "u8 \<Rightarrow> 'w sgm_work_fun" where
  "sgm4154x_force_detection_dwork_handler garbage E s =
    (if \<not> online (state s) then s
     else
       let s = s\<lparr>force_detect_count := force_detect_count s + 1, bc12_down := True\<rparr>;
           (ret, s) = sgm4154x_force_dpdm E s in
       if ret \<noteq> 0 then s
       else
         let s = (if pd_adapter s = POWER_SUPPLY_USB_TYPE_PD
                  then call Charger_Detect_Release s else s);
             (ret, en, s) = sgm4154x_is_enable_hiz E s in
         if ret \<noteq> 0 then s
         else if en then s
         else sgm4154x_irq_handler_thread garbage E s)"

text \<open>The first-SDP work.  Its second half tests the charger type again after a
  wait: \<open>sleep500\<close> and \<open>sleep8000\<close> are what the other handlers make of the
  device meanwhile.\<close>

definition sgm4151x_first_sdp_detection_dwork_handler ::
  "('w sgm4154x_device \<Rightarrow> 'w sgm4154x_device) \<Rightarrow> ('w sgm4154x_device \<Rightarrow> 'w sgm4154x_device)
    \<Rightarrow> 'w sgm_work_fun" where
  "sgm4151x_first_sdp_detection_dwork_handler sleep500 sleep8000 E s =
    (let (ret, s) = (if vbus_gd (state s) \<and> chg_type s = POWER_SUPPLY_TYPE_USB then
                       let (ret, s) = sgm4154x_force_dpdm E s in
                       if ret \<noteq> 0 then (ret, s)
                       else (0, s\<lparr>force_detect_count := force_detect_count s + 1\<rparr>)
                     else (0, s)) in
     if ret \<noteq> 0 then s
     else
       let s = sleep500 s in
       if vbus_gd (state s) \<and> chg_type s = POWER_SUPPLY_TYPE_USB_CDP then
         let s = sleep8000 s in
         if vbus_gd (state s) \<and> chg_type s = POWER_SUPPLY_TYPE_USB then
           let (ret, s) = sgm4154x_force_dpdm E s in
           if ret \<noteq> 0 then s
           else s\<lparr>force_detect_count := force_detect_count s + 1\<rparr>
         else s
       else s)"

end
