(* ===== verification/Sgm_Driver.thy ===== *)
theory Sgm_Driver
  imports Sgm_Detect
begin

text \<open>
  The driver's life cycle in sgm415xx.c: chip initialisation, device-tree
  parsing, charger-class events, the \<open>hiz_enable\<close> and \<open>charging_enable\<close> files,
  probe, removal, shutdown and system sleep.
\<close>

section \<open>Initialisation\<close>

definition sgm4154x_hw_init :: "('w, 'e) sgm_setter" where
  "sgm4154x_hw_init B s =
    (let s = s\<lparr>init_data := (init_data s)\<lparr>max_ichg := 3780000, max_vreg := 4624000\<rparr>\<rparr>;
         (_, s) = sgm4154x_set_watchdog_timer 0 B s;
         (ret, s) = sgm4154x_set_ichrg_curr 2040000 B s in
     if ret \<noteq> 0 then (ret, s)
     else let (ret, s) = sgm4154x_set_prechrg_curr 180000 B s in
     if ret \<noteq> 0 then (ret, s)
     else let (ret, s) = sgm4154x_set_chrg_volt 4520000 B s in
     if ret \<noteq> 0 then (ret, s)
     else let (ret, s) = sgm4154x_set_term_curr 180000 B s in
     if ret \<noteq> 0 then (ret, s)
     else let (ret, s) = sgm4154x_set_input_curr_lim (ilim (init_data s)) B s in
     if ret \<noteq> 0 then (ret, s)
     else let (ret, s) = sgm4154x_set_recharge_volt 100 B s in
     if ret \<noteq> 0 then (ret, s) else (0, s))"

text \<open>The device tree: a property is absent or holds a 32-bit number.  The
  interrupt pin: \<open>of_get_named_gpio\<close>, \<open>gpio_is_valid\<close>, \<open>gpio_request\<close> and
  \<open>gpio_to_irq\<close> of the kernel.\<close>

record sgm_board =
  device_property_u32 :: "string \<Rightarrow> u32 option"
  irq_gpio :: int
  gpio_is_valid :: "int \<Rightarrow> bool"
  gpio_request :: "int \<Rightarrow> int"
  gpio_to_irq :: "int \<Rightarrow> int"

definition parse_dt_limits :: "sgm_board \<Rightarrow> 'w sgm4154x_device \<Rightarrow> int \<times> 'w sgm4154x_device" where
  "parse_dt_limits D s =
    (let s = s\<lparr>init_data := (init_data s)\<lparr>vlim :=
               lookup_default (device_property_u32 D) ''input-voltage-limit-microvolt'' 4500000\<rparr>\<rparr> in
     if vlim (init_data s) > 12000000 \<or> vlim (init_data s) < 3900000 then (- EINVAL, s)
     else
       let s = s\<lparr>init_data := (init_data s)\<lparr>ilim :=
                 lookup_default (device_property_u32 D) ''input-current-limit-microamp'' 2400000\<rparr>\<rparr> in
       if ilim (init_data s) > 3800000 \<or> ilim (init_data s) < 100000 then (- EINVAL, s)
       else (0, s))"

definition sgm4154x_parse_dt :: "sgm_board \<Rightarrow> 'w sgm4154x_device \<Rightarrow> int \<times> 'w sgm4154x_device" where
  "sgm4154x_parse_dt D s =
    (let (ret, s) = parse_dt_limits D s in
     if ret \<noteq> 0 then (ret, s)
     else if \<not> gpio_is_valid D (irq_gpio D) then (- EINVAL, s)
     else let ret = gpio_request D (irq_gpio D) in
     if ret \<noteq> 0 then (ret, s)
     else let irqn = gpio_to_irq D (irq_gpio D) in
     if irqn < 0 then (irqn, s)
     else (0, s\<lparr>irq := irqn, bc12_down := False, is_suspend := False, is_hvdcp_type := False\<rparr>))"

section \<open>Charger-class events\<close>

datatype charger_event = EVENT_FULL | EVENT_RECHARGE | EVENT_DISCHARGE | EVENT_OTHER

definition sgm4154x_do_event :: "charger_event \<Rightarrow> ('w, 'e) sgm_setter" where
  "sgm4154x_do_event event B s =
    (let (ret, st, s) = sgm4154x_get_state B state0 s;
         s = s\<lparr>state := st\<rparr> in
     case event of
       EVENT_FULL \<Rightarrow>
         (ret, chg_wakelock False (call power_supply_changed (s\<lparr>chg_done := True\<rparr>)))
     | EVENT_RECHARGE \<Rightarrow> (ret, call power_supply_changed (s\<lparr>chg_done := False\<rparr>))
     | EVENT_DISCHARGE \<Rightarrow> (ret, call power_supply_changed (s\<lparr>chg_done := False\<rparr>))
     | EVENT_OTHER \<Rightarrow> (ret, s))"

definition sgm4154x_pd_adapter :: "psenum \<Rightarrow> 'w sgm4154x_device \<Rightarrow> int \<times> 'w sgm4154x_device" where
  "sgm4154x_pd_adapter v s = (0, s\<lparr>pd_adapter := v\<rparr>)"

section \<open>The operation table (sgm4154x_chg_ops)\<close>

text \<open>One constructor per entry of the table the driver registers with the
  charger class, and the function the entry points to.  The last initialiser of
  a field wins, so \<open>set_boost_current_limit\<close> is the current routine.\<close>

datatype chg_op =
    op_enable_hz bool | op_dump_registers | op_enable bool | op_is_enabled
  | op_set_charging_current u32 | op_get_charging_current
  | op_set_constant_voltage u32 | op_get_constant_voltage
  | op_set_input_current u32 | op_get_input_current | op_get_min_input_current
  | op_set_mivr u32 | op_get_mivr_state | op_set_eoc_current u32 | op_is_charging_done
  | op_enable_safety_timer bool | op_is_safety_timer_enabled | op_kick_wdt
  | op_event charger_event | op_send_ta_current_pattern bool | op_enable_otg bool
  | op_set_boost_current_limit u32 | op_set_pd_adapter psenum
  | op_get_property charger_property | op_set_vreg_ft bool

definition drop_out :: "int \<times> 'a \<times> 's \<Rightarrow> int \<times> 's" where
  "drop_out x = (fst x, snd (snd x))"

fun sgm4154x_chg_ops :: "chg_op \<Rightarrow> ('w, 'e) sgm_setter" where
  "sgm4154x_chg_ops (op_enable_hz en) B s = sgm4154x_set_hiz_en en B s"
| "sgm4154x_chg_ops op_dump_registers B s = drop_out (sgm4154x_dump_register B s)"
| "sgm4154x_chg_ops (op_enable en) B s = sgm4154x_charging_switch en B s"
| "sgm4154x_chg_ops op_is_enabled B s = drop_out (sgm4154x_is_charging B False s)"
| "sgm4154x_chg_ops (op_set_charging_current uA) B s = sgm4154x_set_ichrg_curr uA B s"
| "sgm4154x_chg_ops op_get_charging_current B s = drop_out (sgm4154x_get_ichg_curr B 0 s)"
| "sgm4154x_chg_ops (op_set_constant_voltage uV) B s = sgm4154x_set_chrg_volt uV B s"
| "sgm4154x_chg_ops op_get_constant_voltage B s = drop_out (sgm4154x_get_chrg_volt B 0 s)"
| "sgm4154x_chg_ops (op_set_input_current uA) B s = sgm4154x_set_input_curr_lim uA B s"
| "sgm4154x_chg_ops op_get_input_current B s = drop_out (sgm4154x_get_input_curr_lim B 0 s)"
| "sgm4154x_chg_ops op_get_min_input_current B s = (fst sgm4154x_get_input_mincurr_lim, s)"
| "sgm4154x_chg_ops (op_set_mivr uV) B s = sgm4154x_set_input_volt_lim uV B s"
| "sgm4154x_chg_ops op_get_mivr_state B s = drop_out (sgm4154x_get_input_minvolt_lim B s)"
| "sgm4154x_chg_ops (op_set_eoc_current uA) B s = sgm4154x_set_term_curr uA B s"
| "sgm4154x_chg_ops op_is_charging_done B s = drop_out (sgm4154x_get_charging_status B s)"
| "sgm4154x_chg_ops (op_enable_safety_timer en) B s = sgm4154x_enable_safetytimer en B s"
| "sgm4154x_chg_ops op_is_safety_timer_enabled B s =
     drop_out (sgm4154x_get_is_safetytimer_enable B False s)"
| "sgm4154x_chg_ops op_kick_wdt B s = sgm4154x_reset_watch_dog_timer B s"
| "sgm4154x_chg_ops (op_event e) B s = sgm4154x_do_event e B s"
| "sgm4154x_chg_ops (op_send_ta_current_pattern up) B s = sgm4154x_en_pe_current_partern up B s"
| "sgm4154x_chg_ops (op_enable_otg en) B s = sgm4154x_enable_otg en B s"
| "sgm4154x_chg_ops (op_set_boost_current_limit uA) B s = sgm4154x_set_boost_current_limit uA B s"
| "sgm4154x_chg_ops (op_set_pd_adapter v) B s = sgm4154x_pd_adapter v s"
| "sgm4154x_chg_ops (op_get_property p) B s = (fst (sgm4154x_get_property p (intval 0) s), s)"
| "sgm4154x_chg_ops (op_set_vreg_ft temp) B s = sgm4154x_set_vreg_ft temp B s"

text \<open>A client's sequence of calls; the results are not looked at.\<close>

fun run_ops :: "chg_op list \<Rightarrow> ('w, 'e) smbus_ops_scheme \<Rightarrow> 'w sgm4154x_device \<Rightarrow> 'w sgm4154x_device" where
  "run_ops [] B s = s"
| "run_ops (x # xs) B s = run_ops xs B (snd (sgm4154x_chg_ops x B s))"

section \<open>The sysfs files\<close>

text \<open>A show returns an error or the text; a store returns an error or the number
  of bytes taken.  \<open>kstrtobool\<close> is the kernel's parser: \<open>None\<close> stands for its
  error \<open>-EINVAL\<close>.  The guard on a missing device pointer is not modelled: the
  files exist only between the driver's probe and removal.\<close>

definition show_bool :: "bool \<Rightarrow> string" where
  "show_bool en = (if en then ''1'' else ''0'') @ [CHR 0x0A]"

definition hiz_enable_show ::
  "('w, 'e) smbus_ops_scheme \<Rightarrow> 'w sgm4154x_device \<Rightarrow> (int + string) \<times> 'w sgm4154x_device" where
  "hiz_enable_show B s =
    (let (ret, en, s) = sgm4154x_is_enable_hiz B s in
     if ret \<noteq> 0 then (Inl ret, s) else (Inr (show_bool en), s))"

definition hiz_enable_store ::
  "(string \<Rightarrow> bool option) \<Rightarrow> ('w, 'e) smbus_ops_scheme \<Rightarrow> string
    \<Rightarrow> 'w sgm4154x_device \<Rightarrow> int \<times> 'w sgm4154x_device" where
  "hiz_enable_store kstrtobool B buf s =
    (case kstrtobool buf of
       None \<Rightarrow> (- EINVAL, s)
     | Some en \<Rightarrow>
         let (ret, s) = sgm4154x_set_hiz_en en B s in
         if ret \<noteq> 0 then (ret, s) else (int (length buf), s))"

definition charging_enable_show ::
  "('w, 'e) smbus_ops_scheme \<Rightarrow> 'w sgm4154x_device \<Rightarrow> (int + string) \<times> 'w sgm4154x_device" where
  "charging_enable_show B s =
    (let (ret, en, s) = sgm4154x_is_charging B False s in
     if ret \<noteq> 0 then (Inl ret, s) else (Inr (show_bool en), s))"

definition charging_enable_store ::
  "(string \<Rightarrow> bool option) \<Rightarrow> ('w, 'e) smbus_ops_scheme \<Rightarrow> string
    \<Rightarrow> 'w sgm4154x_device \<Rightarrow> int \<times> 'w sgm4154x_device" where
  "charging_enable_store kstrtobool B buf s =
    (case kstrtobool buf of
       None \<Rightarrow> (- EINVAL, s)
     | Some en \<Rightarrow>
         let (ret, s) = sgm4154x_charging_switch en B s in
         if ret \<noteq> 0 then (ret, s) else (int (length buf), s))"

section \<open>Probe, removal, shutdown, sleep\<close>

text \<open>\<open>sgm_probe_env\<close> collects the results of the kernel registrations in the
  probe: zero, or the error the probe returns.\<close>

record sgm_probe_env =
  board :: sgm_board
  wakeup_source_register_ok :: bool
  charger_device_register_ret :: int
  request_threaded_irq_ret :: int
  power_supply_init_ok :: bool

definition probe_device0 :: "'w \<Rightarrow> 'w sgm4154x_device" where
  "probe_device0 w = \<lparr>client = w, force_detect_count = 0, bc12_down = False, non_std_rerun = False,
     init_data = \<lparr>ichg = 0, ilim = 0, vreg = 0, iterm = 0, iprechg = 0, vlim = 0,
                  max_ichg = 0, max_vreg = 0\<rparr>,
     state = state0, adp_type = 0, chg_type = POWER_SUPPLY_TYPE_UNKNOWN,
     psy_usb_type = POWER_SUPPLY_USB_TYPE_UNKNOWN, pd_adapter = POWER_SUPPLY_USB_TYPE_UNKNOWN,
     is_suspend = False, is_hvdcp_type = False, is_nonstand_adapter = False, float_count = 0,
     hvdcp_detect_count = 0, chg_done = False, hvdcp_disable = False, hvdcp_detach_time = 0,
     hvdcp_detect_time = 0, has_wakelock = False, irq = 0, may_wakeup = False,
     irq_vbus_gd = False, wakelock_pm_flag = False, calls = []\<rparr>"

definition sgm4154x_power_supply_init ::
  "sgm_probe_env \<Rightarrow> 'w sgm4154x_device \<Rightarrow> int \<times> 'w sgm4154x_device" where
  "sgm4154x_power_supply_init P s =
    (if \<not> power_supply_init_ok P then (- EINVAL, s) else (0, call power_supply_register s))"

text \<open>The part of the probe after the power supply exists.\<close>

definition probe_start :: "u8 \<Rightarrow> 'w sgm_env \<Rightarrow> 'w sgm4154x_device \<Rightarrow> int \<times> 'w sgm4154x_device" where
  "probe_start garbage E s =
    (let s = call device_create_files s;
         (ret, s) = sgm4154x_hw_init E s in
     if ret \<noteq> 0 then (ret, s)
     else
       let (_, s) = sgm4154x_update_bits E SGM4154x_CHRG_CTRL_a SGM4154x_VSYS_STAT
                      SGM4154x_VSYS_STAT s;
           (_, s) = sgm4154x_update_bits E SGM4154x_CHRG_CTRL_a SGM4154x_THERM_STAT
                      SGM4154x_THERM_STAT s;
           (_, s) = sgm4154x_update_bits E SGM4154x_CHRG_CTRL_7 SGM4154X_BATFET_RESET_MASK
                      SGM4154x_BATFET_RESET_OFF s;
           s = s\<lparr>state := (state s)\<lparr>chrg_stat := - 1\<rparr>\<rparr>;
           s = sgm4154x_irq_handler_thread garbage E s
       in (0, call (schedule_delayed_work charge_monitor_work (jiffies 100)) s))"

definition sgm4154x_driver_probe ::
  "sgm_probe_env \<Rightarrow> u8 \<Rightarrow> 'w sgm_env \<Rightarrow> 'w \<Rightarrow> int \<times> 'w sgm4154x_device" where
  "sgm4154x_driver_probe P garbage E w =
    (let s = probe_device0 w;
         (ret, s) = sgm4154x_hw_chipid_detect E s in
     if ret \<noteq> uint SGM4154x_PN_ID then (ret, s)
     else let (ret, s) = sgm4154x_parse_dt (board P) s in
     if ret \<noteq> 0 then (ret, s)
     else let s = s\<lparr>has_wakelock := wakeup_source_register_ok P\<rparr> in
     if charger_device_register_ret P \<noteq> 0 then (charger_device_register_ret P, s)
     else let s = call (schedule_delayed_work first_sdp_detect_dwork (ms 1500)) s in
     if irq s \<noteq> 0 \<and> request_threaded_irq_ret P \<noteq> 0 then (request_threaded_irq_ret P, s)
     else let s = (if irq s \<noteq> 0 then call enable_irq_wake (call request_irq s) else s);
              (ret, s) = sgm4154x_power_supply_init P s in
     if ret \<noteq> 0 then (ret, s) else probe_start garbage E s)"

definition sgm4154x_charger_remove :: "'w sgm4154x_device \<Rightarrow> 'w sgm4154x_device" where
  "sgm4154x_charger_remove s =
    call power_supply_unregister
      (call regulator_unregister
        (call (cancel_delayed_work_sync charge_monitor_work) (call device_remove_files s)))"

definition sgm4154x_charger_shutdown :: "'w sgm_work_fun" where
  "sgm4154x_charger_shutdown E s =
    (let (_, s) = (if get_entry_ship_mode E (client s) \<noteq> 0
                   then sgm4154x_update_bits E SGM4154x_CHRG_CTRL_7 SGM4154x_BATFET_DIS_MASK
                          SGM4154x_BATFET_OFF s
                   else (0, s));
         (_, s) = sgm4154x_disable_charger E s
     in s)"

definition sgm4154x_suspend :: "'w sgm4154x_device \<Rightarrow> int \<times> 'w sgm4154x_device" where
  "sgm4154x_suspend s =
    (let s = s\<lparr>is_suspend := True\<rparr>;
         s = (if may_wakeup s then call enable_irq_wake s else s)
     in (0, call disable_irq s))"

definition sgm4154x_resume :: "'w sgm4154x_device \<Rightarrow> int \<times> 'w sgm4154x_device" where
  "sgm4154x_resume s =
    (let s = s\<lparr>is_suspend := False\<rparr>;
         s = call enable_irq s
     in (0, if may_wakeup s then call disable_irq_wake s else s))"

end
