(* ===== verification/Sgm_Limits.thy ===== *)
theory Sgm_Limits
  imports Sgm_Driver
begin

text \<open>
  What the limit setters of sgm415xx.c achieve: the value a limit register
  stands for after a setter, compared with the request, and the fields the
  setters leave alone.  Everything holds for every bus that keeps the contract
  \<open>smbus\<close>.
\<close>

section \<open>The register codes\<close>

lemma ichg_code_value:
  assumes "mx \<le> 3780000"
  shows "unat (ichg_code mx uA) = min (unat uA) (unat mx) div 60000"
  and "unat (ichg_code mx uA) \<le> 63"
proof -
  have m: "unat mx \<le> 3780000"
    using assms by (simp add: word_le_nat_alt)
  have le: "min (unat uA) (unat mx) div 60000 \<le> 63"
    using div_le_mono [OF order.trans [OF min.cobounded2 m], of "unat uA" 60000] by simp
  have c: "unat (if uA > mx then mx else uA) = min (unat uA) (unat mx)"
    by (auto simp: min_def word_le_nat_alt word_less_nat_alt)
  have "unat (ichg_code mx uA) = (min (unat uA) (unat mx) div 60000) mod 256"
    unfolding ichg_code_def Let_def
    by (simp add: unat_u32_to_u8 unat_div c)
  with le show "unat (ichg_code mx uA) = min (unat uA) (unat mx) div 60000" by simp
  with le show "unat (ichg_code mx uA) \<le> 63" by simp
qed

lemma vreg_code_value:
  assumes "3856000 \<le> mx" "mx \<le> 4624000"
  shows "unat (vreg_code mx v) = (max 3856000 (min (unat v) (unat mx)) - 3856000) div 32000"
    and "unat (vreg_code mx v) \<le> 24"
proof -
  have m: "3856000 \<le> unat mx" "unat mx \<le> 4624000"
    using assms by (simp_all add: word_le_nat_alt)
  let ?w = "if v < 3856000 then 3856000 else if v > mx then mx else v"
  have c: "unat ?w = max 3856000 (min (unat v) (unat mx))"
    using m by (auto simp: min_def max_def word_le_nat_alt word_less_nat_alt)
  have ge: "(3856000 :: u32) \<le> ?w"
    using c m by (simp add: word_le_nat_alt del: if_split_asm)
  have s: "unat (?w - 3856000) = max 3856000 (min (unat v) (unat mx)) - 3856000"
    using unat_sub [OF ge] c by simp
  have le: "(max 3856000 (min (unat v) (unat mx)) - 3856000) div 32000 \<le> 24"
    by (rule div_bound) (use m in \<open>auto simp: max_def min_def\<close>)
  have "unat (vreg_code mx v) = ((max 3856000 (min (unat v) (unat mx)) - 3856000) div 32000) mod 256"
    unfolding vreg_code_def Let_def unat_u32_to_u8
    by (simp only: unat_div s) simp
  with le show "unat (vreg_code mx v) = (max 3856000 (min (unat v) (unat mx)) - 3856000) div 32000"
    by simp
  with le show "unat (vreg_code mx v) \<le> 24" by simp
qed

section \<open>Charge current\<close>

text \<open>C19: the charge current the chip is left with is the request, limited to
  \<open>max_ichg\<close> and rounded down to the 60 mA step; reading it back gives it.\<close>

theorem charge_current_roundtrip:
  assumes "smbus B reg cfg"
    and "SGM4154x_ICHRG_I_MASK AND cfg SGM4154x_CHRG_CTRL_2 = SGM4154x_ICHRG_I_MASK"
    and "max_ichg (init_data s) \<le> 3780000"
    and "sgm4154x_set_ichrg_curr uA B s = (0, s')"
    and "sgm4154x_get_ichg_curr B d s' = (0, got, s'')"
  shows "unat got = min (unat uA) (unat (max_ichg (init_data s))) div 60000 * 60000"
proof -
  let ?c = "ichg_code (max_ichg (init_data s)) uA"
  note c = ichg_code_value [OF assms(3), of uA]
  from assms(5) obtain x where x: "sgm4154x_read_reg B SGM4154x_CHRG_CTRL_2 0 s' = (0, x, s'')"
    and got: "got = ucast (x AND SGM4154x_ICHRG_I_MASK) * 60000"
    by (auto simp: sgm4154x_get_ichg_curr_def split: prod.splits if_splits)
  have "x AND SGM4154x_ICHRG_I_MASK = ?c AND SGM4154x_ICHRG_I_MASK"
    using smbus.dev_upd_get [OF assms(1) _ x assms(2)] assms(4)
    by (simp add: sgm4154x_set_ichrg_curr_def)
  then have "unat (x AND SGM4154x_ICHRG_I_MASK) = unat ?c"
    using c(2) by (simp add: SGM4154x_ICHRG_I_MASK_def unat_u8_AND_63)
  then have "unat got = unat ?c * 60000"
    using c(2) unat_mult_u32 [of "ucast (x AND SGM4154x_ICHRG_I_MASK)" 60000] got by simp
  with c(1) show ?thesis by simp
qed

section \<open>Charge voltage\<close>

text \<open>After setting a charge voltage, reading it back succeeds with a value
  within one 32 mV step of the request clamped to the chip's range; it is the
  request rounded down except at the chip's special code for 4.352 V.\<close>

theorem charge_voltage_roundtrip:
  assumes "smbus B reg cfg"
    and "SGM4154x_VREG_V_MASK AND cfg SGM4154x_CHRG_CTRL_4 = SGM4154x_VREG_V_MASK"
    and "3856000 \<le> max_vreg (init_data s)" "max_vreg (init_data s) \<le> 4624000"
    and "sgm4154x_set_chrg_volt uV B s = (0, s')"
    and "sgm4154x_get_chrg_volt B d s' = (0, got, s'')"
    and "v = max 3856000 (min (unat uV) (unat (max_vreg (init_data s))))"
  shows "unat got = (if 4336000 \<le> v \<and> v < 4368000 then 4352000
                     else 3856000 + (v - 3856000) div 32000 * 32000)"
proof -
  let ?c = "vreg_code (max_vreg (init_data s)) uV"
  note c = vreg_code_value [OF assms(3,4), of uV, folded assms(7)]
  from assms(6) obtain x where x: "sgm4154x_read_reg B SGM4154x_CHRG_CTRL_4 0 s' = (0, x, s'')"
    and got: "got = (let v = drop_bit 3 (x AND SGM4154x_VREG_V_MASK)
        in if v = 15 then 4352000 else if v < 25 then ucast v * 32000 + 3856000 else d)"
    by (auto simp: sgm4154x_get_chrg_volt_def Let_def split: prod.splits if_splits)
  have "x AND SGM4154x_VREG_V_MASK = push_bit 3 ?c AND SGM4154x_VREG_V_MASK"
    using smbus.dev_upd_get [OF assms(1) _ x assms(2)] assms(5)
    by (simp add: sgm4154x_set_chrg_volt_def Let_def)
  moreover have "drop_bit 3 (push_bit 3 ?c AND SGM4154x_VREG_V_MASK) = ?c"
  proof -
    have "drop_bit 3 (push_bit 3 ?c AND 0xF8) = ?c AND drop_bit 3 (0xF8 :: u8)"
      by (rule field_shift [of _ _ 5]) (simp add: mask_eq_exp_minus_1)
    also have "\<dots> = ?c AND 31" by simp
    also have "\<dots> = ?c"
      using c(2) by (simp add: word_unat_eq_iff unat_u8_AND_31)
    finally show ?thesis by (simp add: SGM4154x_VREG_V_MASK_def)
  qed
  ultimately have d: "drop_bit 3 (x AND SGM4154x_VREG_V_MASK) = ?c" by simp
  have lt: "?c < 25" using c(2) by (simp add: word_less_nat_alt)
  have eq: "?c = 15 \<longleftrightarrow> unat ?c = 15" by (simp add: word_unat_eq_iff)
  have m: "unat (ucast ?c * 32000 :: u32) = unat ?c * 32000"
    using c(2) unat_mult_u32 [of "ucast ?c" 32000] by simp
  have "unat (ucast ?c * 32000 + 3856000 :: u32) = unat ?c * 32000 + 3856000"
    using c(2) m by (simp add: unat_word_ariths)
  then have "unat got = (if unat ?c = 15 then 4352000 else 3856000 + unat ?c * 32000)"
    using lt unfolding got Let_def d eq by simp
  moreover have "unat ?c = 15 \<longleftrightarrow> 4336000 \<le> v \<and> v < 4368000"
  proof -
    have "3856000 \<le> v" by (simp add: assms(7))
    then show ?thesis unfolding c(1) by auto
  qed
  ultimately show ?thesis using c(1) by simp
qed

section \<open>Input current\<close>

lemma iindpm_code_value:
  assumes "100000 \<le> uA" "uA \<le> 3800000"
  shows "unat (iindpm_code uA) = (if unat uA \<le> 3100000 then (unat uA - 100000) div 100000
     else if unat uA < 3800000 then 30 else 31)"
    and "unat (iindpm_code uA) \<le> 31"
proof -
  have u: "100000 \<le> unat uA" "unat uA \<le> 3800000"
    using assms by (simp_all add: word_le_nat_alt)
  have s: "unat (uA - 100000) = unat uA - 100000"
    using unat_sub [OF assms(1)] by simp
  have b: "unat uA \<le> 3100000 \<Longrightarrow> (unat uA - 100000) div 100000 \<le> 30"
    by (rule div_bound) auto
  show "unat (iindpm_code uA) = (if unat uA \<le> 3100000 then (unat uA - 100000) div 100000
     else if unat uA < 3800000 then 30 else 31)"
    using u b assms
    by (auto simp: iindpm_code_def word_le_nat_alt word_less_nat_alt unat_u32_to_u8
          unat_div s SGM4154x_IINDPM_I_MASK_def)
  then show "unat (iindpm_code uA) \<le> 31" using b by (auto split: if_splits)
qed

text \<open>A request outside 100 mA..3.8 A is refused without touching the chip;
  an accepted one is read back rounded down to 100 mA (3.1 A for requests between
  3.1 A and 3.8 A), so the chip never draws more than was asked.\<close>

theorem input_current_roundtrip:
  assumes "smbus B reg cfg"
    and "SGM4154x_IINDPM_I_MASK AND cfg SGM4154x_CHRG_CTRL_0 = SGM4154x_IINDPM_I_MASK"
    and "sgm4154x_set_input_curr_lim uA B s = (0, s')"
    and "sgm4154x_get_input_curr_lim B d s' = (0, got, s'')"
  shows "unat got = (if unat uA = 3800000 then 3800000
                     else min 3100000 (unat uA div 100000 * 100000))
         \<and> 100000 \<le> unat uA \<and> unat uA \<le> 3800000"
proof -
  from assms(3) have r: "100000 \<le> uA" "uA \<le> 3800000"
    by (auto simp: sgm4154x_set_input_curr_lim_def errno split: if_splits)
  then have u: "100000 \<le> unat uA" "unat uA \<le> 3800000"
    by (simp_all add: word_le_nat_alt)
  let ?c = "iindpm_code uA"
  note c = iindpm_code_value [OF r]
  from assms(4) obtain x where x: "sgm4154x_read_reg B SGM4154x_CHRG_CTRL_0 0 s' = (0, x, s'')"
    and got: "got = (if SGM4154x_IINDPM_I_MASK = x AND SGM4154x_IINDPM_I_MASK then 3800000
        else ucast (x AND SGM4154x_IINDPM_I_MASK) * 100000 + 100000)"
    by (auto simp: sgm4154x_get_input_curr_lim_def split: prod.splits if_splits)
  have "x AND SGM4154x_IINDPM_I_MASK = ?c AND SGM4154x_IINDPM_I_MASK"
  proof -
    have "sgm4154x_update_bits B SGM4154x_CHRG_CTRL_0 SGM4154x_IINDPM_I_MASK ?c s = (0, s')"
      using assms(3) leD [OF r(1)] leD [OF r(2)] by (simp add: sgm4154x_set_input_curr_lim_def)
    from smbus.dev_upd_get [OF assms(1) this x assms(2)] show ?thesis .
  qed
  then have m: "unat (x AND SGM4154x_IINDPM_I_MASK) = unat ?c"
    using c(2) by (simp add: SGM4154x_IINDPM_I_MASK_def unat_u8_AND_31)
  then have e: "SGM4154x_IINDPM_I_MASK = x AND SGM4154x_IINDPM_I_MASK \<longleftrightarrow> unat ?c = 31"
    by (auto simp: word_unat_eq_iff SGM4154x_IINDPM_I_MASK_def)
  have "unat (ucast (x AND SGM4154x_IINDPM_I_MASK) * 100000 :: u32) = unat ?c * 100000"
    using c(2) m unat_mult_u32 [of "ucast (x AND SGM4154x_IINDPM_I_MASK)" 100000] by simp
  then have "unat (ucast (x AND SGM4154x_IINDPM_I_MASK) * 100000 + 100000 :: u32)
      = unat ?c * 100000 + 100000"
    using c(2) by (simp add: unat_word_ariths)
  then have "unat got = (if unat ?c = 31 then 3800000 else unat ?c * 100000 + 100000)"
    by (simp add: got e)
  moreover have "(unat uA - 100000) div 100000 * 100000 + 100000 = unat uA div 100000 * 100000"
    by (rule div_offset) (use u in auto)
  moreover have "unat uA \<le> 3100000 \<Longrightarrow> unat uA div 100000 \<le> 31"
    by (rule div_bound) auto
  ultimately show ?thesis using u c(1) by (auto simp: min_def split: if_splits)
qed

text \<open>The plain bus with a configured device, for the concrete runs.\<close>

definition demo_device :: "(u8 \<Rightarrow> u8) sgm4154x_device" where
  "demo_device = (probe_device0 (\<lambda>_. 0))\<lparr>init_data := \<lparr>ichg = 0, ilim = 2400000, vreg = 0,
     iterm = 0, iprechg = 0, vlim = 0, max_ichg = 3780000, max_vreg = 4624000\<rparr>\<rparr>"

lemma charge_current_roundtrip_witness:
  "\<exists>s' got s''. sgm4154x_set_ichrg_curr 500000 plain_bus demo_device = (0, s')
     \<and> sgm4154x_get_ichg_curr plain_bus 0 s' = (0, got, s'') \<and> unat got = 480000"
proof -
  obtain s' where s': "sgm4154x_set_ichrg_curr 500000 plain_bus demo_device = (0, s')"
    by (simp add: sgm4154x_set_ichrg_curr_def plain_eval)
  obtain got s'' where g: "sgm4154x_get_ichg_curr plain_bus 0 s' = (0, got, s'')"
    by (simp add: sgm4154x_get_ichg_curr_def plain_eval)
  have "unat got = min (unat (500000 :: u32)) (unat (max_ichg (init_data demo_device)))
      div 60000 * 60000"
    by (rule charge_current_roundtrip [OF plain.smbus_axioms _ _ s' g])
      (simp_all add: demo_device_def)
  then have "unat got = 480000" by (simp add: demo_device_def)
  with s' g show ?thesis by blast
qed

lemma charge_voltage_roundtrip_witness:
  "\<exists>s' got s''. sgm4154x_set_chrg_volt 4450000 plain_bus demo_device = (0, s')
     \<and> sgm4154x_get_chrg_volt plain_bus 0 s' = (0, got, s'') \<and> unat got = 4432000"
proof -
  obtain s' where s': "sgm4154x_set_chrg_volt 4450000 plain_bus demo_device = (0, s')"
    by (simp add: sgm4154x_set_chrg_volt_def plain_eval)
  obtain got s'' where g: "sgm4154x_get_chrg_volt plain_bus 0 s' = (0, got, s'')"
    by (simp add: sgm4154x_get_chrg_volt_def plain_eval Let_def)
  have "unat got = (if (4336000 :: nat) \<le> 4450000 \<and> (4450000 :: nat) < 4368000 then 4352000
      else 3856000 + (4450000 - 3856000) div 32000 * 32000)"
    by (rule charge_voltage_roundtrip [OF plain.smbus_axioms _ _ _ s' g])
      (simp_all add: demo_device_def)
  with s' g show ?thesis by simp
qed

lemma input_current_roundtrip_witness:
  "\<exists>s' got s''. sgm4154x_set_input_curr_lim 1550000 plain_bus demo_device = (0, s')
     \<and> sgm4154x_get_input_curr_lim plain_bus 0 s' = (0, got, s'') \<and> unat got = 1500000"
proof -
  obtain s' where s': "sgm4154x_set_input_curr_lim 1550000 plain_bus demo_device = (0, s')"
    by (simp add: sgm4154x_set_input_curr_lim_def plain_eval)
  obtain got s'' where g: "sgm4154x_get_input_curr_lim plain_bus 0 s' = (0, got, s'')"
    by (cases "SGM4154x_IINDPM_I_MASK = client s' SGM4154x_CHRG_CTRL_0 AND SGM4154x_IINDPM_I_MASK")
      (simp_all add: sgm4154x_get_input_curr_lim_def plain_eval)
  have "unat got = (if unat (1550000 :: u32) = 3800000 then 3800000
      else min 3100000 (unat (1550000 :: u32) div 100000 * 100000))"
    using input_current_roundtrip [OF plain.smbus_axioms _ s' g] by simp
  with s' g show ?thesis by simp
qed

end
