(* ===== verification/Sgm_Safety.thy ===== *)
theory Sgm_Safety
  imports Sgm_Limits
begin

text \<open>
  Which bits of the chip the driver's operations and handlers can move: the
  high-impedance bit, the charge-enable bit, the ship-mode bit and the D+/D-
  field; what the sysfs files show after a store; what unplugging does.
\<close>

section \<open>Frame lemmas\<close>

context smbus begin

lemma get_state_keeps: "reg (client (snd (snd (sgm4154x_get_state B st s)))) = reg (client s)"
  by (simp add: sgm4154x_get_state_def case_prod_beta Let_def get_keeps)

lemma charging_status_keeps:
  "reg (client (snd (snd (sgm4154x_get_charging_status B s)))) = reg (client s)"
  by (simp add: sgm4154x_get_charging_status_def case_prod_beta Let_def get_keeps)

lemma dump_from_keeps: "reg (client (snd (snd (dump_from B is vs s)))) = reg (client s)"
  by (induction "is" arbitrary: vs s) (simp_all add: case_prod_beta Let_def get_keeps)

lemma dump_register_keeps: "reg (client (snd (snd (sgm4154x_dump_register B s)))) = reg (client s)"
  by (simp only: sgm4154x_dump_register_def dump_from_keeps)

lemma wakelock_client: "client (chg_wakelock b s) = client s"
  by (simp add: chg_wakelock_def)

lemma do_event_keeps: "reg (client (snd (sgm4154x_do_event e B s))) = reg (client s)"
  by (cases e) (simp_all add: sgm4154x_do_event_def case_prod_beta Let_def get_state_keeps
      wakelock_client)

lemmas getter_keeps = get_keeps get_state_keeps charging_status_keeps dump_register_keeps do_event_keeps

end

fun owns_hiz :: "chg_op \<Rightarrow> bool" where
  "owns_hiz (op_enable_hz _) = True"
| "owns_hiz _ = False"

fun owns_enable :: "chg_op \<Rightarrow> bool" where
  "owns_enable (op_enable _) = True"
| "owns_enable _ = False"

lemmas sgm_op_defs = drop_out_def
  sgm4154x_charging_switch_def sgm4154x_enable_charger_def
  sgm4154x_disable_charger_def sgm4154x_is_charging_def sgm4154x_set_ichrg_curr_def
  sgm4154x_get_ichg_curr_def sgm4154x_set_chrg_volt_def sgm4154x_get_chrg_volt_def
  sgm4154x_set_input_curr_lim_def sgm4154x_get_input_curr_lim_def
  sgm4154x_set_input_volt_lim_def sgm4154x_set_vindpm_offset_os_def
  sgm4154x_get_input_minvolt_lim_def sgm4154x_set_term_curr_def
  sgm4154x_enable_safetytimer_def sgm4154x_set_en_timer_def sgm4154x_set_disable_timer_def
  sgm4154x_get_is_safetytimer_enable_def sgm4154x_reset_watch_dog_timer_def
  sgm4154x_set_wdt_rst_def sgm4154x_en_pe_current_partern_def sgm4154x_enable_otg_def
  sgm4154x_enable_vbus_def sgm4154x_disable_vbus_def sgm4154x_set_boost_current_limit_def
  sgm4154x_pd_adapter_def sgm4154x_set_vreg_ft_def sgm4154x_set_hiz_en_def
  sgm4154x_is_enable_hiz_def sgm4154x_get_hiz_mode_def

context smbus begin

text \<open>Every table entry but the one that owns a field keeps it.\<close>

lemma ops_keep_hiz:
  "\<not> owns_hiz x \<Longrightarrow>
   reg (client (snd (sgm4154x_chg_ops x B s))) SGM4154x_CHRG_CTRL_0 AND SGM4154x_HIZ_EN
     = reg (client s) SGM4154x_CHRG_CTRL_0 AND SGM4154x_HIZ_EN"
  by (cases x)
    (simp_all add: sgm_op_defs getter_keeps upd_keeps case_prod_beta Let_def sgm_regs sgm_fields)

lemma ops_keep_enable:
  "\<not> owns_enable x \<Longrightarrow>
   reg (client (snd (sgm4154x_chg_ops x B s))) SGM4154x_CHRG_CTRL_1 AND SGM4154x_CHRG_EN
     = reg (client s) SGM4154x_CHRG_CTRL_1 AND SGM4154x_CHRG_EN"
  by (cases x)
    (simp_all add: sgm_op_defs getter_keeps upd_keeps case_prod_beta Let_def sgm_regs sgm_fields)

lemma run_ops_keep_hiz:
  "\<forall>x \<in> set xs. \<not> owns_hiz x \<Longrightarrow>
   reg (client (run_ops xs B s)) SGM4154x_CHRG_CTRL_0 AND SGM4154x_HIZ_EN
     = reg (client s) SGM4154x_CHRG_CTRL_0 AND SGM4154x_HIZ_EN"
  by (induction xs arbitrary: s) (simp_all add: ops_keep_hiz)

lemma run_ops_keep_enable:
  "\<forall>x \<in> set xs. \<not> owns_enable x \<Longrightarrow>
   reg (client (run_ops xs B s)) SGM4154x_CHRG_CTRL_1 AND SGM4154x_CHRG_EN
     = reg (client s) SGM4154x_CHRG_CTRL_1 AND SGM4154x_CHRG_EN"
  by (induction xs arbitrary: s) (simp_all add: ops_keep_enable)

end

section \<open>The driver's works and its interrupt handler\<close>

lemma reg_numbers:
  "SGM4154x_CHRG_CTRL_1 \<noteq> SGM4154x_CHRG_CTRL_0" "SGM4154x_CHRG_CTRL_2 \<noteq> SGM4154x_CHRG_CTRL_0"
  "SGM4154x_CHRG_CTRL_7 \<noteq> SGM4154x_CHRG_CTRL_0" "SGM4154x_CHRG_CTRL_2 \<noteq> SGM4154x_CHRG_CTRL_1"
  "SGM4154x_CHRG_CTRL_7 \<noteq> SGM4154x_CHRG_CTRL_1" "SGM4154x_CHRG_CTRL_0 \<noteq> SGM4154x_CHRG_CTRL_1"
  "SGM4154x_CHRG_CTRL_1 \<noteq> SGM4154x_CHRG_CTRL_7"
  by (simp_all add: sgm_regs)

text \<open>The environment of the works: a bus with the contract, and an ADC whose
  reading leaves the charger's configuration alone.\<close>

locale sgm_world = smbus E reg cfg
  for E :: "'w sgm_env" and reg :: "'w \<Rightarrow> u8 \<Rightarrow> u8" and cfg :: "u8 \<Rightarrow> u8" +
  assumes adc_frame: "iio_read_channel_processed E w v = (ret, x, w') \<Longrightarrow> reg w' = reg w"
begin

lemma refresh_keeps: "reg (client (snd (irq_refresh E s))) = reg (client s)"
  by (simp add: irq_refresh_def case_prod_beta Let_def get_state_keeps)

lemma vbus_keeps: "reg (client (snd (snd (sgm4154x_get_vbus E v s)))) = reg (client s)"
  using adc_frame by (simp add: sgm4154x_get_vbus_def case_prod_beta Let_def)
    (metis prod.collapse)

lemma inserted_keeps:
  "reg (client (irq_inserted E s)) SGM4154x_CHRG_CTRL_0 = reg (client s) SGM4154x_CHRG_CTRL_0"
  "reg (client (irq_inserted E s)) SGM4154x_CHRG_CTRL_1 = reg (client s) SGM4154x_CHRG_CTRL_1"
  by (simp_all add: irq_inserted_def sgm4154x_set_ichrg_curr_def sgm4154x_set_vindpm_track_def
      case_prod_beta Let_def upd_keeps_bit reg_numbers wakelock_client)

lemma nonstand_keeps: "reg (client (snd (get_nonstand_charge_type E s))) = reg (client s)"
  by (simp add: get_nonstand_charge_type_def sgm4154x_get_input_curr_lim_def case_prod_beta Let_def
      get_keeps)

lemma set_type_keeps: "reg (client (irq_set_type E s)) = reg (client s)"
  by (simp add: irq_set_type_def irq_float_def irq_non_standard_def case_prod_beta Let_def
      nonstand_keeps)

lemma charge_keeps:
  "reg (client (irq_charge st E s)) SGM4154x_CHRG_CTRL_0 = reg (client s) SGM4154x_CHRG_CTRL_0"
  by (simp add: irq_charge_def sgm4154x_enable_charger_def
      case_prod_beta Let_def getter_keeps upd_keeps_bit set_type_keeps reg_numbers)

lemma checks_keep:
  "reg (client (irq_checks g st E s)) SGM4154x_CHRG_CTRL_0 = reg (client s) SGM4154x_CHRG_CTRL_0"
  by (simp add: irq_checks_def irq_no_vbus_def irq_not_online_def sgm4154x_disable_charger_def
      sgm4154x_dpdm_detect_is_done_def case_prod_beta Let_def get_keeps upd_keeps_bit charge_keeps
      reg_numbers)

lemma removed_clears_hiz:
  assumes "reliable E" "SGM4154x_HIZ_EN AND cfg SGM4154x_CHRG_CTRL_0 = SGM4154x_HIZ_EN"
  shows "reg (client (irq_removed E s)) SGM4154x_CHRG_CTRL_0 AND SGM4154x_HIZ_EN = 0"
  using upd_sets [OF reliable_update_bits [OF assms(1)] assms(2)]
  by (simp add: irq_removed_def case_prod_beta Let_def wakelock_client)

lemma refresh_fields:
  "irq_vbus_gd (snd (irq_refresh E s)) = irq_vbus_gd s"
  "state (snd (irq_refresh E s)) = fst (irq_refresh E s)"
  by (simp_all add: irq_refresh_def case_prod_beta Let_def)

lemma handler_unplug_clears_hiz:
  assumes "reliable E" "SGM4154x_HIZ_EN AND cfg SGM4154x_CHRG_CTRL_0 = SGM4154x_HIZ_EN"
    and "irq_vbus_gd s" "\<not> online (fst (irq_refresh E s))"
    and "chrg_stat (fst (irq_refresh E s)) \<noteq> SGM4154x_TERM_CHRG"
  shows "reg (client (sgm4154x_irq_handler_thread g E s)) SGM4154x_CHRG_CTRL_0 AND SGM4154x_HIZ_EN = 0"
  using assms(3-5)
  by (simp add: sgm4154x_irq_handler_thread_def case_prod_beta Let_def refresh_fields checks_keep
      removed_clears_hiz [OF assms(1,2)])

lemma handler_keeps_hiz:
  assumes "\<not> (irq_vbus_gd s \<and> \<not> online (fst (irq_refresh E s)))"
  shows "reg (client (sgm4154x_irq_handler_thread g E s)) SGM4154x_CHRG_CTRL_0
    = reg (client s) SGM4154x_CHRG_CTRL_0"
  using assms
  by (simp add: sgm4154x_irq_handler_thread_def case_prod_beta Let_def refresh_fields checks_keep
      inserted_keeps refresh_keeps)

lemma checks_disable:
  assumes "reliable E" "SGM4154x_CHRG_EN AND cfg SGM4154x_CHRG_CTRL_1 = SGM4154x_CHRG_EN"
    and "\<not> vbus_gd (state s)"
  shows "reg (client (irq_checks g st E s)) SGM4154x_CHRG_CTRL_1 AND SGM4154x_CHRG_EN = 0"
  using upd_sets [OF reliable_update_bits [OF assms(1)] assms(2), of 0] assms(3)
  by (simp add: irq_checks_def irq_no_vbus_def sgm4154x_disable_charger_def)

lemma removed_state: "state (irq_removed E s) = state s"
  by (simp add: irq_removed_def sgm4154x_hvdcp_ready_def chg_wakelock_def
      case_prod_beta Let_def)

end

interpretation plain_world: sgm_world plain_env "\<lambda>w. w" all_bits
  by (intro sgm_world.intro sgm_world_axioms.intro plain_smbus plain_ops_env)
    (auto simp: plain_env_def)

section \<open>Properties\<close>

lemma hiz_mode_bit:
  "(drop_bit 7 (v AND 0x80) \<noteq> (0 :: u8)) = (v AND 0x80 \<noteq> 0)"
  using and_exp_eq_0_iff_not_bit [of v 7] and_exp_eq_0_iff_not_bit [of "drop_bit 7 v" 0]
  by (simp add: bit_drop_bit_eq)

text \<open>C22: high impedance set through the charger class stays as it was set under any
  sequence of other charger operations, and the \<open>hiz_enable\<close> file then shows it
  (when its read reaches the chip).\<close>

theorem hiz_sticks_and_shows:
  assumes "smbus B reg cfg"
    and "SGM4154x_HIZ_EN AND cfg SGM4154x_CHRG_CTRL_0 = SGM4154x_HIZ_EN"
    and "sgm4154x_chg_ops (op_enable_hz en) B s = (0, s1)"
    and "\<forall>x \<in> set xs. \<not> owns_hiz x"
    and "fst (sgm4154x_read_reg B SGM4154x_CHRG_CTRL_0 0 (run_ops xs B s1)) = 0"
  shows "fst (hiz_enable_show B (run_ops xs B s1)) = Inr (show_bool en)"
proof -
  let ?t = "run_ops xs B s1"
  obtain x t' where x: "sgm4154x_read_reg B SGM4154x_CHRG_CTRL_0 0 ?t = (0, x, t')"
    using assms(5) by (metis prod.collapse)
  have "x AND SGM4154x_HIZ_EN = reg (client ?t) SGM4154x_CHRG_CTRL_0 AND SGM4154x_HIZ_EN"
    by (rule smbus.dev_get_field [OF assms(1) x assms(2)])
  also have "\<dots> = reg (client s1) SGM4154x_CHRG_CTRL_0 AND SGM4154x_HIZ_EN"
    by (rule smbus.run_ops_keep_hiz [OF assms(1,4)])
  also have "\<dots> = (if en then SGM4154x_HIZ_EN else 0)"
    using smbus.dev_upd_field [OF assms(1) _ assms(2)] assms(3)
    by (fastforce simp: sgm4154x_set_hiz_en_def Let_def)
  finally have "(x AND 0x80 \<noteq> 0) = en"
    by (simp add: SGM4154x_HIZ_EN_def split: if_splits)
  then show ?thesis
    using hiz_mode_bit [of x]
    by (simp add: hiz_enable_show_def sgm4154x_is_enable_hiz_def sgm4154x_get_hiz_mode_def x
          SGM4154X_ENHIZ_MASK_def)
qed

lemma hiz_sticks_and_shows_witness:
  "fst (hiz_enable_show plain_bus (run_ops [op_set_charging_current 500000, op_enable_otg True]
     plain_bus (snd (sgm4154x_chg_ops (op_enable_hz True) plain_bus demo_device))))
   = Inr (show_bool True)"
  by (rule hiz_sticks_and_shows [OF plain.smbus_axioms, where s = demo_device])
    (simp_all add: plain_eval sgm4154x_set_hiz_en_def)

text \<open>The charging switch stays as it was set under any sequence of other charger
  operations, and a successful read of the \<open>charging_enable\<close> file shows it.\<close>

theorem charging_switch_sticks_and_shows:
  assumes "smbus B reg cfg"
    and "SGM4154x_CHRG_EN AND cfg SGM4154x_CHRG_CTRL_1 = SGM4154x_CHRG_EN"
    and "sgm4154x_chg_ops (op_enable en) B s = (0, s1)"
    and "\<forall>x \<in> set xs. \<not> owns_enable x"
    and "charging_enable_show B (run_ops xs B s1) = (Inr out, s2)"
  shows "out = show_bool en"
proof -
  let ?t = "run_ops xs B s1"
  obtain ret x t' where x: "sgm4154x_read_reg B SGM4154x_CHRG_CTRL_1 0 ?t = (ret, x, t')"
    by (metis prod.collapse)
  with assms(5) have r: "ret = 0" and out: "out = show_bool (x AND SGM4154x_CHRG_EN \<noteq> 0)"
    by (auto simp: charging_enable_show_def sgm4154x_is_charging_def split: if_splits)
  have "x AND SGM4154x_CHRG_EN = reg (client ?t) SGM4154x_CHRG_CTRL_1 AND SGM4154x_CHRG_EN"
    by (rule smbus.dev_get_field [OF assms(1) x [unfolded r] assms(2)])
  also have "\<dots> = reg (client s1) SGM4154x_CHRG_CTRL_1 AND SGM4154x_CHRG_EN"
    by (rule smbus.run_ops_keep_enable [OF assms(1,4)])
  also have "\<dots> = (if en then SGM4154x_CHRG_EN else 0)"
    using smbus.dev_upd_field [OF assms(1) _ assms(2)] assms(3)
    by (fastforce simp: sgm4154x_charging_switch_def sgm4154x_enable_charger_def
        sgm4154x_disable_charger_def split: if_splits)
  finally show ?thesis by (simp add: out SGM4154x_CHRG_EN_def split: if_splits)
qed

lemma charging_switch_sticks_and_shows_witness:
  "fst (charging_enable_show plain_bus (run_ops [op_enable_hz True, op_kick_wdt]
     plain_bus (snd (sgm4154x_chg_ops (op_enable True) plain_bus demo_device))))
   = Inr (show_bool True)"
proof -
  let ?s1 = "snd (sgm4154x_chg_ops (op_enable True) plain_bus demo_device)"
  let ?t = "run_ops [op_enable_hz True, op_kick_wdt] plain_bus ?s1"
  obtain out s2 where s: "charging_enable_show plain_bus ?t = (Inr out, s2)"
    by (simp add: charging_enable_show_def sgm4154x_is_charging_def plain_eval)
  have "out = show_bool True"
    by (rule charging_switch_sticks_and_shows [OF plain.smbus_axioms _ _ _ s,
          where s = demo_device])
      (simp_all add: plain_eval sgm4154x_charging_switch_def sgm4154x_enable_charger_def)
  with s show ?thesis by simp
qed

text \<open>C21: unplugging the adapter clears high impedance: when the handler sees the
  input go away, the bit is 0 afterwards; on every other run the handler leaves
  the bit as it was.\<close>

theorem unplug_clears_hiz:
  assumes "sgm_world E reg cfg" "reliable E"
    and "SGM4154x_HIZ_EN AND cfg SGM4154x_CHRG_CTRL_0 = SGM4154x_HIZ_EN"
    and "chrg_stat (fst (irq_refresh E s)) \<noteq> SGM4154x_TERM_CHRG"
  shows "reg (client (sgm4154x_irq_handler_thread g E s)) SGM4154x_CHRG_CTRL_0 AND SGM4154x_HIZ_EN
    = (if irq_vbus_gd s \<and> \<not> online (fst (irq_refresh E s)) then 0
       else reg (client s) SGM4154x_CHRG_CTRL_0 AND SGM4154x_HIZ_EN)"
  using sgm_world.handler_unplug_clears_hiz [OF assms(1-3) _ _ assms(4)]
    sgm_world.handler_keeps_hiz [OF assms(1)]
  by auto

text \<open>A plugged device in high impedance whose chip no longer reports an input.\<close>

definition unplugged_demo :: "(u8 \<Rightarrow> u8) sgm4154x_device" where
  "unplugged_demo = demo_device\<lparr>client := (\<lambda>r. if r = 0 then 0x80 else 0), irq_vbus_gd := True\<rparr>"

lemma plain_refresh:
  "fst (irq_refresh plain_env unplugged_demo) = state0\<lparr>hiz_en := True\<rparr>"
  by (simp add: irq_refresh_def sgm4154x_get_state_def plain_eval unplugged_demo_def
      state_of_stat_def state0_def sgm_regs sgm_fields)

lemma unplugged_was_plugged: "irq_vbus_gd unplugged_demo"
  by (simp add: unplugged_demo_def)

lemma unplug_clears_hiz_witness:
  "client unplugged_demo SGM4154x_CHRG_CTRL_0 AND SGM4154x_HIZ_EN \<noteq> 0
   \<and> client (sgm4154x_irq_handler_thread 0 plain_env unplugged_demo) SGM4154x_CHRG_CTRL_0
       AND SGM4154x_HIZ_EN = 0"
proof -
  have "client (sgm4154x_irq_handler_thread 0 plain_env unplugged_demo) SGM4154x_CHRG_CTRL_0
       AND SGM4154x_HIZ_EN = (if irq_vbus_gd unplugged_demo
          \<and> \<not> online (fst (irq_refresh plain_env unplugged_demo)) then 0
        else client unplugged_demo SGM4154x_CHRG_CTRL_0 AND SGM4154x_HIZ_EN)"
    by (rule unplug_clears_hiz [OF plain_world.sgm_world_axioms plain_reliable])
      (simp_all add: plain_refresh state0_def SGM4154x_TERM_CHRG_def)
  moreover note unplugged_was_plugged
  moreover have "\<not> online (fst (irq_refresh plain_env unplugged_demo))"
    by (simp add: plain_refresh state0_def)
  moreover have "client unplugged_demo SGM4154x_CHRG_CTRL_0 AND SGM4154x_HIZ_EN \<noteq> 0"
    by (simp add: unplugged_demo_def sgm_regs sgm_fields)
  ultimately show ?thesis by simp
qed

text \<open>When the chip reports no good VBUS and the handler does not take its
  insertion or charge-done exits, charging is off when the handler returns.\<close>

theorem no_vbus_stops_charging:
  assumes "sgm_world E reg cfg" "reliable E"
    and "SGM4154x_CHRG_EN AND cfg SGM4154x_CHRG_CTRL_1 = SGM4154x_CHRG_EN"
    and "\<not> vbus_gd (fst (irq_refresh E s))"
    and "chrg_stat (fst (irq_refresh E s)) \<noteq> SGM4154x_TERM_CHRG"
    and "irq_vbus_gd s \<or> \<not> online (fst (irq_refresh E s))"
  shows "reg (client (sgm4154x_irq_handler_thread g E s)) SGM4154x_CHRG_CTRL_1
      AND SGM4154x_CHRG_EN = 0"
  using assms(4-6) sgm_world.checks_disable [OF assms(1-3)]
  by (auto simp: sgm4154x_irq_handler_thread_def case_prod_beta Let_def
      sgm_world.refresh_fields [OF assms(1)] sgm_world.removed_state [OF assms(1)])

lemma no_vbus_stops_charging_witness:
  "client (sgm4154x_irq_handler_thread 0 plain_env unplugged_demo) SGM4154x_CHRG_CTRL_1
     AND SGM4154x_CHRG_EN = 0"
  by (rule no_vbus_stops_charging [OF plain_world.sgm_world_axioms plain_reliable])
    (simp_all add: plain_refresh state0_def SGM4154x_TERM_CHRG_def unplugged_was_plugged)

text \<open>Shutting down never puts the battery switch into ship mode, requested or
  not: the write masks the value 1 with bit 5.  Charging is switched off.\<close>

theorem shutdown_never_enters_ship_mode:
  assumes "smbus E reg cfg" "reliable E"
    and "SGM4154x_CHRG_EN AND cfg SGM4154x_CHRG_CTRL_1 = SGM4154x_CHRG_EN"
    and "SGM4154x_BATFET_DIS_MASK AND cfg SGM4154x_CHRG_CTRL_7 = SGM4154x_BATFET_DIS_MASK"
    and "reg (client s) SGM4154x_CHRG_CTRL_7 AND SGM4154x_BATFET_DIS_MASK = 0"
  shows "reg (client (sgm4154x_charger_shutdown E s)) SGM4154x_CHRG_CTRL_7
      AND SGM4154x_BATFET_DIS_MASK = 0
    \<and> reg (client (sgm4154x_charger_shutdown E s)) SGM4154x_CHRG_CTRL_1
      AND SGM4154x_CHRG_EN = 0"
proof -
  have z: "SGM4154x_BATFET_OFF AND SGM4154x_BATFET_DIS_MASK = 0"
    by (simp add: sgm_fields)
  have "reg (client (sgm4154x_charger_shutdown E s)) SGM4154x_CHRG_CTRL_7
      AND SGM4154x_BATFET_DIS_MASK = 0"
    using assms(5) smbus.upd_sets [OF assms(1) reliable_update_bits [OF assms(2)] assms(4)]
    by (simp add: sgm4154x_charger_shutdown_def sgm4154x_disable_charger_def case_prod_beta Let_def
        smbus.upd_keeps_bit [OF assms(1)] reg_numbers z)
  moreover have "reg (client (sgm4154x_charger_shutdown E s)) SGM4154x_CHRG_CTRL_1
      AND SGM4154x_CHRG_EN = 0"
    using smbus.upd_sets [OF assms(1) reliable_update_bits [OF assms(2)] assms(3)]
    by (simp add: sgm4154x_charger_shutdown_def sgm4154x_disable_charger_def case_prod_beta Let_def)
  ultimately show ?thesis ..
qed

lemma shutdown_never_enters_ship_mode_witness:
  "get_entry_ship_mode plain_env (client demo_device) = 1
   \<and> client (sgm4154x_charger_shutdown plain_env demo_device) SGM4154x_CHRG_CTRL_7
      AND SGM4154x_BATFET_DIS_MASK = 0"
proof -
  have "client (sgm4154x_charger_shutdown plain_env demo_device) SGM4154x_CHRG_CTRL_7
      AND SGM4154x_BATFET_DIS_MASK = 0"
    using shutdown_never_enters_ship_mode [OF plain_smbus plain_reliable, where s = demo_device]
    by (simp add: demo_device_def probe_device0_def)
  then show ?thesis by (simp add: plain_env_def)
qed

text \<open>The D+ selection is high impedance after every \<open>sgm4154x_set_dpdm\<close>,
  whichever voltage was asked for: the value is masked before it is shifted.  D- is
  driven only for the values 2 and 3.\<close>

lemma dpdm_code_values:
  "dp \<in> {0, 1, 2, 3} \<Longrightarrow> dm \<in> {0, 1, 2, 3} \<Longrightarrow>
   dpdm_code dp dm = (if dm \<in> {2, 3} then 4 else 0)"
  by (auto simp: dpdm_code_def sgm_fields)

theorem set_dpdm_leaves_dp_floating:
  assumes "smbus B reg cfg"
    and "0x1E AND cfg SGM4154x_CHRG_CTRL_d = 0x1E"
    and "sgm4154x_set_dpdm dp dm B s = (0, s')"
    and "dp \<in> {0, 1, 2, 3}" "dm \<in> {0, 1, 2, 3}"
  shows "reg (client s') SGM4154x_CHRG_CTRL_d AND SGM4154x_DP_VSEL_MASK = 0
    \<and> reg (client s') SGM4154x_CHRG_CTRL_d AND SGM4154x_DM_VSEL_MASK
      = (if dm \<in> {2, 3} then 4 else 0)"
proof -
  have m: "SGM4154x_DP_VSEL_MASK OR SGM4154x_DM_VSEL_MASK = 0x1E" by (simp add: sgm_fields)
  have "reg (client s') SGM4154x_CHRG_CTRL_d AND 0x1E = dpdm_code dp dm AND 0x1E"
    using smbus.dev_upd_field [OF assms(1) _ assms(2)] assms(3)
    by (simp add: sgm4154x_set_dpdm_def m)
  also have "\<dots> = (if dm \<in> {2, 3} then 4 else 0)"
    by (simp add: dpdm_code_values [OF assms(4,5)])
  finally have f: "reg (client s') SGM4154x_CHRG_CTRL_d AND 0x1E = (if dm \<in> {2, 3} then 4 else 0)" .
  have "reg (client s') SGM4154x_CHRG_CTRL_d AND SGM4154x_DP_VSEL_MASK
      = (reg (client s') SGM4154x_CHRG_CTRL_d AND 0x1E) AND 0x18"
    by (simp add: sgm_fields and.assoc)
  then have dp: "reg (client s') SGM4154x_CHRG_CTRL_d AND SGM4154x_DP_VSEL_MASK = 0"
    unfolding f by (simp split: if_splits)
  have "reg (client s') SGM4154x_CHRG_CTRL_d AND SGM4154x_DM_VSEL_MASK
      = (reg (client s') SGM4154x_CHRG_CTRL_d AND 0x1E) AND 0x06"
    by (simp add: sgm_fields and.assoc)
  then have "reg (client s') SGM4154x_CHRG_CTRL_d AND SGM4154x_DM_VSEL_MASK
      = (if dm \<in> {2, 3} then 4 else 0)"
    unfolding f by (simp split: if_splits)
  with dp show ?thesis ..
qed

lemma set_dpdm_leaves_dp_floating_witness:
  "client (snd (sgm4154x_set_dpdm SGM_DP_DM_VOL_0P6 SGM_DP_DM_VOL_0P6 plain_bus demo_device))
     SGM4154x_CHRG_CTRL_d AND SGM4154x_DP_VSEL_MASK = 0"
  by (rule conjunct1 [OF set_dpdm_leaves_dp_floating [OF plain.smbus_axioms]])
    (auto simp: sgm4154x_set_dpdm_def plain_eval sgm_fields)

text \<open>No status read ever leads to the health values \<open>OVERHEAT\<close> or \<open>COLD\<close>: the
  mask of the NTC field keeps three bits and both codes use a fourth.\<close>

lemma state_health:
  "sgm4154x_get_state B st s = (0, st', s') \<Longrightarrow> health st' = health st' AND SGM4154x_TEMP_MASK"
  by (auto simp: sgm4154x_get_state_def case_prod_beta Let_def state_of_stat_def split: if_splits)

theorem health_never_hot_or_cold:
  assumes "sgm4154x_get_state B st s = (0, st', s')"
  shows "psy_health_value st' \<in> {POWER_SUPPLY_HEALTH_GOOD, POWER_SUPPLY_HEALTH_OVERVOLTAGE}"
proof -
  have h: "health st' AND 0xF8 = 0"
  proof -
    have "health st' AND 0xF8 = (health st' AND 7) AND 0xF8"
      using state_health [OF assms] by (simp add: SGM4154x_TEMP_MASK_def)
    also have "\<dots> = 0" by (simp add: and.assoc)
    finally show ?thesis .
  qed
  then have "health st' \<noteq> 0x0C" "health st' \<noteq> 0x09" by auto
  then show ?thesis
    by (auto simp: psy_health_value_def Let_def sgm_fields)
qed

lemma health_never_hot_or_cold_witness:
  "\<exists>st' s'. sgm4154x_get_state plain_bus state0 (demo_device\<lparr>client := (\<lambda>_. 0xFF)\<rparr>) = (0, st', s')
     \<and> psy_health_value st' \<in> {POWER_SUPPLY_HEALTH_GOOD, POWER_SUPPLY_HEALTH_OVERVOLTAGE}"
proof -
  obtain st' s' where s:
    "sgm4154x_get_state plain_bus state0 (demo_device\<lparr>client := (\<lambda>_. 0xFF)\<rparr>) = (0, st', s')"
    by (simp add: sgm4154x_get_state_def plain_eval)
  show ?thesis using health_never_hot_or_cold [OF s] s by blast
qed

end
