(* ===== verification/Sgm_Init.thy ===== *)
theory Sgm_Init
  imports Sgm_Safety
begin

text \<open>
  The input-voltage limit (MIVR), the boost voltage, the configuration the
  driver's \<open>hw_init\<close> leaves in the chip, and the bound on the HVDCP retries.
\<close>

section \<open>Input-voltage limit\<close>

text \<open>How the chip reads the offset and value fields back into microvolts (the
  driver's own reader, lines 530-558 of sgm415xx.c, is compiled out).\<close>

definition chip_vindpm_uV :: "u8 \<Rightarrow> u8 \<Rightarrow> nat" where
  "chip_vindpm_uV os code =
    (let offset = (if os = 0 then 3900000 else if os = 1 then 5900000
                   else if os = 2 then 7500000 else 10500000)
     in offset + unat (code AND 0x0F) * 100000)"

lemma vindpm_range_nat:
  assumes "3900000 \<le> v" "v \<le> 12000000"
  shows "vindpm_range v = (if unat v < 5900000 then (0, 3900000)
     else if unat v < 7500000 then (1, 5900000)
     else if unat v < 10500000 then (2, 7500000) else (3, 10500000))"
    and "unat (snd (vindpm_range v)) \<le> unat v"
    and "unat v - unat (snd (vindpm_range v)) < 3000000"
  using assms by (auto simp: vindpm_range_def word_le_nat_alt word_less_nat_alt)

lemma vindpm_code_nat:
  assumes "3900000 \<le> v" "v \<le> 12000000"
  shows "unat ((ucast ((v - snd (vindpm_range v)) div 100000) :: u8) AND 0x0F)
      = ((unat v - unat (snd (vindpm_range v))) div 100000) mod 16"
proof -
  note r = vindpm_range_nat [OF assms]
  have "unat (v - snd (vindpm_range v)) = unat v - unat (snd (vindpm_range v))"
    by (rule unat_sub) (simp add: word_le_nat_alt r(2))
  moreover have "(unat v - unat (snd (vindpm_range v))) div 100000 \<le> 29"
    by (rule div_bound) (use r(3) in auto)
  ultimately show ?thesis
    by (simp add: unat_u8_AND_15 unat_u32_to_u8 unat_div)
qed

text \<open>The four windows in natural numbers.\<close>

lemma mivr_windows:
  assumes "3900000 \<le> x" "x \<le> (12000000 :: nat)"
    and "c = (if x < 5900000 then 3900000 else if x < 7500000 then 5900000
              else if x < 10500000 then 7500000 else 10500000)"
  shows "c + ((x - c) div 100000) mod 16 * 100000
    = x div 100000 * 100000
      - (if 5500000 \<le> x \<and> x < 5900000 \<or> 9100000 \<le> x \<and> x < 10500000 then 1600000 else 0)"
proof -
  have c: "c \<le> x" "100000 dvd c" using assms by auto
  let ?q = "(x - c) div 100000"
  have "?q * 100000 + c = x div 100000 * 100000" by (rule div_offset [OF c]) simp
  moreover have "?q mod 16 = (if ?q < 16 then ?q else ?q - 16)"
  proof -
    have "?q < 32" using assms by (auto simp: div_less_iff_less_mult)
    then show ?thesis by (simp add: mod_if)
  qed
  moreover have "?q < 16 \<longleftrightarrow> \<not> (5500000 \<le> x \<and> x < 5900000 \<or> 9100000 \<le> x \<and> x < 10500000)"
    using assms by (auto simp: div_less_iff_less_mult)
  ultimately show ?thesis by (auto simp: algebra_simps)
qed

text \<open>C24: a request outside 3.9 V..12 V is refused; an accepted one leaves the chip
  at the request rounded down to 100 mV, except in the windows 5.5-5.9 V and
  9.1-10.5 V, where the four-bit code overflows and the limit is 1.6 V too low.\<close>

theorem mivr_effective:
  assumes "smbus B reg cfg" "reliable B"
    and "0x0F AND cfg SGM4154x_CHRG_CTRL_6 = 0x0F" "0x03 AND cfg SGM4154x_CHRG_CTRL_f = 0x03"
    and "sgm4154x_set_input_volt_lim v B s = (0, s')"
  shows "chip_vindpm_uV (reg (client s') SGM4154x_CHRG_CTRL_f AND 0x03)
           (reg (client s') SGM4154x_CHRG_CTRL_6)
      = unat v div 100000 * 100000
        - (if 5500000 \<le> unat v \<and> unat v < 5900000 \<or> 9100000 \<le> unat v \<and> unat v < 10500000
           then 1600000 else 0)"
proof -
  from assms(5) have r: "3900000 \<le> v" "v \<le> 12000000"
    by (auto simp: sgm4154x_set_input_volt_lim_def errno not_less split: if_splits)
  then have n: "3900000 \<le> unat v" "unat v \<le> 12000000" by (simp_all add: word_le_nat_alt)
  define s1 where "s1 = snd (sgm4154x_set_vindpm_offset_os (fst (vindpm_range v)) B s)"
  define k where "k = (ucast ((v - snd (vindpm_range v)) div 100000) :: u8)"
  have up: "sgm4154x_update_bits B SGM4154x_CHRG_CTRL_6 SGM4154x_VINDPM_V_MASK k s1 = (0, s')"
    using assms(5) leD [OF r(1)] leD [OF r(2)]
    by (simp add: sgm4154x_set_input_volt_lim_def case_prod_beta s1_def k_def Let_def)
  have v6: "reg (client s') SGM4154x_CHRG_CTRL_6 AND 0x0F = k AND 0x0F"
    using smbus.dev_upd_field [OF assms(1) up] assms(3) by (simp add: SGM4154x_VINDPM_V_MASK_def)
  have "reg (client s') SGM4154x_CHRG_CTRL_f = reg (client s1) SGM4154x_CHRG_CTRL_f"
    by (rule smbus.dev_upd_other_reg [OF assms(1) up]) (simp add: sgm_regs)
  also have "reg (client s1) SGM4154x_CHRG_CTRL_f AND 0x03 = fst (vindpm_range v) AND 0x03"
    using smbus.upd_sets [OF assms(1) reliable_update_bits [OF assms(2)]] assms(4)
    by (simp add: s1_def sgm4154x_set_vindpm_offset_os_def SGM4154x_VINDPM_OS_MASK_def)
  finally have f: "reg (client s') SGM4154x_CHRG_CTRL_f AND 0x03 = fst (vindpm_range v) AND 0x03" .
  show ?thesis
    unfolding chip_vindpm_uV_def f v6 Let_def k_def vindpm_code_nat [OF r]
      mivr_windows [OF n refl, symmetric]
    by (simp add: vindpm_range_nat(1) [OF r])
qed

lemma mivr_effective_witness:
  "\<exists>s'. sgm4154x_set_input_volt_lim 5600000 plain_bus demo_device = (0, s')
    \<and> chip_vindpm_uV (client s' SGM4154x_CHRG_CTRL_f AND 0x03)
        (client s' SGM4154x_CHRG_CTRL_6) = 4000000"
proof -
  obtain s' where s: "sgm4154x_set_input_volt_lim 5600000 plain_bus demo_device = (0, s')"
    by (simp add: sgm4154x_set_input_volt_lim_def vindpm_range_def
        sgm4154x_set_vindpm_offset_os_def plain_eval)
  have "chip_vindpm_uV (client s' SGM4154x_CHRG_CTRL_f AND 0x03)
        (client s' SGM4154x_CHRG_CTRL_6) = 4000000"
    using mivr_effective [OF plain.smbus_axioms plain_reliable _ _ s] by simp
  with s show ?thesis by blast
qed

section \<open>Boost voltage\<close>

text \<open>The boost voltage setter never reports an unsupported request: a value
  outside the table selects the highest entry, 5.3 V.\<close>

theorem boost_voltage_default_is_highest:
  assumes "smbus B reg cfg"
    and "SGM4154x_BOOSTV AND cfg SGM4154x_CHRG_CTRL_6 = SGM4154x_BOOSTV"
    and "sgm4154x_set_boost_voltage_limit uV B s = (0, s')"
  shows "BOOST_VOLT_LIMIT ! unat (drop_bit 4 (reg (client s') SGM4154x_CHRG_CTRL_6 AND SGM4154x_BOOSTV))
    = (if uV \<in> set BOOST_VOLT_LIMIT then uV else 5300000)"
proof -
  let ?i = "boost_volt_search uV BOOST_VOLT_LIMIT 0 (- 1)"
  have "reg (client s') SGM4154x_CHRG_CTRL_6 AND SGM4154x_BOOSTV = push_bit 4 ?i AND SGM4154x_BOOSTV"
    using smbus.dev_upd_field [OF assms(1) _ assms(2)] assms(3)
    by (auto simp: sgm4154x_set_boost_voltage_limit_def Let_def split: if_splits)
  moreover have "unat (drop_bit 4 (push_bit 4 ?i AND SGM4154x_BOOSTV))
      = (if uV = 4850000 then 0 else if uV = 5000000 then 1 else if uV = 5150000 then 2 else 3)"
  proof -
    have "(- 1 :: u8) = 255" by simp
    then show ?thesis
      unfolding BOOST_VOLT_LIMIT_def SGM4154x_BOOSTV_def by (simp only:) simp
  qed
  ultimately show ?thesis by (simp add: BOOST_VOLT_LIMIT_def)
qed

lemma boost_voltage_default_is_highest_witness:
  "\<exists>s'. sgm4154x_set_boost_voltage_limit 12000000 plain_bus demo_device = (0, s')
    \<and> BOOST_VOLT_LIMIT ! unat (drop_bit 4 (client s' SGM4154x_CHRG_CTRL_6 AND SGM4154x_BOOSTV))
        = 5300000"
proof -
  obtain s' where s: "sgm4154x_set_boost_voltage_limit 12000000 plain_bus demo_device = (0, s')"
    by (simp add: sgm4154x_set_boost_voltage_limit_def BOOST_VOLT_LIMIT_def plain_eval)
  show ?thesis
    using boost_voltage_default_is_highest [OF plain.smbus_axioms _ s] s
    by (simp add: BOOST_VOLT_LIMIT_def)
qed

section \<open>Chip initialisation\<close>

lemmas sgm_step_defs = sgm4154x_set_watchdog_timer_def sgm4154x_set_ichrg_curr_def
  sgm4154x_set_prechrg_curr_def sgm4154x_set_chrg_volt_def sgm4154x_set_term_curr_def
  sgm4154x_set_input_curr_lim_def sgm4154x_set_recharge_volt_def Let_def

text \<open>C31: a successful \<open>hw_init\<close> leaves the chip at 2.04 A charge current, the codes
  of 4.496 V charge voltage, 180 mA precharge and 180 mA termination current, the
  input limit of the device tree and the recharge bit set, on any bus.\<close>

theorem hw_init_configuration:
  assumes "smbus B reg cfg"
    and "\<forall>r \<in> {SGM4154x_CHRG_CTRL_0, SGM4154x_CHRG_CTRL_2, SGM4154x_CHRG_CTRL_3,
                SGM4154x_CHRG_CTRL_4}. cfg r = 0xFF"
    and "sgm4154x_hw_init B s = (0, s')"
  shows "reg (client s') SGM4154x_CHRG_CTRL_2 AND SGM4154x_ICHRG_I_MASK = 34
    \<and> reg (client s') SGM4154x_CHRG_CTRL_4 AND SGM4154x_VREG_V_MASK = push_bit 3 20
    \<and> reg (client s') SGM4154x_CHRG_CTRL_3 AND SGM4154x_PRECHRG_CUR_MASK = push_bit 4 2
    \<and> reg (client s') SGM4154x_CHRG_CTRL_3 AND SGM4154x_TERMCHRG_CUR_MASK = 2
    \<and> reg (client s') SGM4154x_CHRG_CTRL_4 AND SGM4154x_VRECHARGE = 1
    \<and> reg (client s') SGM4154x_CHRG_CTRL_0 AND SGM4154x_IINDPM_I_MASK
        = iindpm_code (ilim (init_data s)) AND SGM4154x_IINDPM_I_MASK"
proof -
  define s0 where "s0 = s\<lparr>init_data := (init_data s)\<lparr>max_ichg := 3780000, max_vreg := 4624000\<rparr>\<rparr>"
  define s1 where "s1 = snd (sgm4154x_set_watchdog_timer 0 B s0)"
  define s2 where "s2 = snd (sgm4154x_set_ichrg_curr 2040000 B s1)"
  define s3 where "s3 = snd (sgm4154x_set_prechrg_curr 180000 B s2)"
  define s4 where "s4 = snd (sgm4154x_set_chrg_volt 4520000 B s3)"
  define s5 where "s5 = snd (sgm4154x_set_term_curr 180000 B s4)"
  define s6 where "s6 = snd (sgm4154x_set_input_curr_lim (ilim (init_data s5)) B s5)"
  note steps = assms(3) [unfolded sgm4154x_hw_init_def case_prod_beta Let_def,
      folded s0_def, folded s1_def, folded s2_def, folded s3_def, folded s4_def, folded s5_def,
      folded s6_def]
  have ok: "fst (sgm4154x_set_ichrg_curr 2040000 B s1) = 0"
    "fst (sgm4154x_set_prechrg_curr 180000 B s2) = 0"
    "fst (sgm4154x_set_chrg_volt 4520000 B s3) = 0"
    "fst (sgm4154x_set_term_curr 180000 B s4) = 0"
    "fst (sgm4154x_set_input_curr_lim (ilim (init_data s5)) B s5) = 0"
    "fst (sgm4154x_set_recharge_volt 100 B s6) = 0"
    and s': "s' = snd (sgm4154x_set_recharge_volt 100 B s6)"
    using steps by (auto split: if_splits)
  have i: "init_data s1 = init_data s0" "init_data s3 = init_data s0" "init_data s5 = init_data s0"
    by (simp_all add: s1_def s2_def s3_def s4_def s5_def sgm_step_defs)
  have m: "max_ichg (init_data s0) = 3780000" "max_vreg (init_data s0) = 4624000"
    "ilim (init_data s0) = ilim (init_data s)"
    by (simp_all add: s0_def)
  have codes: "ichg_code 3780000 2040000 = 34" "vreg_code 4624000 4520000 = 20"
    "term_curr_code 180000 = 2" "(word_of_int ((180000 - 60000) sdiv 60000) :: u8) = 2"
    "(word_of_int ((100 - 200) sdiv 100) :: u8) AND 1 = 1"
    by (simp_all add: ichg_code_def vreg_code_def term_curr_code_def)
  note set = smbus.upd_sets [OF assms(1)] and bit = smbus.upd_keeps_bit [OF assms(1)]
    and keep = smbus.upd_keeps [OF assms(1)]
  have r2: "reg (client s2) 2 AND 0x3F = 34"
    using ok(1) assms(2) set [of 2 "0x3F" 34 s1] codes(1)
    by (simp add: s2_def sgm4154x_set_ichrg_curr_def i m sgm_regs sgm_fields)
  have r3: "reg (client s3) 3 AND 0xF0 = 0x20"
    using ok(2) assms(2) set [of 3 "0xF0" "0x20" s2] codes(4)
    by (simp add: s3_def sgm4154x_set_prechrg_curr_def Let_def sgm_regs sgm_fields)
  have r4: "reg (client s4) 4 AND 0xF8 = 0xA0"
    using ok(3) assms(2) set [of 4 "0xF8" "0xA0" s3] codes(2)
    by (simp add: s4_def sgm4154x_set_chrg_volt_def Let_def i m sgm_regs sgm_fields)
  have r5: "reg (client s5) 3 AND 0x0F = 2"
    using ok(4) assms(2) set [of 3 "0x0F" 2 s4] codes(3)
    by (simp add: s5_def sgm4154x_set_term_curr_def sgm_regs sgm_fields)
  have up6: "s6 = snd (sgm4154x_update_bits B 0 0x1F (iindpm_code (ilim (init_data s))) s5)
      \<and> fst (sgm4154x_update_bits B 0 0x1F (iindpm_code (ilim (init_data s))) s5) = 0"
    using ok(5) by (simp add: s6_def sgm4154x_set_input_curr_lim_def i m errno sgm_regs sgm_fields
        split: if_splits)
  have r6: "reg (client s6) 0 AND 0x1F = iindpm_code (ilim (init_data s)) AND 0x1F"
    using up6 assms(2) set [of 0 "0x1F" "iindpm_code (ilim (init_data s))" s5]
    by (simp add: sgm_regs)
  have r7: "reg (client s') 4 AND 1 = 1"
    using ok(6) assms(2) set [of 4 1 _ s6] codes(5)
    by (simp add: s' sgm4154x_set_recharge_volt_def Let_def sgm_regs sgm_fields)
  have k3: "reg (client s3) 2 = reg (client s2) 2"
    by (simp add: s3_def sgm4154x_set_prechrg_curr_def Let_def bit sgm_regs)
  have k4: "reg (client s4) 2 = reg (client s3) 2" "reg (client s4) 3 = reg (client s3) 3"
    by (simp_all add: s4_def sgm4154x_set_chrg_volt_def Let_def bit sgm_regs)
  have k5: "reg (client s5) 2 = reg (client s4) 2" "reg (client s5) 4 = reg (client s4) 4"
    "reg (client s5) 3 AND 0xF0 = reg (client s4) 3 AND 0xF0"
    by (simp_all add: s5_def sgm4154x_set_term_curr_def bit keep sgm_regs sgm_fields)
  have k6: "reg (client s6) 2 = reg (client s5) 2" "reg (client s6) 3 = reg (client s5) 3"
    "reg (client s6) 4 = reg (client s5) 4"
    by (simp_all add: conjunct1 [OF up6] bit)
  have k7: "reg (client s') 2 = reg (client s6) 2" "reg (client s') 3 = reg (client s6) 3"
    "reg (client s') 0 = reg (client s6) 0" "reg (client s') 4 AND 0xF8 = reg (client s6) 4 AND 0xF8"
    by (simp_all add: s' sgm4154x_set_recharge_volt_def Let_def bit keep sgm_regs sgm_fields)
  show ?thesis
    using r2 r3 r4 r5 r6 r7
    by (simp add: k3 k4 k5 k6 k7 sgm_regs sgm_fields)
qed

lemma hw_init_configuration_witness:
  "\<exists>s'. sgm4154x_hw_init plain_bus demo_device = (0, s')
    \<and> client s' SGM4154x_CHRG_CTRL_2 AND SGM4154x_ICHRG_I_MASK = 34"
proof -
  obtain s' where s: "sgm4154x_hw_init plain_bus demo_device = (0, s')"
    by (simp add: sgm4154x_hw_init_def sgm_step_defs plain_eval demo_device_def)
  show ?thesis
    using hw_init_configuration [OF plain.smbus_axioms _ s] s by (simp add: all_bits_def)
qed

section \<open>The HVDCP retries\<close>

lemma vbus_fields [simp]:
  "hvdcp_detect_count (snd (snd (sgm4154x_get_vbus E v s))) = hvdcp_detect_count s"
  "pd_adapter (snd (snd (sgm4154x_get_vbus E v s))) = pd_adapter s"
  "hvdcp_disable (snd (snd (sgm4154x_get_vbus E v s))) = hvdcp_disable s"
  "calls (snd (snd (sgm4154x_get_vbus E v s))) = calls s"
  by (simp_all add: sgm4154x_get_vbus_def case_prod_beta Let_def)

lemma set_hvdcp20_fields [simp]:
  "hvdcp_detect_count (snd (sgm4154x_charging_set_hvdcp20 n E s)) = hvdcp_detect_count s"
  "calls (snd (sgm4154x_charging_set_hvdcp20 n E s)) = calls s"
  by (simp_all add: sgm4154x_charging_set_hvdcp20_def sgm4154x_set_dpdm_def
      sgm4154x_enable_qc20_hvdcp_9v_def case_prod_beta Let_def)

lemma back_to_5v_fields:
  "hvdcp_detect_count (hvdcp_back_to_5v n v E s) = hvdcp_detect_count s"
  "calls (hvdcp_back_to_5v n v E s) = calls s"
  by (induction n arbitrary: v s) (simp_all add: case_prod_beta Let_def)

lemma hvdcp_start_fields:
  "hvdcp_detect_count (hvdcp_start E s) = hvdcp_detect_count s"
  "calls (hvdcp_start E s) = calls s"
  by (simp_all add: hvdcp_start_def sgm4154x_set_dpdm_def case_prod_beta Let_def)

text \<open>The HVDCP work keeps its attempt counter between 0 and 3, and it reschedules
  itself only by raising the counter: at most three times before it starts over.\<close>

theorem hvdcp_attempts_bounded:
  assumes "0 \<le> hvdcp_detect_count s" "hvdcp_detect_count s \<le> 3"
  shows "let s' = sgm4154x_chg_type_hvdcp_work v E s in
      0 \<le> hvdcp_detect_count s' \<and> hvdcp_detect_count s' \<le> 3
      \<and> (schedule_delayed_work hvdcp_work (ms 2000) \<in> set (drop (length (calls s)) (calls s'))
           \<longrightarrow> hvdcp_detect_count s' = hvdcp_detect_count s + 1)"
  using assms
  by (auto simp: sgm4154x_chg_type_hvdcp_work_def sgm4154x_set_dpdm_def sgm4154x_hvdcp_ready_def
      hvdcp_start_fields back_to_5v_fields case_prod_beta Let_def)

lemma hvdcp_attempts_bounded_witness:
  "hvdcp_detect_count (sgm4154x_chg_type_hvdcp_work 0 plain_env demo_device) \<le> 3"
  using hvdcp_attempts_bounded [of demo_device 0 plain_env]
  by (simp add: demo_device_def probe_device0_def Let_def)

end
