(* ===== verification/Mm_Battery.thy ===== *)
theory Mm_Battery
  imports Power_Supply
begin

text \<open>
  The battery gauge core, mm8xxx_battery.c: the register map, the sealed access
  to the chip's data memory, the readings and the cache the poll keeps of them,
  and the power-supply properties, with the bypass-charging overrides.  The
  transport (\<open>di->bus\<close>) is a record of functions on the outside state \<open>'w\<close>;
  mm8xxx_battery_i2c provides it (theory \<open>Mm_I2c\<close>).
\<close>

section \<open>Registers and flags\<close>

datatype mm8xxx_reg_index =
    MM8XXX_REG_CTRL | MM8XXX_REG_TEMP | MM8XXX_REG_INT_TEMP | MM8XXX_REG_VOLT | MM8XXX_REG_AI
  | MM8XXX_REG_FLAGS | MM8XXX_REG_TTE | MM8XXX_REG_TTF | MM8XXX_REG_TTES | MM8XXX_REG_TTECP
  | MM8XXX_REG_NAC | MM8XXX_REG_RC | MM8XXX_REG_FCC | MM8XXX_REG_CYCT | MM8XXX_REG_AE
  | MM8XXX_REG_SOC | MM8XXX_REG_SOH | MM8XXX_REG_CHARGEVOLTAGE | MM8XXX_REG_DCAP | MM8XXX_REG_AP
  | MM8XXX_DM_CTRL | MM8XXX_DM_CLASS | MM8XXX_DM_BLOCK | MM8XXX_DM_DATA | MM8XXX_DM_CKSUM
  | MM8XXX_REG_ELAPSEDTIMEM | MM8XXX_REG_ELAPSEDTIMED | MM8XXX_REG_ELAPSEDTIMEH

definition INVALID_REG_ADDR :: u8 where "INVALID_REG_ADDR = 0xff"

fun mm8013c10_regs :: "mm8xxx_reg_index \<Rightarrow> u8" where
  "mm8013c10_regs MM8XXX_REG_CTRL = 0x00"
| "mm8013c10_regs MM8XXX_REG_TEMP = 0x06"
| "mm8013c10_regs MM8XXX_REG_INT_TEMP = 0x28"
| "mm8013c10_regs MM8XXX_REG_VOLT = 0x08"
| "mm8013c10_regs MM8XXX_REG_AI = 0x14"
| "mm8013c10_regs MM8XXX_REG_FLAGS = 0x0a"
| "mm8013c10_regs MM8XXX_REG_TTE = 0x16"
| "mm8013c10_regs MM8XXX_REG_TTF = INVALID_REG_ADDR"
| "mm8013c10_regs MM8XXX_REG_TTES = INVALID_REG_ADDR"
| "mm8013c10_regs MM8XXX_REG_TTECP = INVALID_REG_ADDR"
| "mm8013c10_regs MM8XXX_REG_NAC = 0x0c"
| "mm8013c10_regs MM8XXX_REG_RC = 0x10"
| "mm8013c10_regs MM8XXX_REG_FCC = 0x12"
| "mm8013c10_regs MM8XXX_REG_CYCT = 0x2a"
| "mm8013c10_regs MM8XXX_REG_AE = INVALID_REG_ADDR"
| "mm8013c10_regs MM8XXX_REG_SOC = 0x2c"
| "mm8013c10_regs MM8XXX_REG_SOH = 0x2e"
| "mm8013c10_regs MM8XXX_REG_CHARGEVOLTAGE = 0x30"
| "mm8013c10_regs MM8XXX_REG_DCAP = 0x3c"
| "mm8013c10_regs MM8XXX_REG_AP = INVALID_REG_ADDR"
| "mm8013c10_regs MM8XXX_DM_CTRL = 0x61"
| "mm8013c10_regs MM8XXX_DM_CLASS = 0x3e"
| "mm8013c10_regs MM8XXX_DM_BLOCK = 0x3f"
| "mm8013c10_regs MM8XXX_DM_DATA = 0x40"
| "mm8013c10_regs MM8XXX_DM_CKSUM = 0x60"
| "mm8013c10_regs MM8XXX_REG_ELAPSEDTIMEM = 0x74"
| "mm8013c10_regs MM8XXX_REG_ELAPSEDTIMED = 0x76"
| "mm8013c10_regs MM8XXX_REG_ELAPSEDTIMEH = 0x78"

text \<open>Flag and option masks by bit number: \<open>has x n\<close> is the C test \<open>x & BIT(n)\<close>.\<close>

definition has :: "int \<Rightarrow> nat \<Rightarrow> bool" where
  "has x n = bit x n"

definition FLAG_SOCF :: nat where "FLAG_SOCF = 1"
definition FLAG_SOC1 :: nat where "FLAG_SOC1 = 2"
definition FLAG_UT :: nat where "FLAG_UT = 3"
definition FLAG_OT :: nat where "FLAG_OT = 4"
definition FLAG_FC :: nat where "FLAG_FC = 9"
definition FLAG_OTD :: nat where "FLAG_OTD = 14"
definition FLAG_OTC :: nat where "FLAG_OTC = 15"
definition O_ZERO :: nat where "O_ZERO = 0"
definition O_OTDC :: nat where "O_OTDC = 1"
definition O_UTOT :: nat where "O_UTOT = 2"
definition O_CFGUP :: nat where "O_CFGUP = 3"
definition O_RAM :: nat where "O_RAM = 4"
definition MM8013C10_O_BITS :: nat where "MM8013C10_O_BITS = 5"
definition O_SOC_SI :: nat where "O_SOC_SI = 6"
definition O_MUL_CHEM :: nat where "O_MUL_CHEM = 8"

named_theorems mm_bits "bit numbers of the gauge's flags and options"
lemmas [mm_bits] = FLAG_SOCF_def FLAG_SOC1_def FLAG_UT_def FLAG_OT_def FLAG_FC_def FLAG_OTD_def
  FLAG_OTC_def O_ZERO_def O_OTDC_def O_UTOT_def O_CFGUP_def O_RAM_def MM8013C10_O_BITS_def
  O_SOC_SI_def O_MUL_CHEM_def

section \<open>State\<close>

text \<open>\<open>struct mm8xxx_access_methods\<close>: a missing method is \<open>None\<close>.  \<open>bus_read_bulk\<close>
  returns the content of the caller's buffer after the call.\<close>

record 'w mm8xxx_access_methods =
  bus_read :: "'w \<Rightarrow> u8 \<Rightarrow> bool \<Rightarrow> int \<times> 'w"
  bus_write :: "('w \<Rightarrow> u8 \<Rightarrow> int \<Rightarrow> bool \<Rightarrow> int \<times> 'w) option"
  bus_read_bulk :: "('w \<Rightarrow> u8 \<Rightarrow> u8 list \<Rightarrow> nat \<Rightarrow> int \<times> u8 list \<times> 'w) option"
  bus_write_bulk :: "('w \<Rightarrow> u8 \<Rightarrow> u8 list \<Rightarrow> nat \<Rightarrow> int \<times> 'w) option"

record mm8xxx_reg_cache =
  temperature :: int
  time_to_empty :: int
  time_to_empty_avg :: int
  time_to_full :: int
  charge_full :: int
  cycle_count :: int
  capacity :: int
  energy :: int
  flags :: int
  health_c :: psenum
  elapsed_months :: int
  elapsed_days :: int
  elapsed_hours :: int

text \<open>The zeroed cache; a zero health is the kernel's unknown health.\<close>

definition cache0 :: mm8xxx_reg_cache where
  "cache0 = \<lparr>temperature = 0, time_to_empty = 0, time_to_empty_avg = 0, time_to_full = 0,
     charge_full = 0, cycle_count = 0, capacity = 0, energy = 0, flags = 0,
     health_c = POWER_SUPPLY_HEALTH_UNKNOWN, elapsed_months = 0, elapsed_days = 0,
     elapsed_hours = 0\<rparr>"

record mm8xxx_bypass_setting =
  bp_enable :: bool
  low_capacity :: u16
  high_capacity :: u16

record mm8xxx_dm_reg =
  subclass_id :: u8
  dm_offset :: u8
  dm_bytes :: u8
  dm_min :: u16
  dm_max :: u16

datatype mm8xxx_dm_reg_id =
  MM8XXX_DM_DESIGN_CAPACITY | MM8XXX_DM_DESIGN_ENERGY | MM8XXX_DM_TERMINATE_VOLTAGE

datatype mm_call = mm_schedule_work nat | mm_cancel_work | mm_power_supply_changed
  | mm_power_supply_register | mm_power_supply_unregister | mm_idr_remove
  | mm_create_files | mm_remove_files | mm_request_irq

text \<open>\<open>suspend_flag\<close>, \<open>poll_interval\<close> and \<open>last_current\<close> are the file's and the
  property function's statics; \<open>mm_calls\<close> logs the kernel services.\<close>

record 'w mm8xxx_device_info =
  world :: 'w
  opts :: int
  dm_regs :: "(mm8xxx_dm_reg_id \<Rightarrow> mm8xxx_dm_reg) option"
  unseal_key :: u32
  regs :: "mm8xxx_reg_index \<Rightarrow> u8"
  cache :: mm8xxx_reg_cache
  charge_design_full :: int
  last_update :: nat
  cdev_unseal_code :: u32
  bypass_setting :: mm8xxx_bypass_setting
  suspend_flag :: bool
  poll_interval :: nat
  last_current :: int
  on_list :: bool
  mm_calls :: "mm_call list"

definition mm_call_log :: "mm_call \<Rightarrow> 'w mm8xxx_device_info \<Rightarrow> 'w mm8xxx_device_info" where
  "mm_call_log c di = di\<lparr>mm_calls := mm_calls di @ [c]\<rparr>"

section \<open>Register access\<close>

type_synonym 'w mm_bus = "'w mm8xxx_access_methods"

definition mm8xxx_read ::
  "'w mm_bus \<Rightarrow> mm8xxx_reg_index \<Rightarrow> bool \<Rightarrow> 'w mm8xxx_device_info \<Rightarrow> int \<times> 'w mm8xxx_device_info" where
  "mm8xxx_read B i single di =
    (if regs di i = INVALID_REG_ADDR then (- EINVAL, di)
     else let (ret, w) = bus_read B (world di) (regs di i) single in (ret, di\<lparr>world := w\<rparr>))"

definition mm8xxx_write ::
  "'w mm_bus \<Rightarrow> mm8xxx_reg_index \<Rightarrow> u16 \<Rightarrow> bool \<Rightarrow> 'w mm8xxx_device_info
    \<Rightarrow> int \<times> 'w mm8xxx_device_info" where
  "mm8xxx_write B i value single di =
    (if regs di i = INVALID_REG_ADDR then (- EINVAL, di)
     else case bus_write B of
       None \<Rightarrow> (- EPERM, di)
     | Some wr \<Rightarrow>
         let (ret, w) = wr (world di) (regs di i) (uint value) single in (ret, di\<lparr>world := w\<rparr>))"

definition mm8xxx_read_block ::
  "'w mm_bus \<Rightarrow> mm8xxx_reg_index \<Rightarrow> u8 list \<Rightarrow> nat \<Rightarrow> 'w mm8xxx_device_info
    \<Rightarrow> int \<times> u8 list \<times> 'w mm8xxx_device_info" where
  "mm8xxx_read_block B i data len di =
    (if regs di i = INVALID_REG_ADDR then (- EINVAL, data, di)
     else case bus_read_bulk B of
       None \<Rightarrow> (- EPERM, data, di)
     | Some rd \<Rightarrow>
         let (ret, data, w) = rd (world di) (regs di i) data len in (ret, data, di\<lparr>world := w\<rparr>))"

definition mm8xxx_write_block ::
  "'w mm_bus \<Rightarrow> mm8xxx_reg_index \<Rightarrow> u8 list \<Rightarrow> nat \<Rightarrow> 'w mm8xxx_device_info
    \<Rightarrow> int \<times> 'w mm8xxx_device_info" where
  "mm8xxx_write_block B i data len di =
    (if regs di i = INVALID_REG_ADDR then (- EINVAL, di)
     else case bus_write_bulk B of
       None \<Rightarrow> (- EPERM, di)
     | Some wr \<Rightarrow>
         let (ret, w) = wr (world di) (regs di i) data len in (ret, di\<lparr>world := w\<rparr>))"

definition mm8xxx_battery_seal ::
  "'w mm_bus \<Rightarrow> 'w mm8xxx_device_info \<Rightarrow> int \<times> 'w mm8xxx_device_info" where
  "mm8xxx_battery_seal B di =
    (let (ret, di) = mm8xxx_write B MM8XXX_REG_CTRL 0x20 False di in
     if ret < 0 then (ret, di) else (0, di))"

definition mm8xxx_battery_unseal ::
  "'w mm_bus \<Rightarrow> 'w mm8xxx_device_info \<Rightarrow> int \<times> 'w mm8xxx_device_info" where
  "mm8xxx_battery_unseal B di =
    (if unseal_key di = 0 then (- EINVAL, di)
     else
       let (ret, di) = mm8xxx_write B MM8XXX_REG_CTRL (ucast (drop_bit 16 (unseal_key di))) False di in
       if ret < 0 then (ret, di)
       else
         let (ret, di) = mm8xxx_write B MM8XXX_REG_CTRL (ucast (unseal_key di)) False di in
         if ret < 0 then (ret, di) else (0, di))"

section \<open>Data memory blocks\<close>

text \<open>\<open>MM8XXX_DM_SZ\<close> bytes of data memory.  \<open>d16\<close> and \<open>set_d16\<close> are the
  big-endian 16-bit access through the pointer of \<open>mm8xxx_dm_reg_ptr\<close>.\<close>

record mm8xxx_dm_buf =
  dm_class :: u8
  dm_block :: u8
  dm_data :: "u8 list"
  has_data :: bool
  dirty :: bool

definition MM8XXX_DM_SZ :: nat where "MM8XXX_DM_SZ = 32"

definition MM8XXX_DM_BUF :: "mm8xxx_dm_reg \<Rightarrow> mm8xxx_dm_buf" where
  "MM8XXX_DM_BUF r = \<lparr>dm_class = subclass_id r, dm_block = dm_offset r div 32,
     dm_data = replicate 32 0, has_data = False, dirty = False\<rparr>"

definition mm8xxx_dm_reg_ptr :: "mm8xxx_dm_buf \<Rightarrow> mm8xxx_dm_reg \<Rightarrow> nat option" where
  "mm8xxx_dm_reg_ptr b r =
    (if dm_class b = subclass_id r \<and> dm_block b = dm_offset r div 32
     then Some (unat (dm_offset r mod 32)) else None)"

definition d16 :: "u8 list \<Rightarrow> nat \<Rightarrow> nat" where
  "d16 d i = unat (d ! i) * 256 + unat (d ! (i + 1))"

definition set_d16 :: "u8 list \<Rightarrow> nat \<Rightarrow> u16 \<Rightarrow> u8 list" where
  "set_d16 d i v = d[i := ucast (drop_bit 8 v), i + 1 := ucast v]"

text \<open>The sum runs in a \<open>u16\<close>; 32 bytes cannot overflow it.\<close>

fun sum_bytes :: "u8 list \<Rightarrow> u16" where
  "sum_bytes [] = 0"
| "sum_bytes (b # bs) = ucast b + sum_bytes bs"

definition mm8xxx_battery_checksum_dm_block :: "mm8xxx_dm_buf \<Rightarrow> u8" where
  "mm8xxx_battery_checksum_dm_block b =
    (let s = sum_bytes (take MM8XXX_DM_SZ (dm_data b)) AND 0xff in ucast (0xff - s))"

definition mm8xxx_battery_read_dm_block ::
  "'w mm_bus \<Rightarrow> mm8xxx_dm_buf \<Rightarrow> 'w mm8xxx_device_info \<Rightarrow> int \<times> mm8xxx_dm_buf \<times> 'w mm8xxx_device_info"
where
  "mm8xxx_battery_read_dm_block B b di =
    (let b = b\<lparr>has_data := False\<rparr>;
         (ret, di) = mm8xxx_write B MM8XXX_DM_CLASS (ucast (dm_class b)) True di in
     if ret < 0 then (ret, b, di)
     else let (ret, di) = mm8xxx_write B MM8XXX_DM_BLOCK (ucast (dm_block b)) True di in
     if ret < 0 then (ret, b, di)
     else let (ret, d, di) = mm8xxx_read_block B MM8XXX_DM_DATA (dm_data b) MM8XXX_DM_SZ di;
              b = b\<lparr>dm_data := d\<rparr> in
     if ret < 0 then (ret, b, di)
     else let (ret, di) = mm8xxx_read B MM8XXX_DM_CKSUM True di in
     if ret < 0 then (ret, b, di)
     else if word_of_int ret \<noteq> mm8xxx_battery_checksum_dm_block b then (- EINVAL, b, di)
     else (0, b\<lparr>has_data := True, dirty := False\<rparr>, di))"

text \<open>\<open>CONFIG_BATTERY_MM8XXX_DT_UPDATES_NVM\<close> and the module parameter
  \<open>mm8xxx_dt_to_nvm\<close> are the arguments \<open>cfg_nvm\<close> and \<open>dt_to_nvm\<close>.\<close>

definition mm8xxx_battery_update_dm_block ::
  "bool \<Rightarrow> bool \<Rightarrow> 'w mm8xxx_device_info \<Rightarrow> mm8xxx_dm_reg \<Rightarrow> u32 \<Rightarrow> mm8xxx_dm_buf \<Rightarrow> mm8xxx_dm_buf" where
  "mm8xxx_battery_update_dm_block cfg_nvm dt_to_nvm di r val b =
    (case mm8xxx_dm_reg_ptr b r of
       None \<Rightarrow> b
     | Some prev \<Rightarrow>
         if dm_bytes r \<noteq> 2 then b
         else if \<not> has_data b then b
         else if d16 (dm_data b) prev = unat val then b
         else if (if cfg_nvm then \<not> has (opts di) O_RAM \<and> \<not> dt_to_nvm else \<not> has (opts di) O_RAM)
         then b
         else b\<lparr>dm_data := set_d16 (dm_data b) prev (ucast val), dirty := True\<rparr>)"

text \<open>The wait for the configuration-update flag: \<open>t\<close> reads are left.  The flag
  mask \<open>MM8XXX_FLAG_CFGUP\<close> is 0 on this chip.\<close>

definition FLAG_CFGUP :: int where "FLAG_CFGUP = 0"

fun cfgupdate_wait :: "'w mm_bus \<Rightarrow> bool \<Rightarrow> nat \<Rightarrow> 'w mm8xxx_device_info \<Rightarrow> int \<times> 'w mm8xxx_device_info" where
  "cfgupdate_wait B active 0 di = (0, di)"
| "cfgupdate_wait B active (Suc t) di =
    (let (ret, di) = mm8xxx_read B MM8XXX_REG_FLAGS False di in
     if ret < 0 then (ret, di)
     else if (ret AND FLAG_CFGUP \<noteq> 0) \<noteq> active then cfgupdate_wait B active t di
     else (0, di))"

definition mm8xxx_battery_cfgupdate_priv ::
  "'w mm_bus \<Rightarrow> bool \<Rightarrow> 'w mm8xxx_device_info \<Rightarrow> int \<times> 'w mm8xxx_device_info" where
  "mm8xxx_battery_cfgupdate_priv B active di =
    (let cmd = (if active then 0 else 0);
         (ret, di) = mm8xxx_write B MM8XXX_REG_CTRL cmd False di in
     if ret < 0 then (ret, di) else cfgupdate_wait B active 100 di)"

definition mm8xxx_battery_set_cfgupdate ::
  "'w mm_bus \<Rightarrow> 'w mm8xxx_device_info \<Rightarrow> int \<times> 'w mm8xxx_device_info" where
  "mm8xxx_battery_set_cfgupdate B di = mm8xxx_battery_cfgupdate_priv B True di"

definition mm8xxx_battery_soft_reset ::
  "'w mm_bus \<Rightarrow> 'w mm8xxx_device_info \<Rightarrow> int \<times> 'w mm8xxx_device_info" where
  "mm8xxx_battery_soft_reset B di = mm8xxx_battery_cfgupdate_priv B False di"

text \<open>The block write; \<open>write_dm_body\<close> is its part up to the label \<open>out\<close>.\<close>

definition write_dm_body ::
  "'w mm_bus \<Rightarrow> mm8xxx_dm_buf \<Rightarrow> 'w mm8xxx_device_info \<Rightarrow> int \<times> 'w mm8xxx_device_info" where
  "write_dm_body B b di =
    (let (ret, di) = mm8xxx_write B MM8XXX_DM_CTRL 0 True di in
     if ret < 0 then (ret, di)
     else let (ret, di) = mm8xxx_write B MM8XXX_DM_CLASS (ucast (dm_class b)) True di in
     if ret < 0 then (ret, di)
     else let (ret, di) = mm8xxx_write B MM8XXX_DM_BLOCK (ucast (dm_block b)) True di in
     if ret < 0 then (ret, di)
     else let (ret, di) = mm8xxx_write_block B MM8XXX_DM_DATA (dm_data b) MM8XXX_DM_SZ di in
     if ret < 0 then (ret, di)
     else mm8xxx_write B MM8XXX_DM_CKSUM (ucast (mm8xxx_battery_checksum_dm_block b)) True di)"

definition mm8xxx_battery_write_dm_block ::
  "'w mm_bus \<Rightarrow> mm8xxx_dm_buf \<Rightarrow> 'w mm8xxx_device_info \<Rightarrow> int \<times> mm8xxx_dm_buf \<times> 'w mm8xxx_device_info"
where
  "mm8xxx_battery_write_dm_block B b di =
    (let cfgup = has (opts di) O_CFGUP in
     if \<not> dirty b then (0, b, di)
     else let (ret, di) = (if cfgup then mm8xxx_battery_set_cfgupdate B di else (0, di)) in
     if ret < 0 then (ret, b, di)
     else let (ret, di) = write_dm_body B b di in
     if ret < 0 then
       (ret, b, if cfgup then snd (mm8xxx_battery_soft_reset B di) else di)
     else let (ret, di) = (if cfgup then mm8xxx_battery_soft_reset B di else (0, di)) in
     if ret < 0 then (ret, b, di) else (0, b\<lparr>dirty := False\<rparr>, di))"

record power_supply_battery_info =
  charge_full_design_uah :: int
  energy_full_design_uwh :: int
  voltage_min_design_uv :: int

definition mm8xxx_battery_set_config ::
  "bool \<Rightarrow> bool \<Rightarrow> 'w mm_bus \<Rightarrow> (mm8xxx_dm_reg_id \<Rightarrow> mm8xxx_dm_reg) \<Rightarrow> power_supply_battery_info
    \<Rightarrow> 'w mm8xxx_device_info \<Rightarrow> 'w mm8xxx_device_info" where
  "mm8xxx_battery_set_config cfg_nvm dt_to_nvm B dmr info di =
    (let bd = MM8XXX_DM_BUF (dmr MM8XXX_DM_DESIGN_CAPACITY);
         bt = MM8XXX_DM_BUF (dmr MM8XXX_DM_TERMINATE_VOLTAGE);
         upd = mm8xxx_battery_update_dm_block cfg_nvm dt_to_nvm di;
         (ret, di) = mm8xxx_battery_unseal B di in
     if ret < 0 then di
     else
       let (bd, di) =
         (if charge_full_design_uah info \<noteq> - EINVAL \<and> energy_full_design_uwh info \<noteq> - EINVAL then
            let (_, bd, di) = mm8xxx_battery_read_dm_block B bd di;
                bd = upd (dmr MM8XXX_DM_DESIGN_CAPACITY)
                       (word_of_int (charge_full_design_uah info sdiv 1000)) bd;
                bd = upd (dmr MM8XXX_DM_DESIGN_ENERGY)
                       (word_of_int (energy_full_design_uwh info sdiv 1000)) bd
            in (bd, di)
          else (bd, di));
           (bd, bt, di) =
         (if voltage_min_design_uv info \<noteq> - EINVAL then
            let same = (dm_class bd = dm_class bt \<and> dm_block bd = dm_block bt);
                (bt, di) = (if \<not> same then
                              let (_, bt, di) = mm8xxx_battery_read_dm_block B bt di in (bt, di)
                            else (bt, di));
                v = word_of_int (voltage_min_design_uv info sdiv 1000);
                r = dmr MM8XXX_DM_TERMINATE_VOLTAGE
            in if same then (upd r v bd, bt, di) else (bd, upd r v bt, di)
          else (bd, bt, di));
           updated = (dirty bd \<or> dirty bt);
           (_, bd, di) = mm8xxx_battery_write_dm_block B bd di;
           (_, bt, di) = mm8xxx_battery_write_dm_block B bt di;
           (_, di) = mm8xxx_battery_seal B di
       in if updated \<and> \<not> has (opts di) O_CFGUP
          then snd (mm8xxx_write B MM8XXX_REG_CTRL 0x41 False di) else di)"

text \<open>The settings routine works on its own zeroed structure \<open>info\<close>; the kernel's
  answer (\<open>ret\<close>) is stored behind another pointer and is not looked at again.
  The comparisons with the limits are unsigned.\<close>

definition mm8xxx_battery_settings ::
  "bool \<Rightarrow> bool \<Rightarrow> int \<Rightarrow> 'w mm_bus \<Rightarrow> 'w mm8xxx_device_info \<Rightarrow> 'w mm8xxx_device_info" where
  "mm8xxx_battery_settings cfg_nvm dt_to_nvm ret B di =
    (if ret < 0 then di
     else case dm_regs di of
       None \<Rightarrow> di
     | Some dmr \<Rightarrow>
         let info = \<lparr>charge_full_design_uah = 0, energy_full_design_uwh = 0,
                     voltage_min_design_uv = 0\<rparr>;
             mx = (\<lambda>i. ucast (dm_max (dmr i)) * 1000 :: u32);
             mn = (\<lambda>i. ucast (dm_min (dmr i)) * 1000 :: u32);
             u = (\<lambda>x. word_of_int x :: u32);
             info = (if u (energy_full_design_uwh info) > mx MM8XXX_DM_DESIGN_ENERGY
                     then info\<lparr>energy_full_design_uwh := - EINVAL\<rparr> else info);
             info = (if u (charge_full_design_uah info) > mx MM8XXX_DM_DESIGN_CAPACITY
                     then info\<lparr>charge_full_design_uah := - EINVAL\<rparr> else info);
             v = voltage_min_design_uv info;
             info = (if (u v < mn MM8XXX_DM_TERMINATE_VOLTAGE \<or> u v > mx MM8XXX_DM_TERMINATE_VOLTAGE)
                        \<and> v \<noteq> - EINVAL
                     then info\<lparr>voltage_min_design_uv := - EINVAL\<rparr> else info)
         in if (energy_full_design_uwh info \<noteq> - EINVAL \<and> charge_full_design_uah info \<noteq> - EINVAL)
               \<or> voltage_min_design_uv info \<noteq> - EINVAL
            then mm8xxx_battery_set_config cfg_nvm dt_to_nvm B dmr info di else di)"

section \<open>Readings\<close>

type_synonym 'w mm_reader = "'w mm_bus \<Rightarrow> 'w mm8xxx_device_info \<Rightarrow> int \<times> 'w mm8xxx_device_info"

definition mm8xxx_battery_read_soc :: "'w mm_reader" where
  "mm8xxx_battery_read_soc B di =
    (if has (opts di) O_SOC_SI then mm8xxx_read B MM8XXX_REG_SOC True di
     else mm8xxx_read B MM8XXX_REG_SOC False di)"

definition mm8xxx_battery_read_soh :: "'w mm_reader" where
  "mm8xxx_battery_read_soh B di =
    (let (soh, di) = mm8xxx_read B MM8XXX_REG_SOH False di;
         soh = soh + 2
     in (if soh > 100 then 100 else soh, di))"

definition mm8xxx_battery_read_charge :: "mm8xxx_reg_index \<Rightarrow> 'w mm_reader" where
  "mm8xxx_battery_read_charge i B di =
    (let (charge, di) = mm8xxx_read B i False di in
     if charge < 0 then (charge, di)
     else if has (opts di) O_ZERO then (s32 (charge * (3570 sdiv 20)), di)
     else (s32 (charge * 1000), di))"

definition mm8xxx_battery_read_nac :: "'w mm_reader" where
  "mm8xxx_battery_read_nac B di =
    (let di = (if has (opts di) O_ZERO then snd (mm8xxx_read B MM8XXX_REG_FLAGS True di) else di)
     in mm8xxx_battery_read_charge MM8XXX_REG_NAC B di)"

definition mm8xxx_battery_read_rc :: "'w mm_reader" where
  "mm8xxx_battery_read_rc B di = mm8xxx_battery_read_charge MM8XXX_REG_RC B di"

definition mm8xxx_battery_read_fcc :: "'w mm_reader" where
  "mm8xxx_battery_read_fcc B di = mm8xxx_battery_read_charge MM8XXX_REG_FCC B di"

definition mm8xxx_battery_read_dcap :: "'w mm_reader" where
  "mm8xxx_battery_read_dcap B di =
    (let (dcap, di) = (if has (opts di) O_ZERO then mm8xxx_read B MM8XXX_REG_DCAP True di
                       else mm8xxx_read B MM8XXX_REG_DCAP False di) in
     if dcap < 0 then (dcap, di)
     else if has (opts di) O_ZERO then (s32 (s32 (dcap * 256) * 3570) sdiv 20, di)
     else (s32 (dcap * 1000), di))"

definition mm8xxx_battery_read_energy :: "'w mm_reader" where
  "mm8xxx_battery_read_energy B di =
    (let (ae, di) = mm8xxx_read B MM8XXX_REG_AE False di in
     if ae < 0 then (ae, di)
     else if has (opts di) O_ZERO then (s32 (ae * (29200 sdiv 20)), di)
     else (s32 (ae * 1000), di))"

definition mm8xxx_battery_read_temperature :: "'w mm_reader" where
  "mm8xxx_battery_read_temperature B di =
    (let (temp, di) = mm8xxx_read B MM8XXX_REG_TEMP False di in
     if temp < 0 then (temp, di)
     else if has (opts di) O_ZERO then (5 * temp sdiv 2, di)
     else (temp, di))"

definition mm8xxx_battery_read_cyct :: "'w mm_reader" where
  "mm8xxx_battery_read_cyct B di = mm8xxx_read B MM8XXX_REG_CYCT False di"

definition mm8xxx_battery_read_time :: "mm8xxx_reg_index \<Rightarrow> 'w mm_reader" where
  "mm8xxx_battery_read_time i B di =
    (let (tval, di) = mm8xxx_read B i False di in
     if tval < 0 then (tval, di)
     else if tval = 65535 then (- ENODATA, di)
     else (tval * 60, di))"

definition mm8xxx_battery_overtemp :: "'w mm8xxx_device_info \<Rightarrow> int \<Rightarrow> bool" where
  "mm8xxx_battery_overtemp di fl =
    (if has (opts di) O_OTDC \<and> has (opts di) O_UTOT
     then has fl FLAG_OTC \<or> has fl FLAG_OTD \<or> has fl FLAG_OT
     else if has (opts di) O_OTDC then has fl FLAG_OTC \<or> has fl FLAG_OTD
     else if has (opts di) O_UTOT then has fl FLAG_OT
     else False)"

definition mm8xxx_battery_undertemp :: "'w mm8xxx_device_info \<Rightarrow> int \<Rightarrow> bool" where
  "mm8xxx_battery_undertemp di fl = (if has (opts di) O_UTOT then has fl FLAG_UT else False)"

definition mm8xxx_battery_dead :: "'w mm8xxx_device_info \<Rightarrow> int \<Rightarrow> bool" where
  "mm8xxx_battery_dead di fl =
    (if has (opts di) MM8013C10_O_BITS then has fl FLAG_SOCF
     else has fl FLAG_SOC1 \<or> has fl FLAG_SOCF)"

definition mm8xxx_battery_read_health :: "'w mm8xxx_device_info \<Rightarrow> psenum" where
  "mm8xxx_battery_read_health di =
    (if mm8xxx_battery_overtemp di (flags (cache di)) then POWER_SUPPLY_HEALTH_OVERHEAT
     else if mm8xxx_battery_undertemp di (flags (cache di)) then POWER_SUPPLY_HEALTH_COLD
     else if mm8xxx_battery_dead di (flags (cache di)) then POWER_SUPPLY_HEALTH_DEAD
     else POWER_SUPPLY_HEALTH_GOOD)"

definition mm8xxx_battery_read_chargevoltage :: "'w mm_reader" where
  "mm8xxx_battery_read_chargevoltage B di = mm8xxx_read B MM8XXX_REG_CHARGEVOLTAGE False di"

definition mm8xxx_battery_write_chargevoltage ::
  "'w mm_bus \<Rightarrow> u16 \<Rightarrow> 'w mm8xxx_device_info \<Rightarrow> int \<times> 'w mm8xxx_device_info" where
  "mm8xxx_battery_write_chargevoltage B cv di =
    (let (ret, di) = mm8xxx_write B MM8XXX_REG_CHARGEVOLTAGE cv False di in
     if ret < 0 then (ret, di) else (0, di))"

definition mm8xxx_battery_read_elapsedmonths :: "'w mm_reader" where
  "mm8xxx_battery_read_elapsedmonths B di = mm8xxx_read B MM8XXX_REG_ELAPSEDTIMEM False di"

definition mm8xxx_battery_read_elapseddays :: "'w mm_reader" where
  "mm8xxx_battery_read_elapseddays B di = mm8xxx_read B MM8XXX_REG_ELAPSEDTIMED False di"

definition mm8xxx_battery_read_elapsedhours :: "'w mm_reader" where
  "mm8xxx_battery_read_elapsedhours B di = mm8xxx_read B MM8XXX_REG_ELAPSEDTIMEH False di"

section \<open>The cache and the poll\<close>

text \<open>A reading that is skipped when the chip has no such register.\<close>

definition if_reg ::
  "mm8xxx_reg_index \<Rightarrow> 'w mm_reader \<Rightarrow> int \<Rightarrow> 'w mm_reader" where
  "if_reg i f old B di = (if regs di i \<noteq> INVALID_REG_ADDR then f B di else (old, di))"

text \<open>The readings of one update, once the flags \<open>fl\<close> are valid.\<close>

definition update_readings ::
  "'w mm_bus \<Rightarrow> int \<Rightarrow> 'w mm8xxx_device_info \<Rightarrow> mm8xxx_reg_cache \<times> 'w mm8xxx_device_info" where
  "update_readings B fl di =
    (let (temp, di) = mm8xxx_battery_read_temperature B di;
         (tte, di) = if_reg MM8XXX_REG_TTE (mm8xxx_battery_read_time MM8XXX_REG_TTE) 0 B di;
         (ttecp, di) = if_reg MM8XXX_REG_TTECP (mm8xxx_battery_read_time MM8XXX_REG_TTECP) 0 B di;
         (ttf, di) = if_reg MM8XXX_REG_TTF (mm8xxx_battery_read_time MM8XXX_REG_TTF) 0 B di;
         (fcc, di) = mm8xxx_battery_read_fcc B di;
         (soc, di) = mm8xxx_battery_read_soc B di;
         (ae, di) = if_reg MM8XXX_REG_AE mm8xxx_battery_read_energy 0 B di;
         di = di\<lparr>cache := (cache di)\<lparr>flags := fl\<rparr>\<rparr>;
         h = mm8xxx_battery_read_health di;
         (cyct, di) = if_reg MM8XXX_REG_CYCT mm8xxx_battery_read_cyct 0 B di;
         di = (if charge_design_full di \<le> 0 then
                 let (dcap, di) = mm8xxx_battery_read_dcap B di in di\<lparr>charge_design_full := dcap\<rparr>
               else di);
         (em, di) = if_reg MM8XXX_REG_ELAPSEDTIMEM mm8xxx_battery_read_elapsedmonths 0 B di;
         (ed, di) = if_reg MM8XXX_REG_ELAPSEDTIMED mm8xxx_battery_read_elapseddays 0 B di;
         (eh, di) = if_reg MM8XXX_REG_ELAPSEDTIMEH mm8xxx_battery_read_elapsedhours 0 B di
     in (\<lparr>temperature = temp, time_to_empty = tte, time_to_empty_avg = ttecp, time_to_full = ttf,
          charge_full = fcc, cycle_count = cyct, capacity = soc, energy = ae, flags = fl,
          health_c = h, elapsed_months = em, elapsed_days = ed, elapsed_hours = eh\<rparr>, di))"

text \<open>\<open>now\<close> is \<open>jiffies\<close> at the end of the update.\<close>

definition mm8xxx_battery_update :: "'w mm_bus \<Rightarrow> nat \<Rightarrow> 'w mm8xxx_device_info \<Rightarrow> 'w mm8xxx_device_info" where
  "mm8xxx_battery_update B now di =
    (let (fl, di) = mm8xxx_read B MM8XXX_REG_FLAGS (has (opts di) O_ZERO) di;
         fl = (if fl AND 0xff = 0xff then - 1 else fl);
         (c, di) = (if fl \<ge> 0 then update_readings B fl di else (cache0\<lparr>flags := fl\<rparr>, di));
         di = (if capacity (cache di) \<noteq> capacity c \<or> flags (cache di) \<noteq> flags c
                  \<or> capacity c < 2 \<or> capacity (cache di) < 2
               then mm_call_log mm_power_supply_changed di else di);
         di = (if cache di \<noteq> c then di\<lparr>cache := c\<rparr> else di)
     in di\<lparr>last_update := now\<rparr>)"

text \<open>\<open>HZ\<close> is the kernel's tick rate.\<close>

definition mm8xxx_battery_poll :: "nat \<Rightarrow> 'w mm_bus \<Rightarrow> nat \<Rightarrow> 'w mm8xxx_device_info \<Rightarrow> 'w mm8xxx_device_info" where
  "mm8xxx_battery_poll HZ B now di =
    (let di = mm8xxx_battery_update B now di;
         di = di\<lparr>poll_interval := (if suspend_flag di then 360 else 10)\<rparr>
     in if poll_interval di > 0 then mm_call_log (mm_schedule_work (poll_interval di * HZ)) di else di)"

text \<open>Setting the module parameter: \<open>param_set_uint\<close> parses and stores it
  (\<open>Inl\<close> its error, \<open>Inr\<close> the number), then the work of a listed gauge restarts.\<close>

definition poll_interval_param_set ::
  "int + nat \<Rightarrow> 'w mm8xxx_device_info \<Rightarrow> int \<times> 'w mm8xxx_device_info" where
  "poll_interval_param_set parsed di =
    (case parsed of
       Inl e \<Rightarrow> (e, di)
     | Inr v \<Rightarrow>
         if poll_interval di = v then (0, di)
         else
           let di = di\<lparr>poll_interval := v\<rparr>
           in (0, if on_list di then mm_call_log (mm_schedule_work 0) (mm_call_log mm_cancel_work di)
                  else di))"

section \<open>Power-supply properties\<close>

definition mm8xxx_battery_is_full :: "'w mm8xxx_device_info \<Rightarrow> int \<Rightarrow> bool" where
  "mm8xxx_battery_is_full di fl =
    (if has (opts di) MM8013C10_O_BITS then has fl FLAG_FC else has fl FLAG_FC)"

text \<open>The current and the status it implies.  The C routine fills the pointers it
  is given; here both values are returned, as an option for the error case.\<close>

definition status_of_current :: "'w mm8xxx_device_info \<Rightarrow> int \<Rightarrow> int \<Rightarrow> psenum" where
  "status_of_current di cur fl =
    (if cur > 0 then POWER_SUPPLY_STATUS_CHARGING
     else if cur < 0 then POWER_SUPPLY_STATUS_DISCHARGING
     else if mm8xxx_battery_is_full di fl then POWER_SUPPLY_STATUS_FULL
     else POWER_SUPPLY_STATUS_NOT_CHARGING)"

definition mm8xxx_battery_current_and_status ::
  "'w mm_bus \<Rightarrow> 'w mm8xxx_device_info \<Rightarrow> int \<times> (int \<times> psenum) option \<times> 'w mm8xxx_device_info" where
  "mm8xxx_battery_current_and_status B di =
    (let (cur, di) = mm8xxx_read B MM8XXX_REG_AI False di in
     if cur < 0 then (cur, None, di)
     else let (fl, di) = mm8xxx_read B MM8XXX_REG_FLAGS (has (opts di) O_ZERO) di in
     if fl < 0 then (fl, None, di)
     else
       let cur = (if has (opts di) O_ZERO then s32 (cur * 3570) sdiv 20 else s16 cur * 1000)
       in (0, Some (cur, status_of_current di cur fl), di))"

definition mm8xxx_battery_pwr_avg ::
  "'w mm_bus \<Rightarrow> propval \<Rightarrow> 'w mm8xxx_device_info \<Rightarrow> int \<times> propval \<times> 'w mm8xxx_device_info" where
  "mm8xxx_battery_pwr_avg B val di =
    (let (power, di) = mm8xxx_read B MM8XXX_REG_AP False di in
     if power < 0 then (power, val, di)
     else if has (opts di) O_ZERO then (0, intval (s32 (power * 29200) sdiv 20), di)
     else (0, intval (s16 power * 10000), di))"

definition mm8xxx_battery_capacity_level :: "'w mm8xxx_device_info \<Rightarrow> psenum" where
  "mm8xxx_battery_capacity_level di =
    (let fl = flags (cache di) in
     if has (opts di) O_ZERO then POWER_SUPPLY_CAPACITY_LEVEL_NORMAL
     else if has (opts di) MM8013C10_O_BITS then
       (if has fl FLAG_FC then POWER_SUPPLY_CAPACITY_LEVEL_FULL
        else if has fl FLAG_SOCF then POWER_SUPPLY_CAPACITY_LEVEL_CRITICAL
        else POWER_SUPPLY_CAPACITY_LEVEL_NORMAL)
     else
       (if has fl FLAG_FC then POWER_SUPPLY_CAPACITY_LEVEL_FULL
        else if has fl FLAG_SOC1 then POWER_SUPPLY_CAPACITY_LEVEL_LOW
        else if has fl FLAG_SOCF then POWER_SUPPLY_CAPACITY_LEVEL_CRITICAL
        else POWER_SUPPLY_CAPACITY_LEVEL_NORMAL))"

text \<open>\<open>v\<close> is the caller's number before the call, kept on error.\<close>

definition mm8xxx_battery_voltage ::
  "'w mm_bus \<Rightarrow> int \<Rightarrow> 'w mm8xxx_device_info \<Rightarrow> int \<times> int \<times> 'w mm8xxx_device_info" where
  "mm8xxx_battery_voltage B v di =
    (let (volt, di) = mm8xxx_read B MM8XXX_REG_VOLT False di in
     if volt < 0 then (volt, v, di) else (0, volt * 1000, di))"

definition mm8xxx_simple_value :: "int \<Rightarrow> int \<Rightarrow> int \<times> int" where
  "mm8xxx_simple_value value v = (if value < 0 then (value, v) else (0, value))"

definition bypass_stops :: "'w mm8xxx_device_info \<Rightarrow> bool" where
  "bypass_stops di \<longleftrightarrow> bp_enable (bypass_setting di)
     \<and> capacity (cache di) \<ge> uint (high_capacity (bypass_setting di))"

definition prop_status ::
  "'w mm_bus \<Rightarrow> int \<Rightarrow> 'w mm8xxx_device_info \<Rightarrow> int \<times> propval \<times> 'w mm8xxx_device_info" where
  "prop_status B v di =
    (let (ret, r, di) = mm8xxx_battery_current_and_status B di;
         val = (case r of None \<Rightarrow> intval v | Some (_, st) \<Rightarrow> enumval st);
         val = (if bypass_stops di then enumval POWER_SUPPLY_STATUS_NOT_CHARGING else val)
     in (ret, val, di))"

definition prop_current_now ::
  "'w mm_bus \<Rightarrow> int \<Rightarrow> 'w mm8xxx_device_info \<Rightarrow> int \<times> propval \<times> 'w mm8xxx_device_info" where
  "prop_current_now B v di =
    (let (ret, r, di) = mm8xxx_battery_current_and_status B di;
         v = (case r of None \<Rightarrow> v | Some (cur, _) \<Rightarrow> cur)
     in (ret, intval (if bypass_stops di then 0 else v), di))"

definition prop_capacity ::
  "'w mm_bus \<Rightarrow> int \<Rightarrow> 'w mm8xxx_device_info \<Rightarrow> int \<times> propval \<times> 'w mm8xxx_device_info" where
  "prop_capacity B v di =
    (let (ret, v) = mm8xxx_simple_value (capacity (cache di)) v in
     if v < 2 then
       let (ret, v, di) = mm8xxx_battery_voltage B v di
       in (ret, intval (if ret = 0 \<and> v > 3410000 then 1 else 0), di)
     else (ret, intval v, di))"

text \<open>The estimate divides by the current in mA; the guard lets a zero through,
  and a division by zero yields 0, as the processor's instruction does.\<close>

definition ttf_guard :: "int \<Rightarrow> int \<Rightarrow> bool" where
  "ttf_guard v lst \<longleftrightarrow> v sdiv 1000 - lst < 1000 \<and> v sdiv 1000 - lst > - 1000 \<and> lst > 200"

definition prop_time_to_full ::
  "'w mm_bus \<Rightarrow> int \<Rightarrow> 'w mm8xxx_device_info \<Rightarrow> int \<times> propval \<times> 'w mm8xxx_device_info" where
  "prop_time_to_full B v di =
    (let (full, di) = mm8xxx_battery_read_fcc B di;
         (cap, di) = mm8xxx_battery_read_soc B di;
         (ret, r, di) = mm8xxx_battery_current_and_status B di;
         v = (case r of None \<Rightarrow> v | Some (cur, _) \<Rightarrow> cur);
         ttf = (if ttf_guard v (last_current di)
                then s32 (s32 ((full sdiv 1000) * 36) * (100 - cap)) sdiv (v sdiv 1000)
                else 0);
         di = di\<lparr>last_current := v sdiv 1000\<rparr>
     in (ret, intval (\<bar>ttf\<bar>), di))"

definition int_prop :: "int \<times> int \<Rightarrow> 'w mm8xxx_device_info \<Rightarrow> int \<times> propval \<times> 'w mm8xxx_device_info" where
  "int_prop r di = (fst r, intval (snd r), di)"

definition prop_charge_now ::
  "'w mm_bus \<Rightarrow> int \<Rightarrow> 'w mm8xxx_device_info \<Rightarrow> int \<times> propval \<times> 'w mm8xxx_device_info" where
  "prop_charge_now B v di =
    (let (c, di) = (if regs di MM8XXX_REG_NAC \<noteq> INVALID_REG_ADDR then mm8xxx_battery_read_nac B di
                    else mm8xxx_battery_read_rc B di)
     in int_prop (mm8xxx_simple_value c v) di)"

definition prop_value ::
  "'w mm_bus \<Rightarrow> psp \<Rightarrow> int \<Rightarrow> 'w mm8xxx_device_info \<Rightarrow> int \<times> propval \<times> 'w mm8xxx_device_info" where
  "prop_value B p v di =
    (case p of
       POWER_SUPPLY_PROP_STATUS \<Rightarrow> prop_status B v di
     | POWER_SUPPLY_PROP_VOLTAGE_NOW \<Rightarrow>
         (let (ret, v, di) = mm8xxx_battery_voltage B v di in (ret, intval v, di))
     | POWER_SUPPLY_PROP_PRESENT \<Rightarrow> (0, intval (if flags (cache di) < 0 then 0 else 1), di)
     | POWER_SUPPLY_PROP_CURRENT_NOW \<Rightarrow> prop_current_now B v di
     | POWER_SUPPLY_PROP_CAPACITY \<Rightarrow> prop_capacity B v di
     | POWER_SUPPLY_PROP_CAPACITY_LEVEL \<Rightarrow> (0, enumval (mm8xxx_battery_capacity_level di), di)
     | POWER_SUPPLY_PROP_TEMP \<Rightarrow>
         (let (ret, v) = mm8xxx_simple_value (temperature (cache di)) v
          in (ret, intval (if ret = 0 then v - 2731 else v), di))
     | POWER_SUPPLY_PROP_TIME_TO_EMPTY_NOW \<Rightarrow>
         int_prop (mm8xxx_simple_value (time_to_empty (cache di)) v) di
     | POWER_SUPPLY_PROP_TIME_TO_EMPTY_AVG \<Rightarrow>
         int_prop (mm8xxx_simple_value (time_to_empty_avg (cache di)) v) di
     | POWER_SUPPLY_PROP_TIME_TO_FULL_NOW \<Rightarrow> prop_time_to_full B v di
     | POWER_SUPPLY_PROP_TECHNOLOGY \<Rightarrow>
         (0, enumval (if has (opts di) O_MUL_CHEM then POWER_SUPPLY_TECHNOLOGY_UNKNOWN
                      else POWER_SUPPLY_TECHNOLOGY_LION), di)
     | POWER_SUPPLY_PROP_CHARGE_NOW \<Rightarrow> prop_charge_now B v di
     | POWER_SUPPLY_PROP_CHARGE_FULL \<Rightarrow>
         int_prop (mm8xxx_simple_value (charge_full (cache di)) v) di
     | POWER_SUPPLY_PROP_CHARGE_FULL_DESIGN \<Rightarrow>
         int_prop (mm8xxx_simple_value (charge_design_full di) v) di
     | POWER_SUPPLY_PROP_ENERGY_FULL_DESIGN \<Rightarrow> (- EINVAL, intval v, di)
     | POWER_SUPPLY_PROP_VOLTAGE_MIN_DESIGN \<Rightarrow> (- EINVAL, intval v, di)
     | POWER_SUPPLY_PROP_CYCLE_COUNT \<Rightarrow>
         int_prop (mm8xxx_simple_value (cycle_count (cache di)) v) di
     | POWER_SUPPLY_PROP_ENERGY_NOW \<Rightarrow>
         int_prop (mm8xxx_simple_value (energy (cache di)) v) di
     | POWER_SUPPLY_PROP_POWER_AVG \<Rightarrow> mm8xxx_battery_pwr_avg B (intval v) di
     | POWER_SUPPLY_PROP_HEALTH \<Rightarrow> (0, enumval (health_c (cache di)), di)
     | POWER_SUPPLY_PROP_MANUFACTURER \<Rightarrow> (0, strval ''MITSUMI ELECTRIC'', di)
     | _ \<Rightarrow> (- EINVAL, intval v, di))"

text \<open>The property function: refused while suspended; the cache is refreshed when
  it is older than a second (\<open>now\<close> is the clock); without valid flags only
  \<open>PRESENT\<close> is answered.\<close>

definition mm8xxx_battery_get_property ::
  "nat \<Rightarrow> 'w mm_bus \<Rightarrow> nat \<Rightarrow> psp \<Rightarrow> int \<Rightarrow> 'w mm8xxx_device_info
    \<Rightarrow> int \<times> propval \<times> 'w mm8xxx_device_info" where
  "mm8xxx_battery_get_property HZ B now p v di =
    (if suspend_flag di then (- ENODEV, intval v, di)
     else
       let di = (if last_update di + HZ < now
                 then mm8xxx_battery_poll HZ B now (mm_call_log mm_cancel_work di) else di) in
       if p \<noteq> POWER_SUPPLY_PROP_PRESENT \<and> flags (cache di) < 0 then (- ENODEV, intval v, di)
       else prop_value B p v di)"

section \<open>Set-up and tear-down\<close>

definition mm8xxx_external_power_changed :: "'w mm8xxx_device_info \<Rightarrow> 'w mm8xxx_device_info" where
  "mm8xxx_external_power_changed di =
    mm_call_log (mm_schedule_work 0) (mm_call_log mm_cancel_work di)"

text \<open>The entry of the chip table for the MM8013C10.\<close>

definition chip_data :: "'w mm8xxx_device_info \<Rightarrow> 'w mm8xxx_device_info" where
  "chip_data di = di\<lparr>regs := mm8013c10_regs, unseal_key := 0, dm_regs := None,
     opts := 2 ^ MM8013C10_O_BITS + 2 ^ O_OTDC + 2 ^ O_UTOT\<rparr>"

text \<open>\<open>alloc_ok\<close>: \<open>devm_kzalloc\<close> succeeded; \<open>reg_ret\<close>: the registration's error
  or 0; \<open>info_ret\<close>: the answer of \<open>power_supply_get_battery_info\<close>.\<close>

definition mm8xxx_battery_setup ::
  "bool \<Rightarrow> int \<Rightarrow> bool \<Rightarrow> bool \<Rightarrow> int \<Rightarrow> 'w mm_bus \<Rightarrow> nat \<Rightarrow> 'w mm8xxx_device_info
    \<Rightarrow> int \<times> 'w mm8xxx_device_info" where
  "mm8xxx_battery_setup alloc_ok reg_ret cfg_nvm dt_to_nvm info_ret B now di =
    (let di = chip_data di in
     if \<not> alloc_ok then (- ENOMEM, di)
     else if reg_ret \<noteq> 0 then (reg_ret, di)
     else
       let di = mm_call_log mm_power_supply_register di;
           di = mm8xxx_battery_settings cfg_nvm dt_to_nvm info_ret B di;
           di = mm8xxx_battery_update B now di
       in (0, di\<lparr>on_list := True\<rparr>))"

definition mm8xxx_battery_teardown :: "'w mm8xxx_device_info \<Rightarrow> 'w mm8xxx_device_info" where
  "mm8xxx_battery_teardown di =
    (let di = di\<lparr>poll_interval := 0\<rparr>;
         di = mm_call_log mm_cancel_work di;
         di = mm_call_log mm_power_supply_unregister di
     in di\<lparr>on_list := False\<rparr>)"

end
