(* ===== verification/Mm_I2c.thy ===== *)
theory Mm_I2c
  imports Mm_Battery
begin

text \<open>
  The gauge's I2C driver, mm8xxx_battery_i2c: the four bus methods the core
  uses, the sealed user-NVM sequences for the dates and for the bypass-charging
  setting, the sysfs files, the charge-voltage exports and the life cycle.
\<close>

section \<open>The kernel's I2C interface\<close>

text \<open>\<open>i2c_transfer\<close> takes the messages and returns the number of messages done or
  an error, with the bytes in the read buffer; the SMBus block read likewise.\<close>

datatype i2c_msg = Wr "u8 list" | Rd nat

record 'w i2c_adapter =
  adapter_present :: "'w \<Rightarrow> bool"
  i2c_transfer :: "'w \<Rightarrow> i2c_msg list \<Rightarrow> int \<times> u8 list \<times> 'w"
  i2c_smbus_read_i2c_block_data :: "'w \<Rightarrow> u8 \<Rightarrow> nat \<Rightarrow> int \<times> u8 list \<times> 'w"

definition le16 :: "u8 list \<Rightarrow> int" where
  "le16 d = uint (d ! 0) + uint (d ! 1) * 256"

definition mm8xxx_battery_i2c_read :: "'w i2c_adapter \<Rightarrow> 'w \<Rightarrow> u8 \<Rightarrow> bool \<Rightarrow> int \<times> 'w" where
  "mm8xxx_battery_i2c_read A w r single =
    (if \<not> adapter_present A w then (- ENODEV, w)
     else
       let (ret, data, w) = i2c_transfer A w [Wr [r], Rd (if single then 1 else 2)] in
       if ret < 0 then (ret, w)
       else if \<not> single then (le16 data, w)
       else (uint (data ! 0), w))"

definition mm8xxx_battery_i2c_write :: "'w i2c_adapter \<Rightarrow> 'w \<Rightarrow> u8 \<Rightarrow> int \<Rightarrow> bool \<Rightarrow> int \<times> 'w" where
  "mm8xxx_battery_i2c_write A w r value single =
    (if \<not> adapter_present A w then (- ENODEV, w)
     else
       let msg = (if single then [r, word_of_int value]
                  else [r, word_of_int value, word_of_int (value div 256)]);
           (ret, _, w) = i2c_transfer A w [Wr msg] in
       if ret < 0 then (ret, w)
       else if ret \<noteq> 1 then (- EINVAL, w)
       else (0, w))"

text \<open>The caller's buffer after a block read: the bytes read, then what was there.\<close>

definition fill :: "u8 list \<Rightarrow> u8 list \<Rightarrow> u8 list" where
  "fill old new = new @ drop (length new) old"

definition mm8xxx_battery_i2c_bulk_read ::
  "'w i2c_adapter \<Rightarrow> 'w \<Rightarrow> u8 \<Rightarrow> u8 list \<Rightarrow> nat \<Rightarrow> int \<times> u8 list \<times> 'w" where
  "mm8xxx_battery_i2c_bulk_read A w r data len =
    (if \<not> adapter_present A w then (- ENODEV, data, w)
     else
       let (ret, d, w) = i2c_smbus_read_i2c_block_data A w r len;
           data = fill data d in
       if ret < 0 then (ret, data, w)
       else if ret \<noteq> int len then (- EINVAL, data, w)
       else (0, data, w))"

definition mm8xxx_battery_i2c_bulk_write ::
  "'w i2c_adapter \<Rightarrow> 'w \<Rightarrow> u8 \<Rightarrow> u8 list \<Rightarrow> nat \<Rightarrow> int \<times> 'w" where
  "mm8xxx_battery_i2c_bulk_write A w r data len =
    (if \<not> adapter_present A w then (- ENODEV, w)
     else
       let (ret, _, w) = i2c_transfer A w [Wr (r # take len data)] in
       if ret < 0 then (ret, w)
       else if ret \<noteq> 1 then (- EINVAL, w)
       else (0, w))"

text \<open>The bus the probe installs.\<close>

definition mm_i2c_bus :: "'w i2c_adapter \<Rightarrow> 'w mm8xxx_access_methods" where
  "mm_i2c_bus A = \<lparr>bus_read = mm8xxx_battery_i2c_read A,
     bus_write = Some (mm8xxx_battery_i2c_write A),
     bus_read_bulk = Some (mm8xxx_battery_i2c_bulk_read A),
     bus_write_bulk = Some (mm8xxx_battery_i2c_bulk_write A)\<rparr>"

section \<open>The user-NVM sequences\<close>

definition byte_of :: "u32 \<Rightarrow> nat \<Rightarrow> u8" where
  "byte_of x k = ucast (drop_bit (8 * k) x)"

text \<open>One step of a sequence: a short write whose failure ends it with \<open>-1\<close>.\<close>

definition nvm_write ::
  "'w i2c_adapter \<Rightarrow> u8 \<Rightarrow> u8 list \<Rightarrow> ('w \<Rightarrow> int \<times> 'w) \<Rightarrow> 'w \<Rightarrow> int \<times> 'w" where
  "nvm_write A r bs k w =
    (let (ret, w) = mm8xxx_battery_i2c_bulk_write A w r bs (length bs) in
     if ret < 0 then (- 1, w) else k w)"

definition nvm_read ::
  "'w i2c_adapter \<Rightarrow> u8 list \<Rightarrow> (u8 list \<Rightarrow> 'w \<Rightarrow> int \<times> 'w) \<Rightarrow> 'w \<Rightarrow> int \<times> 'w" where
  "nvm_read A data k w =
    (let (ret, data, w) = mm8xxx_battery_i2c_bulk_read A w 0x40 data 32 in
     if ret < 0 then (- 1, w) else k data w)"

text \<open>The common opening: the two halves of the unseal code, low half first, the
  NVM write setting, and the request for block \<open>target\<close>.\<close>

definition nvm_open ::
  "'w i2c_adapter \<Rightarrow> u32 \<Rightarrow> u32 \<Rightarrow> ('w \<Rightarrow> int \<times> 'w) \<Rightarrow> 'w \<Rightarrow> int \<times> 'w" where
  "nvm_open A unseal_code target k =
    nvm_write A 0x00 [byte_of unseal_code 0, byte_of unseal_code 1]
    (nvm_write A 0x00 [byte_of unseal_code 2, byte_of unseal_code 3]
    (nvm_write A 0x61 [0x00]
    (nvm_write A 0x3E [byte_of target 0, byte_of target 1] k)))"

definition nvm_seal :: "'w i2c_adapter \<Rightarrow> int \<Rightarrow> 'w \<Rightarrow> int \<times> 'w" where
  "nvm_seal A result = nvm_write A 0x00 [0x20, 0x00] (\<lambda>w. (result, w))"

definition nvm_checksum :: "u8 list \<Rightarrow> u8" where
  "nvm_checksum data = word_of_int (0xFF - (sum_list (map uint (take 32 data)) mod 256))"

definition buf32 :: "u8 list" where
  "buf32 = replicate 32 0"

definition date_of :: "u8 list \<Rightarrow> int" where
  "date_of data = uint (data ! 0) OR push_bit 8 (uint (data ! 1)) OR push_bit 16 (uint (data ! 2))"

definition mm8xxx_read_date :: "'w i2c_adapter \<Rightarrow> u32 \<Rightarrow> u32 \<Rightarrow> 'w \<Rightarrow> int \<times> 'w" where
  "mm8xxx_read_date A target unseal_code =
    nvm_open A unseal_code target
      (nvm_read A buf32 (\<lambda>data. nvm_seal A (date_of data)))"

definition mm8xxx_write_date :: "'w i2c_adapter \<Rightarrow> u32 \<Rightarrow> u32 \<Rightarrow> u32 \<Rightarrow> 'w \<Rightarrow> int \<times> 'w" where
  "mm8xxx_write_date A target unseal_code date =
    nvm_open A unseal_code target
      (nvm_write A 0x40 [byte_of date 0, byte_of date 1, byte_of date 2]
        (nvm_read A buf32 (\<lambda>data.
           nvm_write A 0x60 [nvm_checksum data] (nvm_seal A 0))))"

section \<open>The bypass-charging setting\<close>

definition MM8XXX_CMD_LENOVO_SETTING :: u32 where "MM8XXX_CMD_LENOVO_SETTING = 0xF4"
definition MM8XXX_BYPASS_ADDR :: nat where "MM8XXX_BYPASS_ADDR = 10"
definition MM8XXX_BYPASS_LEN :: nat where "MM8XXX_BYPASS_LEN = 3"
definition MM8XXX_BYPASS_UNSEAL_CODE :: u32 where "MM8XXX_BYPASS_UNSEAL_CODE = 0x56781234"

text \<open>\<open>data\<close> is a C \<open>int\<close>; division and remainder truncate towards zero.\<close>

definition mm8xxx_parse_bypass_setting :: "int \<Rightarrow> mm8xxx_bypass_setting" where
  "mm8xxx_parse_bypass_setting data = \<lparr>
     bp_enable = (word_of_int (data sdiv 100000) :: u16) \<noteq> 0,
     low_capacity = word_of_int ((data sdiv 1000) smod 100),
     high_capacity = word_of_int (data smod 1000)\<rparr>"

fun bypass_bytes :: "u8 list \<Rightarrow> nat list \<Rightarrow> int" where
  "bypass_bytes data [] = 0"
| "bypass_bytes data (i # is) =
    push_bit (8 * i) (uint (data ! (MM8XXX_BYPASS_ADDR + i))) OR bypass_bytes data is"

definition mm8xxx_read_bypass_data :: "'w i2c_adapter \<Rightarrow> u32 \<Rightarrow> 'w \<Rightarrow> int \<times> 'w" where
  "mm8xxx_read_bypass_data A unseal_code =
    nvm_open A unseal_code MM8XXX_CMD_LENOVO_SETTING
      (nvm_read A buf32 (\<lambda>data. nvm_seal A (bypass_bytes data [0..<MM8XXX_BYPASS_LEN])))"

fun put_bypass :: "u32 \<Rightarrow> nat list \<Rightarrow> u8 list \<Rightarrow> u8 list" where
  "put_bypass x [] data = data"
| "put_bypass x (i # is) data =
    put_bypass x is (data[MM8XXX_BYPASS_ADDR + i := byte_of x i])"

definition mm8xxx_write_bypass_data :: "'w i2c_adapter \<Rightarrow> u32 \<Rightarrow> u32 \<Rightarrow> 'w \<Rightarrow> int \<times> 'w" where
  "mm8xxx_write_bypass_data A unseal_code bypass_data =
    nvm_open A unseal_code MM8XXX_CMD_LENOVO_SETTING
      (nvm_read A buf32 (\<lambda>data.
         let data = put_bypass bypass_data [0..<MM8XXX_BYPASS_LEN] data in
         nvm_write A 0x40 data
           (nvm_read A data (\<lambda>data.
              nvm_write A 0x60 [nvm_checksum data] (nvm_seal A 0)))))"

definition mm8xxx_read_bypass_setting ::
  "'w i2c_adapter \<Rightarrow> 'w mm8xxx_device_info \<Rightarrow> int \<times> 'w mm8xxx_device_info" where
  "mm8xxx_read_bypass_setting A di =
    (let (ret, w) = mm8xxx_read_bypass_data A MM8XXX_BYPASS_UNSEAL_CODE (world di);
         di = di\<lparr>world := w\<rparr> in
     if ret < 0 then (ret, di)
     else (ret, di\<lparr>bypass_setting := mm8xxx_parse_bypass_setting ret\<rparr>))"

text \<open>The parser's parameter is an \<open>int\<close>: the \<open>u32\<close> is converted.\<close>

definition mm8xxx_write_bypass_setting ::
  "'w i2c_adapter \<Rightarrow> u32 \<Rightarrow> 'w mm8xxx_device_info \<Rightarrow> int \<times> 'w mm8xxx_device_info" where
  "mm8xxx_write_bypass_setting A data di =
    (let (ret, w) = mm8xxx_write_bypass_data A MM8XXX_BYPASS_UNSEAL_CODE data (world di);
         di = di\<lparr>world := w\<rparr> in
     if ret \<noteq> 0 then (ret, di)
     else (0, di\<lparr>bypass_setting := mm8xxx_parse_bypass_setting (sint data)\<rparr>))"

definition mm8xxx_get_bypass_data :: "'w mm8xxx_device_info option \<Rightarrow> mm8xxx_bypass_setting option" where
  "mm8xxx_get_bypass_data di = map_option bypass_setting di"

section \<open>The sysfs files and the exports\<close>

text \<open>What a show prints: a decimal number or six hexadecimal digits.\<close>

datatype mm_text = dec int | hex6 int

type_synonym 'w mm_show = "'w i2c_adapter \<Rightarrow> 'w mm8xxx_device_info
    \<Rightarrow> (int + mm_text) \<times> 'w mm8xxx_device_info"

definition mm8xxx_get_bypass_setting :: "'w mm_show" where
  "mm8xxx_get_bypass_setting A di =
    (let (ret, di) = mm8xxx_read_bypass_setting A di in
     if ret < 0 then (Inl ret, di) else (Inr (dec ret), di))"

text \<open>\<open>kstrtol\<close> parses a number in the given base; \<open>None\<close> is its error.\<close>

definition mm8xxx_set_bypass_setting ::
  "(nat \<Rightarrow> string \<Rightarrow> int option) \<Rightarrow> 'w i2c_adapter \<Rightarrow> string \<Rightarrow> 'w mm8xxx_device_info
    \<Rightarrow> int \<times> 'w mm8xxx_device_info" where
  "mm8xxx_set_bypass_setting kstrtol A buf di =
    (case kstrtol 10 buf of
       None \<Rightarrow> (- EINVAL, di)
     | Some v \<Rightarrow>
         let (ret, di) = mm8xxx_write_bypass_setting A (word_of_int v) di in
         if ret \<noteq> 0 then (ret, di) else (int (length buf), di))"

definition mm8xxx_get_read_production_date :: "'w mm_show" where
  "mm8xxx_get_read_production_date A di =
    (let di = di\<lparr>cdev_unseal_code := 0x56781234\<rparr>;
         (ret, w) = mm8xxx_read_date A 0x00F2 (cdev_unseal_code di) (world di);
         di = di\<lparr>world := w\<rparr> in
     if ret < 0 then (Inl (- 1), di) else (Inr (hex6 ret), di))"

text \<open>The date files: a store parses the text up to the first comma as hex.\<close>

definition write_date_file ::
  "u32 \<Rightarrow> (nat \<Rightarrow> string \<Rightarrow> int option) \<Rightarrow> 'w i2c_adapter \<Rightarrow> string \<Rightarrow> 'w mm8xxx_device_info
    \<Rightarrow> int \<times> 'w mm8xxx_device_info" where
  "write_date_file target kstrtol A buf di =
    (case kstrtol 16 (takeWhile (\<lambda>c. c \<noteq> CHR '','') buf) of
       None \<Rightarrow> (- 1, di)
     | Some d \<Rightarrow>
         let (ret, w) = mm8xxx_write_date A target 0x56781234 (word_of_int d) (world di);
             di = di\<lparr>world := w\<rparr> in
         if ret \<noteq> 0 then (- 1, di) else (int (length buf), di))"

definition mm8xxx_write_production_date ::
  "(nat \<Rightarrow> string \<Rightarrow> int option) \<Rightarrow> 'w i2c_adapter \<Rightarrow> string \<Rightarrow> 'w mm8xxx_device_info
    \<Rightarrow> int \<times> 'w mm8xxx_device_info" where
  "mm8xxx_write_production_date = write_date_file 0x00F2"

text \<open>The start-of-use date is read with the code the production-date file left in
  the device (0 before that file was read).\<close>

definition mm8xxx_get_read_start_date_of_use :: "'w mm_show" where
  "mm8xxx_get_read_start_date_of_use A di =
    (let (ret, w) = mm8xxx_read_date A 0x00F3 (cdev_unseal_code di) (world di);
         di = di\<lparr>world := w\<rparr> in
     if ret < 0 then (Inl (- 1), di) else (Inr (hex6 ret), di))"

definition mm8xxx_write_start_date_of_use ::
  "(nat \<Rightarrow> string \<Rightarrow> int option) \<Rightarrow> 'w i2c_adapter \<Rightarrow> string \<Rightarrow> 'w mm8xxx_device_info
    \<Rightarrow> int \<times> 'w mm8xxx_device_info" where
  "mm8xxx_write_start_date_of_use = write_date_file 0x00F3"

definition mm8xxx_show_battery_soh :: "'w mm_show" where
  "mm8xxx_show_battery_soh A di =
    (let (soh, di) = mm8xxx_battery_read_soh (mm_i2c_bus A) di in
     if soh < 0 then (Inl (- 1), di) else (Inr (dec soh), di))"

text \<open>The exported charge-voltage accessors; \<open>None\<close> is the driver before its probe.
  \<open>cv\<close> is the caller's variable.\<close>

definition battery_show_battery_cv ::
  "'w i2c_adapter \<Rightarrow> int \<Rightarrow> 'w mm8xxx_device_info option \<Rightarrow> int \<times> int \<times> 'w mm8xxx_device_info option"
where
  "battery_show_battery_cv A cv d =
    (case d of
       None \<Rightarrow> (- 1, cv, d)
     | Some di \<Rightarrow>
         if suspend_flag di then (- ENODEV, cv, d)
         else
           let (cv, di) = mm8xxx_battery_read_chargevoltage (mm_i2c_bus A) di in
           if cv < 0 then (- 1, cv, Some di) else (0, cv, Some di))"

definition battery_set_battery_cv ::
  "'w i2c_adapter \<Rightarrow> int \<Rightarrow> 'w mm8xxx_device_info option \<Rightarrow> int \<times> 'w mm8xxx_device_info option" where
  "battery_set_battery_cv A cv d =
    (case d of
       None \<Rightarrow> (- 1, d)
     | Some di \<Rightarrow>
         if suspend_flag di then (- ENODEV, d)
         else
           let (ret, di) = mm8xxx_battery_write_chargevoltage (mm_i2c_bus A) (word_of_int cv) di in
           if ret < 0 then (- 1, Some di) else (0, Some di))"

section \<open>Life cycle\<close>

definition mm8xxx_battery_irq_handler_thread ::
  "'w i2c_adapter \<Rightarrow> nat \<Rightarrow> 'w mm8xxx_device_info \<Rightarrow> 'w mm8xxx_device_info" where
  "mm8xxx_battery_irq_handler_thread A now di = mm8xxx_battery_update (mm_i2c_bus A) now di"

definition mm_device0 :: "'w \<Rightarrow> 'w mm8xxx_device_info" where
  "mm_device0 w = \<lparr>world = w, opts = 0, dm_regs = None, unseal_key = 0, regs = (\<lambda>_. 0),
     cache = cache0, charge_design_full = 0, last_update = 0, cdev_unseal_code = 0,
     bypass_setting = \<lparr>bp_enable = False, low_capacity = 0, high_capacity = 0\<rparr>,
     suspend_flag = False, poll_interval = 360, last_current = 0, on_list = False, mm_calls = []\<rparr>"

text \<open>The answers of the kernel services the probe calls.\<close>

record mm_probe_env =
  idr_num :: int
  name_ok :: bool
  alloc_ok :: bool
  desc_alloc_ok :: bool
  psy_register_ret :: int
  cfg_updates_nvm :: bool
  dt_to_nvm :: bool
  battery_info_ret :: int
  gauge_irq :: int
  irq_ret :: int
  ticks :: nat
  rate :: nat

definition mm8xxx_battery_i2c_probe ::
  "mm_probe_env \<Rightarrow> 'w i2c_adapter \<Rightarrow> 'w \<Rightarrow> int \<times> 'w mm8xxx_device_info" where
  "mm8xxx_battery_i2c_probe P A w =
    (let di = mm_device0 w in
     if idr_num P < 0 then (idr_num P, di)
     else if \<not> name_ok P \<or> \<not> alloc_ok P then (- ENOMEM, mm_call_log mm_idr_remove di)
     else
       let (ret, di) = mm8xxx_battery_setup (desc_alloc_ok P) (psy_register_ret P)
                         (cfg_updates_nvm P) (dt_to_nvm P) (battery_info_ret P)
                         (mm_i2c_bus A) (ticks P) di in
       if ret \<noteq> 0 then (ret, mm_call_log mm_idr_remove di)
       else
         let di = mm_call_log (mm_schedule_work (60 * rate P)) di in
         if gauge_irq P \<noteq> 0 \<and> irq_ret P \<noteq> 0
         then (irq_ret P, mm_call_log mm_idr_remove (mm8xxx_battery_teardown di))
         else
           let di = (if gauge_irq P \<noteq> 0 then mm_call_log mm_request_irq di else di);
               di = di\<lparr>cdev_unseal_code := 0\<rparr>;
               di = mm_call_log mm_create_files di;
               (_, di) = mm8xxx_read_bypass_setting A di
           in (0, di))"

definition mm8xxx_battery_i2c_remove :: "'w mm8xxx_device_info \<Rightarrow> 'w mm8xxx_device_info" where
  "mm8xxx_battery_i2c_remove di =
    mm_call_log mm_idr_remove (mm_call_log mm_remove_files (mm8xxx_battery_teardown di))"

definition mm8xxx_suspend :: "'w mm8xxx_device_info \<Rightarrow> int \<times> 'w mm8xxx_device_info" where
  "mm8xxx_suspend di = (0, di\<lparr>suspend_flag := True\<rparr>)"

definition mm8xxx_resume :: "'w mm8xxx_device_info \<Rightarrow> int \<times> 'w mm8xxx_device_info" where
  "mm8xxx_resume di = (0, di\<lparr>suspend_flag := False\<rparr>)"

end
