(* ===== verification/Mm_Nvm.thy ===== *)
theory Mm_Nvm
  imports Mm_I2c
begin

text \<open>
  The user NVM of the gauge and the contract its I2C transfers give: every
  acknowledged message has the effect of the command it carries, a message that
  is not acknowledged has none.  On this contract the date and bypass-setting
  sequences are a store: what was written is read back, other blocks and other
  bytes stay, and the chip is sealed again exactly when the sequence ends well.
\<close>

section \<open>The commands (flowcharts of FG-1549-2, quoted in the driver)\<close>

text \<open>\<open>committed\<close> is the content of the NVM blocks, \<open>work_buf\<close> the 32-byte window at
  0x40 for the block \<open>selected\<close>; \<open>half\<close> holds after the first half of the
  unseal code.\<close>

record nvm_chip =
  committed :: "u8 \<times> u8 \<Rightarrow> u8 list"
  selected :: "u8 \<times> u8"
  work_buf :: "u8 list"
  half :: bool
  sealed :: bool

text \<open>\<open>SEAL\<close>, the unseal halves, block request, data window and checksum.\<close>

definition chip_ctrl :: "u8 \<Rightarrow> u8 \<Rightarrow> nvm_chip \<Rightarrow> nvm_chip" where
  "chip_ctrl a b c =
    (if a = 0x20 \<and> b = 0x00 then c\<lparr>sealed := True, half := False\<rparr>
     else if a = 0x34 \<and> b = 0x12 then c\<lparr>half := True\<rparr>
     else if a = 0x78 \<and> b = 0x56 \<and> half c then c\<lparr>half := False, sealed := False\<rparr>
     else c\<lparr>half := False\<rparr>)"

definition chip_select :: "u8 \<times> u8 \<Rightarrow> nvm_chip \<Rightarrow> nvm_chip" where
  "chip_select t c = (if sealed c then c else c\<lparr>selected := t, work_buf := committed c t\<rparr>)"

definition chip_window :: "u8 list \<Rightarrow> nvm_chip \<Rightarrow> nvm_chip" where
  "chip_window bs c = (if sealed c then c else c\<lparr>work_buf := fill (work_buf c) bs\<rparr>)"

definition chip_commit :: "u8 \<Rightarrow> nvm_chip \<Rightarrow> nvm_chip" where
  "chip_commit k c =
    (if \<not> sealed c \<and> k = nvm_checksum (work_buf c)
     then c\<lparr>committed := (committed c)(selected c := work_buf c)\<rparr> else c)"

definition chip_cmd :: "u8 list \<Rightarrow> nvm_chip \<Rightarrow> nvm_chip" where
  "chip_cmd msg c =
    (case msg of
       [] \<Rightarrow> c
     | r # bs \<Rightarrow>
         if r = 0x00 \<and> length bs = 2 then chip_ctrl (bs ! 0) (bs ! 1) c
         else if r = 0x3E \<and> length bs = 2 then chip_select (bs ! 0, bs ! 1) c
         else if r = 0x40 \<and> length bs \<le> 32 then chip_window bs c
         else if r = 0x60 \<and> length bs = 1 then chip_commit (bs ! 0) c
         else c)"

text \<open>Every block has 32 bytes.\<close>

definition chip_wf :: "nvm_chip \<Rightarrow> bool" where
  "chip_wf c \<longleftrightarrow> (\<forall>t. length (committed c t) = 32)"

section \<open>The contract\<close>

locale user_nvm =
  fixes A :: "'w i2c_adapter"
    and chip :: "'w \<Rightarrow> nvm_chip"
  assumes present: "adapter_present A w"
    and msg_done: "i2c_transfer A w [Wr msg] = (1, d, w') \<Longrightarrow> chip w' = chip_cmd msg (chip w)"
    and msg_fail: "i2c_transfer A w [Wr msg] = (ret, d, w') \<Longrightarrow> ret \<noteq> 1 \<Longrightarrow> chip w' = chip w"
    and blk_frame: "i2c_smbus_read_i2c_block_data A w r n = (ret, d, w') \<Longrightarrow> chip w' = chip w"
    and blk_value: "i2c_smbus_read_i2c_block_data A w 0x40 32 = (32, d, w') \<Longrightarrow>
        \<not> sealed (chip w) \<Longrightarrow> d = work_buf (chip w)"
begin

lemma bulk_write_done:
  "mm8xxx_battery_i2c_bulk_write A w r bs (length bs) = (ret, w') \<Longrightarrow> \<not> ret < 0 \<Longrightarrow>
   chip w' = chip_cmd (r # bs) (chip w)"
  by (auto simp: mm8xxx_battery_i2c_bulk_write_def present errno msg_done split: prod.splits if_splits)

lemma bulk_write_fail:
  "mm8xxx_battery_i2c_bulk_write A w r bs (length bs) = (ret, w') \<Longrightarrow> ret < 0 \<Longrightarrow>
   chip w' = chip w"
  by (auto simp: mm8xxx_battery_i2c_bulk_write_def present errno msg_fail split: prod.splits if_splits)

text \<open>A step of a sequence either ends it with \<open>-1\<close> and no effect, or runs its
  command and goes on.\<close>

lemma nvm_write_cases:
  assumes "nvm_write A r bs k w = (ret, w')"
  obtains (fail) "ret = - 1" "chip w' = chip w"
    | (cont) w1 where "k w1 = (ret, w')" "chip w1 = chip_cmd (r # bs) (chip w)"
  using assms bulk_write_done bulk_write_fail
  by (fastforce simp: nvm_write_def split: prod.splits if_splits)

lemma nvm_read_cases:
  assumes "nvm_read A data k w = (ret, w')"
  obtains (fail) "ret = - 1" "chip w' = chip w"
    | (cont) w1 d where "k d w1 = (ret, w')" "chip w1 = chip w"
        "\<not> sealed (chip w) \<Longrightarrow> length (work_buf (chip w)) = 32 \<Longrightarrow> length data \<le> 32 \<Longrightarrow>
         d = work_buf (chip w)"
  using assms
proof (cases "mm8xxx_battery_i2c_bulk_read A w 0x40 data 32")
  case (fields r d w1)
  have fr: "chip w1 = chip w"
    using fields by (auto simp: mm8xxx_battery_i2c_bulk_read_def present Let_def dest: blk_frame
        split: prod.splits if_splits)
  show ?thesis
  proof (cases "r < 0")
    case True
    with assms fields fr show ?thesis by (auto simp: nvm_read_def intro: fail)
  next
    case False
    obtain e where e: "i2c_smbus_read_i2c_block_data A w 0x40 32 = (32, e, w1)" "d = fill data e"
      using fields False by (auto simp: mm8xxx_battery_i2c_bulk_read_def present errno Let_def
          split: prod.splits if_splits)
    show ?thesis
    proof (rule cont)
      show "k d w1 = (ret, w')" using assms fields False by (simp add: nvm_read_def)
      show "chip w1 = chip w" by (rule fr)
      assume "\<not> sealed (chip w)" "length (work_buf (chip w)) = 32" "length data \<le> 32"
      with e blk_value [OF e(1)] show "d = work_buf (chip w)" by (simp add: fill_def)
    qed
  qed
qed

text \<open>Opening with the driver's code leaves the chip unsealed with the requested
  block in the window.\<close>

lemma nvm_open_cases:
  assumes "nvm_open A MM8XXX_BYPASS_UNSEAL_CODE target k w = (ret, w')"
  obtains (fail) "ret = - 1" "committed (chip w') = committed (chip w)"
    | (cont) w1 where "k w1 = (ret, w')" "\<not> sealed (chip w1)"
        "committed (chip w1) = committed (chip w)"
        "selected (chip w1) = (byte_of target 0, byte_of target 1)"
        "work_buf (chip w1) = committed (chip w) (byte_of target 0, byte_of target 1)"
proof -
  have b: "byte_of MM8XXX_BYPASS_UNSEAL_CODE 0 = 0x34" "byte_of MM8XXX_BYPASS_UNSEAL_CODE 1 = 0x12"
    "byte_of MM8XXX_BYPASS_UNSEAL_CODE 2 = 0x78" "byte_of MM8XXX_BYPASS_UNSEAL_CODE 3 = 0x56"
    by (simp_all add: byte_of_def MM8XXX_BYPASS_UNSEAL_CODE_def)
  from assms [unfolded nvm_open_def b] show ?thesis
  proof (cases rule: nvm_write_cases)
    case (cont w1)
    from cont(1) show ?thesis
    proof (cases rule: nvm_write_cases)
      case fail
      with cont(2) that(1) show ?thesis by (simp add: chip_cmd_def chip_ctrl_def)
    next
      case c2: (cont w2)
      from c2(1) show ?thesis
      proof (cases rule: nvm_write_cases)
        case fail
        with cont(2) c2(2) that(1) show ?thesis by (simp add: chip_cmd_def chip_ctrl_def)
      next
        case c3: (cont w3)
        from c3(1) show ?thesis
        proof (cases rule: nvm_write_cases)
          case fail
          with cont(2) c2(2) c3(2) that(1) show ?thesis by (simp add: chip_cmd_def chip_ctrl_def)
        next
          case c4: (cont w4)
          with cont(2) c2(2) c3(2) that(2) [OF c4(1)] show ?thesis
            by (simp add: chip_cmd_def chip_ctrl_def chip_select_def)
        qed
      qed
    qed
  qed (use that(1) in simp)
qed

lemma nvm_seal_cases:
  assumes "nvm_seal A r w = (ret, w')"
  obtains (fail) "ret = - 1" "chip w' = chip w"
    | (cont) "ret = r" "chip w' = (chip w)\<lparr>sealed := True, half := False\<rparr>"
  using assms unfolding nvm_seal_def
  by (cases rule: nvm_write_cases) (simp_all add: chip_cmd_def chip_ctrl_def)

text \<open>Reading any block, and writing the window back after a change \<open>f\<close>.\<close>

lemma read_block_value:
  assumes "nvm_open A MM8XXX_BYPASS_UNSEAL_CODE target
      (nvm_read A buf32 (\<lambda>data. nvm_seal A (g data))) w = (ret, w')"
    and "chip_wf (chip w)" "ret \<noteq> - 1"
  shows "ret = g (committed (chip w) (byte_of target 0, byte_of target 1))
    \<and> committed (chip w') = committed (chip w) \<and> sealed (chip w')"
  using assms(1)
proof (cases rule: nvm_open_cases)
  case (cont w1)
  have l: "length (work_buf (chip w1)) = 32" using assms(2) cont(5) by (simp add: chip_wf_def)
  from cont(1) show ?thesis
  proof (cases rule: nvm_read_cases)
    case c2: (cont w2 d)
    have d: "d = work_buf (chip w1)" using c2(3) cont(2) l by (simp add: buf32_def)
    from c2(1) show ?thesis
      by (cases rule: nvm_seal_cases) (use assms(3) c2(2) cont d in simp_all)
  qed (use assms(3) in simp)
qed (use assms(3) in simp)

text \<open>The tail of a write: the window is read back, its checksum committed, the
  chip sealed.\<close>

lemma commit_tail_value:
  assumes "nvm_read A data (\<lambda>data. nvm_write A 0x60 [nvm_checksum data] (nvm_seal A 0)) w = (ret, w')"
    and "\<not> sealed (chip w)" "length (work_buf (chip w)) = 32" "length data \<le> 32" "ret = 0"
  shows "committed (chip w') = (committed (chip w))(selected (chip w) := work_buf (chip w))
    \<and> sealed (chip w')"
  using assms(1)
proof (cases rule: nvm_read_cases)
  case (cont w1 d)
  have d: "d = work_buf (chip w)" using cont(3) assms(2-4) by simp
  from cont(1) show ?thesis
  proof (cases rule: nvm_write_cases)
    case c2: (cont w2)
    from c2(1) show ?thesis
      by (cases rule: nvm_seal_cases)
        (use assms cont(2) d c2(2) in \<open>simp_all add: chip_cmd_def chip_commit_def\<close>)
  qed (use assms(5) in simp)
qed (use assms(5) in simp)

lemma window_write_value:
  assumes "nvm_write A 0x40 bs (nvm_read A data (\<lambda>data.
      nvm_write A 0x60 [nvm_checksum data] (nvm_seal A 0))) w = (ret, w')"
    and "\<not> sealed (chip w)" "length (work_buf (chip w)) = 32" "length data \<le> 32"
    and "length bs \<le> 32" "ret = 0"
  shows "committed (chip w') = (committed (chip w))(selected (chip w) := fill (work_buf (chip w)) bs)
    \<and> sealed (chip w')"
  using assms(1)
proof (cases rule: nvm_write_cases)
  case (cont w1)
  have c: "chip w1 = (chip w)\<lparr>work_buf := fill (work_buf (chip w)) bs\<rparr>"
    using cont(2) assms(2,5) by (simp add: chip_cmd_def chip_window_def)
  have l: "length (fill (work_buf (chip w)) bs) = 32" using assms(3,5) by (simp add: fill_def)
  show ?thesis
    using commit_tail_value [OF cont(1)] assms(2,4,6) c l by simp
qed (use assms(6) in simp)

lemma read_bypass_value:
  assumes "mm8xxx_read_bypass_data A MM8XXX_BYPASS_UNSEAL_CODE w = (ret, w')"
    and "chip_wf (chip w)" "ret \<noteq> - 1"
  shows "ret = bypass_bytes (committed (chip w) (0xF4, 0)) [0..<MM8XXX_BYPASS_LEN]
    \<and> committed (chip w') = committed (chip w) \<and> sealed (chip w')"
  using read_block_value [OF assms(1) [unfolded mm8xxx_read_bypass_data_def] assms(2,3)]
  by (simp add: byte_of_def MM8XXX_CMD_LENOVO_SETTING_def)

lemma length_put_bypass [simp]: "length (put_bypass x is data) = length data"
  by (induction "is" arbitrary: data) simp_all

lemma write_bypass_value:
  assumes "mm8xxx_write_bypass_data A MM8XXX_BYPASS_UNSEAL_CODE x w = (0, w')"
    and "chip_wf (chip w)"
  shows "committed (chip w') = (committed (chip w))((0xF4, 0) :=
      put_bypass x [0..<MM8XXX_BYPASS_LEN] (committed (chip w) (0xF4, 0))) \<and> sealed (chip w')"
  using assms(1) [unfolded mm8xxx_write_bypass_data_def]
proof (cases rule: nvm_open_cases)
  case (cont w1)
  have sel: "(byte_of MM8XXX_CMD_LENOVO_SETTING 0, byte_of MM8XXX_CMD_LENOVO_SETTING 1) = (0xF4, 0)"
    by (simp add: byte_of_def MM8XXX_CMD_LENOVO_SETTING_def)
  have l: "length (work_buf (chip w1)) = 32" using assms(2) cont(5) by (simp add: chip_wf_def)
  from cont(1) show ?thesis
  proof (cases rule: nvm_read_cases)
    case c2: (cont w2 d)
    have d: "d = work_buf (chip w1)" using c2(3) cont(2) l by (simp add: buf32_def)
    show ?thesis
      using window_write_value [OF c2(1) [unfolded Let_def]] c2(2) cont d l sel
      by (simp add: fill_def)
  qed simp
qed simp

lemma write_date_value:
  assumes "mm8xxx_write_date A target MM8XXX_BYPASS_UNSEAL_CODE x w = (0, w')" "chip_wf (chip w)"
    and "t = (byte_of target 0, byte_of target 1)"
  shows "committed (chip w') = (committed (chip w))(t :=
      fill (committed (chip w) t) [byte_of x 0, byte_of x 1, byte_of x 2]) \<and> sealed (chip w')"
  using assms(1) [unfolded mm8xxx_write_date_def]
proof (cases rule: nvm_open_cases)
  case (cont w1)
  have l: "length (work_buf (chip w1)) = 32" using assms(2) cont(5) by (simp add: chip_wf_def)
  show ?thesis
    using window_write_value [OF cont(1) cont(2) l] cont assms(3) by (simp add: buf32_def)
qed simp

text \<open>With code 0 a sealed chip never opens.\<close>

lemma nvm_open_locked:
  assumes "nvm_open A 0 target k w = (ret, w')" "sealed (chip w)"
  obtains (fail) "ret = - 1" "sealed (chip w')" "work_buf (chip w') = work_buf (chip w)"
    | (cont) w1 where "k w1 = (ret, w')" "sealed (chip w1)" "work_buf (chip w1) = work_buf (chip w)"
proof -
  have b: "byte_of 0 n = 0" for n by (simp add: byte_of_def)
  from assms(1) [unfolded nvm_open_def b] show ?thesis
  proof (cases rule: nvm_write_cases)
    case c1: (cont w1)
    from c1(1) show ?thesis
    proof (cases rule: nvm_write_cases)
      case fail
      with c1(2) assms(2) that(1) show ?thesis by (simp add: chip_cmd_def chip_ctrl_def)
    next
      case c2: (cont w2)
      from c2(1) show ?thesis
      proof (cases rule: nvm_write_cases)
        case fail
        with c1(2) c2(2) assms(2) that(1) show ?thesis by (simp add: chip_cmd_def chip_ctrl_def)
      next
        case c3: (cont w3)
        from c3(1) show ?thesis
        proof (cases rule: nvm_write_cases)
          case fail
          with c1(2) c2(2) c3(2) assms(2) that(1) show ?thesis
            by (simp add: chip_cmd_def chip_ctrl_def)
        next
          case c4: (cont w4)
          with c1(2) c2(2) c3(2) assms(2) that(2) [OF c4(1)] show ?thesis
            by (simp add: chip_cmd_def chip_ctrl_def chip_select_def)
        qed
      qed
    qed
  qed (use that(1) assms(2) in simp)
qed

lemma read_date_locked:
  assumes "mm8xxx_read_date A target 0 w = (ret, w')" "sealed (chip w)"
  shows "sealed (chip w') \<and> work_buf (chip w') = work_buf (chip w)"
  using assms(1) [unfolded mm8xxx_read_date_def] assms(2)
proof (cases rule: nvm_open_locked)
  case (cont w1)
  from cont(1) show ?thesis
  proof (cases rule: nvm_read_cases)
    case c2: (cont w2 d)
    from c2(1) show ?thesis
      by (cases rule: nvm_seal_cases) (use cont c2(2) in simp_all)
  qed (use cont in simp)
qed simp

text \<open>A block read that fails ends the sequence before the seal.\<close>

lemma read_bypass_unsealed:
  assumes "mm8xxx_read_bypass_data A MM8XXX_BYPASS_UNSEAL_CODE w = (ret, w')"
    and "\<And>w m. fst (i2c_transfer A w [Wr m]) = 1"
    and "\<And>w. fst (i2c_smbus_read_i2c_block_data A w 0x40 32) < 0"
  shows "ret = - 1 \<and> \<not> sealed (chip w')"
proof -
  have ok: "nvm_write A r bs k v = k (snd (snd (i2c_transfer A v [Wr (r # bs)])))" for r bs k v
    using assms(2) [of v "r # bs"]
    by (simp add: nvm_write_def mm8xxx_battery_i2c_bulk_write_def present case_prod_beta Let_def)
  have bad: "nvm_read A d k v = (- 1, snd (snd (i2c_smbus_read_i2c_block_data A v 0x40 32)))" for d k v
    using assms(3) [of v]
    by (simp add: nvm_read_def mm8xxx_battery_i2c_bulk_read_def present case_prod_beta Let_def)
  have step: "chip (snd (snd (i2c_transfer A v [Wr m]))) = chip_cmd m (chip v)" for m v
    using assms(2) [of v m] msg_done [of v m] by (metis prod.collapse)
  have blk: "chip (snd (snd (i2c_smbus_read_i2c_block_data A v 0x40 32))) = chip v" for v
    using blk_frame by (metis prod.collapse)
  show ?thesis
    using assms(1)
    by (auto simp: mm8xxx_read_bypass_data_def nvm_open_def ok bad step blk byte_of_def
        MM8XXX_BYPASS_UNSEAL_CODE_def chip_cmd_def chip_ctrl_def chip_select_def)
qed

end

section \<open>A reference chip\<close>

text \<open>The chip itself as the outside world; \<open>answers\<close> says whether its block reads
  are answered.\<close>

definition nvm_ref :: "bool \<Rightarrow> nvm_chip i2c_adapter" where
  "nvm_ref answers = \<lparr>adapter_present = (\<lambda>w. True),
     i2c_transfer = (\<lambda>w msgs. case msgs of
         [Wr m] \<Rightarrow> (1, [], chip_cmd m w)
       | [Wr m, Rd n] \<Rightarrow> (2, replicate n 0, w)
       | _ \<Rightarrow> (- EIO, [], w)),
     i2c_smbus_read_i2c_block_data = (\<lambda>w r n.
       if answers then (int n, work_buf w, w) else (- EIO, [], w))\<rparr>"

definition chip0 :: nvm_chip where
  "chip0 = \<lparr>committed = (\<lambda>_. replicate 32 0), selected = (0, 0), work_buf = replicate 32 0,
     half = False, sealed = True\<rparr>"

interpretation nvm_ref: user_nvm "nvm_ref answers" "\<lambda>w. w" for answers
  by unfold_locales (auto simp: nvm_ref_def errno split: if_splits)

section \<open>The bytes of the setting\<close>

lemma bit_byte_of: "bit (uint (byte_of x k)) n \<longleftrightarrow> n < 8 \<and> bit (uint x) (8 * k + n)"
  by (auto simp: byte_of_def bit_unsigned_iff bit_drop_bit_eq ac_simps
      dest: bit_imp_le_length)

lemma le24_bytes:
  "uint (byte_of x 0) OR (push_bit 8 (uint (byte_of x 1)) OR push_bit 16 (uint (byte_of x 2)))
    = take_bit 24 (uint x)"
proof (rule bit_eqI)
  fix n
  show "bit (uint (byte_of x 0) OR (push_bit 8 (uint (byte_of x 1))
      OR push_bit 16 (uint (byte_of x 2)))) n = bit (take_bit 24 (uint x)) n"
    by (cases "n < 8"; cases "n < 16"; cases "n < 24")
      (auto simp: bit_or_iff bit_push_bit_iff bit_take_bit_iff bit_byte_of)
qed

lemma bypass_bytes_put:
  assumes "length data = 32"
  shows "bypass_bytes (put_bypass x [0..<MM8XXX_BYPASS_LEN] data) [0..<MM8XXX_BYPASS_LEN]
    = uint x mod 2 ^ 24"
proof -
  have i: "[0..<MM8XXX_BYPASS_LEN] = [0, 1, 2]" by (simp add: MM8XXX_BYPASS_LEN_def upt_rec)
  show ?thesis
    using assms le24_bytes [of x]
    by (simp add: i MM8XXX_BYPASS_ADDR_def take_bit_eq_mod or.assoc)
qed

lemma put_bypass_other:
  "i < 10 \<or> 13 \<le> i \<Longrightarrow> put_bypass x [0..<MM8XXX_BYPASS_LEN] data ! i = data ! i"
  by (auto simp: MM8XXX_BYPASS_LEN_def MM8XXX_BYPASS_ADDR_def upt_rec)

lemma date_bytes:
  "date_of (fill data [byte_of x 0, byte_of x 1, byte_of x 2]) = uint x mod 2 ^ 24"
  using le24_bytes [of x] by (simp add: date_of_def fill_def take_bit_eq_mod or.assoc)

section \<open>Properties\<close>

text \<open>The device after its set-up, with a chip as its world.\<close>

definition nvm_device :: "nvm_chip \<Rightarrow> nvm_chip mm8xxx_device_info" where
  "nvm_device c = chip_data (mm_device0 c)"

text \<open>C20: a bypass setting that was stored is what the next read returns, as far as
  the three bytes reach: the number modulo 2^24.  For a number below 2^24 the
  device's parsed setting is the same after the store and after the reload.  No
  other block and no other byte of the block changes.\<close>

theorem bypass_setting_roundtrip:
  assumes "user_nvm A chip" "chip_wf (chip (world di))"
    and "mm8xxx_write_bypass_setting A x di = (0, di1)"
    and "mm8xxx_read_bypass_setting A di1 = (ret, di2)" "0 \<le> ret"
  shows "ret = uint x mod 2 ^ 24
    \<and> (uint x < 2 ^ 24 \<longrightarrow> bypass_setting di2 = bypass_setting di1)
    \<and> (\<forall>t. t \<noteq> (0xF4, 0) \<longrightarrow>
      committed (chip (world di2)) t = committed (chip (world di)) t)
    \<and> (\<forall>i. i < 10 \<or> 13 \<le> i \<longrightarrow>
      committed (chip (world di2)) (0xF4, 0) ! i = committed (chip (world di)) (0xF4, 0) ! i)"
proof -
  obtain w1 where w: "mm8xxx_write_bypass_data A MM8XXX_BYPASS_UNSEAL_CODE x (world di) = (0, w1)"
    and d1: "di1 = di\<lparr>world := w1, bypass_setting := mm8xxx_parse_bypass_setting (sint x)\<rparr>"
    using assms(3) by (auto simp: mm8xxx_write_bypass_setting_def Let_def split: prod.splits if_splits)
  note v = user_nvm.write_bypass_value [OF assms(1) w assms(2)]
  obtain w2 where r: "mm8xxx_read_bypass_data A MM8XXX_BYPASS_UNSEAL_CODE w1 = (ret, w2)"
    and d2: "di2 = di1\<lparr>world := w2, bypass_setting := mm8xxx_parse_bypass_setting ret\<rparr>"
    using assms(4,5) d1
    by (auto simp: mm8xxx_read_bypass_setting_def Let_def split: prod.splits if_splits)
  have wf: "chip_wf (chip w1)" using v assms(2) by (simp add: chip_wf_def)
  have "ret \<noteq> - 1" using assms(5) by simp
  note q = user_nvm.read_bypass_value [OF assms(1) r wf this]
  have l: "length (committed (chip (world di)) (0xF4, 0)) = 32" using assms(2) by (simp add: chip_wf_def)
  have ret: "ret = uint x mod 2 ^ 24" using q v bypass_bytes_put [OF l] by simp
  have "bypass_setting di2 = bypass_setting di1" if "uint x < 2 ^ 24"
  proof -
    have "sint x = uint x"
    proof -
      have "uint x < 2 ^ 31" using that by (rule order.strict_trans) simp
      moreover have "- (2 ^ 31) \<le> uint x" by (rule order.trans [OF _ uint_ge_0]) simp
      ultimately show ?thesis by (simp add: sint_uint signed_take_bit_int_eq_self)
    qed
    then show ?thesis using ret that by (simp add: d1 d2)
  qed
  moreover have "committed (chip (world di2)) t = committed (chip (world di)) t" if "t \<noteq> (0xF4, 0)" for t
    using q v that by (simp add: d2)
  moreover have "committed (chip (world di2)) (0xF4, 0) ! i = committed (chip (world di)) (0xF4, 0) ! i"
    if "i < 10 \<or> 13 \<le> i" for i
    using q v put_bypass_other [OF that] by (simp add: d2)
  ultimately show ?thesis using ret by blast
qed

lemma ref_write: "nvm_write (nvm_ref b) r bs k w = k (chip_cmd (r # bs) w)"
  by (simp add: nvm_write_def mm8xxx_battery_i2c_bulk_write_def nvm_ref_def)

lemma ref_read: "nvm_read (nvm_ref True) d k w = k (fill d (work_buf w)) w"
  by (simp add: nvm_read_def mm8xxx_battery_i2c_bulk_read_def nvm_ref_def Let_def)

lemma bypass_setting_roundtrip_witness:
  "\<exists>di1 ret di2. mm8xxx_write_bypass_setting (nvm_ref True) 160080 (nvm_device chip0) = (0, di1)
    \<and> mm8xxx_read_bypass_setting (nvm_ref True) di1 = (ret, di2) \<and> ret = 160080"
proof -
  let ?w = "mm8xxx_write_bypass_setting (nvm_ref True) 160080 (nvm_device chip0)"
  define di1 where "di1 = snd ?w"
  have w: "?w = (0, di1)"
    by (simp add: di1_def mm8xxx_write_bypass_setting_def mm8xxx_write_bypass_data_def nvm_open_def
        nvm_seal_def ref_write ref_read Let_def)
  define ret di2 where "ret = fst (mm8xxx_read_bypass_setting (nvm_ref True) di1)"
    and "di2 = snd (mm8xxx_read_bypass_setting (nvm_ref True) di1)"
  have r: "mm8xxx_read_bypass_setting (nvm_ref True) di1 = (ret, di2)"
    by (simp add: ret_def di2_def)
  have nn: "0 \<le> ret"
    by (simp add: ret_def mm8xxx_read_bypass_setting_def mm8xxx_read_bypass_data_def nvm_open_def
        nvm_seal_def ref_write ref_read Let_def MM8XXX_BYPASS_LEN_def MM8XXX_BYPASS_ADDR_def upt_rec)
  have "chip_wf (world (nvm_device chip0))"
    by (simp add: nvm_device_def mm_device0_def chip_data_def chip0_def chip_wf_def)
  from bypass_setting_roundtrip [OF nvm_ref.user_nvm_axioms this w r nn]
  have "ret = uint (160080 :: u32) mod 2 ^ 24" by (rule conjunct1)
  with w r show ?thesis by simp
qed

text \<open>The number format of the setting, enable * 100000 + low * 1000 + high, is
  parsed back into its parts for every low capacity below 100 and every high
  capacity below 1000.\<close>

theorem bypass_format_parses:
  assumes "0 \<le> low" "low < 100" "0 \<le> high" "high < 1000"
  shows "mm8xxx_parse_bypass_setting (b2i en * 100000 + low * 1000 + high)
    = \<lparr>bp_enable = en, low_capacity = word_of_int low, high_capacity = word_of_int high\<rparr>"
proof -
  let ?d = "b2i en * 100000 + low * 1000 + high"
  have nn: "0 \<le> ?d" using assms by (simp add: b2i_def)
  have e: "?d = high + (low + b2i en * 100) * 1000" by simp
  have d1: "?d div 1000 = low + b2i en * 100" and m1: "?d mod 1000 = high"
    unfolding e using assms(3,4) by (simp_all only: div_mult_self1 mod_mult_self1) simp_all
  have "?d div 100000 = ?d div 1000 div 100" by (simp add: div_mult2_eq [symmetric])
  also have "\<dots> = b2i en" unfolding d1 using assms(1,2) by simp
  finally have "?d div 100000 = b2i en" .
  moreover have "?d div 1000 mod 100 = low" unfolding d1 using assms(1,2) by simp
  moreover note m1
  ultimately show ?thesis
  proof -
    have "((word_of_int (b2i en) :: u16) \<noteq> 0) = en" by (cases en) simp_all
    with \<open>?d div 100000 = b2i en\<close> \<open>?d div 1000 mod 100 = low\<close> m1 show ?thesis
      using nn by (simp add: mm8xxx_parse_bypass_setting_def)
  qed
qed

lemma bypass_format_parses_witness:
  "mm8xxx_parse_bypass_setting 160080
    = \<lparr>bp_enable = True, low_capacity = 60, high_capacity = 80\<rparr>"
  using bypass_format_parses [of 60 80 True] by simp

text \<open>A date that was stored in a block is read back from it, modulo 2^24; a date
  stored in another block leaves the bypass bytes alone; after both sequences the
  chip is sealed.\<close>

theorem date_roundtrip:
  assumes "user_nvm A chip" "chip_wf (chip w)"
    and "mm8xxx_write_date A target MM8XXX_BYPASS_UNSEAL_CODE x w = (0, w1)"
    and "mm8xxx_read_date A target MM8XXX_BYPASS_UNSEAL_CODE w1 = (ret, w2)" "ret \<noteq> - 1"
    and "(byte_of target 0, byte_of target 1) \<noteq> (0xF4, 0)"
  shows "ret = uint x mod 2 ^ 24 \<and> sealed (chip w1) \<and> sealed (chip w2)
    \<and> committed (chip w2) (0xF4, 0) = committed (chip w) (0xF4, 0)"
proof -
  note v = user_nvm.write_date_value [OF assms(1,3,2) refl]
  have wf: "chip_wf (chip w1)" using v assms(2) by (simp add: chip_wf_def fill_def)
  note q = user_nvm.read_block_value [OF assms(1) assms(4) [unfolded mm8xxx_read_date_def] wf assms(5)]
  show ?thesis using v q assms(6) date_bytes by (auto simp: fun_upd_def)
qed

lemma date_roundtrip_witness:
  "\<exists>w1 ret w2. mm8xxx_write_date (nvm_ref True) 0xF2 MM8XXX_BYPASS_UNSEAL_CODE 0x180512 chip0 = (0, w1)
    \<and> mm8xxx_read_date (nvm_ref True) 0xF2 MM8XXX_BYPASS_UNSEAL_CODE w1 = (ret, w2)
    \<and> ret = 0x180512"
proof -
  let ?w = "mm8xxx_write_date (nvm_ref True) 0xF2 MM8XXX_BYPASS_UNSEAL_CODE 0x180512 chip0"
  define w1 where "w1 = snd ?w"
  have w: "?w = (0, w1)"
    by (simp add: w1_def mm8xxx_write_date_def nvm_open_def nvm_seal_def ref_write ref_read)
  define r where "r = mm8xxx_read_date (nvm_ref True) 0xF2 MM8XXX_BYPASS_UNSEAL_CODE w1"
  have e: "mm8xxx_read_date (nvm_ref True) 0xF2 MM8XXX_BYPASS_UNSEAL_CODE w1 = (fst r, snd r)"
    by (simp add: r_def)
  have nn: "fst r \<noteq> - 1"
  proof -
    have "0 \<le> fst r"
      by (simp add: r_def mm8xxx_read_date_def nvm_open_def nvm_seal_def ref_write ref_read date_of_def)
    then show ?thesis by simp
  qed
  have "fst r = uint (0x180512 :: u32) mod 2 ^ 24"
    using date_roundtrip [OF nvm_ref.user_nvm_axioms _ w e nn]
    by (simp add: chip0_def chip_wf_def byte_of_def)
  with w e show ?thesis by simp
qed

text \<open>The start-of-use date is requested with the code the device remembers; before
  the production date has been read this code is 0, and a sealed chip then stays
  sealed with its window unchanged throughout the read.\<close>

theorem start_date_read_stays_locked:
  assumes "user_nvm A chip" "sealed (chip (world di))" "cdev_unseal_code di = 0"
  shows "sealed (chip (world (snd (mm8xxx_get_read_start_date_of_use A di))))
    \<and> work_buf (chip (world (snd (mm8xxx_get_read_start_date_of_use A di)))) = work_buf (chip (world di))"
  using user_nvm.read_date_locked [OF assms(1) surjective_pairing assms(2), of "0x00F3"] assms(3)
  by (simp add: mm8xxx_get_read_start_date_of_use_def case_prod_beta Let_def)

lemma start_date_read_stays_locked_witness:
  "sealed (world (snd (mm8xxx_get_read_start_date_of_use (nvm_ref True) (nvm_device chip0))))"
  using start_date_read_stays_locked [OF nvm_ref.user_nvm_axioms, of "nvm_device chip0" True]
  by (simp add: nvm_device_def chip_data_def mm_device0_def chip0_def)



end
