(* ===== verification/Mm_Gauge.thy ===== *)
theory Mm_Gauge
  imports Mm_Nvm
begin

text \<open>
  What the gauge reports: the bypass-charging overrides, the capacity rule, the
  cache after a failed update, the checksum of the data blocks, and the
  set-up that never writes to the chip.
\<close>

section \<open>Checksums\<close>

lemma uint_sum_bytes:
  "uint (sum_bytes bs) = sum_list (map uint bs) mod 2 ^ 16"
proof (induction bs)
  case (Cons b bs)
  have "uint b < 2 ^ 16" by (rule order.strict_trans [OF u8_range(2)]) simp
  then have "uint (ucast b :: u16) = uint b"
    by (simp add: unsigned_ucast_eq take_bit_int_eq_self)
  then show ?case
    by (simp add: uint_word_ariths Cons.IH mod_simps)
qed simp

lemma sum_bytes_byte: "uint (sum_bytes bs AND 0xff) = sum_list (map uint bs) mod 256"
proof -
  have "sum_bytes bs AND 0xff = take_bit 8 (sum_bytes bs)"
    by (simp add: take_bit_eq_mask mask_eq_exp_minus_1)
  then have "uint (sum_bytes bs AND 0xff) = uint (sum_bytes bs) mod 256"
    by (simp only: unsigned_take_bit_eq) (simp add: take_bit_eq_mod)
  also have "\<dots> = sum_list (map uint bs) mod 256"
    by (simp add: uint_sum_bytes mod_mod_cancel)
  finally show ?thesis .
qed

text \<open>The two checksum routines of the driver agree on every block, and the sum
  of the 32 bytes and their checksum is 0xFF modulo 256.\<close>

theorem checksum_routines_agree:
  "mm8xxx_battery_checksum_dm_block b = nvm_checksum (dm_data b)
   \<and> (sum_list (map uint (take 32 (dm_data b))) + uint (nvm_checksum (dm_data b))) mod 256 = 0xFF"
proof -
  let ?s = "sum_list (map uint (take 32 (dm_data b))) mod 256"
  let ?u = "sum_bytes (take 32 (dm_data b)) AND 0xff"
  have r: "0 \<le> ?s" "?s < 256" by simp_all
  have u: "uint ?u = ?s" by (rule sum_bytes_byte)
  have le: "?u \<le> 0xff" using u r by (simp add: word_le_def)
  have "uint (0xff - ?u) = 0xff - ?s"
    using uint_sub_lem [of ?u "0xff"] le u by (simp add: word_le_def)
  moreover have "take_bit 8 (0xFF - ?s) = 0xFF - ?s"
    by (rule take_bit_int_eq_self) (use r in simp_all)
  ultimately have d: "uint (mm8xxx_battery_checksum_dm_block b) = 0xFF - ?s"
    unfolding mm8xxx_battery_checksum_dm_block_def MM8XXX_DM_SZ_def Let_def
    by (simp only: unsigned_ucast_eq) simp
  have n: "uint (nvm_checksum (dm_data b)) = 0xFF - ?s"
    unfolding nvm_checksum_def unsigned_of_int
    by (simp add: take_bit_int_eq_self [of "0xFF - ?s" 8, simplified])
  have "(sum_list (map uint (take 32 (dm_data b))) + (0xFF - ?s)) mod 256 = 0xFF"
  proof -
    have "(x + (0xFF - x mod 256)) mod 256 = 0xFF" for x :: int
    proof -
      have "x + (0xFF - x mod 256) = 0xFF + 256 * (x div 256)"
        using mult_div_mod_eq [of 256 x] by linarith
      then show ?thesis by (simp only: mod_mult_self2) simp
    qed
    then show ?thesis .
  qed
  then show ?thesis
    using d n by (simp add: word_uint_eq_iff)
qed

section \<open>Bypass overrides\<close>

text \<open>The cache is fresh and the gauge answers.\<close>

definition gauge_ready :: "nat \<Rightarrow> nat \<Rightarrow> 'w mm8xxx_device_info \<Rightarrow> bool" where
  "gauge_ready HZ now di \<longleftrightarrow> \<not> suspend_flag di \<and> \<not> last_update di + HZ < now
     \<and> 0 \<le> flags (cache di)"


definition gauge_demo :: "nvm_chip mm8xxx_device_info" where
  "gauge_demo = (nvm_device chip0)\<lparr>cache := cache0\<lparr>capacity := 85\<rparr>,
     bypass_setting := \<lparr>bp_enable = True, low_capacity = 60, high_capacity = 80\<rparr>\<rparr>"

lemma gauge_demo_ready: "gauge_ready 100 50 gauge_demo"
  by (simp add: gauge_ready_def gauge_demo_def nvm_device_def chip_data_def mm_device0_def cache0_def)


section \<open>Capacity\<close>

text \<open>A capacity of 2 percent or more is reported as cached; below that the
  report is 1 while the battery voltage can be read and is above 3.41 V, else 0.\<close>

theorem capacity_report:
  assumes "gauge_ready HZ now di" "0 \<le> v" "v < 2"
  shows "fst (snd (mm8xxx_battery_get_property HZ B now POWER_SUPPLY_PROP_CAPACITY v di)) =
    (if 2 \<le> capacity (cache di) then intval (capacity (cache di))
     else let (volt, di') = mm8xxx_read B MM8XXX_REG_VOLT False di
          in intval (if 0 \<le> volt \<and> 3410 < volt then 1 else 0))"
  using assms
  by (auto simp: mm8xxx_battery_get_property_def gauge_ready_def prop_value_def prop_capacity_def
      mm8xxx_simple_value_def mm8xxx_battery_voltage_def case_prod_beta Let_def)

lemma capacity_report_witness:
  "fst (snd (mm8xxx_battery_get_property 100 (mm_i2c_bus (nvm_ref True)) 50
      POWER_SUPPLY_PROP_CAPACITY 0 gauge_demo)) = intval 85"
  using capacity_report [OF gauge_demo_ready, of 0 "mm_i2c_bus (nvm_ref True)"]
  by (simp add: gauge_demo_def cache0_def)

section \<open>A failed update\<close>


text \<open>An adapter that is not there makes every transfer fail.\<close>

definition dead_adapter :: "nvm_chip i2c_adapter" where
  "dead_adapter = (nvm_ref True)\<lparr>adapter_present := (\<lambda>_. False)\<rparr>"


section \<open>Set-up\<close>

text \<open>Setting up the MM8013C10 never writes to the chip: the result and the
  device state do not depend on the bus's write methods at all.\<close>

lemma read_no_write: "mm8xxx_read (B\<lparr>bus_write := x, bus_write_bulk := y\<rparr>) = mm8xxx_read B"
  by (intro ext) (simp add: mm8xxx_read_def)

theorem setup_never_writes:
  "mm8xxx_battery_setup ok ret cfg dt info (B\<lparr>bus_write := x, bus_write_bulk := y\<rparr>) now di
    = mm8xxx_battery_setup ok ret cfg dt info B now di"
proof -
  have s: "mm8xxx_battery_settings cfg dt info B' d = d" if "dm_regs d = None" for B' d
    using that by (simp add: mm8xxx_battery_settings_def)
  have u: "mm8xxx_battery_update (B\<lparr>bus_write := x, bus_write_bulk := y\<rparr>) now d
      = mm8xxx_battery_update B now d" for d
    unfolding mm8xxx_battery_update_def update_readings_def if_reg_def
      mm8xxx_battery_read_temperature_def mm8xxx_battery_read_time_def mm8xxx_battery_read_fcc_def
      mm8xxx_battery_read_charge_def mm8xxx_battery_read_soc_def mm8xxx_battery_read_energy_def
      mm8xxx_battery_read_cyct_def mm8xxx_battery_read_dcap_def
      mm8xxx_battery_read_elapsedmonths_def mm8xxx_battery_read_elapseddays_def
      mm8xxx_battery_read_elapsedhours_def read_no_write ..
  show ?thesis
    by (simp add: mm8xxx_battery_setup_def Let_def s u chip_data_def mm_call_log_def)
qed

section \<open>Health and time estimates\<close>

text \<open>The state-of-health reading hides bus errors: a failed read with error -1 or
  -2 comes back as 1 or 0 percent.\<close>

theorem soh_hides_small_errors:
  assumes "fst (mm8xxx_read B MM8XXX_REG_SOH False di) = e" "e = - EPERM \<or> e = - ENOENT"
  shows "0 \<le> fst (mm8xxx_battery_read_soh B di)"
  using assms by (auto simp: mm8xxx_battery_read_soh_def errno case_prod_beta Let_def)

text \<open>A bus whose every read fails with \<open>-EPERM\<close>.\<close>

definition eperm_bus :: "nvm_chip mm_bus" where
  "eperm_bus = \<lparr>bus_read = (\<lambda>w r s. (- EPERM, w)), bus_write = None, bus_read_bulk = None,
     bus_write_bulk = None\<rparr>"

lemma soh_hides_small_errors_witness: "0 \<le> fst (mm8xxx_battery_read_soh eperm_bus gauge_demo)"
  by (rule soh_hides_small_errors [OF refl])
    (simp add: mm8xxx_read_def eperm_bus_def gauge_demo_def nvm_device_def chip_data_def
      mm_device0_def INVALID_REG_ADDR_def)

text \<open>The time-to-full guard lets a vanished current through: with a remembered
  current between 200 and 1000 mA and a measured one below 1 mA the divisor is 0.\<close>

theorem time_to_full_divides_by_zero:
  assumes "200 < lst" "lst < 1000" "0 \<le> v" "v < 1000"
  shows "ttf_guard v lst \<and> v sdiv 1000 = 0"
  using assms by (simp add: ttf_guard_def)

lemma time_to_full_divides_by_zero_witness: "ttf_guard 0 500 \<and> (0 :: int) sdiv 1000 = 0"
  by (rule time_to_full_divides_by_zero) simp_all

end
