(* ===== verification/Lenovo_Sysfs.thy ===== *)
theory Lenovo_Sysfs
  imports Mm_I2c
begin

text \<open>
  The vendor's charge settings, lenovo_charge_sysfs: the settings record behind the
  files of \<open>power_supply/battery\<close> and \<open>power_supply/usb\<close>, the getters the charger
  core calls, the notifier chain, and the show and store methods of the files.
\<close>

section \<open>State\<close>

datatype sysfs_property =
    POWER_SUPPLY_PROP_BATTERY_MAINTENANCE
  | POWER_SUPPLY_PROP_BATTERY_MAINTENANCE20
  | POWER_SUPPLY_PROP_BATTERY_RECHARGE_SETTING
  | POWER_SUPPLY_PROP_BATTERY_PROTECTION_SETTING
  | POWER_SUPPLY_PROP_BATTERY_PROTECTION_SETTING_EU
  | POWER_SUPPLY_PROP_CHARGING_LEVEL
  | POWER_SUPPLY_PROP_CHARGING_ENABLE
  | POWER_SUPPLY_PROP_CV
  | POWER_SUPPLY_PROP_REAL_TYPE
  | POWER_SUPPLY_PROP_INPUT_SUSPEND
  | POWER_SUPPLY_PROP_SHIP_MODE

text \<open>A power supply is known by its name.  The events sent down the notifier chain
  are kept in the order they were sent.\<close>

record sysfs_info_data =
  battery_psy :: "string option"
  usb_psy :: "string option"
  charger_psy :: "string option"
  real_type :: int
  is_maintenance :: int
  is_maintenance20 :: int
  protection_setting :: int
  is_input_suspend :: int
  protection_setting_eu :: int
  dynamic_cv_setting :: int
  dynamic_gascv_setting :: int
  dynamic_cv_setting20 :: int
  dynamic_gascv_setting20 :: int
  dynamic_soc_rechg_setting :: int
  charging_enable :: int
  charging_level :: int
  entry_ship_mode :: int
  sysfs_noitify_chain :: "int list"

text \<open>The state after \<open>kzalloc\<close>.\<close>

definition info_data0 :: sysfs_info_data where
  "info_data0 = \<lparr>battery_psy = None, usb_psy = None, charger_psy = None, real_type = 0,
     is_maintenance = 0, is_maintenance20 = 0, protection_setting = 0, is_input_suspend = 0,
     protection_setting_eu = 0, dynamic_cv_setting = 0, dynamic_gascv_setting = 0,
     dynamic_cv_setting20 = 0, dynamic_gascv_setting20 = 0, dynamic_soc_rechg_setting = 0,
     charging_enable = 0, charging_level = 0, entry_ship_mode = 0, sysfs_noitify_chain = []\<rparr>"

text \<open>What the file asks of the rest of the kernel: which power supplies are registered,
  what a property read puts in the caller's value (None: it failed and left it), and
  what \<open>battery_show_battery_cv\<close> leaves in the caller's variable.\<close>

record lenovo_env =
  power_supply_get_by_name :: "string \<Rightarrow> bool"
  battery_cycle_count :: "int option"
  charger_usb_type :: "int option"
  show_battery_cv :: "int \<Rightarrow> int"

section \<open>Operations\<close>

definition lookup_psy :: "lenovo_env \<Rightarrow> string \<Rightarrow> string option \<Rightarrow> string option" where
  "lookup_psy E name cur =
    (if cur = None \<and> power_supply_get_by_name E name then Some name else cur)"

definition lenovo_charger_sysfs_check_psy ::
  "lenovo_env \<Rightarrow> sysfs_info_data \<Rightarrow> bool \<times> sysfs_info_data" where
  "lenovo_charger_sysfs_check_psy E D =
    (let D = D\<lparr>battery_psy := lookup_psy E ''battery'' (battery_psy D)\<rparr>;
         D = D\<lparr>usb_psy := lookup_psy E ''usb'' (usb_psy D)\<rparr>;
         D = D\<lparr>charger_psy := lookup_psy E ''sc-charger'' (charger_psy D)\<rparr>;
         D = D\<lparr>charger_psy := lookup_psy E ''sgm4154x-charger'' (charger_psy D)\<rparr>
     in (battery_psy D \<noteq> None \<and> usb_psy D \<noteq> None \<and> charger_psy D \<noteq> None, D))"

definition lenovo_charge_sysfs_usb_get_prop :: "psp \<Rightarrow> propval \<Rightarrow> int \<times> propval" where
  "lenovo_charge_sysfs_usb_get_prop p v =
    (case p of
       POWER_SUPPLY_PROP_PRESENT \<Rightarrow> (0, intval 0)
     | POWER_SUPPLY_PROP_ONLINE \<Rightarrow> (0, intval 0)
     | POWER_SUPPLY_PROP_TYPE \<Rightarrow> (0, enumval POWER_SUPPLY_TYPE_USB)
     | _ \<Rightarrow> (- EINVAL, v))"

text \<open>The texts by USB type, in the order of the kernel's enumeration:
  unknown, SDP, DCP, CDP, ACA, C, PD, PD DRP, PD PPS, Apple brick.\<close>

definition POWER_SUPPLY_REAL_TYPE_TEXT :: "string list" where
  "POWER_SUPPLY_REAL_TYPE_TEXT =
    [''Unknown'', ''SDP'', ''DCP'', ''CDP'', ''ACA'', ''HVDCP'', ''PD'', ''PD_DRP'', ''PD_PPS'',
     ''USB_FLOAT'']"

definition get_real_type :: "lenovo_env \<Rightarrow> sysfs_info_data \<Rightarrow> sysfs_info_data" where
  "get_real_type E D =
    (let (ok, D) = lenovo_charger_sysfs_check_psy E D;
         t = (if ok then (case charger_usb_type E of None \<Rightarrow> 0 | Some t \<Rightarrow> t) else 0)
     in D\<lparr>real_type := (if t > 9 \<or> t < 0 then 0 else t)\<rparr>)"

text \<open>\<open>garbage\<close> is the uninitialised local \<open>cv\<close>.\<close>

definition lenovo_charge_sysfs_get_property ::
  "lenovo_env \<Rightarrow> int \<Rightarrow> sysfs_property \<Rightarrow> sysfs_info_data \<Rightarrow> int \<times> propval \<times> sysfs_info_data"
where
  "lenovo_charge_sysfs_get_property E garbage p D =
    (case p of
       POWER_SUPPLY_PROP_BATTERY_MAINTENANCE \<Rightarrow> (0, intval (is_maintenance D), D)
     | POWER_SUPPLY_PROP_BATTERY_MAINTENANCE20 \<Rightarrow> (0, intval (is_maintenance20 D), D)
     | POWER_SUPPLY_PROP_BATTERY_RECHARGE_SETTING \<Rightarrow> (0, intval (dynamic_soc_rechg_setting D), D)
     | POWER_SUPPLY_PROP_BATTERY_PROTECTION_SETTING \<Rightarrow> (0, intval (protection_setting D), D)
     | POWER_SUPPLY_PROP_BATTERY_PROTECTION_SETTING_EU \<Rightarrow> (0, intval (protection_setting_eu D), D)
     | POWER_SUPPLY_PROP_CHARGING_LEVEL \<Rightarrow> (0, intval (charging_level D), D)
     | POWER_SUPPLY_PROP_CHARGING_ENABLE \<Rightarrow> (0, intval (charging_enable D), D)
     | POWER_SUPPLY_PROP_CV \<Rightarrow>
         let cv = show_battery_cv E garbage in (0, intval (if cv > 0 then cv else 0), D)
     | POWER_SUPPLY_PROP_REAL_TYPE \<Rightarrow>
         let D = get_real_type E D
         in (0, strval (POWER_SUPPLY_REAL_TYPE_TEXT ! nat (real_type D)), D)
     | POWER_SUPPLY_PROP_INPUT_SUSPEND \<Rightarrow> (0, intval (is_input_suspend D), D)
     | POWER_SUPPLY_PROP_SHIP_MODE \<Rightarrow> (0, intval (entry_ship_mode D), D))"

definition raw_notifier_call_chain :: "int \<Rightarrow> sysfs_info_data \<Rightarrow> sysfs_info_data" where
  "raw_notifier_call_chain ev D = D\<lparr>sysfs_noitify_chain := sysfs_noitify_chain D @ [ev]\<rparr>"

text \<open>The charge voltage in uV and the gauge's in mV by cycle count.\<close>

definition maintenance_voltages :: "int \<Rightarrow> int \<times> int" where
  "maintenance_voltages cycles =
    (if cycles < 150 then (4530000, 4530)
     else if 150 \<le> cycles \<and> cycles < 1020 then (4480000, 4470)
     else if 1020 \<le> cycles \<and> cycles < 1050 then (4432000, 4410)
     else (4340000, 4310))"

definition set_maintenance :: "lenovo_env \<Rightarrow> int \<Rightarrow> sysfs_info_data \<Rightarrow> sysfs_info_data" where
  "set_maintenance E v D =
    (if v = 0 then
       D\<lparr>is_maintenance := 0, dynamic_cv_setting := 0, dynamic_gascv_setting := 0\<rparr>
     else
       let (ok, D) = lenovo_charger_sysfs_check_psy E D;
           cycles = (if ok then (case battery_cycle_count E of None \<Rightarrow> 0 | Some c \<Rightarrow> c) else 0);
           (cv, gas) = maintenance_voltages cycles
       in D\<lparr>dynamic_cv_setting := cv, dynamic_gascv_setting := gas, is_maintenance := 1\<rparr>)"

definition lenovo_charge_sysfs_set_property ::
  "lenovo_env \<Rightarrow> sysfs_property \<Rightarrow> int \<Rightarrow> sysfs_info_data \<Rightarrow> int \<times> sysfs_info_data" where
  "lenovo_charge_sysfs_set_property E p v D =
    (0, case p of
       POWER_SUPPLY_PROP_BATTERY_MAINTENANCE \<Rightarrow> set_maintenance E v D
     | POWER_SUPPLY_PROP_BATTERY_MAINTENANCE20 \<Rightarrow>
         if v = 0 then
           D\<lparr>is_maintenance20 := 0, dynamic_cv_setting20 := 0, dynamic_gascv_setting20 := 0\<rparr>
         else
           D\<lparr>dynamic_cv_setting20 := 4340000, dynamic_gascv_setting20 := 4310,
             is_maintenance20 := 1\<rparr>
     | POWER_SUPPLY_PROP_BATTERY_RECHARGE_SETTING \<Rightarrow> D\<lparr>dynamic_soc_rechg_setting := v\<rparr>
     | POWER_SUPPLY_PROP_BATTERY_PROTECTION_SETTING \<Rightarrow>
         raw_notifier_call_chain (b2i (v = 140060)) (D\<lparr>protection_setting := v\<rparr>)
     | POWER_SUPPLY_PROP_BATTERY_PROTECTION_SETTING_EU \<Rightarrow>
         raw_notifier_call_chain 0 (D\<lparr>protection_setting_eu := v\<rparr>)
     | POWER_SUPPLY_PROP_CHARGING_LEVEL \<Rightarrow> D\<lparr>charging_level := v\<rparr>
     | POWER_SUPPLY_PROP_CHARGING_ENABLE \<Rightarrow> D\<lparr>charging_enable := v\<rparr>
     | POWER_SUPPLY_PROP_CV \<Rightarrow> D
     | POWER_SUPPLY_PROP_REAL_TYPE \<Rightarrow> D
     | POWER_SUPPLY_PROP_INPUT_SUSPEND \<Rightarrow>
         raw_notifier_call_chain 0
           (D\<lparr>is_input_suspend := (if v = 1 then 1 else if v = 0 then 0 else 0)\<rparr>)
     | POWER_SUPPLY_PROP_SHIP_MODE \<Rightarrow> D\<lparr>entry_ship_mode := v\<rparr>)"

section \<open>Getters\<close>

definition get_battery_protection_setting :: "sysfs_info_data \<Rightarrow> int" where
  "get_battery_protection_setting D = protection_setting D"

text \<open>The setting and the three values it stores through its pointers.\<close>

definition maintenance_set :: "sysfs_info_data \<Rightarrow> int \<times> int \<times> int \<times> int" where
  "maintenance_set D = (is_maintenance D, dynamic_cv_setting D, dynamic_soc_rechg_setting D,
     dynamic_gascv_setting D)"

definition maintenance20_set :: "sysfs_info_data \<Rightarrow> int \<times> int \<times> int \<times> int" where
  "maintenance20_set D = (is_maintenance20 D, dynamic_cv_setting20 D, dynamic_soc_rechg_setting D,
     dynamic_gascv_setting20 D)"

definition get_input_suspend :: "sysfs_info_data \<Rightarrow> int" where
  "get_input_suspend D = is_input_suspend D"

definition get_battery_protection_setting_eu :: "sysfs_info_data \<Rightarrow> int" where
  "get_battery_protection_setting_eu D = protection_setting_eu D"

definition get_charging_enable :: "sysfs_info_data \<Rightarrow> int" where
  "get_charging_enable D = charging_enable D"

definition get_charging_level :: "sysfs_info_data \<Rightarrow> int" where
  "get_charging_level D = charging_level D"

definition lenovo_get_entry_ship_mode :: "sysfs_info_data \<Rightarrow> int" where
  "lenovo_get_entry_ship_mode D = entry_ship_mode D"

section \<open>Files\<close>

text \<open>\<open>parsed\<close> is the result of \<open>kstrtos32\<close> on the text written: an error or a number.
  Without driver data the method returns the 0 of the successful parse.\<close>

definition lenovo_charge_sysfs_store ::
  "lenovo_env \<Rightarrow> bool \<Rightarrow> int + int \<Rightarrow> int \<Rightarrow> sysfs_property \<Rightarrow> sysfs_info_data \<Rightarrow> int \<times> sysfs_info_data"
where
  "lenovo_charge_sysfs_store E has_psy parsed count p D =
    (case parsed of
       Inl err \<Rightarrow> (err, D)
     | Inr v \<Rightarrow>
         if \<not> has_psy then (0, D)
         else let (_, D) = lenovo_charge_sysfs_set_property E p v D in (count, D))"

definition show_propval :: "propval \<Rightarrow> string" where
  "show_propval v =
    (case v of intval n \<Rightarrow> show_int n | strval t \<Rightarrow> t | enumval _ \<Rightarrow> []) @ [CHR 0x0A]"

definition lenovo_charge_sysfs_show ::
  "lenovo_env \<Rightarrow> int \<Rightarrow> bool \<Rightarrow> sysfs_property \<Rightarrow> sysfs_info_data \<Rightarrow> string \<times> sysfs_info_data" where
  "lenovo_charge_sysfs_show E garbage has_psy p D =
    (if \<not> has_psy then ([], D)
     else let (_, v, D) = lenovo_charge_sysfs_get_property E garbage p D in (show_propval v, D))"

text \<open>The files: name, property, and whether it can be written.\<close>

definition battery_sysfs_field_tbl :: "(string \<times> sysfs_property \<times> bool) list" where
  "battery_sysfs_field_tbl =
    [(''battery_maintenance'', POWER_SUPPLY_PROP_BATTERY_MAINTENANCE, True),
     (''battery_maintenance20'', POWER_SUPPLY_PROP_BATTERY_MAINTENANCE20, True),
     (''battery_recharge_setting'', POWER_SUPPLY_PROP_BATTERY_RECHARGE_SETTING, True),
     (''battery_protection_setting'', POWER_SUPPLY_PROP_BATTERY_PROTECTION_SETTING, True),
     (''battery_protection_setting_eu'', POWER_SUPPLY_PROP_BATTERY_PROTECTION_SETTING_EU, True),
     (''charging_level'', POWER_SUPPLY_PROP_CHARGING_LEVEL, True),
     (''charging_enable'', POWER_SUPPLY_PROP_CHARGING_ENABLE, True),
     (''cv'', POWER_SUPPLY_PROP_CV, False)]"

definition usb_sysfs_field_tbl :: "(string \<times> sysfs_property \<times> bool) list" where
  "usb_sysfs_field_tbl =
    [(''real_type'', POWER_SUPPLY_PROP_REAL_TYPE, False),
     (''input_suspend'', POWER_SUPPLY_PROP_INPUT_SUSPEND, True),
     (''ship_mode'', POWER_SUPPLY_PROP_SHIP_MODE, True)]"

text \<open>The group of files created for a power supply, and the settings afterwards;
  \<open>create_ok\<close> is the success of \<open>sysfs_create_group\<close>.\<close>

definition lenovo_charge_create_sysfs ::
  "bool \<Rightarrow> string option \<Rightarrow> sysfs_info_data option \<Rightarrow>
   (string \<times> sysfs_property \<times> bool) list \<times> sysfs_info_data option" where
  "lenovo_charge_create_sysfs create_ok psy d =
    (case psy of
       None \<Rightarrow> ([], d)
     | Some name \<Rightarrow>
         let D = (case d of None \<Rightarrow> info_data0 | Some D \<Rightarrow> D) in
         if name = ''battery'' then
           (if \<not> create_ok then ([], Some D)
            else (battery_sysfs_field_tbl, Some (D\<lparr>battery_psy := Some name\<rparr>)))
         else if name = ''usb'' then
           (if \<not> create_ok then ([], Some D)
            else (usb_sysfs_field_tbl, Some (D\<lparr>usb_psy := Some name\<rparr>)))
         else ([], Some D))"

end
