(* ===== verification/Lenovo_Settings.thy ===== *)
theory Lenovo_Settings
  imports Lenovo_Sysfs
begin

text \<open>
  The contract of the charge settings: what a file shows is the last value stored in
  it, the maintenance voltages fit the maintenance switch, the notifier chain, and
  the text of the USB type.  The first rests on a locale of get-after-put laws.
\<close>

section \<open>Stores of values by name\<close>

text \<open>A log of writes: each has an effect on at most one key, the value it shows from then
  on.  Whatever is written, a key shows its last effect.\<close>

locale write_log =
  fixes look :: "'p \<Rightarrow> 's \<Rightarrow> 'v" and perform :: "'w \<Rightarrow> 's \<Rightarrow> 's"
    and effect :: "'w \<Rightarrow> ('p \<times> 'v) option" and stored :: "'p \<Rightarrow> bool"
  assumes look_write: "stored p \<Longrightarrow> look p (perform w s) =
    (case effect w of None \<Rightarrow> look p s | Some (q, v) \<Rightarrow> if q = p then v else look p s)"
begin

lemma look_log:
  "stored p \<Longrightarrow> look p (fold perform ws s) =
    (case filter (\<lambda>(q, v). q = p) (rev (List.map_filter effect ws)) of
       [] \<Rightarrow> look p s | (q, v) # _ \<Rightarrow> v)"
  by (induction ws rule: rev_induct) (auto simp: look_write List.map_filter_def split: option.splits)

end

text \<open>Each \<open>stored\<close> key reads back a normal form of what was put there, whatever is
  put under the other keys.\<close>

locale prop_store =
  fixes look :: "'p \<Rightarrow> 's \<Rightarrow> 'v" and put :: "'p \<Rightarrow> 'a \<Rightarrow> 's \<Rightarrow> 's"
    and norm :: "'p \<Rightarrow> 'a \<Rightarrow> 'v" and stored :: "'p \<Rightarrow> bool"
  assumes look_put: "stored p \<Longrightarrow> look p (put p a s) = norm p a"
    and look_put_other: "stored p \<Longrightarrow> p \<noteq> q \<Longrightarrow> look p (put q a s) = look p s"
begin

lemma look_untouched:
  "stored p \<Longrightarrow> p \<notin> fst ` set ws \<Longrightarrow> look p (fold (\<lambda>(q, a). put q a) ws s) = look p s"
  by (induction ws arbitrary: s) (auto simp: look_put_other)

end

sublocale prop_store \<subseteq> log: write_log look "\<lambda>(q, a). put q a" "\<lambda>(q, a). Some (q, norm q a)" stored
  by unfold_locales (auto simp: look_put look_put_other)

text \<open>The settings: every property but the charge voltage and the USB type keeps what
  is stored.  The two maintenance switches and the input suspend keep 0 or 1.\<close>

fun kept :: "sysfs_property \<Rightarrow> bool" where
  "kept POWER_SUPPLY_PROP_CV = False"
| "kept POWER_SUPPLY_PROP_REAL_TYPE = False"
| "kept _ = True"

fun kept_value :: "sysfs_property \<Rightarrow> int \<Rightarrow> int" where
  "kept_value POWER_SUPPLY_PROP_BATTERY_MAINTENANCE v = b2i (v \<noteq> 0)"
| "kept_value POWER_SUPPLY_PROP_BATTERY_MAINTENANCE20 v = b2i (v \<noteq> 0)"
| "kept_value POWER_SUPPLY_PROP_INPUT_SUSPEND v = b2i (v = 1)"
| "kept_value _ v = v"

definition file_text :: "sysfs_property \<Rightarrow> sysfs_info_data \<Rightarrow> lenovo_env \<Rightarrow> int \<Rightarrow> string" where
  "file_text p D E garbage = fst (lenovo_charge_sysfs_show E garbage True p D)"

text \<open>A write of the number \<open>v\<close> to the file of \<open>p\<close>, in the surroundings of that moment.\<close>

definition write_file :: "sysfs_property \<Rightarrow> lenovo_env \<times> int \<Rightarrow> sysfs_info_data \<Rightarrow> sysfs_info_data"
where
  "write_file p = (\<lambda>(E, v) D. snd (lenovo_charge_sysfs_store E True (Inr v) 1 p D))"

named_theorems settings "definitions of the settings' operations"
lemmas [settings] = file_text_def write_file_def lenovo_charge_sysfs_show_def
  lenovo_charge_sysfs_get_property_def lenovo_charge_sysfs_store_def
  lenovo_charge_sysfs_set_property_def set_maintenance_def raw_notifier_call_chain_def

lemma check_psy_keeps [simp]:
  "is_maintenance (snd (lenovo_charger_sysfs_check_psy E D)) = is_maintenance D"
  "is_maintenance20 (snd (lenovo_charger_sysfs_check_psy E D)) = is_maintenance20 D"
  "dynamic_soc_rechg_setting (snd (lenovo_charger_sysfs_check_psy E D)) = dynamic_soc_rechg_setting D"
  "protection_setting (snd (lenovo_charger_sysfs_check_psy E D)) = protection_setting D"
  "protection_setting_eu (snd (lenovo_charger_sysfs_check_psy E D)) = protection_setting_eu D"
  "charging_level (snd (lenovo_charger_sysfs_check_psy E D)) = charging_level D"
  "charging_enable (snd (lenovo_charger_sysfs_check_psy E D)) = charging_enable D"
  "is_input_suspend (snd (lenovo_charger_sysfs_check_psy E D)) = is_input_suspend D"
  "entry_ship_mode (snd (lenovo_charger_sysfs_check_psy E D)) = entry_ship_mode D"
  "dynamic_cv_setting20 (snd (lenovo_charger_sysfs_check_psy E D)) = dynamic_cv_setting20 D"
  "dynamic_gascv_setting20 (snd (lenovo_charger_sysfs_check_psy E D)) = dynamic_gascv_setting20 D"
  "sysfs_noitify_chain (snd (lenovo_charger_sysfs_check_psy E D)) = sysfs_noitify_chain D"
  by (simp_all add: lenovo_charger_sysfs_check_psy_def Let_def)

interpretation files: prop_store
  "\<lambda>p D. (\<lambda>E garbage. file_text p D E garbage)" write_file
  "\<lambda>p (E, v). (\<lambda>E' garbage. show_int (kept_value p v) @ [CHR 0x0A])" kept
proof (unfold_locales, goal_cases)
  case (1 p a s)
  then show ?case
    by (cases a; cases p) (auto simp: settings show_propval_def case_prod_beta Let_def)
next
  case (2 p q a s)
  then show ?case
    by (cases a; cases p; cases q) (auto simp: settings case_prod_beta Let_def)
qed

lemma log_of_writes:
  "filter (\<lambda>(q, v). q = p) (rev (List.map_filter (\<lambda>(q, a). Some (q, f q a)) ws))
    = map (\<lambda>(q, a). (q, f p a)) (filter (\<lambda>(q, a). q = p) (rev ws))"
  by (induction ws rule: rev_induct) (auto simp: List.map_filter_def)


definition lenovo_env0 :: lenovo_env where
  "lenovo_env0 = \<lparr>power_supply_get_by_name = (\<lambda>_. True), battery_cycle_count = Some 200,
     charger_usb_type = Some 2, show_battery_cv = (\<lambda>c. c)\<rparr>"


section \<open>Maintenance voltages\<close>

definition maintenance_ok :: "sysfs_info_data \<Rightarrow> bool" where
  "maintenance_ok D \<longleftrightarrow>
    (case maintenance_set D of (on, cv, _, gas) \<Rightarrow>
       if on = 0 then cv = 0 \<and> gas = 0
       else on = 1 \<and> (cv, gas) \<in> {(4530000, 4530), (4480000, 4470), (4432000, 4410), (4340000, 4310)})
    \<and> (case maintenance20_set D of (on, cv, _, gas) \<Rightarrow>
       if on = 0 then cv = 0 \<and> gas = 0 else on = 1 \<and> (cv, gas) = (4340000, 4310))"

lemma voltages_in_table:
  "(fst (maintenance_voltages c), snd (maintenance_voltages c))
    \<in> {(4530000, 4530), (4480000, 4470), (4432000, 4410), (4340000, 4310)}"
  by (simp add: maintenance_voltages_def)

lemma write_file_maintenance_ok: "maintenance_ok D \<Longrightarrow> maintenance_ok (write_file p a D)"
proof -
  assume ok: "maintenance_ok D"
  obtain E v where a: "a = (E, v)" by fastforce
  show ?thesis
  proof (cases "p = POWER_SUPPLY_PROP_BATTERY_MAINTENANCE \<and> v \<noteq> 0")
    case True
    then show ?thesis using ok voltages_in_table
      by (simp add: a settings maintenance_ok_def maintenance_set_def maintenance20_set_def
          case_prod_beta Let_def split: if_splits del: insert_iff)
  next
    case False
    then show ?thesis using ok
      by (cases p) (auto simp: a settings maintenance_ok_def maintenance_set_def
          maintenance20_set_def case_prod_beta Let_def)
  qed
qed

text \<open>After any sequence of writes to the files from the state of a fresh boot, the
  maintenance getters return a switch of 0 with zero voltages or a switch of 1 with
  one of the pairs of the table.\<close>

theorem maintenance_getters_consistent:
  "maintenance_ok (fold (\<lambda>(q, a). write_file q a) ws info_data0)"
proof (induction ws rule: rev_induct)
  case Nil
  show ?case by (simp add: maintenance_ok_def maintenance_set_def maintenance20_set_def info_data0_def)
next
  case (snoc x ws)
  then show ?case by (cases x) (simp add: write_file_maintenance_ok)
qed

text \<open>An older battery is never charged to a higher voltage: both maintenance
  voltages fall with the cycle count, from 4.53 V to no less than 4.31 V.\<close>

theorem maintenance_voltage_falls_with_age:
  assumes "old \<le> new"
  shows "fst (maintenance_voltages new) \<le> fst (maintenance_voltages old)
    \<and> snd (maintenance_voltages new) \<le> snd (maintenance_voltages old)
    \<and> 4340000 \<le> fst (maintenance_voltages new) \<and> fst (maintenance_voltages old) \<le> 4530000
    \<and> 4310 \<le> snd (maintenance_voltages new)"
  using assms by (simp add: maintenance_voltages_def)

lemma maintenance_voltage_falls_with_age_witness:
  "fst (maintenance_voltages 1100) \<le> fst (maintenance_voltages 100)"
  using maintenance_voltage_falls_with_age [of 100 1100] by simp

section \<open>Events and texts\<close>

text \<open>The events a write causes: the protection file tells whether the value is 140060,
  the EU protection and the suspend file send 0.\<close>

fun write_events :: "sysfs_property \<times> lenovo_env \<times> int \<Rightarrow> int list" where
  "write_events (POWER_SUPPLY_PROP_BATTERY_PROTECTION_SETTING, _, v) = [b2i (v = 140060)]"
| "write_events (POWER_SUPPLY_PROP_BATTERY_PROTECTION_SETTING_EU, _, _) = [0]"
| "write_events (POWER_SUPPLY_PROP_INPUT_SUSPEND, _, _) = [0]"
| "write_events _ = []"

lemma write_file_events:
  "sysfs_noitify_chain (write_file p a D) = sysfs_noitify_chain D @ write_events (p, a)"
  by (cases a; cases p) (auto simp: settings case_prod_beta Let_def)

text \<open>The charger core is notified once for every write to the protection, EU
  protection and suspend files, in the order of the writes, and for no other write.\<close>

theorem writes_notify_in_order:
  "sysfs_noitify_chain (fold (\<lambda>(q, a). write_file q a) ws D)
    = sysfs_noitify_chain D @ concat (map write_events ws)"
  by (induction ws arbitrary: D) (auto simp: write_file_events)

lemma real_type_range: "0 \<le> real_type (get_real_type E D) \<and> real_type (get_real_type E D) \<le> 9"
  by (simp add: get_real_type_def case_prod_beta Let_def)

text \<open>The real type file shows one of the ten texts whatever the charger reports:
  a type outside the table reads as unknown, so the table is never read past its end.\<close>

theorem real_type_text_in_table:
  "file_text POWER_SUPPLY_PROP_REAL_TYPE D E garbage
    \<in> (\<lambda>t. t @ [CHR 0x0A]) ` set POWER_SUPPLY_REAL_TYPE_TEXT"
proof -
  have "nat (real_type (get_real_type E D)) < length POWER_SUPPLY_REAL_TYPE_TEXT"
    using real_type_range [of E D] by (simp add: POWER_SUPPLY_REAL_TYPE_TEXT_def nat_less_iff)
  from nth_mem [OF this] show ?thesis by (simp add: settings show_propval_def Let_def)
qed

end
