(* ===== verification/Charger_Class.thy ===== *)
theory Charger_Class
  imports Sgm_Driver
begin

text \<open>
  The charger class, charger_class: the devices registered with it, the look-up by
  name, and the calls by which the charger core reaches a charger driver.  Each call
  goes through the driver's operation table and is refused when there is no device,
  no table or no entry.  The table of the SGM4154x driver is given at the end.
\<close>

section \<open>Devices and their tables\<close>

datatype adc_channel =
    ADC_CHANNEL_VBUS | ADC_CHANNEL_VSYS | ADC_CHANNEL_VBAT | ADC_CHANNEL_IBUS | ADC_CHANNEL_IBAT
  | ADC_CHANNEL_TEMP_JC | ADC_CHANNEL_USBID | ADC_CHANNEL_TS | ADC_CHANNEL_TBAT | ADC_CHANNEL_VOUT

text \<open>The entries of \<open>struct charger_ops\<close> that a class function calls, grouped by their
  arguments, and a request: an entry with its arguments.  An argument that is a
  pointer is the value behind it.\<close>

text \<open>Operations without arguments.\<close>

datatype class_act =
    plug_in_op | plug_out_op | kick_direct_charging_wdt_op | cs_init_setting_op | kick_wdt_op
  | check_cs_temp_op | dump_init_setting_op | dump_registers_op | reset_ta_op
  | set_pe20_efficiency_table_op | reset_vbatovp_alarm_op | reset_vbusovp_alarm_op
  | init_chip_op | reset_eoc_state_op

text \<open>Operations with a flag.\<close>

datatype class_switch =
    enable_op | enable_6pin_battery_charging_op | enable_chip_op | enable_direct_charging_op
  | cs_status_control_op | cs_enable_lowpower_op | enable_vbus_ovp_op | enable_powerpath_op
  | enable_safety_timer_op | enable_hz_op | enable_termination_op | send_ta_current_pattern_op
  | enable_cable_drop_comp_op | enable_auto_trans_op | set_operation_mode_op
  | enable_chg_type_det_op | enable_otg_op | enable_discharge_op | enable_usbid_op
  | enable_usbid_floating_op | enable_force_typec_otp_op | enable_hidden_mode_op
  | set_vreg_ft_op

text \<open>Operations with a value.\<close>

datatype class_level =
    set_charging_current_op | set_input_current_op | set_boot_volt_times_op
  | set_eoc_current_op | set_constant_voltage_op | set_mivr_op | set_vac_ovp_op
  | send_ta20_current_pattern_op | set_direct_charging_ibusoc_op
  | set_direct_charging_vbusov_op | set_ibusocp_op | set_vbusovp_op | set_ibatocp_op
  | set_vbatovp_op | set_vbatovp_alarm_op | set_vbusovp_alarm_op | set_boost_current_limit_op
  | safety_check_op | set_usbid_rup_op | set_usbid_src_ton_op

text \<open>Operations that store a flag.\<close>

datatype class_test =
    is_enabled_op | is_chip_enabled_op | is_charging_done_op | is_powerpath_enabled_op
  | is_safety_timer_enabled_op | get_mivr_state_op | is_vbuslowerr_op

text \<open>Operations that store a value.\<close>

datatype class_read =
    get_charging_current_op | get_min_charging_current_op | get_vbus_adc_op | get_vbat_adc_op
  | get_ibus_adc_op | get_ibat_adc_op | get_input_current_op | get_min_input_current_op
  | get_eoc_current_op | get_constant_voltage_op | get_mivr_op | get_zcv_op | run_aicl_op

datatype class_req =
    rq_act class_act | rq_switch class_switch bool | rq_level class_level u32
  | rq_test class_test bool | rq_read class_read u32 | rq_event charger_event u32
  | rq_get_cs_current int | rq_get_tchg_adc int int | rq_set_cs_regVal int
  | rq_get_adc adc_channel int int | rq_get_adc_accuracy adc_channel int int
  | rq_set_auto_trans u32 bool | rq_get_ctd_dischg_status u8 | rq_set_pd_adapter psenum
  | rq_set_property charger_property propval | rq_get_property charger_property propval

text \<open>An operation returns its result and the values behind its pointers afterwards (none
  when the operation was not reached).  \<open>'w\<close> is the world the driver works on.\<close>

type_synonym 'w class_op = "'w \<Rightarrow> int \<times> propval list \<times> 'w"

record 'w charger_device =
  dev_name :: string
  alias_name :: "string option"
  dev_ops :: "(class_req \<Rightarrow> 'w class_op option) option"

definition class_call :: "'w charger_device option \<Rightarrow> class_req \<Rightarrow> 'w class_op" where
  "class_call c r w =
    (case c of
       None \<Rightarrow> (- EOPNOTSUPP, [], w)
     | Some d \<Rightarrow>
         (case dev_ops d of
            None \<Rightarrow> (- EOPNOTSUPP, [], w)
          | Some t \<Rightarrow> (case t r of None \<Rightarrow> (- EOPNOTSUPP, [], w) | Some f \<Rightarrow> f w)))"

text \<open>Two class functions call the operation and then return the error all the same.\<close>

definition ignore_result :: "'w class_op \<Rightarrow> 'w class_op" where
  "ignore_result f w = (let (_, outs, w) = f w in (- EOPNOTSUPP, outs, w))"

section \<open>The class functions\<close>

definition charger_dev_enable ::
  "'w charger_device option \<Rightarrow> bool \<Rightarrow> 'w class_op" where
  "charger_dev_enable c en = class_call c (rq_switch enable_op en)"

definition charger_dev_is_enabled ::
  "'w charger_device option \<Rightarrow> bool \<Rightarrow> 'w class_op" where
  "charger_dev_is_enabled c en = class_call c (rq_test is_enabled_op en)"

definition charger_dev_plug_in :: "'w charger_device option \<Rightarrow> 'w class_op" where
  "charger_dev_plug_in c = class_call c (rq_act plug_in_op)"

definition charger_dev_plug_out :: "'w charger_device option \<Rightarrow> 'w class_op" where
  "charger_dev_plug_out c = class_call c (rq_act plug_out_op)"

definition charger_dev_do_event ::
  "'w charger_device option \<Rightarrow> charger_event \<Rightarrow> u32 \<Rightarrow> 'w class_op" where
  "charger_dev_do_event c event args = class_call c (rq_event event args)"

definition cs_dev_do_event ::
  "'w charger_device option \<Rightarrow> charger_event \<Rightarrow> u32 \<Rightarrow> 'w class_op" where
  "cs_dev_do_event c event args = class_call c (rq_event event args)"

definition charger_dev_enable_6pin_battery_charging ::
  "'w charger_device option \<Rightarrow> bool \<Rightarrow> 'w class_op" where
  "charger_dev_enable_6pin_battery_charging c en =
     class_call c (rq_switch enable_6pin_battery_charging_op en)"

definition charger_dev_set_charging_current ::
  "'w charger_device option \<Rightarrow> u32 \<Rightarrow> 'w class_op" where
  "charger_dev_set_charging_current c uA = class_call c (rq_level set_charging_current_op uA)"

definition charger_dev_get_charging_current ::
  "'w charger_device option \<Rightarrow> u32 \<Rightarrow> 'w class_op" where
  "charger_dev_get_charging_current c uA = class_call c (rq_read get_charging_current_op uA)"

definition charger_dev_get_min_charging_current ::
  "'w charger_device option \<Rightarrow> u32 \<Rightarrow> 'w class_op" where
  "charger_dev_get_min_charging_current c uA =
     class_call c (rq_read get_min_charging_current_op uA)"

definition charger_dev_enable_chip ::
  "'w charger_device option \<Rightarrow> bool \<Rightarrow> 'w class_op" where
  "charger_dev_enable_chip c en = class_call c (rq_switch enable_chip_op en)"

definition charger_dev_is_chip_enabled ::
  "'w charger_device option \<Rightarrow> bool \<Rightarrow> 'w class_op" where
  "charger_dev_is_chip_enabled c en = class_call c (rq_test is_chip_enabled_op en)"

definition charger_dev_enable_direct_charging ::
  "'w charger_device option \<Rightarrow> bool \<Rightarrow> 'w class_op" where
  "charger_dev_enable_direct_charging c en =
     class_call c (rq_switch enable_direct_charging_op en)"

definition charger_dev_kick_direct_charging_wdt ::
  "'w charger_device option \<Rightarrow> 'w class_op" where
  "charger_dev_kick_direct_charging_wdt c = class_call c (rq_act kick_direct_charging_wdt_op)"

definition charger_dev_get_vbus ::
  "'w charger_device option \<Rightarrow> u32 \<Rightarrow> 'w class_op" where
  "charger_dev_get_vbus c vbus = class_call c (rq_read get_vbus_adc_op vbus)"

definition charger_dev_get_vbat ::
  "'w charger_device option \<Rightarrow> u32 \<Rightarrow> 'w class_op" where
  "charger_dev_get_vbat c vbat = class_call c (rq_read get_vbat_adc_op vbat)"

definition charger_dev_get_ibus ::
  "'w charger_device option \<Rightarrow> u32 \<Rightarrow> 'w class_op" where
  "charger_dev_get_ibus c ibus = class_call c (rq_read get_ibus_adc_op ibus)"

definition charger_dev_get_ibat ::
  "'w charger_device option \<Rightarrow> u32 \<Rightarrow> 'w class_op" where
  "charger_dev_get_ibat c ibat = class_call c (rq_read get_ibat_adc_op ibat)"

definition charger_cs_get_ibat ::
  "'w charger_device option \<Rightarrow> int \<Rightarrow> 'w class_op" where
  "charger_cs_get_ibat c ibat = class_call c (rq_get_cs_current ibat)"

definition charger_cs_init_setting :: "'w charger_device option \<Rightarrow> 'w class_op" where
  "charger_cs_init_setting c = class_call c (rq_act cs_init_setting_op)"

definition charger_cs_status_control ::
  "'w charger_device option \<Rightarrow> bool \<Rightarrow> 'w class_op" where
  "charger_cs_status_control c enable = class_call c (rq_switch cs_status_control_op enable)"

definition charger_cs_enable_lowpower ::
  "'w charger_device option \<Rightarrow> bool \<Rightarrow> 'w class_op" where
  "charger_cs_enable_lowpower c enable = class_call c (rq_switch cs_enable_lowpower_op enable)"

definition charger_dev_get_temperature ::
  "'w charger_device option \<Rightarrow> int \<Rightarrow> int \<Rightarrow> 'w class_op" where
  "charger_dev_get_temperature c tchg_min tchg_max =
     class_call c (rq_get_tchg_adc tchg_min tchg_max)"

definition charger_dev_set_input_current ::
  "'w charger_device option \<Rightarrow> u32 \<Rightarrow> 'w class_op" where
  "charger_dev_set_input_current c uA = class_call c (rq_level set_input_current_op uA)"

definition charger_dev_get_input_current ::
  "'w charger_device option \<Rightarrow> u32 \<Rightarrow> 'w class_op" where
  "charger_dev_get_input_current c uA = class_call c (rq_read get_input_current_op uA)"

definition charger_dev_get_min_input_current ::
  "'w charger_device option \<Rightarrow> u32 \<Rightarrow> 'w class_op" where
  "charger_dev_get_min_input_current c uA = class_call c (rq_read get_min_input_current_op uA)"

definition charger_dev_set_boot_volt_times ::
  "'w charger_device option \<Rightarrow> u32 \<Rightarrow> 'w class_op" where
  "charger_dev_set_boot_volt_times c v = class_call c (rq_level set_boot_volt_times_op v)"

definition charger_dev_set_eoc_current ::
  "'w charger_device option \<Rightarrow> u32 \<Rightarrow> 'w class_op" where
  "charger_dev_set_eoc_current c uA =
     ignore_result (class_call c (rq_level set_eoc_current_op uA))"

definition charger_dev_get_eoc_current ::
  "'w charger_device option \<Rightarrow> u32 \<Rightarrow> 'w class_op" where
  "charger_dev_get_eoc_current c uA = class_call c (rq_read get_eoc_current_op uA)"

definition charger_dev_kick_wdt :: "'w charger_device option \<Rightarrow> 'w class_op" where
  "charger_dev_kick_wdt c = class_call c (rq_act kick_wdt_op)"

definition charger_dev_set_constant_voltage ::
  "'w charger_device option \<Rightarrow> u32 \<Rightarrow> 'w class_op" where
  "charger_dev_set_constant_voltage c uV = class_call c (rq_level set_constant_voltage_op uV)"

definition charger_dev_get_constant_voltage ::
  "'w charger_device option \<Rightarrow> u32 \<Rightarrow> 'w class_op" where
  "charger_dev_get_constant_voltage c uV = class_call c (rq_read get_constant_voltage_op uV)"

definition cs_dev_check_cs_temp :: "'w charger_device option \<Rightarrow> 'w class_op" where
  "cs_dev_check_cs_temp c = class_call c (rq_act check_cs_temp_op)"

definition charger_dev_dump_init_setting ::
  "'w charger_device option \<Rightarrow> 'w class_op" where
  "charger_dev_dump_init_setting c = class_call c (rq_act dump_init_setting_op)"

definition charger_dev_dump_registers ::
  "'w charger_device option \<Rightarrow> 'w class_op" where
  "charger_dev_dump_registers c = class_call c (rq_act dump_registers_op)"

definition charger_dev_is_charging_done ::
  "'w charger_device option \<Rightarrow> bool \<Rightarrow> 'w class_op" where
  "charger_dev_is_charging_done c done = class_call c (rq_test is_charging_done_op done)"

definition cs_dev_is_charging_done ::
  "'w charger_device option \<Rightarrow> bool \<Rightarrow> 'w class_op" where
  "cs_dev_is_charging_done c done = class_call c (rq_test is_charging_done_op done)"

definition cs_dev_set_cs_regVal ::
  "'w charger_device option \<Rightarrow> int \<Rightarrow> 'w class_op" where
  "cs_dev_set_cs_regVal c v = class_call c (rq_set_cs_regVal v)"

definition charger_dev_enable_vbus_ovp ::
  "'w charger_device option \<Rightarrow> bool \<Rightarrow> 'w class_op" where
  "charger_dev_enable_vbus_ovp c en = class_call c (rq_switch enable_vbus_ovp_op en)"

definition charger_dev_set_mivr ::
  "'w charger_device option \<Rightarrow> u32 \<Rightarrow> 'w class_op" where
  "charger_dev_set_mivr c uV = class_call c (rq_level set_mivr_op uV)"

definition charger_dev_get_mivr ::
  "'w charger_device option \<Rightarrow> u32 \<Rightarrow> 'w class_op" where
  "charger_dev_get_mivr c uV = class_call c (rq_read get_mivr_op uV)"

definition charger_dev_enable_powerpath ::
  "'w charger_device option \<Rightarrow> bool \<Rightarrow> 'w class_op" where
  "charger_dev_enable_powerpath c en = class_call c (rq_switch enable_powerpath_op en)"

definition charger_dev_is_powerpath_enabled ::
  "'w charger_device option \<Rightarrow> bool \<Rightarrow> 'w class_op" where
  "charger_dev_is_powerpath_enabled c en = class_call c (rq_test is_powerpath_enabled_op en)"

definition charger_dev_enable_safety_timer ::
  "'w charger_device option \<Rightarrow> bool \<Rightarrow> 'w class_op" where
  "charger_dev_enable_safety_timer c en = class_call c (rq_switch enable_safety_timer_op en)"

definition charger_dev_enable_hz ::
  "'w charger_device option \<Rightarrow> bool \<Rightarrow> 'w class_op" where
  "charger_dev_enable_hz c en = class_call c (rq_switch enable_hz_op en)"

definition charger_dev_set_vac_ovp ::
  "'w charger_device option \<Rightarrow> u32 \<Rightarrow> 'w class_op" where
  "charger_dev_set_vac_ovp c uV = class_call c (rq_level set_vac_ovp_op uV)"

definition charger_dev_get_adc ::
  "'w charger_device option \<Rightarrow> adc_channel \<Rightarrow> int \<Rightarrow> int \<Rightarrow> 'w class_op" where
  "charger_dev_get_adc c chan mn mx = class_call c (rq_get_adc chan mn mx)"

definition charger_dev_get_adc_accuracy ::
  "'w charger_device option \<Rightarrow> adc_channel \<Rightarrow> int \<Rightarrow> int \<Rightarrow> 'w class_op" where
  "charger_dev_get_adc_accuracy c chan mn mx = class_call c (rq_get_adc_accuracy chan mn mx)"

definition charger_dev_is_safety_timer_enabled ::
  "'w charger_device option \<Rightarrow> bool \<Rightarrow> 'w class_op" where
  "charger_dev_is_safety_timer_enabled c en =
     class_call c (rq_test is_safety_timer_enabled_op en)"

definition charger_dev_enable_termination ::
  "'w charger_device option \<Rightarrow> bool \<Rightarrow> 'w class_op" where
  "charger_dev_enable_termination c en = class_call c (rq_switch enable_termination_op en)"

definition charger_dev_get_mivr_state ::
  "'w charger_device option \<Rightarrow> bool \<Rightarrow> 'w class_op" where
  "charger_dev_get_mivr_state c in_loop = class_call c (rq_test get_mivr_state_op in_loop)"

definition charger_dev_send_ta_current_pattern ::
  "'w charger_device option \<Rightarrow> bool \<Rightarrow> 'w class_op" where
  "charger_dev_send_ta_current_pattern c up =
     class_call c (rq_switch send_ta_current_pattern_op up)"

definition charger_dev_send_ta20_current_pattern ::
  "'w charger_device option \<Rightarrow> u32 \<Rightarrow> 'w class_op" where
  "charger_dev_send_ta20_current_pattern c uV =
     class_call c (rq_level send_ta20_current_pattern_op uV)"

definition charger_dev_reset_ta :: "'w charger_device option \<Rightarrow> 'w class_op" where
  "charger_dev_reset_ta c = class_call c (rq_act reset_ta_op)"

definition charger_dev_set_pe20_efficiency_table ::
  "'w charger_device option \<Rightarrow> 'w class_op" where
  "charger_dev_set_pe20_efficiency_table c = class_call c (rq_act set_pe20_efficiency_table_op)"

definition charger_dev_enable_cable_drop_comp ::
  "'w charger_device option \<Rightarrow> bool \<Rightarrow> 'w class_op" where
  "charger_dev_enable_cable_drop_comp c en =
     class_call c (rq_switch enable_cable_drop_comp_op en)"

definition charger_dev_set_direct_charging_ibusoc ::
  "'w charger_device option \<Rightarrow> u32 \<Rightarrow> 'w class_op" where
  "charger_dev_set_direct_charging_ibusoc c uA =
     class_call c (rq_level set_direct_charging_ibusoc_op uA)"

definition charger_dev_set_direct_charging_vbusov ::
  "'w charger_device option \<Rightarrow> u32 \<Rightarrow> 'w class_op" where
  "charger_dev_set_direct_charging_vbusov c uV =
     class_call c (rq_level set_direct_charging_vbusov_op uV)"

definition charger_dev_set_ibusocp ::
  "'w charger_device option \<Rightarrow> u32 \<Rightarrow> 'w class_op" where
  "charger_dev_set_ibusocp c uA = class_call c (rq_level set_ibusocp_op uA)"

definition charger_dev_set_vbusovp ::
  "'w charger_device option \<Rightarrow> u32 \<Rightarrow> 'w class_op" where
  "charger_dev_set_vbusovp c uV = class_call c (rq_level set_vbusovp_op uV)"

definition charger_dev_set_ibatocp ::
  "'w charger_device option \<Rightarrow> u32 \<Rightarrow> 'w class_op" where
  "charger_dev_set_ibatocp c uA = class_call c (rq_level set_ibatocp_op uA)"

definition charger_dev_set_vbatovp ::
  "'w charger_device option \<Rightarrow> u32 \<Rightarrow> 'w class_op" where
  "charger_dev_set_vbatovp c uV = class_call c (rq_level set_vbatovp_op uV)"

definition charger_dev_set_vbatovp_alarm ::
  "'w charger_device option \<Rightarrow> u32 \<Rightarrow> 'w class_op" where
  "charger_dev_set_vbatovp_alarm c uV = class_call c (rq_level set_vbatovp_alarm_op uV)"

definition charger_dev_reset_vbatovp_alarm ::
  "'w charger_device option \<Rightarrow> 'w class_op" where
  "charger_dev_reset_vbatovp_alarm c = class_call c (rq_act reset_vbatovp_alarm_op)"

definition charger_dev_set_vbusovp_alarm ::
  "'w charger_device option \<Rightarrow> u32 \<Rightarrow> 'w class_op" where
  "charger_dev_set_vbusovp_alarm c uV = class_call c (rq_level set_vbusovp_alarm_op uV)"

definition charger_dev_reset_vbusovp_alarm ::
  "'w charger_device option \<Rightarrow> 'w class_op" where
  "charger_dev_reset_vbusovp_alarm c = class_call c (rq_act reset_vbusovp_alarm_op)"

definition charger_dev_is_vbuslowerr ::
  "'w charger_device option \<Rightarrow> bool \<Rightarrow> 'w class_op" where
  "charger_dev_is_vbuslowerr c err = class_call c (rq_test is_vbuslowerr_op err)"

definition charger_dev_init_chip :: "'w charger_device option \<Rightarrow> 'w class_op" where
  "charger_dev_init_chip c = class_call c (rq_act init_chip_op)"

definition charger_dev_enable_auto_trans ::
  "'w charger_device option \<Rightarrow> bool \<Rightarrow> 'w class_op" where
  "charger_dev_enable_auto_trans c en = class_call c (rq_switch enable_auto_trans_op en)"

definition charger_dev_set_auto_trans ::
  "'w charger_device option \<Rightarrow> u32 \<Rightarrow> bool \<Rightarrow> 'w class_op" where
  "charger_dev_set_auto_trans c uV en = class_call c (rq_set_auto_trans uV en)"

definition charger_dev_set_operation_mode ::
  "'w charger_device option \<Rightarrow> bool \<Rightarrow> 'w class_op" where
  "charger_dev_set_operation_mode c div2 = class_call c (rq_switch set_operation_mode_op div2)"

definition charger_dev_enable_chg_type_det ::
  "'w charger_device option \<Rightarrow> bool \<Rightarrow> 'w class_op" where
  "charger_dev_enable_chg_type_det c en = class_call c (rq_switch enable_chg_type_det_op en)"

definition charger_dev_enable_otg ::
  "'w charger_device option \<Rightarrow> bool \<Rightarrow> 'w class_op" where
  "charger_dev_enable_otg c en = class_call c (rq_switch enable_otg_op en)"

definition charger_dev_enable_discharge ::
  "'w charger_device option \<Rightarrow> bool \<Rightarrow> 'w class_op" where
  "charger_dev_enable_discharge c en = class_call c (rq_switch enable_discharge_op en)"

definition charger_dev_set_boost_current_limit ::
  "'w charger_device option \<Rightarrow> u32 \<Rightarrow> 'w class_op" where
  "charger_dev_set_boost_current_limit c uA =
     class_call c (rq_level set_boost_current_limit_op uA)"

definition charger_dev_get_zcv ::
  "'w charger_device option \<Rightarrow> u32 \<Rightarrow> 'w class_op" where
  "charger_dev_get_zcv c uV = class_call c (rq_read get_zcv_op uV)"

definition charger_dev_run_aicl ::
  "'w charger_device option \<Rightarrow> u32 \<Rightarrow> 'w class_op" where
  "charger_dev_run_aicl c uA = class_call c (rq_read run_aicl_op uA)"

definition charger_dev_reset_eoc_state ::
  "'w charger_device option \<Rightarrow> 'w class_op" where
  "charger_dev_reset_eoc_state c = class_call c (rq_act reset_eoc_state_op)"

definition charger_dev_safety_check ::
  "'w charger_device option \<Rightarrow> u32 \<Rightarrow> 'w class_op" where
  "charger_dev_safety_check c polling_ieoc = class_call c (rq_level safety_check_op polling_ieoc)"

definition charger_dev_enable_usbid ::
  "'w charger_device option \<Rightarrow> bool \<Rightarrow> 'w class_op" where
  "charger_dev_enable_usbid c en = class_call c (rq_switch enable_usbid_op en)"

definition charger_dev_set_usbid_rup ::
  "'w charger_device option \<Rightarrow> u32 \<Rightarrow> 'w class_op" where
  "charger_dev_set_usbid_rup c rup = class_call c (rq_level set_usbid_rup_op rup)"

definition charger_dev_set_usbid_src_ton ::
  "'w charger_device option \<Rightarrow> u32 \<Rightarrow> 'w class_op" where
  "charger_dev_set_usbid_src_ton c src_ton = class_call c (rq_level set_usbid_src_ton_op src_ton)"

definition charger_dev_enable_usbid_floating ::
  "'w charger_device option \<Rightarrow> bool \<Rightarrow> 'w class_op" where
  "charger_dev_enable_usbid_floating c en = class_call c (rq_switch enable_usbid_floating_op en)"

definition charger_dev_enable_force_typec_otp ::
  "'w charger_device option \<Rightarrow> bool \<Rightarrow> 'w class_op" where
  "charger_dev_enable_force_typec_otp c en =
     class_call c (rq_switch enable_force_typec_otp_op en)"

definition charger_dev_get_ctd_dischg_status ::
  "'w charger_device option \<Rightarrow> u8 \<Rightarrow> 'w class_op" where
  "charger_dev_get_ctd_dischg_status c st = class_call c (rq_get_ctd_dischg_status st)"

definition charger_dev_enable_hidden_mode ::
  "'w charger_device option \<Rightarrow> bool \<Rightarrow> 'w class_op" where
  "charger_dev_enable_hidden_mode c en = class_call c (rq_switch enable_hidden_mode_op en)"

definition charger_dev_set_pd_adapter ::
  "'w charger_device option \<Rightarrow> psenum \<Rightarrow> 'w class_op" where
  "charger_dev_set_pd_adapter c v = class_call c (rq_set_pd_adapter v)"

definition charger_dev_set_property ::
  "'w charger_device option \<Rightarrow> charger_property \<Rightarrow> propval \<Rightarrow> 'w class_op" where
  "charger_dev_set_property c p v = class_call c (rq_set_property p v)"

definition charger_dev_get_property ::
  "'w charger_device option \<Rightarrow> charger_property \<Rightarrow> propval \<Rightarrow> 'w class_op" where
  "charger_dev_get_property c p v = class_call c (rq_get_property p v)"

definition charger_dev_set_vreg_ft ::
  "'w charger_device option \<Rightarrow> bool \<Rightarrow> 'w class_op" where
  "charger_dev_set_vreg_ft c temp = ignore_result (class_call c (rq_switch set_vreg_ft_op temp))"

section \<open>Registration\<close>

text \<open>The text of the \<open>name\<close> file, cut to the 20 bytes given to \<open>snprintf\<close> (the last is
  the terminator), and the length it returns: that of the uncut text.\<close>

definition name_show :: "'w charger_device \<Rightarrow> int \<times> string" where
  "name_show d =
    (let t = (case alias_name d of None \<Rightarrow> ''anonymous'' | Some a \<Rightarrow> a) @ [CHR 0x0A]
     in (int (length t), take 19 t))"

text \<open>\<open>allocated\<close> is the success of \<open>kzalloc\<close> and \<open>rc\<close> the result of \<open>device_register\<close>.  The
  devices of the class are kept in the order of their registration.\<close>

definition charger_device_register ::
  "bool \<Rightarrow> int \<Rightarrow> string \<Rightarrow> (class_req \<Rightarrow> 'w class_op option) option \<Rightarrow> string option \<Rightarrow>
   'w charger_device list \<Rightarrow> (int + 'w charger_device) \<times> 'w charger_device list" where
  "charger_device_register allocated rc name ops props devs =
    (if \<not> allocated then (Inl (- ENOMEM), devs)
     else if rc \<noteq> 0 then (Inl rc, devs)
     else let d = \<lparr>dev_name = name, alias_name = props, dev_ops = ops\<rparr> in (Inr d, devs @ [d]))"

text \<open>The device the caller still holds, and the class without it.\<close>

definition charger_device_unregister ::
  "'w charger_device option \<Rightarrow> 'w charger_device list \<Rightarrow>
   'w charger_device option \<times> 'w charger_device list" where
  "charger_device_unregister c devs =
    (case c of
       None \<Rightarrow> (None, devs)
     | Some d \<Rightarrow> (Some (d\<lparr>dev_ops := None\<rparr>), filter (\<lambda>e. dev_name e \<noteq> dev_name d) devs))"

definition charger_match_device_by_name :: "'w charger_device \<Rightarrow> string \<Rightarrow> bool" where
  "charger_match_device_by_name d name \<longleftrightarrow> dev_name d = name"

definition get_charger_by_name ::
  "string option \<Rightarrow> 'w charger_device list \<Rightarrow> 'w charger_device option" where
  "get_charger_by_name name devs =
    (case name of
       None \<Rightarrow> None
     | Some n \<Rightarrow> List.find (\<lambda>d. charger_match_device_by_name d n) devs)"

section \<open>The table of the SGM4154x driver\<close>

text \<open>The entries of \<open>sgm4154x_chg_ops\<close>, with the values the driver stores behind the
  pointers.  \<open>plain_result\<close> has none.\<close>

definition plain_result :: "int \<times> 'w \<Rightarrow> int \<times> propval list \<times> 'w" where
  "plain_result x = (fst x, [], snd x)"

definition word_result :: "int \<times> u32 \<times> 'w \<Rightarrow> int \<times> propval list \<times> 'w" where
  "word_result x = (fst x, [intval (uint (fst (snd x)))], snd (snd x))"

definition flag_result :: "int \<times> bool \<times> 'w \<Rightarrow> int \<times> propval list \<times> 'w" where
  "flag_result x = (fst x, [intval (b2i (fst (snd x)))], snd (snd x))"

definition sgm4154x_class_ops ::
  "('w, 'e) smbus_ops_scheme \<Rightarrow> class_req \<Rightarrow> 'w sgm4154x_device class_op option" where
  "sgm4154x_class_ops B r =
    (case r of
       rq_switch enable_hz_op en \<Rightarrow> Some (\<lambda>s. plain_result (sgm4154x_set_hiz_en en B s))
     | rq_act dump_registers_op \<Rightarrow> Some (\<lambda>s. plain_result (drop_out (sgm4154x_dump_register B s)))
     | rq_switch enable_op en \<Rightarrow> Some (\<lambda>s. plain_result (sgm4154x_charging_switch en B s))
     | rq_test is_enabled_op en \<Rightarrow> Some (\<lambda>s. flag_result (sgm4154x_is_charging B en s))
     | rq_level set_charging_current_op uA \<Rightarrow> Some (\<lambda>s. plain_result (sgm4154x_set_ichrg_curr uA B s))
     | rq_read get_charging_current_op uA \<Rightarrow> Some (\<lambda>s. word_result (sgm4154x_get_ichg_curr B uA s))
     | rq_level set_constant_voltage_op uV \<Rightarrow> Some (\<lambda>s. plain_result (sgm4154x_set_chrg_volt uV B s))
     | rq_read get_constant_voltage_op uV \<Rightarrow> Some (\<lambda>s. word_result (sgm4154x_get_chrg_volt B uV s))
     | rq_level set_input_current_op uA \<Rightarrow> Some (\<lambda>s. plain_result (sgm4154x_set_input_curr_lim uA B s))
     | rq_read get_input_current_op uA \<Rightarrow> Some (\<lambda>s. word_result (sgm4154x_get_input_curr_lim B uA s))
     | rq_read get_min_input_current_op uA \<Rightarrow>
         Some (\<lambda>s. word_result (fst sgm4154x_get_input_mincurr_lim, snd sgm4154x_get_input_mincurr_lim, s))
     | rq_level set_mivr_op uV \<Rightarrow> Some (\<lambda>s. plain_result (sgm4154x_set_input_volt_lim uV B s))
     | rq_test get_mivr_state_op in_loop \<Rightarrow> Some (\<lambda>s. flag_result (sgm4154x_get_input_minvolt_lim B s))
     | rq_level set_eoc_current_op uA \<Rightarrow> Some (\<lambda>s. plain_result (sgm4154x_set_term_curr uA B s))
     | rq_test is_charging_done_op done \<Rightarrow> Some (\<lambda>s. flag_result (sgm4154x_get_charging_status B s))
     | rq_switch enable_safety_timer_op en \<Rightarrow> Some (\<lambda>s. plain_result (sgm4154x_enable_safetytimer en B s))
     | rq_test is_safety_timer_enabled_op en \<Rightarrow>
         Some (\<lambda>s. flag_result (sgm4154x_get_is_safetytimer_enable B en s))
     | rq_act kick_wdt_op \<Rightarrow> Some (\<lambda>s. plain_result (sgm4154x_reset_watch_dog_timer B s))
     | rq_event e args \<Rightarrow> Some (\<lambda>s. plain_result (sgm4154x_do_event e B s))
     | rq_switch send_ta_current_pattern_op up \<Rightarrow> Some (\<lambda>s. plain_result (sgm4154x_en_pe_current_partern up B s))
     | rq_switch enable_otg_op en \<Rightarrow> Some (\<lambda>s. plain_result (sgm4154x_enable_otg en B s))
     | rq_level set_boost_current_limit_op uA \<Rightarrow>
         Some (\<lambda>s. plain_result (sgm4154x_set_boost_current_limit uA B s))
     | rq_set_pd_adapter v \<Rightarrow> Some (\<lambda>s. plain_result (sgm4154x_pd_adapter v s))
     | rq_get_property p v \<Rightarrow>
         Some (\<lambda>s. let (ret, v) = sgm4154x_get_property p v s in (ret, [v], s))
     | rq_switch set_vreg_ft_op temp \<Rightarrow> Some (\<lambda>s. plain_result (sgm4154x_set_vreg_ft temp B s))
     | _ \<Rightarrow> None)"

end
