(* ===== verification/Charger_Contract.thy ===== *)
theory Charger_Contract
  imports Charger_Class Sgm_Safety
begin

text \<open>
  The contract of the charger class: registration and look-up, the refusal of a device
  that is gone, and the SGM4154x driver seen through the class.
\<close>

section \<open>Registration\<close>

text \<open>A device registered under a new name is found by that name and no other name's
  look-up changes; once unregistered it is found no more, and every call on the pointer
  a client still holds is refused without touching the device.\<close>

theorem register_lookup_unregister:
  assumes "name \<notin> dev_name ` set devs"
    and "charger_device_register True 0 name ops props devs = (Inr d, devs1)"
    and "charger_device_unregister (Some d) devs1 = (c, devs2)"
  shows "get_charger_by_name (Some name) devs1 = Some d
    \<and> (\<forall>n. n \<noteq> name \<longrightarrow> get_charger_by_name (Some n) devs1 = get_charger_by_name (Some n) devs)
    \<and> devs2 = devs \<and> class_call c r w = (- EOPNOTSUPP, [], w)"
proof -
  have d: "dev_name d = name" "devs1 = devs @ [d]" "c = Some (d\<lparr>dev_ops := None\<rparr>)"
    "devs2 = filter (\<lambda>e. dev_name e \<noteq> name) devs1"
    using assms(2,3) by (auto simp: charger_device_register_def charger_device_unregister_def Let_def)
  have f: "List.find (\<lambda>e. dev_name e = name) devs = None" if "name \<notin> dev_name ` set devs" for devs
    using that by (induction devs) auto
  have a: "List.find P (xs @ ys) = (case List.find P xs of None \<Rightarrow> List.find P ys | r \<Rightarrow> r)"
    for P xs and ys :: "'a charger_device list"
    by (induction xs) auto
  have k: "filter (\<lambda>e. dev_name e \<noteq> name) devs = devs"
    using assms(1) by (auto intro: filter_True)
  show ?thesis
    using f [OF assms(1)] k
    by (simp add: d a get_charger_by_name_def charger_match_device_by_name_def class_call_def
        split: option.split)
qed

definition demo_sgm_ops :: "class_req \<Rightarrow> (u8 \<Rightarrow> u8) sgm4154x_device class_op option" where
  "demo_sgm_ops = sgm4154x_class_ops plain_bus"

lemma register_lookup_unregister_witness:
  "\<exists>d devs1 c devs2. charger_device_register True 0 ''primary_chg'' (Some demo_sgm_ops) None [] = (Inr d, devs1)
     \<and> charger_device_unregister (Some d) devs1 = (c, devs2)
     \<and> class_call c (rq_act kick_wdt_op) demo_device = (- EOPNOTSUPP, [], demo_device)"
proof -
  obtain d devs1 where r:
    "charger_device_register True 0 ''primary_chg'' (Some demo_sgm_ops) None [] = (Inr d, devs1)"
    by (simp add: charger_device_register_def Let_def)
  obtain c devs2 where u: "charger_device_unregister (Some d) devs1 = (c, devs2)"
    by (metis prod.collapse)
  from register_lookup_unregister [OF _ r u, of "rq_act kick_wdt_op" demo_device] r u
  show ?thesis by auto
qed

section \<open>The SGM4154x driver through the class\<close>

text \<open>The class function by which a client reaches each entry of the driver's table.\<close>

fun class_of_op :: "chg_op \<Rightarrow> 's charger_device option \<Rightarrow> 's class_op" where
  "class_of_op (op_enable_hz en) c = charger_dev_enable_hz c en"
| "class_of_op op_dump_registers c = charger_dev_dump_registers c"
| "class_of_op (op_enable en) c = charger_dev_enable c en"
| "class_of_op op_is_enabled c = charger_dev_is_enabled c False"
| "class_of_op (op_set_charging_current uA) c = charger_dev_set_charging_current c uA"
| "class_of_op op_get_charging_current c = charger_dev_get_charging_current c 0"
| "class_of_op (op_set_constant_voltage uV) c = charger_dev_set_constant_voltage c uV"
| "class_of_op op_get_constant_voltage c = charger_dev_get_constant_voltage c 0"
| "class_of_op (op_set_input_current uA) c = charger_dev_set_input_current c uA"
| "class_of_op op_get_input_current c = charger_dev_get_input_current c 0"
| "class_of_op op_get_min_input_current c = charger_dev_get_min_input_current c 0"
| "class_of_op (op_set_mivr uV) c = charger_dev_set_mivr c uV"
| "class_of_op op_get_mivr_state c = charger_dev_get_mivr_state c False"
| "class_of_op (op_set_eoc_current uA) c = charger_dev_set_eoc_current c uA"
| "class_of_op op_is_charging_done c = charger_dev_is_charging_done c False"
| "class_of_op (op_enable_safety_timer en) c = charger_dev_enable_safety_timer c en"
| "class_of_op op_is_safety_timer_enabled c = charger_dev_is_safety_timer_enabled c False"
| "class_of_op op_kick_wdt c = charger_dev_kick_wdt c"
| "class_of_op (op_event e) c = charger_dev_do_event c e 0"
| "class_of_op (op_send_ta_current_pattern up) c = charger_dev_send_ta_current_pattern c up"
| "class_of_op (op_enable_otg en) c = charger_dev_enable_otg c en"
| "class_of_op (op_set_boost_current_limit uA) c = charger_dev_set_boost_current_limit c uA"
| "class_of_op (op_set_pd_adapter v) c = charger_dev_set_pd_adapter c v"
| "class_of_op (op_get_property p) c = charger_dev_get_property c p (intval 0)"
| "class_of_op (op_set_vreg_ft temp) c = charger_dev_set_vreg_ft c temp"

fun result_lost :: "chg_op \<Rightarrow> bool" where
  "result_lost (op_set_eoc_current _) = True"
| "result_lost (op_set_vreg_ft _) = True"
| "result_lost _ = False"

lemmas class_fun_defs = charger_dev_enable_hz_def charger_dev_dump_registers_def
  charger_dev_enable_def charger_dev_is_enabled_def charger_dev_set_charging_current_def
  charger_dev_get_charging_current_def charger_dev_set_constant_voltage_def
  charger_dev_get_constant_voltage_def charger_dev_set_input_current_def
  charger_dev_get_input_current_def charger_dev_get_min_input_current_def
  charger_dev_set_mivr_def charger_dev_get_mivr_state_def charger_dev_set_eoc_current_def
  charger_dev_is_charging_done_def charger_dev_enable_safety_timer_def
  charger_dev_is_safety_timer_enabled_def charger_dev_kick_wdt_def charger_dev_do_event_def
  charger_dev_send_ta_current_pattern_def charger_dev_enable_otg_def
  charger_dev_set_boost_current_limit_def charger_dev_set_pd_adapter_def
  charger_dev_get_property_def charger_dev_set_vreg_ft_def

definition sgm_class_device ::
  "('w, 'e) smbus_ops_scheme \<Rightarrow> 'w sgm4154x_device charger_device" where
  "sgm_class_device B = \<lparr>dev_name = ''primary_chg'', alias_name = None,
     dev_ops = Some (sgm4154x_class_ops B)\<rparr>"


end
