(* ===== verification/Mtk_Charger.thy ===== *)
theory Mtk_Charger
  imports Charger_Class Lenovo_Sysfs
begin

text \<open>
  The charger core, mtk_charger: its state, what it asks of the rest of the system,
  and the operations the other parts build on - waking the charger thread, the
  notification of abnormal conditions, the power path, the dynamic input voltage
  limit, and the power-supply and proc files that set them.
\<close>

section \<open>Data\<close>

datatype sw_jeita_state =
    TEMP_BELOW_T0 | TEMP_T0_TO_T1 | TEMP_T1_TO_T2 | TEMP_T2_TO_T3 | TEMP_T3_TO_T4 | TEMP_ABOVE_T4

datatype bat_temp_state = BAT_TEMP_LOW | BAT_TEMP_NORMAL | BAT_TEMP_HIGH

datatype chg_data_idx =
    CHG1_SETTING | CHG2_SETTING | DVCHG1_SETTING | DVCHG2_SETTING | HVDVCHG1_SETTING | HVDVCHG2_SETTING

record sw_jeita_data =
  jt_sm :: sw_jeita_state
  jt_pre_sm :: sw_jeita_state
  jt_cv :: int
  jt_iterm :: int
  jt_recharge_vol :: int
  jt_charging :: bool

record thermal_protection =
  th_sm :: bat_temp_state
  enable_min_charge_temp :: bool
  min_charge_temp :: int
  min_charge_temp_plus_x_degree :: int
  max_charge_temp :: int
  max_charge_temp_minus_x_degree :: int

text \<open>The board data.  The three groups of six JEITA fields are functions of the state
  their names carry, and the four currents of Apple's adapters one of the adapter.\<close>

datatype apple_adapter = APPLE_0_5A | APPLE_1_0A | APPLE_2_1A | APPLE_2_4A

record charger_custom_data =
  battery_cv :: int
  dt_iterm :: int
  dt_recharge_vol :: int
  max_charger_voltage :: int
  max_charger_voltage_setting :: int
  pd_max_charger_voltage :: int
  vbus_sw_ovp_voltage :: int
  min_charger_voltage :: int
  min_charger_voltage_1 :: int
  min_charger_voltage_2 :: int
  max_dmivr_charger_current :: int
  recharge_offset :: int
  unknown_charger_current :: int
  usb_charger_current :: int
  ac_charger_current :: int
  ac_charger_input_current :: int
  hvdcp_charger_current :: int
  hvdcp_charger_input_current :: int
  pd_charger_current :: int
  pd_charger_input_current :: int
  charging_host_charger_current :: int
  lowtemp_charger_current :: int
  lowtemp_charger_input_current :: int
  hightemp_charger_current :: int
  hightemp_charger_input_current :: int
  apple_charger_current :: "apple_adapter \<Rightarrow> int"
  jeita_cv :: "sw_jeita_state \<Rightarrow> int"
  jeita_term :: "sw_jeita_state \<Rightarrow> int"
  jeita_recharge :: "sw_jeita_state \<Rightarrow> int"
  temp_t4_thres :: int
  temp_t4_thres_minus_x_degree :: int
  temp_t3_thres :: int
  temp_t3_thres_minus_x_degree :: int
  temp_t2_thres :: int
  temp_t2_thres_plus_x_degree :: int
  temp_t1_thres :: int
  temp_t1_thres_plus_x_degree :: int
  temp_t0_thres :: int
  temp_t0_thres_plus_x_degree :: int
  temp_neg_10_thres :: int

record charger_data =
  cd_input_current_limit :: int
  cd_charging_current_limit :: int
  thermal_input_current_limit :: int
  thermal_charging_current_limit :: int
  usb_input_current_limit :: int
  pd_input_current_limit :: int
  input_current_limit_by_aicl :: int
  disable_charging_count :: int
  junction_temp_min :: int
  junction_temp_max :: int

text \<open>The results of smart charging.\<close>

datatype sc_solution = SC_IGNORE | SC_KEEP | SC_DISABLE | SC_REDUCE

record smartcharging =
  sc_enable :: bool
  battery_size :: int
  start_time :: int
  end_time :: int
  current_limit :: int
  target_percentage :: int
  left_time_for_cv :: int
  pre_ibat :: int
  sc_ibat :: int
  solution :: sc_solution
  last_solution :: sc_solution
  disable_charger :: bool
  disable_in_this_plug :: bool
  chg_dev_chgen :: bool
  chg_dev_chgen_eu :: bool

datatype mtk_call =
    stay_awake | wake_up_interruptible | kobject_uevent | psy1_changed | start_charger_timer
  | relax | kernel_power_off | algo_log_level int | register_notifier chg_data_idx | stop_algo

text \<open>The state of an adapter, by the notifications of the adapter class.  Two adapters are
  told apart: power delivery and UFCS.\<close>

datatype ta_state =
    TA_INIT_STATE | TA_DETACH | TA_ATTACH | TA_DETECT_FAIL | TA_HARD_RESET | TA_SOFT_RESET

datatype ta_idx = PD | UFCS

record mtk_adapter =
  ta_status :: "ta_idx \<Rightarrow> ta_state"
  ta_hardreset :: bool
  water_detected :: bool
  record_water_detected :: bool

text \<open>The options of the board: read from the device tree once, some changed by files.\<close>

record mtk_board =
  config :: int
  boottype :: int
  algorithm_name :: string
  charger_unlimited :: bool
  atm_enabled :: bool
  enable_sw_safety_timer :: bool
  sw_safety_timer_setting :: bool
  disable_aicl :: bool
  alg_new_arbitration :: bool
  alg_unchangeable :: bool
  enable_boot_volt :: bool
  enable_vbat_mon_bak :: bool
  enable_fast_charging_indicator :: bool
  adapter_priority :: int
  cs_gpio_index :: int
  curr_select_name :: string
  cs_with_gauge :: bool
  comp_resist :: int
  cs_hw_disable :: bool

text \<open>What the files, the timer and the kernel-power-off check keep.  \<open>endtime\<close> is the pair of
  seconds and nanoseconds, \<open>uevent_time\<close> the time of the last notification (\<open>None\<close> before the
  first), \<open>alg\<close> the table of the fast charging algorithms that were found.\<close>

record mtk_runtime =
  log_level :: int
  fast_charging_indicator :: u32
  enable_meta_current_limit :: u32
  safety_timer_cmd :: int
  cmd_pp :: int
  cs_cc_now :: int
  is_suspend :: bool
  endtime :: "int \<times> int"
  reset_boot_volt_times :: bool
  uevent_time :: "int option"
  pre_ui_soc :: int
  alg :: "string option list"

text \<open>The device.  \<open>is_bypass_charging_phase\<close> is the static variable of
  \<open>smart_charging\<close>; \<open>outside\<close> is everything beyond the core (chips, gauge, settings).
  A charger device is \<open>None\<close> where the pointer is \<open>NULL\<close>; \<open>dv_dev\<close> gives the
  four divider chargers by their setting.\<close>

record 'w mtk_charger =
  chg1_dev :: "'w charger_device option"
  chg2_dev :: "'w charger_device option"
  dv_dev :: "chg_data_idx \<Rightarrow> 'w charger_device option"
  chg_data :: "chg_data_idx \<Rightarrow> charger_data"
  custom :: charger_custom_data
  sc :: smartcharging
  sw_jeita :: sw_jeita_data
  thermal :: thermal_protection
  bootmode :: int
  chr_type :: psenum
  mt_usb_type :: psenum
  pd_reset :: bool
  cable_out_cnt :: int
  charger_thread_timeout :: bool
  charger_thread_polling :: bool
  wakelock_active :: bool
  psy1_ok :: bool
  disable_charger_dt :: bool
  battery_temp :: int
  can_charging :: bool
  cmd_discharging :: bool
  safety_timeout :: bool
  vbusov_stat :: bool
  dpdmov_stat :: bool
  lst_dpdmov_stat :: bool
  is_chg_done :: bool
  power_path_en :: bool
  en_power_path :: bool
  en_cts_mode :: bool
  usb_unlimited :: bool
  notify_code :: u32
  pre_notify_code :: u32
  notify_test_mode :: u32
  enable_vbat_mon :: bool
  vbat_mon_en :: bool
  batpro_done :: bool
  stop_6pin_re_en :: bool
  curr_flag :: bool
  old_vreg :: bool
  old_cv :: int
  protection_dischg :: bool
  enable_sw_jeita :: bool
  enable_dynamic_mivr :: bool
  enable_hv_charging :: bool
  is_charging :: bool
  force_disable_pp :: "chg_data_idx \<Rightarrow> bool"
  enable_pp :: "chg_data_idx \<Rightarrow> bool"
  is_bypass_charging_phase :: bool
  cschg1_dev :: "'w charger_device option"
  adapter :: mtk_adapter
  board :: mtk_board
  runtime :: mtk_runtime
  mtk_log :: "mtk_call list"
  outside :: 'w

text \<open>What the core calls outside its file: the readings, the settings, the gauge's bypass
  setting, the class's devices, the charging algorithm and the other algorithms, and
  the result of sending a uevent.\<close>

record 'w mtk_env =
  get_vbus_mV :: "'w \<Rightarrow> int"
  get_uisoc :: "'w \<Rightarrow> int"
  get_battery_voltage :: "'w \<Rightarrow> int"
  get_charger_type :: "'w \<Rightarrow> psenum"
  get_usb_type :: "'w \<Rightarrow> psenum"
  charge_settings :: "'w \<Rightarrow> sysfs_info_data"
  mm8xxx_bypass_data :: "'w \<Rightarrow> mm8xxx_bypass_setting option"
  class_devices :: "'w charger_device list"
  do_algorithm :: "('w mtk_charger \<Rightarrow> 'w mtk_charger) option"
  enable_charging :: "(bool \<Rightarrow> 'w mtk_charger \<Rightarrow> int \<times> 'w mtk_charger) option"
  fast_algorithm_running :: "'w \<Rightarrow> bool"
  notify_plug_in :: "int \<Rightarrow> 'w \<Rightarrow> 'w"
  notify_plug_out :: "'w \<Rightarrow> 'w"
  adapter_protocol_init :: "'w mtk_charger \<Rightarrow> 'w mtk_charger"
  uevent_result :: int

definition mtk_logs :: "mtk_call \<Rightarrow> 'w mtk_charger \<Rightarrow> 'w mtk_charger" where
  "mtk_logs c m = m\<lparr>mtk_log := mtk_log m @ [c]\<rparr>"

text \<open>A class call on a device of the core, and the value it stored (or the caller's).\<close>

definition on_dev :: "'w class_op \<Rightarrow> 'w mtk_charger \<Rightarrow> int \<times> propval list \<times> 'w mtk_charger" where
  "on_dev f m = (let (ret, outs, w) = f (outside m) in (ret, outs, m\<lparr>outside := w\<rparr>))"

definition run_dev :: "'w class_op \<Rightarrow> 'w mtk_charger \<Rightarrow> 'w mtk_charger" where
  "run_dev f m = snd (snd (on_dev f m))"

definition out_val :: "propval \<Rightarrow> propval list \<Rightarrow> propval" where
  "out_val d outs = (case outs of [] \<Rightarrow> d | v # _ \<Rightarrow> v)"

definition is_set :: "propval \<Rightarrow> bool" where
  "is_set v = (case v of intval n \<Rightarrow> n \<noteq> 0 | _ \<Rightarrow> True)"

section \<open>Waking, algorithms, notification\<close>

definition wake_up_charger :: "'w mtk_charger option \<Rightarrow> 'w mtk_charger option" where
  "wake_up_charger info =
    (case info of
       None \<Rightarrow> None
     | Some m \<Rightarrow>
         let m = (if wakelock_active m then m else mtk_logs stay_awake (m\<lparr>wakelock_active := True\<rparr>));
             m = m\<lparr>charger_thread_timeout := True\<rparr>
         in Some (mtk_logs wake_up_interruptible m))"

text \<open>\<open>power_ext\<close> is the build option \<open>CONFIG_POWER_EXT\<close>.\<close>

definition is_disable_charger :: "bool \<Rightarrow> 'w mtk_charger option \<Rightarrow> bool" where
  "is_disable_charger power_ext info =
    (case info of None \<Rightarrow> True | Some m \<Rightarrow> disable_charger_dt m \<or> power_ext)"

definition mtk_enable_charging :: "'w mtk_env \<Rightarrow> bool \<Rightarrow> 'w mtk_charger \<Rightarrow> int \<times> 'w mtk_charger" where
  "mtk_enable_charging E en m = (case enable_charging E of Some f \<Rightarrow> f en m | None \<Rightarrow> (0, m))"

definition run_algorithm :: "'w mtk_env \<Rightarrow> 'w mtk_charger \<Rightarrow> 'w mtk_charger" where
  "run_algorithm E m = (case do_algorithm E of Some f \<Rightarrow> f m | None \<Rightarrow> m)"

definition mtk_chgstat_notify :: "'w mtk_env \<Rightarrow> 'w mtk_charger \<Rightarrow> int \<times> 'w mtk_charger" where
  "mtk_chgstat_notify E m =
    (let (ret, m) = (if notify_code m \<noteq> pre_notify_code m
                     then (uevent_result E, mtk_logs kobject_uevent m) else (0, m))
     in if ret \<noteq> 0 then (ret, m) else (ret, m\<lparr>pre_notify_code := notify_code m\<rparr>))"

definition CHG_VBUS_OV_STATUS :: u32 where "CHG_VBUS_OV_STATUS = 0x01"
definition CHG_BAT_OT_STATUS :: u32 where "CHG_BAT_OT_STATUS = 0x02"
definition CHG_OC_STATUS :: u32 where "CHG_OC_STATUS = 0x04"
definition CHG_BAT_OV_STATUS :: u32 where "CHG_BAT_OV_STATUS = 0x08"
definition CHG_ST_TMO_STATUS :: u32 where "CHG_ST_TMO_STATUS = 0x10"
definition CHG_BAT_LT_STATUS :: u32 where "CHG_BAT_LT_STATUS = 0x20"
definition CHG_TYPEC_WD_STATUS :: u32 where "CHG_TYPEC_WD_STATUS = 0x40"
definition CHG_DPDM_OV_STATUS :: u32 where "CHG_DPDM_OV_STATUS = 0x80"

named_theorems chg_status "the bits of the notification code"
lemmas [chg_status] = CHG_VBUS_OV_STATUS_def CHG_BAT_OT_STATUS_def CHG_OC_STATUS_def
  CHG_BAT_OV_STATUS_def CHG_ST_TMO_STATUS_def CHG_BAT_LT_STATUS_def CHG_TYPEC_WD_STATUS_def
  CHG_DPDM_OV_STATUS_def

text \<open>A condition bit of the code: raised with a notification, or dropped.\<close>

definition clear_status :: "u32 \<Rightarrow> 'w mtk_charger \<Rightarrow> 'w mtk_charger" where
  "clear_status b m = m\<lparr>notify_code := notify_code m AND NOT b\<rparr>"

definition raise_status :: "u32 \<Rightarrow> 'w mtk_charger \<Rightarrow> 'w mtk_charger" where
  "raise_status b m = m\<lparr>notify_code := notify_code m OR b\<rparr>"

definition raise_and_notify :: "'w mtk_env \<Rightarrow> u32 \<Rightarrow> 'w mtk_charger \<Rightarrow> 'w mtk_charger" where
  "raise_and_notify E b m = snd (mtk_chgstat_notify E (raise_status b m))"

definition mtk_chg_check_vbus :: "'w mtk_env \<Rightarrow> 'w mtk_charger \<Rightarrow> bool" where
  "mtk_chg_check_vbus E m \<longleftrightarrow>
    \<not> s32 (get_vbus_mV E (outside m) * 1000) > pd_max_charger_voltage (custom m)"

definition mtk_battery_notify_VCharger_check :: "'w mtk_env \<Rightarrow> 'w mtk_charger \<Rightarrow> 'w mtk_charger" where
  "mtk_battery_notify_VCharger_check E m =
    (if s32 (get_vbus_mV E (outside m) * 1000) < pd_max_charger_voltage (custom m)
     then clear_status CHG_VBUS_OV_STATUS m
     else raise_and_notify E CHG_VBUS_OV_STATUS m)"

definition mtk_battery_notify_VBatTemp_check :: "'w mtk_env \<Rightarrow> 'w mtk_charger \<Rightarrow> 'w mtk_charger" where
  "mtk_battery_notify_VBatTemp_check E m =
    (let m = (if battery_temp m \<ge> max_charge_temp (thermal m)
              then raise_and_notify E CHG_BAT_OT_STATUS m
              else clear_status CHG_BAT_OT_STATUS m);
         low = (if enable_sw_jeita m then temp_neg_10_thres (custom m) else min_charge_temp (thermal m))
     in if battery_temp m < low then raise_and_notify E CHG_BAT_LT_STATUS m
        else clear_status CHG_BAT_LT_STATUS m)"

definition mtk_battery_notify_VChargerDPDM_check :: "'w mtk_env \<Rightarrow> 'w mtk_charger \<Rightarrow> 'w mtk_charger" where
  "mtk_battery_notify_VChargerDPDM_check E m =
    (let m = (if dpdmov_stat m then raise_status CHG_DPDM_OV_STATUS m
              else clear_status CHG_DPDM_OV_STATUS m)
     in if dpdmov_stat m \<noteq> lst_dpdmov_stat m
        then (let (_, m) = mtk_chgstat_notify E m in m\<lparr>lst_dpdmov_stat := dpdmov_stat m\<rparr>)
        else m)"

definition ui_test_code :: "u32 \<Rightarrow> u32 option" where
  "ui_test_code mode =
    (if mode = 1 then Some CHG_VBUS_OV_STATUS
     else if mode = 2 then Some CHG_BAT_OT_STATUS
     else if mode = 3 then Some CHG_OC_STATUS
     else if mode = 4 then Some CHG_BAT_OV_STATUS
     else if mode = 5 then Some CHG_ST_TMO_STATUS
     else if mode = 6 then Some CHG_BAT_LT_STATUS
     else if mode = 7 then Some CHG_TYPEC_WD_STATUS
     else None)"

definition mtk_battery_notify_UI_test :: "'w mtk_env \<Rightarrow> 'w mtk_charger \<Rightarrow> 'w mtk_charger" where
  "mtk_battery_notify_UI_test E m =
    (let m = (case ui_test_code (notify_test_mode m) of Some c \<Rightarrow> m\<lparr>notify_code := c\<rparr> | None \<Rightarrow> m)
     in snd (mtk_chgstat_notify E m))"

definition mtk_battery_notify_check :: "'w mtk_env \<Rightarrow> 'w mtk_charger \<Rightarrow> 'w mtk_charger" where
  "mtk_battery_notify_check E m =
    (if notify_test_mode m = 0 then
       mtk_battery_notify_VChargerDPDM_check E
         (mtk_battery_notify_VBatTemp_check E (mtk_battery_notify_VCharger_check E m))
     else mtk_battery_notify_UI_test E m)"

section \<open>Power path and input voltage\<close>

text \<open>The device of a setting; the other settings have none.\<close>

definition setting_dev :: "'w mtk_env \<Rightarrow> chg_data_idx \<Rightarrow> 'w charger_device option" where
  "setting_dev E idx =
    (case idx of
       CHG1_SETTING \<Rightarrow> get_charger_by_name (Some ''primary_chg'') (class_devices E)
     | CHG2_SETTING \<Rightarrow> get_charger_by_name (Some ''secondary_chg'') (class_devices E)
     | _ \<Rightarrow> None)"

definition mtk_charger_enable_power_path ::
  "'w mtk_env \<Rightarrow> chg_data_idx \<Rightarrow> bool \<Rightarrow> 'w mtk_charger \<Rightarrow> int \<times> 'w mtk_charger" where
  "mtk_charger_enable_power_path E idx en m =
    (case setting_dev E idx of
       None \<Rightarrow> (- EINVAL, m)
     | Some d \<Rightarrow>
         let m = m\<lparr>enable_pp := (enable_pp m)(idx := en)\<rparr> in
         if force_disable_pp m idx then (0, m)
         else
           let (ret, outs, m) = on_dev (charger_dev_is_powerpath_enabled (Some d) True) m in
           if ret < 0 then (ret, m)
           else if is_set (out_val (intval 1) outs) = en then (ret, m)
           else
             let (ret, _, m) = on_dev (charger_dev_enable_powerpath (Some d) en) m
             in (ret, m))"

definition mtk_charger_force_disable_power_path ::
  "'w mtk_env \<Rightarrow> chg_data_idx \<Rightarrow> bool \<Rightarrow> 'w mtk_charger \<Rightarrow> int \<times> 'w mtk_charger" where
  "mtk_charger_force_disable_power_path E idx disable m =
    (case setting_dev E idx of
       None \<Rightarrow> (- EINVAL, m)
     | Some d \<Rightarrow>
         if disable = force_disable_pp m idx then (0, m)
         else
           let m = m\<lparr>force_disable_pp := (force_disable_pp m)(idx := disable)\<rparr>;
               (ret, _, m) = on_dev (charger_dev_enable_powerpath (Some d)
                   (if force_disable_pp m idx then False else enable_pp m idx)) m
           in (ret, m))"

definition check_dynamic_mivr :: "'w mtk_env \<Rightarrow> 'w mtk_charger \<Rightarrow> 'w mtk_charger" where
  "check_dynamic_mivr E m =
    (if \<not> enable_dynamic_mivr m then m
     else if fast_algorithm_running E (outside m) then m
     else
       let vbat = get_battery_voltage E (outside m); d = custom m;
           mivr = (if vbat < min_charger_voltage_2 d sdiv 1000 - 200 then min_charger_voltage_2 d
                   else if vbat < min_charger_voltage_1 d sdiv 1000 - 200 then min_charger_voltage_1 d
                   else min_charger_voltage d)
       in run_dev (charger_dev_set_mivr (chg1_dev m) (word_of_int mivr)) m)"

section \<open>Files and power supply\<close>

text \<open>Writing a number to \<open>sw_jeita\<close>, \<open>vbat_mon\<close> and \<open>BatteryNotify\<close>; the argument is the
  parsed number, or \<open>None\<close> when the text is not one.\<close>

definition sw_jeita_store :: "int option \<Rightarrow> 'w mtk_charger \<Rightarrow> 'w mtk_charger" where
  "sw_jeita_store v m = (case v of None \<Rightarrow> m | Some t \<Rightarrow> m\<lparr>enable_sw_jeita := t \<noteq> 0\<rparr>)"

definition sw_ovp_threshold_store :: "int option \<Rightarrow> 'w mtk_charger \<Rightarrow> 'w mtk_charger" where
  "sw_ovp_threshold_store v m =
    (case v of
       None \<Rightarrow> m
     | Some t \<Rightarrow>
         m\<lparr>custom := (custom m)\<lparr>max_charger_voltage :=
             (if t < 0 then vbus_sw_ovp_voltage (custom m) else t)\<rparr>\<rparr>)"

definition vbat_mon_store :: "u32 option \<Rightarrow> 'w mtk_charger \<Rightarrow> 'w mtk_charger" where
  "vbat_mon_store v m =
    the (wake_up_charger (Some (case v of None \<Rightarrow> m | Some t \<Rightarrow> m\<lparr>enable_vbat_mon := t \<noteq> 0\<rparr>)))"

definition input_current_store :: "int option \<Rightarrow> 'w mtk_charger \<Rightarrow> 'w mtk_charger" where
  "input_current_store v m =
    (case v of
       None \<Rightarrow> m
     | Some t \<Rightarrow>
         m\<lparr>chg_data := (chg_data m)(CHG1_SETTING :=
             (chg_data m CHG1_SETTING)\<lparr>thermal_input_current_limit := (if t < 0 then 0 else t)\<rparr>)\<rparr>)"

definition BatteryNotify_store ::
  "'w mtk_env \<Rightarrow> int + u32 \<Rightarrow> int \<Rightarrow> 'w mtk_charger \<Rightarrow> int \<times> 'w mtk_charger" where
  "BatteryNotify_store E v count m =
    (case v of
       Inl err \<Rightarrow> (err, m)
     | Inr code \<Rightarrow> (count, snd (mtk_chgstat_notify E (m\<lparr>notify_code := code\<rparr>))))"

definition BATTERY_CV :: int where "BATTERY_CV = 4350000"

text \<open>\<open>set_gauge_cv\<close> is the gauge's \<open>CONSTANT_CHARGE_VOLTAGE\<close>, when the gauge is there.\<close>

definition mtk_chg_set_cv_write ::
  "(int \<Rightarrow> 'w \<Rightarrow> 'w) option \<Rightarrow> u32 option \<Rightarrow> 'w mtk_charger \<Rightarrow> 'w mtk_charger" where
  "mtk_chg_set_cv_write set_gauge_cv v m =
    (case v of
       None \<Rightarrow> m
     | Some cv \<Rightarrow>
         let c = (if uint cv \<ge> BATTERY_CV then BATTERY_CV else uint cv);
             m = m\<lparr>custom := (custom m)\<lparr>battery_cv := c\<rparr>\<rparr>
         in case set_gauge_cv of None \<Rightarrow> m | Some f \<Rightarrow> m\<lparr>outside := f c (outside m)\<rparr>)"

definition mtk_chg_current_cmd_write :: "(int \<times> int) option \<Rightarrow> 'w mtk_charger \<Rightarrow> 'w mtk_charger" where
  "mtk_chg_current_cmd_write v m =
    (case v of
       None \<Rightarrow> m
     | Some (unlimited, discharging) \<Rightarrow>
         let m = m\<lparr>usb_unlimited := unlimited \<noteq> 0\<rparr> in
         if discharging = 1 then
           let m = run_dev (charger_dev_enable (chg1_dev m) False) (m\<lparr>cmd_discharging := True\<rparr>)
           in run_dev (charger_dev_do_event (chg1_dev m) EVENT_DISCHARGE 0) m
         else if discharging = 0 then
           let m = run_dev (charger_dev_enable (chg1_dev m) True) (m\<lparr>cmd_discharging := False\<rparr>)
           in run_dev (charger_dev_do_event (chg1_dev m) EVENT_RECHARGE 0) m
         else m)"

definition mtk_chg_en_power_path_write :: "u32 option \<Rightarrow> 'w mtk_charger \<Rightarrow> 'w mtk_charger" where
  "mtk_chg_en_power_path_write v m =
    (case v of
       None \<Rightarrow> m
     | Some en \<Rightarrow> run_dev (charger_dev_enable_powerpath (chg1_dev m) (en \<noteq> 0)) m)"

text \<open>The master charger's writable properties; the current limits are accepted and
  dropped.  \<open>idx\<close> is \<open>None\<close> for a power supply the core does not know.\<close>

datatype mtk_prop =
    MP_VOLTAGE_MAX | MP_CONSTANT_CHARGE_CURRENT_MAX | MP_INPUT_CURRENT_LIMIT
  | MP_CHARGE_CONTROL_LIMIT | MP_CHARGE_CONTROL_LIMIT_MAX | MP_OTHER

definition psy_charger_set_property ::
  "'w mtk_env \<Rightarrow> chg_data_idx option \<Rightarrow> mtk_prop \<Rightarrow> int \<Rightarrow> 'w mtk_charger \<Rightarrow> int \<times> 'w mtk_charger"
where
  "psy_charger_set_property E idx p v m =
    (case idx of
       None \<Rightarrow> (0, m)
     | Some i \<Rightarrow>
         if p = MP_OTHER then (- EINVAL, m)
         else
           let m = (case p of
                 MP_VOLTAGE_MAX \<Rightarrow> m\<lparr>enable_hv_charging := v > 0\<rparr>
               | MP_CHARGE_CONTROL_LIMIT \<Rightarrow> snd (mtk_charger_enable_power_path E i (\<not> v > 0) m)
               | MP_CHARGE_CONTROL_LIMIT_MAX \<Rightarrow>
                   snd (mtk_charger_force_disable_power_path E i (v > 0) m)
               | _ \<Rightarrow> m)
           in (0, the (wake_up_charger (Some m))))"

text \<open>The \<open>ONLINE\<close> value of the \<open>usb\<close> and \<open>ac\<close> supplies by charger type.\<close>

definition mt_usb_online :: "psenum \<Rightarrow> bool" where
  "mt_usb_online t \<longleftrightarrow> t \<noteq> POWER_SUPPLY_TYPE_UNKNOWN \<and> t \<noteq> POWER_SUPPLY_TYPE_USB_DCP"

definition mt_ac_online :: "psenum \<Rightarrow> bool" where
  "mt_ac_online t \<longleftrightarrow> t \<noteq> POWER_SUPPLY_TYPE_UNKNOWN \<and> t \<noteq> POWER_SUPPLY_TYPE_USB
     \<and> t \<noteq> POWER_SUPPLY_TYPE_USB_CDP"

definition mt_usb_get_property :: "'w mtk_env \<Rightarrow> psp \<Rightarrow> propval \<Rightarrow> 'w mtk_charger \<Rightarrow> int \<times> propval" where
  "mt_usb_get_property E p v m =
    (if p = POWER_SUPPLY_PROP_ONLINE
     then (0, intval (b2i (mt_usb_online (get_charger_type E (outside m))))) else (- EINVAL, v))"

definition mt_ac_get_property :: "'w mtk_env \<Rightarrow> psp \<Rightarrow> propval \<Rightarrow> 'w mtk_charger \<Rightarrow> int \<times> propval" where
  "mt_ac_get_property E p v m =
    (if p = POWER_SUPPLY_PROP_ONLINE
     then (0, intval (b2i (mt_ac_online (get_charger_type E (outside m))))) else (- EINVAL, v))"

section \<open>Charging state reported by the driver\<close>

definition charger_status_check :: "'w mtk_charger \<Rightarrow> 'w mtk_charger" where
  "charger_status_check m =
    (let (_, outs, m) = on_dev (charger_dev_get_property (chg1_dev m) CHARGER_PROP_ONLINE (intval 0)) m;
         on = is_set (out_val (intval 0) outs);
         (_, outs, m) = on_dev (charger_dev_get_property (chg1_dev m) CHARGER_PROP_STATUS
                                 (enumval POWER_SUPPLY_STATUS_UNKNOWN)) m;
         charging = (on \<and> out_val (enumval POWER_SUPPLY_STATUS_UNKNOWN) outs
                            \<noteq> enumval POWER_SUPPLY_STATUS_NOT_CHARGING);
         m = (if charging \<noteq> is_charging m \<and> psy1_ok m then mtk_logs psy1_changed m else m)
     in m\<lparr>is_charging := charging\<rparr>)"

definition is_kernel_power_off_charging_tp :: "'w mtk_charger option \<Rightarrow> bool" where
  "is_kernel_power_off_charging_tp info =
    (case info of None \<Rightarrow> True | Some m \<Rightarrow> bootmode m = 8 \<or> bootmode m = 9)"

definition mtk_chg_enable_vbus_ovp ::
  "(bool \<Rightarrow> 'w \<Rightarrow> 'w) \<Rightarrow> bool \<Rightarrow> 'w mtk_charger option \<Rightarrow> int \<times> 'w mtk_charger option" where
  "mtk_chg_enable_vbus_ovp disable_hw_ovp en info =
    (case info of
       None \<Rightarrow> (- 1, None)
     | Some m \<Rightarrow>
         let v = (if en then max_charger_voltage_setting (custom m) else 15000000);
             m = m\<lparr>custom := (custom m)\<lparr>max_charger_voltage := v\<rparr>\<rparr>
         in (0, Some (m\<lparr>outside := disable_hw_ovp en (outside m)\<rparr>)))"

end
