(* ===== verification/Mtk_Smart.thy ===== *)
theory Mtk_Smart
  imports Mtk_Charger
begin

text \<open>
  Smart charging: the bypass phase kept between two capacities, the two protection
  ranges, the decision to stop or resume charging, the reduction of the charging
  current, and the entry points that reset the decision.
\<close>

section \<open>Bypass charging\<close>

text \<open>The phase: charging up to the high capacity, begun below the low one.\<close>

definition bypass_phase :: "mm8xxx_bypass_setting \<Rightarrow> int \<Rightarrow> bool \<Rightarrow> bool" where
  "bypass_phase b soc phase =
    (if soc < uint (low_capacity b) then True
     else if soc \<ge> uint (high_capacity b) then False
     else phase)"

text \<open>The overriding of the phase, of \<open>charging_enable\<close> (1 forbids charging) and of the
  input suspend by an enabled bypass setting.\<close>

definition bypass_control ::
  "mm8xxx_bypass_setting option \<Rightarrow> int \<Rightarrow> bool \<Rightarrow> int \<Rightarrow> int \<Rightarrow> bool \<times> int \<times> int" where
  "bypass_control bps soc phase chg_en suspend =
    (case bps of
       None \<Rightarrow> (phase, chg_en, suspend)
     | Some b \<Rightarrow>
         if \<not> bp_enable b then (phase, chg_en, suspend)
         else
           let phase = bypass_phase b soc phase in
           if phase then (phase, 0, 0)
           else if soc \<ge> uint (high_capacity b) then (phase, 1, 1)
           else (phase, 1, 0))"

section \<open>Protection ranges\<close>

text \<open>A setting of 100000 or more carries a low and a high capacity in its decimals.\<close>

definition protection_range :: "int \<Rightarrow> int \<times> int" where
  "protection_range v =
    (if v sdiv 100000 = 0 then (0, 0)
     else
       let low = s32 (v - 100000) sdiv 1000; high = s32 (v - 100000) - low * 1000
       in (if low < 40 then 40 else low, if high < 60 then 60 else high))"

definition protection_eu_range :: "int \<Rightarrow> int \<times> int" where
  "protection_eu_range v =
    (if v sdiv 100000 = 0 then (0, 0)
     else
       let low = s32 (v - 100000) sdiv 1000; high = s32 (v - 100000) - low * 1000
       in (0, if high < 80 then 80 else high))"

section \<open>The decision\<close>

definition set_sc ::
  "bool \<Rightarrow> bool \<Rightarrow> bool \<Rightarrow> 'w mtk_charger \<Rightarrow> 'w mtk_charger" where
  "set_sc dis gen eu m =
    m\<lparr>sc := (sc m)\<lparr>disable_charger := dis, chg_dev_chgen := gen, chg_dev_chgen_eu := eu\<rparr>\<rparr>"

text \<open>Switching the first charger and telling it of the event.\<close>

definition chg1_enable :: "bool \<Rightarrow> 'w mtk_charger \<Rightarrow> 'w mtk_charger" where
  "chg1_enable en m = run_dev (charger_dev_enable (chg1_dev m) en) m"

definition chg1_event :: "charger_event \<Rightarrow> 'w mtk_charger \<Rightarrow> 'w mtk_charger" where
  "chg1_event ev m = run_dev (charger_dev_do_event (chg1_dev m) ev 0) m"

definition force_power_path_off :: "'w mtk_env \<Rightarrow> bool \<Rightarrow> 'w mtk_charger \<Rightarrow> 'w mtk_charger" where
  "force_power_path_off E disable m = snd (mtk_charger_force_disable_power_path E CHG1_SETTING disable m)"

definition stop_and_discharge :: "'w mtk_env \<Rightarrow> 'w mtk_charger \<Rightarrow> 'w mtk_charger" where
  "stop_and_discharge E m =
    chg1_event EVENT_DISCHARGE
      (force_power_path_off E True (run_algorithm E (chg1_enable False m)))"

text \<open>Input suspended and not yet acted upon.\<close>

definition sc_suspend_input :: "'w mtk_env \<Rightarrow> 'w mtk_charger \<Rightarrow> sc_solution \<times> 'w mtk_charger" where
  "sc_suspend_input E m = (SC_DISABLE, stop_and_discharge E (set_sc True True False m))"

text \<open>The first protection range: stop at its upper end, resume at its lower end; between
  the two an earlier stop turns into running from the adapter.\<close>

definition sc_protection_switch ::
  "'w mtk_env \<Rightarrow> int \<Rightarrow> int \<Rightarrow> int \<Rightarrow> 'w mtk_charger \<Rightarrow> sc_solution \<times> 'w mtk_charger" where
  "sc_protection_switch E pct low high m =
    (if pct \<ge> high * 100 \<and> \<not> chg_dev_chgen (sc m) \<and> \<not> disable_charger (sc m) then
       (SC_DISABLE,
        stop_and_discharge E ((set_sc True True (chg_dev_chgen_eu (sc m)) m)\<lparr>protection_dischg := True\<rparr>))
     else if pct \<le> low * 100 \<and> disable_charger (sc m) then
       (SC_REDUCE,
        chg1_event EVENT_RECHARGE
          (chg1_enable True
            (force_power_path_off E False (set_sc False False (chg_dev_chgen_eu (sc m)) m))))
     else (SC_KEEP, m))"

definition sc_protection ::
  "'w mtk_env \<Rightarrow> int \<Rightarrow> int \<Rightarrow> int \<Rightarrow> 'w mtk_charger \<Rightarrow> sc_solution \<times> 'w mtk_charger" where
  "sc_protection E pct low high m =
    (let (r, m) = sc_protection_switch E pct low high m;
         (r, m) = (if pct > low * 100 \<and> pct \<le> high * 100 \<and> chg_dev_chgen (sc m)
                   then (SC_DISABLE,
                         run_algorithm E (m\<lparr>sc := (sc m)\<lparr>chg_dev_chgen := False\<rparr>\<rparr>))
                   else (r, m))
     in (r, m\<lparr>sc := (sc m)\<lparr>chg_dev_chgen_eu := False\<rparr>\<rparr>))"

text \<open>The EU range and the charging switch: stop charging but keep the adapter.\<close>

definition sc_protection_eu ::
  "'w mtk_env \<Rightarrow> int \<Rightarrow> int \<Rightarrow> int \<Rightarrow> 'w mtk_charger \<Rightarrow> sc_solution \<times> 'w mtk_charger" where
  "sc_protection_eu E pct high chg_en m =
    (if (pct \<ge> high * 100 \<and> high \<noteq> 100 \<or> chg_en \<noteq> 0) \<and> \<not> chg_dev_chgen_eu (sc m) then
       let m = m\<lparr>sc := (sc m)\<lparr>disable_charger := True, chg_dev_chgen := False\<rparr>,
                 protection_dischg := False\<rparr>;
           m = run_algorithm E m;
           m = m\<lparr>sc := (sc m)\<lparr>chg_dev_chgen_eu := True\<rparr>\<rparr>
       in (SC_DISABLE, chg1_event EVENT_DISCHARGE (chg1_enable False m))
     else if (chg_dev_chgen (sc m) \<or> disable_charger (sc m))
             \<and> (pct \<le> high * 95 \<and> chg_en = 0 \<or> protection_dischg m) then
       let m = m\<lparr>sc := (sc m)\<lparr>disable_charger := False, chg_dev_chgen := False\<rparr>\<rparr>;
           m = chg1_event EVENT_RECHARGE (run_algorithm E (chg1_enable True m))
       in (SC_REDUCE, m\<lparr>sc := (sc m)\<lparr>chg_dev_chgen_eu := False\<rparr>\<rparr>)
     else (SC_KEEP, m\<lparr>sc := (sc m)\<lparr>chg_dev_chgen := False\<rparr>\<rparr>))"

text \<open>No reason to hold back any more.\<close>

definition sc_resume :: "'w mtk_env \<Rightarrow> 'w mtk_charger \<Rightarrow> sc_solution \<times> 'w mtk_charger" where
  "sc_resume E m =
    (let m = m\<lparr>sc := (sc m)\<lparr>disable_charger := False, chg_dev_chgen := False\<rparr>\<rparr>;
         m = run_algorithm E m;
         m = m\<lparr>sc := (sc m)\<lparr>chg_dev_chgen_eu := False\<rparr>\<rparr>
     in (SC_REDUCE, chg1_event EVENT_RECHARGE (chg1_enable True m)))"

definition sc_decide ::
  "'w mtk_env \<Rightarrow> int \<Rightarrow> int \<Rightarrow> int \<Rightarrow> int \<Rightarrow> int \<Rightarrow> 'w mtk_charger \<Rightarrow> sc_solution \<times> 'w mtk_charger"
where
  "sc_decide E pct setting setting_eu chg_en suspend m =
    (let is_protection = setting sdiv 100000; is_protection_eu = setting_eu sdiv 100000;
         (low, high) = protection_range setting;
         (_, eu_high) = protection_eu_range setting_eu
     in if suspend \<noteq> 0 \<and> \<not> chg_dev_chgen (sc m) then sc_suspend_input E m
     else if is_protection \<noteq> 0 \<and> suspend = 0 then sc_protection E pct low high m
     else if (is_protection_eu \<noteq> 0 \<or> chg_en \<noteq> 0) \<and> suspend = 0 \<and> is_protection = 0
       then sc_protection_eu E pct eu_high chg_en m
     else if is_protection_eu = 0 \<and> suspend = 0 \<and> is_protection = 0
             \<and> (chg_dev_chgen (sc m) \<or> disable_charger (sc m)) \<and> chg_en = 0
       then sc_resume E m
     else (SC_IGNORE, m))"

definition smart_charging :: "'w mtk_env \<Rightarrow> 'w mtk_charger \<Rightarrow> sc_solution \<times> 'w mtk_charger" where
  "smart_charging E m =
    (let pct = get_uisoc E (outside m) * 100;
         D = charge_settings E (outside m);
         (phase, chg_en, suspend) =
           bypass_control (mm8xxx_bypass_data E (outside m)) (pct sdiv 100)
             (is_bypass_charging_phase m) (get_charging_enable D) (get_input_suspend D);
         m = m\<lparr>is_bypass_charging_phase := phase\<rparr>
     in sc_decide E pct (get_battery_protection_setting D) (get_battery_protection_setting_eu D)
          chg_en suspend m)"

section \<open>Time window, current reduction, initial values\<close>

text \<open>Seconds left until \<open>e\<close> in a window of the day from \<open>s\<close>, which may cross midnight.\<close>

definition sc_get_left_time :: "int \<Rightarrow> int \<Rightarrow> int \<Rightarrow> int" where
  "sc_get_left_time s e now =
    (if e \<ge> s then (if now \<ge> s \<and> now < e then e - now else 0)
     else if now \<ge> s then 86400 - now + e
     else if now < e then e - now
     else 0)"

definition sc_solToStr :: "sc_solution \<Rightarrow> string" where
  "sc_solToStr s =
    (case s of SC_IGNORE \<Rightarrow> ''ignore'' | SC_KEEP \<Rightarrow> ''keep'' | SC_DISABLE \<Rightarrow> ''disable''
             | SC_REDUCE \<Rightarrow> ''reduce'')"

definition sc_step_ibat :: "smartcharging \<Rightarrow> charger_data \<Rightarrow> smartcharging" where
  "sc_step_ibat s p =
    (if pre_ibat s = - 1 \<or> solution s = SC_IGNORE \<or> solution s = SC_DISABLE then s\<lparr>sc_ibat := - 1\<rparr>
     else if pre_ibat s = cd_charging_current_limit p \<and> solution s = SC_REDUCE
             \<and> cd_charging_current_limit p - 100000 \<ge> 500000 then
       (if sc_ibat s = - 1 then s\<lparr>sc_ibat := cd_charging_current_limit p - 100000\<rparr>
        else if sc_ibat s - 100000 \<ge> 500000 then s\<lparr>sc_ibat := sc_ibat s - 100000\<rparr>
        else s\<lparr>sc_ibat := 500000\<rparr>)
     else s)"

text \<open>The state of smart charging and the charger's limits afterwards.\<close>

definition sc_select_charging_current ::
  "int \<Rightarrow> smartcharging \<Rightarrow> charger_data \<Rightarrow> smartcharging \<times> charger_data" where
  "sc_select_charging_current boot s p =
    (if boot = 4 \<or> boot = 1 \<or> boot = 8 \<or> boot = 9 then (s\<lparr>sc_ibat := - 1\<rparr>, p)
     else
       let s = s\<lparr>solution := last_solution s\<rparr>;
           s = (if disable_in_this_plug s then s else sc_step_ibat s p);
           s = s\<lparr>pre_ibat := cd_charging_current_limit p\<rparr>
       in if thermal_charging_current_limit p \<noteq> - 1 then
            (s\<lparr>disable_in_this_plug := True\<rparr>,
             if thermal_charging_current_limit p < cd_charging_current_limit p
             then p\<lparr>cd_charging_current_limit := thermal_charging_current_limit p\<rparr> else p)
          else if (solution s = SC_REDUCE \<or> solution s = SC_KEEP)
                  \<and> sc_ibat s < cd_charging_current_limit p \<and> \<not> disable_in_this_plug s then
            (s, p\<lparr>cd_charging_current_limit := sc_ibat s\<rparr>)
          else (s, p))"

definition sc_init :: "smartcharging \<Rightarrow> smartcharging" where
  "sc_init s = s\<lparr>sc_enable := False, battery_size := 3000, start_time := 0, end_time := 80000,
     current_limit := 2000, target_percentage := 80, left_time_for_cv := 3600, pre_ibat := - 1\<rparr>"

section \<open>Entry points that reset the decision\<close>

text \<open>A write to the settings; \<open>garbage\<close> is the uninitialised \<open>online\<close>.\<close>

definition sysfs_notify_event ::
  "'w mtk_env \<Rightarrow> int \<Rightarrow> propval \<Rightarrow> 'w mtk_charger \<Rightarrow> 'w mtk_charger" where
  "sysfs_notify_event E event garbage m =
    (let (_, outs, m) = on_dev (charger_dev_get_property (chg1_dev m) CHARGER_PROP_ONLINE garbage) m in
     if \<not> is_set (out_val garbage outs) then m
     else
       let m = (if event = 1 then m\<lparr>sc := (sc m)\<lparr>chg_dev_chgen := False, disable_charger := False\<rparr>\<rparr>
                else if event = 2 then m\<lparr>sc := (sc m)\<lparr>chg_dev_chgen_eu := False\<rparr>\<rparr>
                else m)
       in snd (smart_charging E m))"

text \<open>A change of the supply; \<open>pre_usb_type\<close> is the static variable, the new one is
  returned.\<close>

definition mtk_charger_external_power_changed ::
  "propval \<Rightarrow> 'w mtk_charger \<Rightarrow> propval \<times> 'w mtk_charger" where
  "mtk_charger_external_power_changed pre_usb m =
    (let (_, _, m) = on_dev (charger_dev_get_property (chg1_dev m) CHARGER_PROP_ONLINE (intval 0)) m;
         (_, outs, m) = on_dev (charger_dev_get_property (chg1_dev m) CHARGER_PROP_USB_TYPE
                                 (enumval POWER_SUPPLY_USB_TYPE_UNKNOWN)) m;
         t = out_val (enumval POWER_SUPPLY_USB_TYPE_UNKNOWN) outs;
         m = charger_status_check m;
         m = (if pre_usb \<noteq> t \<and> t \<noteq> enumval POWER_SUPPLY_USB_TYPE_UNKNOWN
              then set_sc False False False (if psy1_ok m then mtk_logs psy1_changed m else m) else m)
     in (t, the (wake_up_charger (Some m))))"

text \<open>Plugging in and out.\<close>

definition mtk_charger_plug_out :: "'w mtk_env \<Rightarrow> 'w mtk_charger \<Rightarrow> 'w mtk_charger" where
  "mtk_charger_plug_out E m =
    (let p1 = chg_data m CHG1_SETTING;
         p1 = p1\<lparr>usb_input_current_limit := - 1, pd_input_current_limit := - 1,
                 disable_charging_count := 0, input_current_limit_by_aicl := - 1\<rparr>;
         p2 = (chg_data m CHG2_SETTING)\<lparr>disable_charging_count := 0\<rparr>;
         p1 = (if thermal_input_current_limit p1 = - 1
               then p1\<lparr>cd_input_current_limit := 15000\<rparr> else p1);
         m = m\<lparr>chr_type := POWER_SUPPLY_TYPE_UNKNOWN, charger_thread_polling := False,
               dpdmov_stat := False, lst_dpdmov_stat := False, power_path_en := False,
               en_power_path := True, is_chg_done := False, curr_flag := False,
               old_vreg := False, pre_notify_code := 0,
               chg_data := (chg_data m)(CHG1_SETTING := p1, CHG2_SETTING := p2)\<rparr>;
         m = m\<lparr>outside := notify_plug_out E (outside m)\<rparr>;
         m = run_dev (charger_dev_set_input_current (chg1_dev m) 100000) m;
         m = run_dev (charger_dev_set_mivr (chg1_dev m) (word_of_int (min_charger_voltage (custom m)))) m;
         m = run_dev (charger_dev_plug_out (chg1_dev m)) m;
         m = force_power_path_off E True m;
         m = (if enable_vbat_mon m
              then run_dev (charger_dev_enable_6pin_battery_charging (chg1_dev m) False) m else m)
     in adapter_protocol_init E m)"

text \<open>What plugging in does once the decision has been made afresh.\<close>

definition plug_in_announce :: "'w mtk_env \<Rightarrow> 'w mtk_charger \<Rightarrow> 'w mtk_charger" where
  "plug_in_announce E m =
    (let m = m\<lparr>outside := notify_plug_in E (get_battery_voltage E (outside m)) (outside m)\<rparr>;
         m = m\<lparr>sc := (sc m)\<lparr>disable_in_this_plug := False\<rparr>\<rparr>;
         m = run_dev (charger_dev_plug_in (chg1_dev m)) m;
         m = (if en_cts_mode m then m
              else (force_power_path_off E False m)\<lparr>power_path_en := True\<rparr>)
     in if chr_type m = POWER_SUPPLY_TYPE_USB_DCP \<and> mt_usb_type m = POWER_SUPPLY_USB_TYPE_PD
        then m\<lparr>adapter := (adapter m)\<lparr>ta_status := (ta_status (adapter m))(PD := TA_ATTACH)\<rparr>\<rparr> else m)"

definition mtk_charger_plug_in :: "'w mtk_env \<Rightarrow> psenum \<Rightarrow> 'w mtk_charger \<Rightarrow> 'w mtk_charger" where
  "mtk_charger_plug_in E t m =
    (let m = m\<lparr>chr_type := t, mt_usb_type := get_usb_type E (outside m), pd_reset := False,
               charger_thread_polling := True, is_chg_done := False, curr_flag := False,
               old_vreg := False, can_charging := True, safety_timeout := False,
               vbusov_stat := False, old_cv := 0, stop_6pin_re_en := False,
               batpro_done := False\<rparr>
     in plug_in_announce E (snd (smart_charging E (set_sc False False False m))))"

definition mtk_is_charger_on :: "'w mtk_env \<Rightarrow> 'w mtk_charger \<Rightarrow> bool \<times> 'w mtk_charger" where
  "mtk_is_charger_on E m =
    (let t = get_charger_type E (outside m) in
     if t = POWER_SUPPLY_TYPE_UNKNOWN then
       (False, if chr_type m \<noteq> POWER_SUPPLY_TYPE_UNKNOWN
               then (mtk_charger_plug_out E m)\<lparr>cable_out_cnt := 0\<rparr> else m)
     else
       let m = (if chr_type m = POWER_SUPPLY_TYPE_UNKNOWN then mtk_charger_plug_in E t m
                else m\<lparr>chr_type := t, mt_usb_type := get_usb_type E (outside m)\<rparr>);
           m = (if cable_out_cnt m > 0
                then (mtk_charger_plug_in E t (mtk_charger_plug_out E m))\<lparr>cable_out_cnt := 0\<rparr>
                else m)
       in (True, m))"

end
