(* ===== verification/Mtk_Status.thy ===== *)
theory Mtk_Status
  imports Mtk_Smart
begin

text \<open>
  The status check of the charger core: the software JEITA state machine, the plain
  battery temperature protection, the junction temperatures, and the decision
  whether the charger may charge, with the calls that carry it out.
\<close>

section \<open>Software JEITA\<close>

text \<open>The state and the charging permission for a temperature, by the branches of the
  code; the state before is \<open>sm\<close>.\<close>

definition jeita_step ::
  "charger_custom_data \<Rightarrow> int \<Rightarrow> sw_jeita_state \<Rightarrow> sw_jeita_state \<times> bool" where
  "jeita_step d t sm =
    (if t \<ge> temp_t4_thres d then (TEMP_ABOVE_T4, False)
     else if t > temp_t3_thres d then
       (if sm = TEMP_ABOVE_T4 \<and> t \<ge> temp_t4_thres_minus_x_degree d then (sm, False)
        else (TEMP_T3_TO_T4, True))
     else if t \<ge> temp_t2_thres d then
       (if sm = TEMP_T3_TO_T4 \<and> t \<ge> temp_t3_thres_minus_x_degree d
           \<or> sm = TEMP_T1_TO_T2 \<and> t \<le> temp_t2_thres_plus_x_degree d then (sm, True)
        else (TEMP_T2_TO_T3, True))
     else if t \<ge> temp_t1_thres d then
       (if (sm = TEMP_T0_TO_T1 \<or> sm = TEMP_BELOW_T0) \<and> t \<le> temp_t1_thres_plus_x_degree d
        then (sm, sm \<noteq> TEMP_BELOW_T0)
        else (TEMP_T1_TO_T2, True))
     else if t \<ge> temp_t0_thres d then
       (if sm = TEMP_BELOW_T0 \<and> t \<le> temp_t0_thres_plus_x_degree d then (sm, False)
        else (TEMP_T0_TO_T1, True))
     else (TEMP_BELOW_T0, False))"

text \<open>Outside the normal range the limits are those of the state; in it they are 0, and
  the algorithm sets its own.  (The branches of the code for the normal range inside
  the other case, and for no state at all, cannot be reached.)\<close>

definition do_sw_jeita_state_machine :: "'w mtk_charger \<Rightarrow> 'w mtk_charger" where
  "do_sw_jeita_state_machine m =
    (let j = sw_jeita m; d = custom m;
         (s, ch) = jeita_step d (battery_temp m) (jt_sm j);
         j = j\<lparr>jt_pre_sm := jt_sm j, jt_sm := s, jt_charging := ch\<rparr>;
         j = (if s \<noteq> TEMP_T2_TO_T3
              then j\<lparr>jt_cv := jeita_cv d s, jt_iterm := jeita_term d s,
                     jt_recharge_vol := jeita_recharge d s\<rparr>
              else j\<lparr>jt_cv := 0, jt_iterm := 0, jt_recharge_vol := 0\<rparr>)
     in m\<lparr>sw_jeita := j\<rparr>)"

section \<open>Plain temperature protection\<close>

text \<open>The protection state and the permission, for each of the two ends.\<close>

definition thermal_low :: "thermal_protection \<Rightarrow> int \<Rightarrow> bat_temp_state \<times> bool" where
  "thermal_low th t =
    (if \<not> enable_min_charge_temp th then (th_sm th, True)
     else if t < min_charge_temp th then (BAT_TEMP_LOW, False)
     else if th_sm th = BAT_TEMP_LOW then
       (if t \<ge> min_charge_temp_plus_x_degree th then (BAT_TEMP_NORMAL, True) else (th_sm th, False))
     else (th_sm th, True))"

definition thermal_high :: "thermal_protection \<Rightarrow> int \<Rightarrow> bat_temp_state \<times> bool" where
  "thermal_high th t =
    (if t \<ge> max_charge_temp th then (BAT_TEMP_HIGH, False)
     else if th_sm th = BAT_TEMP_HIGH then
       (if t < max_charge_temp_minus_x_degree th then (BAT_TEMP_NORMAL, True) else (th_sm th, False))
     else (th_sm th, True))"

definition thermal_step :: "thermal_protection \<Rightarrow> int \<Rightarrow> thermal_protection \<times> bool" where
  "thermal_step th t =
    (let (s, ok) = thermal_low th t; th = th\<lparr>th_sm := s\<rparr> in
     if \<not> ok then (th, False)
     else let (s, ok) = thermal_high th t in (th\<lparr>th_sm := s\<rparr>, ok))"

section \<open>Junction temperatures\<close>

definition int_out :: "int \<Rightarrow> nat \<Rightarrow> propval list \<Rightarrow> int" where
  "int_out d i outs = (if i < length outs then (case outs ! i of intval n \<Rightarrow> n | _ \<Rightarrow> d) else d)"

definition set_junction :: "chg_data_idx \<Rightarrow> int \<Rightarrow> int \<Rightarrow> int \<Rightarrow> 'w mtk_charger \<Rightarrow> 'w mtk_charger" where
  "set_junction idx ret mn mx m =
    m\<lparr>chg_data := (chg_data m)(idx := (chg_data m idx)\<lparr>
        junction_temp_min := (if ret < 0 then - 127 else mn),
        junction_temp_max := (if ret < 0 then - 127 else mx)\<rparr>)\<rparr>"

text \<open>One device: its call, with the two local variables of the function, which keep what
  the previous call stored.\<close>

definition read_junction ::
  "chg_data_idx \<Rightarrow> (int \<Rightarrow> int \<Rightarrow> 'w class_op) \<Rightarrow> int \<times> int \<times> 'w mtk_charger
   \<Rightarrow> int \<times> int \<times> 'w mtk_charger" where
  "read_junction idx f = (\<lambda>(mn, mx, m).
    let (ret, outs, m) = on_dev (f mn mx) m; mn = int_out mn 0 outs; mx = int_out mx 1 outs
    in (mn, mx, set_junction idx ret mn mx m))"

definition read_dv_junction ::
  "chg_data_idx \<Rightarrow> int \<times> int \<times> 'w mtk_charger \<Rightarrow> int \<times> int \<times> 'w mtk_charger" where
  "read_dv_junction idx x =
    (let d = dv_dev (snd (snd x)) idx in
     if d = None then x
     else read_junction idx (charger_dev_get_adc d ADC_CHANNEL_TEMP_JC) x)"

definition mtk_chg_get_tchg :: "'w mtk_charger \<Rightarrow> 'w mtk_charger" where
  "mtk_chg_get_tchg m =
    (let x = read_junction CHG1_SETTING (charger_dev_get_temperature (chg1_dev m)) (- 127, - 127, m);
         d = chg2_dev (snd (snd x));
         x = (if d = None then x else read_junction CHG2_SETTING (charger_dev_get_temperature d) x);
         x = read_dv_junction DVCHG1_SETTING x;
         x = read_dv_junction DVCHG2_SETTING x;
         x = read_dv_junction HVDVCHG1_SETTING x;
         x = read_dv_junction HVDVCHG2_SETTING x
     in snd (snd x))"

section \<open>The check\<close>

text \<open>The temperature stage: the permission and the device.\<close>

definition temperature_stage :: "'w mtk_charger \<Rightarrow> bool \<times> 'w mtk_charger" where
  "temperature_stage m =
    (if enable_sw_jeita m then
       let m = do_sw_jeita_state_machine m in (jt_charging (sw_jeita m), m)
     else
       let (th, ok) = thermal_step (thermal m) (battery_temp m) in (ok, m\<lparr>thermal := th\<rparr>))"

text \<open>The stage after it, up to the label \<open>stop_charging\<close>.\<close>

definition permission_stage :: "'w mtk_env \<Rightarrow> 'w mtk_charger \<Rightarrow> bool \<times> 'w mtk_charger" where
  "permission_stage E m =
    (let (ok, m) = temperature_stage m in
     if \<not> ok then (False, m)
     else
       let m = snd (smart_charging E (mtk_chg_get_tchg m)) in
       if \<not> mtk_chg_check_vbus E m then (False, m)
       else (\<not> cmd_discharging m \<and> \<not> safety_timeout m \<and> \<not> vbusov_stat m \<and> \<not> dpdmov_stat m
             \<and> \<not> disable_charger (sc m), m))"

definition charger_check_status :: "'w mtk_env \<Rightarrow> 'w mtk_charger \<Rightarrow> 'w mtk_charger" where
  "charger_check_status E m =
    (if get_charger_type E (outside m) = POWER_SUPPLY_TYPE_UNKNOWN then m
     else
       let uisoc = get_uisoc E (outside m);
           m = m\<lparr>vbat_mon_en := \<not> (enable_sw_jeita m \<or> \<not> enable_vbat_mon m \<or> batpro_done m)\<rparr>;
           (charging, m) = permission_stage E m;
           m = mtk_battery_notify_check E m;
           m = (if charging \<and> uisoc < 80 \<and> batpro_done m
                then m\<lparr>vbat_mon_en := True, batpro_done := False, stop_6pin_re_en := False\<rparr> else m);
           (_, outs, m) = on_dev (charger_dev_is_enabled (chg1_dev m) True) m;
           enabled = is_set (out_val (intval 1) outs);
           m = (if charging \<noteq> can_charging m then snd (mtk_enable_charging E charging m)
                else if \<not> charging \<and> enabled then snd (mtk_enable_charging E charging m)
                else m)
       in m\<lparr>can_charging := charging\<rparr>)"

text \<open>The part of the charger thread after its status check: the algorithm and a look at the
  charging state when charging is allowed, and smart charging again in a normal boot.\<close>

definition charger_thread_decide :: "bool \<Rightarrow> 'w mtk_env \<Rightarrow> bool \<Rightarrow> 'w mtk_charger \<Rightarrow> 'w mtk_charger" where
  "charger_thread_decide power_ext E charger_on m =
    (let m = (if \<not> is_disable_charger power_ext (Some m) \<and> charger_on \<and> can_charging m
              then charger_status_check (run_algorithm E m) else m)
     in if bootmode m \<notin> {1, 2, 4, 8, 9} then snd (smart_charging E m) else m)"

end
