(* ===== verification/Mtk_Policy.thy ===== *)
theory Mtk_Policy
  imports Mtk_Status
begin

text \<open>
  What the charger core decides: an abstract automaton of the four decision flags that
  smart charging implements, the invariant of the flags over every interleaving of the
  core's entry points, and the bypass setting as a latch on the state of charge.
\<close>

section \<open>Latches\<close>

text \<open>A state that is switched on by some inputs, off by others and kept by the rest.\<close>

locale latch =
  fixes step :: "'i \<Rightarrow> 's \<Rightarrow> 's" and active :: "'s \<Rightarrow> bool" and on off :: "'i \<Rightarrow> bool"
  assumes switch_on: "on i \<Longrightarrow> active (step i s)"
    and switch_off: "\<not> on i \<Longrightarrow> off i \<Longrightarrow> \<not> active (step i s)"
    and keep: "\<not> on i \<Longrightarrow> \<not> off i \<Longrightarrow> active (step i s) = active s"
begin

text \<open>After a run the last deciding input has the say.\<close>

lemma active_run:
  "active (fold step xs s) =
    (case filter (\<lambda>i. on i \<or> off i) (rev xs) of [] \<Rightarrow> active s | i # _ \<Rightarrow> on i)"
proof (induction xs arbitrary: s rule: rev_induct)
  case (snoc x xs)
  then show ?case
    by (cases "on x"; cases "off x") (simp_all add: switch_on switch_off keep)
qed simp

lemma stays_active:
  "active s \<Longrightarrow> \<forall>i \<in> set xs. off i \<longrightarrow> on i \<Longrightarrow> active (fold step xs s)"
proof (induction xs arbitrary: s)
  case (Cons x xs)
  then have "active (step x s)"
    by (cases "on x"; cases "off x") (simp_all add: switch_on keep)
  with Cons show ?case by simp
qed simp

end

interpretation bypass: latch "\<lambda>soc. bypass_phase b soc" "\<lambda>p. p"
  "\<lambda>soc. soc < uint (low_capacity b)" "\<lambda>soc. soc \<ge> uint (high_capacity b)" for b
  by unfold_locales (simp_all add: bypass_phase_def)

section \<open>The decision automaton\<close>

text \<open>The flags: charging stopped, stopped by cutting the input, stopped by keeping it,
  and stopped by the first protection range.\<close>

record decision =
  stopped :: bool
  cut_off :: bool
  held_off :: bool
  protected_off :: bool

definition decision_of :: "'w mtk_charger \<Rightarrow> decision" where
  "decision_of m = \<lparr>stopped = disable_charger (sc m), cut_off = chg_dev_chgen (sc m),
     held_off = chg_dev_chgen_eu (sc m), protected_off = protection_dischg m\<rparr>"

definition spec_protection :: "int \<Rightarrow> int \<Rightarrow> int \<Rightarrow> decision \<Rightarrow> decision" where
  "spec_protection pct low high d =
    (let d = (if pct \<ge> high * 100 \<and> \<not> cut_off d \<and> \<not> stopped d
              then d\<lparr>stopped := True, cut_off := True, protected_off := True\<rparr>
              else if pct \<le> low * 100 \<and> stopped d then d\<lparr>stopped := False, cut_off := False\<rparr>
              else d)
     in d\<lparr>cut_off := cut_off d \<and> \<not> (low * 100 < pct \<and> pct \<le> high * 100), held_off := False\<rparr>)"

definition spec_eu :: "int \<Rightarrow> int \<Rightarrow> bool \<Rightarrow> decision \<Rightarrow> decision" where
  "spec_eu pct high forbidden d =
    (if (pct \<ge> high * 100 \<and> high \<noteq> 100 \<or> forbidden) \<and> \<not> held_off d
     then \<lparr>stopped = True, cut_off = False, held_off = True, protected_off = False\<rparr>
     else if (cut_off d \<or> stopped d) \<and> (pct \<le> high * 95 \<and> \<not> forbidden \<or> protected_off d)
     then d\<lparr>stopped := False, cut_off := False, held_off := False\<rparr>
     else d\<lparr>cut_off := False\<rparr>)"

definition spec_decide :: "int \<Rightarrow> int \<Rightarrow> int \<Rightarrow> bool \<Rightarrow> bool \<Rightarrow> decision \<Rightarrow> decision" where
  "spec_decide pct setting setting_eu forbidden suspended d =
    (let p = (setting sdiv 100000 \<noteq> 0); p_eu = (setting_eu sdiv 100000 \<noteq> 0) in
     if suspended \<and> \<not> cut_off d then d\<lparr>stopped := True, cut_off := True, held_off := False\<rparr>
     else if p \<and> \<not> suspended
       then spec_protection pct (fst (protection_range setting)) (snd (protection_range setting)) d
     else if (p_eu \<or> forbidden) \<and> \<not> suspended
       then spec_eu pct (snd (protection_eu_range setting_eu)) forbidden d
     else if \<not> suspended \<and> (cut_off d \<or> stopped d)
       then d\<lparr>stopped := False, cut_off := False, held_off := False\<rparr>
     else d)"

section \<open>The core and the code it calls\<close>

text \<open>The charging algorithm, the enable routine and the adapter code change currents,
  voltages and chips; the decision flags and the bypass phase belong to the core.\<close>

locale charger_core =
  fixes E :: "'w mtk_env"
  assumes algorithm_keeps: "do_algorithm E = Some f \<Longrightarrow> decision_of (f m) = decision_of m"
    and algorithm_keeps_phase:
      "do_algorithm E = Some f \<Longrightarrow> is_bypass_charging_phase (f m) = is_bypass_charging_phase m"
    and enable_keeps: "enable_charging E = Some g \<Longrightarrow> decision_of (snd (g en m)) = decision_of m"
    and adapter_keeps: "decision_of (adapter_protocol_init E m) = decision_of m"

lemma decision_of_eq:
  "decision_of m' = decision_of m \<longleftrightarrow>
    disable_charger (sc m') = disable_charger (sc m) \<and> chg_dev_chgen (sc m') = chg_dev_chgen (sc m)
    \<and> chg_dev_chgen_eu (sc m') = chg_dev_chgen_eu (sc m)
    \<and> protection_dischg m' = protection_dischg m"
  by (auto simp: decision_of_def)

lemma run_dev_eq: "run_dev f m = m\<lparr>outside := snd (snd (f (outside m)))\<rparr>"
  by (simp add: run_dev_def on_dev_def case_prod_beta Let_def)

lemma run_dev_keeps [simp]:
  "sc (run_dev f m) = sc m" "protection_dischg (run_dev f m) = protection_dischg m"
  "is_bypass_charging_phase (run_dev f m) = is_bypass_charging_phase m"
  "chg1_dev (run_dev f m) = chg1_dev m" "custom (run_dev f m) = custom m"
  by (simp_all add: run_dev_eq)

lemma on_dev_keeps [simp]:
  "sc (snd (snd (on_dev f m))) = sc m"
  "protection_dischg (snd (snd (on_dev f m))) = protection_dischg m"
  "is_bypass_charging_phase (snd (snd (on_dev f m))) = is_bypass_charging_phase m"
  "chg1_dev (snd (snd (on_dev f m))) = chg1_dev m"
  by (simp_all add: on_dev_def case_prod_beta Let_def)

lemma force_path_keeps [simp]:
  "sc (force_power_path_off E b m) = sc m"
  "protection_dischg (force_power_path_off E b m) = protection_dischg m"
  "is_bypass_charging_phase (force_power_path_off E b m) = is_bypass_charging_phase m"
  "chg1_dev (force_power_path_off E b m) = chg1_dev m"
  by (auto simp: force_power_path_off_def mtk_charger_force_disable_power_path_def on_dev_def
      case_prod_beta Let_def split: option.splits)

context charger_core begin

lemma run_algorithm_flags [simp]:
  "disable_charger (sc (run_algorithm E m)) = disable_charger (sc m)"
  "chg_dev_chgen (sc (run_algorithm E m)) = chg_dev_chgen (sc m)"
  "chg_dev_chgen_eu (sc (run_algorithm E m)) = chg_dev_chgen_eu (sc m)"
  "protection_dischg (run_algorithm E m) = protection_dischg m"
  "is_bypass_charging_phase (run_algorithm E m) = is_bypass_charging_phase m"
  using algorithm_keeps algorithm_keeps_phase
  by (auto simp: run_algorithm_def decision_of_eq split: option.splits)

lemmas sc_action_defs = chg1_enable_def chg1_event_def stop_and_discharge_def set_sc_def

lemma suspend_decision:
  "decision_of (snd (sc_suspend_input E m))
    = (decision_of m)\<lparr>stopped := True, cut_off := True, held_off := False\<rparr>"
  by (simp add: sc_suspend_input_def sc_action_defs decision_of_def)

lemma protection_decision:
  "decision_of (snd (sc_protection E pct low high m)) = spec_protection pct low high (decision_of m)"
  by (simp add: sc_protection_def sc_protection_switch_def sc_action_defs decision_of_def
      spec_protection_def case_prod_beta Let_def)

lemma eu_decision:
  "decision_of (snd (sc_protection_eu E pct high chg_en m))
    = spec_eu pct high (chg_en \<noteq> 0) (decision_of m)"
  by (simp add: sc_protection_eu_def sc_action_defs decision_of_def spec_eu_def Let_def)

lemma resume_decision:
  "decision_of (snd (sc_resume E m))
    = (decision_of m)\<lparr>stopped := False, cut_off := False, held_off := False\<rparr>"
  by (simp add: sc_resume_def sc_action_defs decision_of_def Let_def)

lemma decide_decision:
  "decision_of (snd (sc_decide E pct setting setting_eu chg_en suspend m))
    = spec_decide pct setting setting_eu (chg_en \<noteq> 0) (suspend \<noteq> 0) (decision_of m)"
proof -
  have c: "cut_off (decision_of m) = chg_dev_chgen (sc m)"
    "stopped (decision_of m) = disable_charger (sc m)"
    by (simp_all add: decision_of_def)
  show ?thesis
    unfolding sc_decide_def spec_decide_def
    by (simp add: Let_def case_prod_beta suspend_decision protection_decision eu_decision
        resume_decision c)
qed

end

end
