(* ===== verification/Mtk_Phone.thy ===== *)
theory Mtk_Phone
  imports Mtk_Policy Sgm_Safety
begin

text \<open>
  The phone as the repository builds it: the charger core on top of the SGM4154x
  driver, reached through the charger class, with the vendor's settings and the gauge's
  bypass setting beside it.  The core's contract holds for it.
\<close>

text \<open>What the core reads besides the charger.\<close>

record phone =
  ph_soc :: int
  ph_vbus_mV :: int
  ph_vbat_mV :: int
  ph_supply :: psenum
  ph_usb_type :: psenum
  ph_settings :: sysfs_info_data
  ph_bypass :: "mm8xxx_bypass_setting option"

text \<open>The driver's operation beside the rest of the phone.\<close>

definition beside :: "'s class_op \<Rightarrow> ('s \<times> phone) class_op" where
  "beside f w = (let (ret, outs, s) = f (fst w) in (ret, outs, (s, snd w)))"

definition sgm_charger ::
  "('w, 'e) smbus_ops_scheme \<Rightarrow> ('w sgm4154x_device \<times> phone) charger_device" where
  "sgm_charger B = \<lparr>dev_name = ''primary_chg'', alias_name = None,
     dev_ops = Some (\<lambda>r. map_option beside (sgm4154x_class_ops B r))\<rparr>"

text \<open>The algorithm asks the class for a charging current; the enable routine is the class
  call.\<close>

definition phone_core ::
  "('w, 'e) smbus_ops_scheme \<Rightarrow> u32 \<Rightarrow> ('w sgm4154x_device \<times> phone) mtk_env" where
  "phone_core B uA = \<lparr>get_vbus_mV = (\<lambda>w. ph_vbus_mV (snd w)), get_uisoc = (\<lambda>w. ph_soc (snd w)),
     get_battery_voltage = (\<lambda>w. ph_vbat_mV (snd w)), get_charger_type = (\<lambda>w. ph_supply (snd w)),
     get_usb_type = (\<lambda>w. ph_usb_type (snd w)), charge_settings = (\<lambda>w. ph_settings (snd w)),
     mm8xxx_bypass_data = (\<lambda>w. ph_bypass (snd w)), class_devices = [sgm_charger B],
     do_algorithm = Some (\<lambda>m. run_dev (charger_dev_set_charging_current (chg1_dev m) uA) m),
     enable_charging = Some (\<lambda>en m. let (ret, _, m) = on_dev (charger_dev_enable (chg1_dev m) en) m
                                    in (ret, m)),
     fast_algorithm_running = (\<lambda>_. False), notify_plug_in = (\<lambda>_ w. w), notify_plug_out = (\<lambda>w. w),
     adapter_protocol_init = (\<lambda>m. m), uevent_result = 0\<rparr>"

interpretation phone: charger_core "phone_core B uA" for B uA
  by unfold_locales
    (auto simp: phone_core_def decision_of_eq run_dev_eq on_dev_def case_prod_beta Let_def)

text \<open>A core with nothing plugged in and the defaults of its board data.\<close>

definition charger_data0 :: charger_data where
  "charger_data0 = \<lparr>cd_input_current_limit = 0, cd_charging_current_limit = 0,
     thermal_input_current_limit = - 1, thermal_charging_current_limit = - 1,
     usb_input_current_limit = - 1, pd_input_current_limit = - 1,
     input_current_limit_by_aicl = - 1, disable_charging_count = 0,
     junction_temp_min = 0, junction_temp_max = 0\<rparr>"

definition custom0 :: charger_custom_data where
  "custom0 = \<lparr>battery_cv = 4350000, dt_iterm = 930000, dt_recharge_vol = 4330000,
     max_charger_voltage = 6500000, max_charger_voltage_setting = 6500000,
     pd_max_charger_voltage = 6500000, vbus_sw_ovp_voltage = 15000000,
     min_charger_voltage = 4600000, min_charger_voltage_1 = 4400000,
     min_charger_voltage_2 = 4200000, max_dmivr_charger_current = 1800000,
     recharge_offset = 200000, unknown_charger_current = 420000, usb_charger_current = 500000,
     ac_charger_current = 2050000, ac_charger_input_current = 3200000,
     hvdcp_charger_current = 2050000, hvdcp_charger_input_current = 3200000,
     pd_charger_current = 2050000, pd_charger_input_current = 3200000,
     charging_host_charger_current = 650000, lowtemp_charger_current = 2050000,
     lowtemp_charger_input_current = 3200000, hightemp_charger_current = 2050000,
     hightemp_charger_input_current = 3200000, apple_charger_current = (\<lambda>_. 500000),
     jeita_cv = (\<lambda>s. case s of TEMP_ABOVE_T4 \<Rightarrow> 4240000 | TEMP_T3_TO_T4 \<Rightarrow> 4240000
                 | TEMP_T2_TO_T3 \<Rightarrow> 4340000 | TEMP_T1_TO_T2 \<Rightarrow> 4240000 | _ \<Rightarrow> 4040000),
     jeita_term = (\<lambda>_. 0), jeita_recharge = (\<lambda>_. 0),
     temp_t4_thres = 50, temp_t4_thres_minus_x_degree = 47, temp_t3_thres = 45,
     temp_t3_thres_minus_x_degree = 39, temp_t2_thres = 10, temp_t2_thres_plus_x_degree = 16,
     temp_t1_thres = 0, temp_t1_thres_plus_x_degree = 6, temp_t0_thres = 0,
     temp_t0_thres_plus_x_degree = 0, temp_neg_10_thres = 0\<rparr>"

definition smartcharging0 :: smartcharging where
  "smartcharging0 = sc_init \<lparr>sc_enable = False, battery_size = 0, start_time = 0, end_time = 0,
     current_limit = 0, target_percentage = 0, left_time_for_cv = 0, pre_ibat = 0, sc_ibat = 0,
     solution = SC_IGNORE, last_solution = SC_IGNORE, disable_charger = False,
     disable_in_this_plug = False, chg_dev_chgen = False, chg_dev_chgen_eu = False\<rparr>"

definition adapter0 :: mtk_adapter where
  "adapter0 = \<lparr>ta_status = (\<lambda>_. TA_INIT_STATE), ta_hardreset = False, water_detected = False,
     record_water_detected = False\<rparr>"

definition board0 :: mtk_board where
  "board0 = \<lparr>config = 0, boottype = 0, algorithm_name = ''Basic'', charger_unlimited = False,
     atm_enabled = False, enable_sw_safety_timer = False, sw_safety_timer_setting = False,
     disable_aicl = False, alg_new_arbitration = False, alg_unchangeable = False,
     enable_boot_volt = False, enable_vbat_mon_bak = False,
     enable_fast_charging_indicator = False, adapter_priority = 0, cs_gpio_index = 0,
     curr_select_name = ''NULL'', cs_with_gauge = False, comp_resist = 0, cs_hw_disable = True\<rparr>"

definition runtime0 :: mtk_runtime where
  "runtime0 = \<lparr>log_level = 1, fast_charging_indicator = 0, enable_meta_current_limit = 1,
     safety_timer_cmd = - 1, cmd_pp = - 1, cs_cc_now = 0, is_suspend = False, endtime = (0, 0),
     reset_boot_volt_times = False, uevent_time = None, pre_ui_soc = 0,
     alg = replicate 10 None\<rparr>"

definition core0 :: "'w charger_device option \<Rightarrow> 'w \<Rightarrow> 'w mtk_charger" where
  "core0 dev w = \<lparr>chg1_dev = dev, chg2_dev = None, dv_dev = (\<lambda>_. None),
     chg_data = (\<lambda>_. charger_data0), custom = custom0, sc = smartcharging0,
     sw_jeita = \<lparr>jt_sm = TEMP_BELOW_T0, jt_pre_sm = TEMP_BELOW_T0, jt_cv = 0, jt_iterm = 0,
       jt_recharge_vol = 0, jt_charging = False\<rparr>,
     thermal = \<lparr>th_sm = BAT_TEMP_NORMAL, enable_min_charge_temp = True, min_charge_temp = 0,
       min_charge_temp_plus_x_degree = 6, max_charge_temp = 50,
       max_charge_temp_minus_x_degree = 47\<rparr>,
     bootmode = 0, chr_type = POWER_SUPPLY_TYPE_UNKNOWN,
     mt_usb_type = POWER_SUPPLY_USB_TYPE_UNKNOWN, pd_reset = False, cable_out_cnt = 0,
     charger_thread_timeout = False, charger_thread_polling = False, wakelock_active = False,
     psy1_ok = True, disable_charger_dt = False, battery_temp = 25, can_charging = False,
     cmd_discharging = False, safety_timeout = False, vbusov_stat = False, dpdmov_stat = False,
     lst_dpdmov_stat = False, is_chg_done = False, power_path_en = True, en_power_path = True,
     en_cts_mode = False, usb_unlimited = False, notify_code = 0, pre_notify_code = 0,
     notify_test_mode = 0, enable_vbat_mon = False, vbat_mon_en = False, batpro_done = False,
     stop_6pin_re_en = False, curr_flag = False, old_vreg = False, old_cv = 0,
     protection_dischg = False, enable_sw_jeita = False, enable_dynamic_mivr = False,
     enable_hv_charging = True, is_charging = False,
     force_disable_pp = (\<lambda>_. False), enable_pp = (\<lambda>_. True),
     is_bypass_charging_phase = False, cschg1_dev = None, adapter = adapter0, board = board0,
     runtime = runtime0, mtk_log = [], outside = w\<rparr>"

definition phone0 :: phone where
  "phone0 = \<lparr>ph_soc = 50, ph_vbus_mV = 5000, ph_vbat_mV = 3900,
     ph_supply = POWER_SUPPLY_TYPE_USB_DCP, ph_usb_type = POWER_SUPPLY_USB_TYPE_DCP,
     ph_settings = info_data0,
     ph_bypass = Some \<lparr>bp_enable = True, low_capacity = 60, high_capacity = 80\<rparr>\<rparr>"

definition demo_core :: "((u8 \<Rightarrow> u8) sgm4154x_device \<times> phone) mtk_charger" where
  "demo_core = core0 (Some (sgm_charger plain_bus)) (demo_device, phone0)"

end
