(* ===== verification/Mtk_Board.thy ===== *)
theory Mtk_Board
  imports Mtk_Charger
begin

text \<open>
  The board data of the charger core: reading the device tree node of the charger, with
  its defaults and the two spellings of most property names.
\<close>

section \<open>The device tree\<close>

text \<open>A node: a 32-bit property, a flag, a string.  Around it are the boot tag (\<open>None\<close> when
  the phandle or the tag is missing), the node of the current selector, its GPIO, and
  the two algorithms' initialisation, which is not in this file.\<close>

record dt_node =
  u32_prop :: "string \<Rightarrow> u32 option"
  bool_prop :: "string \<Rightarrow> bool"
  string_prop :: "string \<Rightarrow> string option"

record 'w dt_env =
  boot_tag :: "(u32 \<times> u32) option"
  single_charger :: int
  current_selector :: "dt_node option"
  cs_gpio :: int
  mtk_basic_charger_init :: "'w mtk_charger \<Rightarrow> 'w mtk_charger"
  mtk_pulse_charger_init :: "'w mtk_charger \<Rightarrow> 'w mtk_charger"

text \<open>Most names are tried with underscores first and with dashes then.\<close>

definition dashes :: "string \<Rightarrow> string" where
  "dashes s = map (\<lambda>c. if c = CHR ''_'' then CHR ''-'' else c) s"

definition spellings :: "string \<Rightarrow> string list" where
  "spellings s = [s, dashes s]"

fun dt_first :: "dt_node \<Rightarrow> string list \<Rightarrow> u32 option" where
  "dt_first np [] = None"
| "dt_first np (s # ss) = (case u32_prop np s of Some v \<Rightarrow> Some v | None \<Rightarrow> dt_first np ss)"

text \<open>The \<open>int\<close> field that a property or its default gives.\<close>

definition dt_int :: "dt_node \<Rightarrow> string list \<Rightarrow> int \<Rightarrow> int" where
  "dt_int np ss d = (case dt_first np ss of Some v \<Rightarrow> s32 (uint v) | None \<Rightarrow> d)"

definition dt_flag :: "dt_node \<Rightarrow> string list \<Rightarrow> bool" where
  "dt_flag np ss = list_ex (bool_prop np) ss"

section \<open>Options\<close>

definition parse_algorithm_name :: "dt_node \<Rightarrow> string" where
  "parse_algorithm_name np =
    (case string_prop np ''algorithm-name'' of
       Some n \<Rightarrow> n
     | None \<Rightarrow> (case string_prop np ''algorithm_name'' of Some n \<Rightarrow> n | None \<Rightarrow> ''Basic''))"

definition parse_boot :: "'w dt_env \<Rightarrow> 'w mtk_charger \<Rightarrow> 'w mtk_charger" where
  "parse_boot D m =
    (case boot_tag D of
       None \<Rightarrow> m
     | Some (mode, type) \<Rightarrow>
         m\<lparr>bootmode := uint mode, board := (board m)\<lparr>boottype := uint type\<rparr>\<rparr>)"

definition parse_algorithm :: "'w dt_env \<Rightarrow> dt_node \<Rightarrow> 'w mtk_charger \<Rightarrow> 'w mtk_charger" where
  "parse_algorithm D np m =
    (let name = parse_algorithm_name np; m = m\<lparr>board := (board m)\<lparr>algorithm_name := name\<rparr>\<rparr>
     in if name = ''Basic'' then mtk_basic_charger_init D m
        else if name = ''Pulse'' then mtk_pulse_charger_init D m
        else m)"

definition parse_options :: "'w dt_env \<Rightarrow> dt_node \<Rightarrow> mtk_board \<Rightarrow> mtk_board" where
  "parse_options D np b =
    (let timer = dt_flag np (spellings ''enable_sw_safety_timer'') in
     b\<lparr>charger_unlimited := dt_flag np (spellings ''charger_unlimited''),
       atm_enabled := dt_flag np (spellings ''atm_is_enabled''),
       enable_sw_safety_timer := timer,
       sw_safety_timer_setting := timer,
       disable_aicl := dt_flag np (spellings ''disable_aicl''),
       alg_new_arbitration := dt_flag np (spellings ''alg_new_arbitration''),
       alg_unchangeable := dt_flag np (spellings ''alg_unchangeable''),
       config := dt_int np (spellings ''charger_configuration'') (single_charger D),
       enable_boot_volt := dt_flag np (spellings ''enable_boot_volt''),
       enable_fast_charging_indicator := dt_flag np (spellings ''enable_fast_charging_indicator''),
       adapter_priority := dt_int np [''adapter-priority''] (adapter_priority b)\<rparr>)"

text \<open>The dual battery's current selector.\<close>

definition parse_selector :: "'w dt_env \<Rightarrow> mtk_board \<Rightarrow> mtk_board" where
  "parse_selector D b =
    (case current_selector D of
       None \<Rightarrow> b\<lparr>cs_hw_disable := True, curr_select_name := ''NULL''\<rparr>
     | Some np \<Rightarrow>
         b\<lparr>cs_gpio_index := cs_gpio D,
           curr_select_name := (case string_prop np ''cs-name'' of Some n \<Rightarrow> n | None \<Rightarrow> ''NULL''),
           cs_with_gauge := bool_prop np ''cs-gauge'',
           comp_resist := dt_int np [''comp-resist''] 25\<rparr>)"

section \<open>Voltages and currents\<close>

definition ITERM :: int where "ITERM = 930000"
definition RECHARGE_OFFSET :: int where "RECHARGE_OFFSET = 200000"
definition RECHARGE_VOL :: int where "RECHARGE_VOL = 4330000"
definition V_CHARGER_MAX :: int where "V_CHARGER_MAX = 6500000"
definition V_CHARGER_MIN :: int where "V_CHARGER_MIN = 4600000"
definition VBUS_OVP_VOLTAGE :: int where "VBUS_OVP_VOLTAGE = 15000000"
definition V_CHARGER_MIN_1 :: int where "V_CHARGER_MIN_1 = 4400000"
definition V_CHARGER_MIN_2 :: int where "V_CHARGER_MIN_2 = 4200000"
definition MAX_DMIVR_CHARGER_CURRENT :: int where "MAX_DMIVR_CHARGER_CURRENT = 1800000"
definition UNKNOWN_CHARGER_CURRENT :: int where "UNKNOWN_CHARGER_CURRENT = 420000"
definition USB_CHARGER_CURRENT :: int where "USB_CHARGER_CURRENT = 500000"
definition AC_CHARGER_CURRENT :: int where "AC_CHARGER_CURRENT = 2050000"
definition AC_CHARGER_INPUT_CURRENT :: int where "AC_CHARGER_INPUT_CURRENT = 3200000"
definition CHARGING_HOST_CHARGER_CURRENT :: int where "CHARGING_HOST_CHARGER_CURRENT = 650000"
definition APPLE_0_5A_CHARGER_CURRENT :: int where "APPLE_0_5A_CHARGER_CURRENT = 500000"
definition APPLE_1_0A_CHARGER_CURRENT :: int where "APPLE_1_0A_CHARGER_CURRENT = 1000000"
definition APPLE_2_1A_CHARGER_CURRENT :: int where "APPLE_2_1A_CHARGER_CURRENT = 2000000"
definition APPLE_2_4A_CHARGER_CURRENT :: int where "APPLE_2_4A_CHARGER_CURRENT = 2000000"

definition parse_voltages :: "dt_node \<Rightarrow> charger_custom_data \<Rightarrow> charger_custom_data" where
  "parse_voltages np d =
    (let mx = dt_int np (spellings ''max_charger_voltage'') V_CHARGER_MAX in
     d\<lparr>battery_cv := dt_int np (spellings ''battery_cv'') BATTERY_CV,
       recharge_offset := dt_int np [''recharge_offset''] RECHARGE_OFFSET,
       dt_recharge_vol := dt_int np [''battery_recharge''] RECHARGE_VOL,
       dt_iterm := dt_int np [''iterm''] ITERM,
       max_charger_voltage := mx,
       max_charger_voltage_setting := mx,
       vbus_sw_ovp_voltage := dt_int np (spellings ''vbus_sw_ovp_voltage'') VBUS_OVP_VOLTAGE,
       pd_max_charger_voltage := dt_int np [''pd_max_charger_voltage''] V_CHARGER_MAX,
       min_charger_voltage := dt_int np (spellings ''min_charger_voltage'') V_CHARGER_MIN,
       min_charger_voltage_1 := dt_int np (spellings ''min_charger_voltage_1'') V_CHARGER_MIN_1,
       min_charger_voltage_2 := dt_int np (spellings ''min_charger_voltage_2'') V_CHARGER_MIN_2,
       max_dmivr_charger_current :=
         dt_int np (spellings ''max_dmivr_charger_current'') MAX_DMIVR_CHARGER_CURRENT\<rparr>)"

definition parse_apple :: "dt_node \<Rightarrow> apple_adapter \<Rightarrow> int" where
  "parse_apple np a =
    (case a of
       APPLE_0_5A \<Rightarrow> dt_int np [''apple_0_5a_charger_current''] APPLE_0_5A_CHARGER_CURRENT
     | APPLE_1_0A \<Rightarrow> dt_int np [''apple_1_0a_charger_current''] APPLE_1_0A_CHARGER_CURRENT
     | APPLE_2_1A \<Rightarrow> dt_int np [''apple_2_1a_charger_current''] APPLE_2_1A_CHARGER_CURRENT
     | APPLE_2_4A \<Rightarrow> dt_int np [''apple_2_4a_charger_current''] APPLE_2_4A_CHARGER_CURRENT)"

text \<open>The AC current is stored under the first spelling and then again by the second test,
  which has no \<open>else\<close> to join them.\<close>

definition parse_currents :: "dt_node \<Rightarrow> charger_custom_data \<Rightarrow> charger_custom_data" where
  "parse_currents np d =
    (let d = d\<lparr>unknown_charger_current :=
               dt_int np [''unknown_charger_current''] UNKNOWN_CHARGER_CURRENT,
             apple_charger_current := parse_apple np,
             usb_charger_current := dt_int np [''usb_charger_current''] USB_CHARGER_CURRENT\<rparr>;
         d = (case u32_prop np ''ac_charger_current'' of
                Some v \<Rightarrow> d\<lparr>ac_charger_current := s32 (uint v)\<rparr> | None \<Rightarrow> d);
         d = (case u32_prop np ''ac-charger-current'' of
                Some v \<Rightarrow> d\<lparr>ac_charger_current := s32 (uint v)\<rparr>
              | None \<Rightarrow> d\<lparr>ac_charger_current := AC_CHARGER_CURRENT\<rparr>)
     in d\<lparr>ac_charger_input_current :=
            dt_int np (spellings ''ac_charger_input_current'') AC_CHARGER_INPUT_CURRENT,
          hvdcp_charger_current := dt_int np [''hvdcp_charger_current''] AC_CHARGER_CURRENT,
          hvdcp_charger_input_current :=
            dt_int np [''hvdcp_charger_input_current''] AC_CHARGER_INPUT_CURRENT,
          pd_charger_current := dt_int np [''pd_charger_current''] AC_CHARGER_CURRENT,
          pd_charger_input_current :=
            dt_int np [''pd_charger_input_current''] AC_CHARGER_INPUT_CURRENT,
          lowtemp_charger_current := dt_int np [''lowtemp_charger_current''] AC_CHARGER_CURRENT,
          lowtemp_charger_input_current :=
            dt_int np [''lowtemp_charger_input_current''] AC_CHARGER_INPUT_CURRENT,
          hightemp_charger_current := dt_int np [''hightemp_charger_current''] AC_CHARGER_CURRENT,
          hightemp_charger_input_current :=
            dt_int np [''hightemp_charger_input_current''] AC_CHARGER_INPUT_CURRENT,
          charging_host_charger_current :=
            dt_int np (spellings ''charging_host_charger_current'')
              CHARGING_HOST_CHARGER_CURRENT\<rparr>)"

section \<open>JEITA\<close>

definition JEITA_CV :: "sw_jeita_state \<Rightarrow> int" where
  "JEITA_CV s =
    (case s of
       TEMP_ABOVE_T4 \<Rightarrow> 4240000 | TEMP_T3_TO_T4 \<Rightarrow> 4240000 | TEMP_T2_TO_T3 \<Rightarrow> 4340000
     | TEMP_T1_TO_T2 \<Rightarrow> 4240000 | TEMP_T0_TO_T1 \<Rightarrow> 4040000 | TEMP_BELOW_T0 \<Rightarrow> 4040000)"

text \<open>The part of the property names that carries the state.\<close>

definition state_name :: "sw_jeita_state \<Rightarrow> string" where
  "state_name s =
    (case s of
       TEMP_ABOVE_T4 \<Rightarrow> ''above_t4'' | TEMP_T3_TO_T4 \<Rightarrow> ''t3_to_t4'' | TEMP_T2_TO_T3 \<Rightarrow> ''t2_to_t3''
     | TEMP_T1_TO_T2 \<Rightarrow> ''t1_to_t2'' | TEMP_T0_TO_T1 \<Rightarrow> ''t0_to_t1''
     | TEMP_BELOW_T0 \<Rightarrow> ''below_t0'')"

definition jeita_name :: "sw_jeita_state \<Rightarrow> string \<Rightarrow> string" where
  "jeita_name s what = ''jeita_temp_'' @ state_name s @ ''_'' @ what"

text \<open>The voltages.  Below T0 the two tests are not joined by an \<open>else\<close> either.\<close>

definition parse_jeita_cv :: "dt_node \<Rightarrow> (sw_jeita_state \<Rightarrow> int) \<Rightarrow> sw_jeita_state \<Rightarrow> int" where
  "parse_jeita_cv np f =
    (let g = (\<lambda>s. if s = TEMP_BELOW_T0 then f s
                  else dt_int np (spellings (jeita_name s ''cv'')) (JEITA_CV s));
         low = jeita_name TEMP_BELOW_T0 ''cv'';
         g = (case u32_prop np low of Some v \<Rightarrow> g(TEMP_BELOW_T0 := s32 (uint v)) | None \<Rightarrow> g)
     in case u32_prop np (dashes low) of
          Some v \<Rightarrow> g(TEMP_BELOW_T0 := s32 (uint v))
        | None \<Rightarrow> g(TEMP_BELOW_T0 := JEITA_CV TEMP_BELOW_T0))"

text \<open>The termination currents and the recharge voltages, in the order of the code: a missing
  value of the T2 to T3 range stores its default in the field of T1 to T2.\<close>

definition store_jeita ::
  "dt_node \<Rightarrow> string \<Rightarrow> int \<Rightarrow> sw_jeita_state \<Rightarrow> (sw_jeita_state \<Rightarrow> int) \<Rightarrow> sw_jeita_state \<Rightarrow> int"
where
  "store_jeita np what d s f =
    (case u32_prop np (jeita_name s what) of
       Some v \<Rightarrow> f(s := s32 (uint v))
     | None \<Rightarrow> f((if s = TEMP_T2_TO_T3 then TEMP_T1_TO_T2 else s) := d))"

definition parse_jeita_range ::
  "dt_node \<Rightarrow> string \<Rightarrow> int \<Rightarrow> (sw_jeita_state \<Rightarrow> int) \<Rightarrow> sw_jeita_state \<Rightarrow> int" where
  "parse_jeita_range np what d =
    fold (store_jeita np what d)
      [TEMP_ABOVE_T4, TEMP_T3_TO_T4, TEMP_T2_TO_T3, TEMP_T1_TO_T2, TEMP_T0_TO_T1, TEMP_BELOW_T0]"

definition parse_thresholds :: "dt_node \<Rightarrow> charger_custom_data \<Rightarrow> charger_custom_data" where
  "parse_thresholds np d =
    d\<lparr>temp_t4_thres := dt_int np (spellings ''temp_t4_thres'') 50,
      temp_t4_thres_minus_x_degree := dt_int np (spellings ''temp_t4_thres_minus_x_degree'') 47,
      temp_t3_thres := dt_int np (spellings ''temp_t3_thres'') 45,
      temp_t3_thres_minus_x_degree := dt_int np (spellings ''temp_t3_thres_minus_x_degree'') 39,
      temp_t2_thres := dt_int np (spellings ''temp_t2_thres'') 10,
      temp_t2_thres_plus_x_degree := dt_int np (spellings ''temp_t2_thres_plus_x_degree'') 16,
      temp_t1_thres := dt_int np (spellings ''temp_t1_thres'') 0,
      temp_t1_thres_plus_x_degree := dt_int np (spellings ''temp_t1_thres_plus_x_degree'') 6,
      temp_t0_thres := dt_int np (spellings ''temp_t0_thres'') 0,
      temp_t0_thres_plus_x_degree := dt_int np (spellings ''temp_t0_thres_plus_x_degree'') 0,
      temp_neg_10_thres := dt_int np (spellings ''temp_neg_10_thres'') 0\<rparr>"

definition parse_jeita :: "dt_node \<Rightarrow> charger_custom_data \<Rightarrow> charger_custom_data" where
  "parse_jeita np d =
    parse_thresholds np
      (d\<lparr>jeita_cv := parse_jeita_cv np (jeita_cv d),
         jeita_term := parse_jeita_range np ''term'' ITERM (jeita_term d),
         jeita_recharge := parse_jeita_range np ''recharge'' RECHARGE_VOL (jeita_recharge d)\<rparr>)"

section \<open>Plain temperature protection\<close>

definition MIN_CHARGE_TEMP :: int where "MIN_CHARGE_TEMP = 0"
definition MIN_CHARGE_TEMP_PLUS_X_DEGREE :: int where "MIN_CHARGE_TEMP_PLUS_X_DEGREE = 60"
definition MAX_CHARGE_TEMP :: int where "MAX_CHARGE_TEMP = 500"
definition MAX_CHARGE_TEMP_MINUS_X_DEGREE :: int where "MAX_CHARGE_TEMP_MINUS_X_DEGREE = 470"

definition parse_thermal :: "dt_node \<Rightarrow> thermal_protection \<Rightarrow> thermal_protection" where
  "parse_thermal np th =
    th\<lparr>th_sm := BAT_TEMP_NORMAL,
       enable_min_charge_temp := dt_flag np (spellings ''enable_min_charge_temp''),
       min_charge_temp := dt_int np (spellings ''min_charge_temp'') MIN_CHARGE_TEMP,
       min_charge_temp_plus_x_degree :=
         dt_int np (spellings ''min_charge_temp_plus_x_degree'') MIN_CHARGE_TEMP_PLUS_X_DEGREE,
       max_charge_temp := dt_int np (spellings ''max_charge_temp'') MAX_CHARGE_TEMP,
       max_charge_temp_minus_x_degree :=
         dt_int np (spellings ''max_charge_temp_minus_x_degree'') MAX_CHARGE_TEMP_MINUS_X_DEGREE\<rparr>"

section \<open>The whole node\<close>

definition parse_switches :: "dt_node \<Rightarrow> 'w mtk_charger \<Rightarrow> 'w mtk_charger" where
  "parse_switches np m =
    (let mon = (case dt_first np (spellings ''enable_vbat_mon'') of Some v \<Rightarrow> v \<noteq> 0 | None \<Rightarrow> False) in
     m\<lparr>enable_vbat_mon := mon,
       board := (board m)\<lparr>enable_vbat_mon_bak := mon\<rparr>,
       disable_charger_dt := dt_flag np (spellings ''disable_charger''),
       enable_sw_jeita := dt_flag np (spellings ''enable_sw_jeita''),
       enable_dynamic_mivr := dt_flag np (spellings ''enable_dynamic_mivr''),
       en_cts_mode := (case u32_prop np ''enable-pdtest-mode'' of
                         Some v \<Rightarrow> v \<noteq> 0 | None \<Rightarrow> en_cts_mode m)\<rparr>)"

definition mtk_charger_parse_dt :: "'w dt_env \<Rightarrow> dt_node \<Rightarrow> 'w mtk_charger \<Rightarrow> 'w mtk_charger" where
  "mtk_charger_parse_dt D np m =
    (let m = parse_algorithm D np (parse_boot D m);
         m = parse_switches np (m\<lparr>board := parse_options D np (board m)\<rparr>);
         m = m\<lparr>custom := parse_currents np (parse_jeita np (parse_voltages np (custom m))),
               thermal := parse_thermal np (thermal m)\<rparr>
     in m\<lparr>board := parse_selector D (board m)\<rparr>)"

end
