(* ===== verification/Mtk_Files.thy ===== *)
theory Mtk_Files
  imports Mtk_Charger
begin

text \<open>
  The files of the charger core: the texts they show and what a write changes.  A number
  written arrives parsed (\<open>None\<close> when the text is not one); every store of the device's
  own files returns the size it was given, so only the state is a result.
\<close>

section \<open>Texts\<close>

text \<open>The format \<open>%d\<close> and a newline.\<close>

definition fmt_d :: "int \<Rightarrow> string" where
  "fmt_d n = show_int n @ [CHR 0x0A]"

text \<open>A value a driver reports, with the numbers of the kernel's constants.\<close>

definition fmt_val :: "(psenum \<Rightarrow> int) \<Rightarrow> propval \<Rightarrow> string" where
  "fmt_val code v = (case v of intval n \<Rightarrow> fmt_d n | enumval e \<Rightarrow> fmt_d (code e) | strval t \<Rightarrow> t)"

definition sw_jeita_show :: "'w mtk_charger \<Rightarrow> string" where
  "sw_jeita_show m = fmt_d (b2i (enable_sw_jeita m))"

definition sw_ovp_threshold_show :: "'w mtk_charger \<Rightarrow> string" where
  "sw_ovp_threshold_show m = fmt_d (max_charger_voltage (custom m))"

definition chr_type_show :: "(psenum \<Rightarrow> int) \<Rightarrow> 'w mtk_charger \<Rightarrow> string" where
  "chr_type_show code m = fmt_d (code (chr_type m))"

text \<open>\<open>garbage\<close> is the uninitialised variable the driver stores its value in.\<close>

definition usb_type_show ::
  "(psenum \<Rightarrow> int) \<Rightarrow> propval \<Rightarrow> 'w mtk_charger \<Rightarrow> string \<times> 'w mtk_charger" where
  "usb_type_show code garbage m =
    (let (_, outs, m) = on_dev (charger_dev_get_property (chg1_dev m) CHARGER_PROP_USB_TYPE garbage) m
     in (fmt_val code (out_val garbage outs), m))"

definition battery_status_show ::
  "(psenum \<Rightarrow> int) \<Rightarrow> propval \<Rightarrow> 'w mtk_charger \<Rightarrow> string \<times> 'w mtk_charger" where
  "battery_status_show code garbage m =
    (let (_, outs, m) = on_dev (charger_dev_get_property (chg1_dev m) CHARGER_PROP_STATUS garbage) m
     in (fmt_val code (out_val garbage outs), m))"

definition battery_temp_show :: "'w mtk_charger \<Rightarrow> string" where
  "battery_temp_show m = fmt_d (battery_temp m sdiv 10)"

text \<open>The gauge's power supply: absent, or the number its \<open>PRESENT\<close> property gives (\<open>None\<close>
  when reading it fails).\<close>

definition battery_present_show :: "int option option \<Rightarrow> int \<Rightarrow> string" where
  "battery_present_show gauge garbage =
    fmt_d (case gauge of None \<Rightarrow> 1 | Some None \<Rightarrow> garbage | Some (Some v) \<Rightarrow> v)"

text \<open>The names of the adapter types.\<close>

datatype cap_type = MTK_CAP_TYPE_UNKNOWN | MTK_PD | MTK_UFCS | MTK_PD_APDO | MTK_CAP_OTHER

definition cap_type_name :: "cap_type \<Rightarrow> string" where
  "cap_type_name t =
    (case t of MTK_PD \<Rightarrow> ''PD'' | MTK_UFCS \<Rightarrow> ''UFCS'' | MTK_PD_APDO \<Rightarrow> ''PD with PPS''
             | _ \<Rightarrow> ''None'')"

definition ta_type_show :: "cap_type \<Rightarrow> string" where
  "ta_type_show t = cap_type_name t @ [CHR 0x0A]"

text \<open>The search for a running algorithm.  The result is the algorithm the loop variable is
  left at: the running one, or the last entry of the table.\<close>

fun search_running :: "(string \<Rightarrow> bool) \<Rightarrow> string option \<Rightarrow> string option list \<Rightarrow> bool \<times> string option"
where
  "search_running running a [] = (False, a)"
| "search_running running a (None # as) = search_running running None as"
| "search_running running a (Some n # as) =
    (if running n then (True, Some n) else search_running running (Some n) as)"

definition Pump_Express_show :: "(string \<Rightarrow> bool) \<Rightarrow> 'w mtk_charger option \<Rightarrow> string" where
  "Pump_Express_show running info =
    (case info of
       None \<Rightarrow> fmt_d 0
     | Some m \<Rightarrow> fmt_d (b2i (fst (search_running running None (alg (runtime m))))))"

definition charging_mode_name :: "string \<Rightarrow> string" where
  "charging_mode_name n =
    (if n = ''pe'' then ''PE'' else if n = ''pe2'' then ''PE2'' else if n = ''pd'' then ''PDC''
     else if n = ''pe4'' \<or> n = ''pe45'' then ''PE4'' else if n = ''pe5'' then ''P5''
     else if n = ''pe5p'' then ''P5P'' else ''normal'')"

definition Charging_mode_show :: "(string \<Rightarrow> bool) \<Rightarrow> 'w mtk_charger option \<Rightarrow> string" where
  "Charging_mode_show running info =
    (case info of
       None \<Rightarrow> fmt_d 0
     | Some m \<Rightarrow>
         (case snd (search_running running None (alg (runtime m))) of
            None \<Rightarrow> ''normal'' | Some n \<Rightarrow> charging_mode_name n) @ [CHR 0x0A])"

definition High_voltage_chg_enable_show :: "'w mtk_charger \<Rightarrow> string" where
  "High_voltage_chg_enable_show m = fmt_d (b2i (enable_hv_charging m))"

definition Rust_detect_show :: "'w mtk_charger \<Rightarrow> string" where
  "Rust_detect_show m = fmt_d (b2i (record_water_detected (adapter m)))"

definition fast_chg_indicator_show :: "'w mtk_charger \<Rightarrow> string" where
  "fast_chg_indicator_show m = fmt_d (sint (fast_charging_indicator (runtime m)))"

definition alg_new_arbitration_show :: "'w mtk_charger \<Rightarrow> string" where
  "alg_new_arbitration_show m = fmt_d (b2i (alg_new_arbitration (board m)))"

definition alg_unchangeable_show :: "'w mtk_charger \<Rightarrow> string" where
  "alg_unchangeable_show m = fmt_d (b2i (alg_unchangeable (board m)))"

definition enable_meta_current_limit_show :: "'w mtk_charger \<Rightarrow> string" where
  "enable_meta_current_limit_show m = fmt_d (sint (enable_meta_current_limit (runtime m)))"

definition vbat_mon_show :: "'w mtk_charger \<Rightarrow> string" where
  "vbat_mon_show m = fmt_d (b2i (enable_vbat_mon m))"

definition ADC_Charger_Voltage_show :: "'w mtk_env \<Rightarrow> 'w mtk_charger \<Rightarrow> string" where
  "ADC_Charger_Voltage_show E m = fmt_d (get_vbus_mV E (outside m))"

definition input_current_show :: "'w mtk_charger \<Rightarrow> string" where
  "input_current_show m = fmt_d (thermal_input_current_limit (chg_data m CHG1_SETTING))"

definition charger_log_level_show :: "'w mtk_charger \<Rightarrow> string" where
  "charger_log_level_show m = fmt_d (log_level (runtime m))"

definition BatteryNotify_show :: "'w mtk_charger \<Rightarrow> string" where
  "BatteryNotify_show m = fmt_d (uint (notify_code m))"

definition mtk_chg_set_cv_show :: "'w mtk_charger \<Rightarrow> string" where
  "mtk_chg_set_cv_show m = fmt_d (battery_cv (custom m))"

definition mtk_chg_current_cmd_show :: "'w mtk_charger \<Rightarrow> string" where
  "mtk_chg_current_cmd_show m =
    show_int (b2i (usb_unlimited m)) @ '' '' @ fmt_d (b2i (cmd_discharging m))"

text \<open>A flag the charger reports, \<open>d\<close> when the class does not reach it.\<close>

definition shown_flag :: "bool \<Rightarrow> propval list \<Rightarrow> string" where
  "shown_flag d outs = fmt_d (b2i (is_set (out_val (intval (b2i d)) outs)))"

definition mtk_chg_en_power_path_show :: "'w mtk_charger \<Rightarrow> string \<times> 'w mtk_charger" where
  "mtk_chg_en_power_path_show m =
    (let (_, outs, m) = on_dev (charger_dev_is_powerpath_enabled (chg1_dev m) True) m
     in (shown_flag True outs, m))"

definition mtk_chg_en_safety_timer_show :: "'w mtk_charger \<Rightarrow> string \<times> 'w mtk_charger" where
  "mtk_chg_en_safety_timer_show m =
    (let (_, outs, m) = on_dev (charger_dev_is_safety_timer_enabled (chg1_dev m) False) m
     in (shown_flag False outs, m))"

section \<open>Writes\<close>

definition CHRLOG_ERROR_LEVEL :: int where "CHRLOG_ERROR_LEVEL = 1"
definition CHRLOG_DEBUG_LEVEL :: int where "CHRLOG_DEBUG_LEVEL = 3"

definition wake :: "'w mtk_charger \<Rightarrow> 'w mtk_charger" where
  "wake m = the (wake_up_charger (Some m))"

text \<open>The level of every algorithm that was found.\<close>

definition mtk_charger_set_algo_log_level :: "int \<Rightarrow> 'w mtk_charger \<Rightarrow> 'w mtk_charger" where
  "mtk_charger_set_algo_log_level level m =
    fold (\<lambda>a m. if a = None then m else mtk_logs (algo_log_level level) m) (alg (runtime m)) m"

definition set_runtime :: "(mtk_runtime \<Rightarrow> mtk_runtime) \<Rightarrow> 'w mtk_charger \<Rightarrow> 'w mtk_charger" where
  "set_runtime f m = m\<lparr>runtime := f (runtime m)\<rparr>"

definition debug_level :: "'w mtk_charger \<Rightarrow> 'w mtk_charger" where
  "debug_level m =
    mtk_charger_set_algo_log_level CHRLOG_DEBUG_LEVEL
      (set_runtime (\<lambda>r. r\<lparr>log_level := CHRLOG_DEBUG_LEVEL\<rparr>) m)"

definition fast_chg_indicator_store :: "u32 option \<Rightarrow> 'w mtk_charger \<Rightarrow> 'w mtk_charger" where
  "fast_chg_indicator_store v m =
    (let m = (case v of
                Some t \<Rightarrow> set_runtime (\<lambda>r. r\<lparr>fast_charging_indicator := t\<rparr>) m | None \<Rightarrow> m);
         m = (if fast_charging_indicator (runtime m) > 0 \<and> (bootmode m = 8 \<or> bootmode m = 9)
              then debug_level m else m)
     in wake m)"

definition alg_new_arbitration_store :: "u32 option \<Rightarrow> 'w mtk_charger \<Rightarrow> 'w mtk_charger" where
  "alg_new_arbitration_store v m =
    wake (case v of
            Some t \<Rightarrow> m\<lparr>board := (board m)\<lparr>alg_new_arbitration := t \<noteq> 0\<rparr>\<rparr> | None \<Rightarrow> m)"

definition alg_unchangeable_store :: "u32 option \<Rightarrow> 'w mtk_charger \<Rightarrow> 'w mtk_charger" where
  "alg_unchangeable_store v m =
    wake (case v of
            Some t \<Rightarrow> m\<lparr>board := (board m)\<lparr>alg_unchangeable := t \<noteq> 0\<rparr>\<rparr> | None \<Rightarrow> m)"

definition enable_meta_current_limit_store :: "u32 option \<Rightarrow> 'w mtk_charger \<Rightarrow> 'w mtk_charger" where
  "enable_meta_current_limit_store v m =
    (let m = (case v of
                Some t \<Rightarrow> set_runtime (\<lambda>r. r\<lparr>enable_meta_current_limit := t\<rparr>) m | None \<Rightarrow> m);
         m = (if enable_meta_current_limit (runtime m) > 0 then debug_level m else m)
     in wake m)"

definition charger_log_level_store :: "int option \<Rightarrow> 'w mtk_charger \<Rightarrow> 'w mtk_charger" where
  "charger_log_level_store v m =
    (case v of
       None \<Rightarrow> m
     | Some t \<Rightarrow>
         let t = (if t < 0 then 0 else t);
             m = set_runtime (\<lambda>r. r\<lparr>log_level := t\<rparr>) m
         in wake (mtk_charger_set_algo_log_level t m))"

definition mtk_chg_en_safety_timer_write :: "u32 option \<Rightarrow> 'w mtk_charger \<Rightarrow> 'w mtk_charger" where
  "mtk_chg_en_safety_timer_write v m =
    (case v of
       None \<Rightarrow> m
     | Some en \<Rightarrow>
         let m = run_dev (charger_dev_enable_safety_timer (chg1_dev m) (en \<noteq> 0)) m;
             m = set_runtime (\<lambda>r. r\<lparr>safety_timer_cmd := sint en\<rparr>) m
         in if sw_safety_timer_setting (board m)
            then m\<lparr>board := (board m)\<lparr>enable_sw_safety_timer := en \<noteq> 0\<rparr>\<rparr> else m)"

section \<open>Files of smart charging\<close>

text \<open>They look the core up by its power supply (\<open>info\<close> is \<open>None\<close> when it is not there) and
  return the size, or an error.  A \<open>long\<close> is cut to an \<open>int\<close> after its sign was tested.\<close>

definition sc_store ::
  "(int \<Rightarrow> smartcharging \<Rightarrow> smartcharging) \<Rightarrow> int option \<Rightarrow> nat \<Rightarrow> 'w mtk_charger option
   \<Rightarrow> int \<times> 'w mtk_charger option" where
  "sc_store put v count info =
    (case info of
       None \<Rightarrow> (- EINVAL, None)
     | Some m \<Rightarrow>
         if count = 0 then (0, Some m)
         else (case v of
                 None \<Rightarrow> (- EINVAL, Some m)
               | Some v \<Rightarrow> (int count, Some (m\<lparr>sc := put v (sc m)\<rparr>))))"

definition sc_number :: "int \<Rightarrow> int" where
  "sc_number v = s32 (if v < 0 then 0 else v)"

definition enable_sc_store ::
  "int option \<Rightarrow> nat \<Rightarrow> 'w mtk_charger option \<Rightarrow> int \<times> 'w mtk_charger option" where
  "enable_sc_store = sc_store (\<lambda>v s. s\<lparr>sc_enable := v \<noteq> 0\<rparr>)"

definition sc_stime_store ::
  "int option \<Rightarrow> nat \<Rightarrow> 'w mtk_charger option \<Rightarrow> int \<times> 'w mtk_charger option" where
  "sc_stime_store = sc_store (\<lambda>v s. s\<lparr>start_time := sc_number v\<rparr>)"

definition sc_etime_store ::
  "int option \<Rightarrow> nat \<Rightarrow> 'w mtk_charger option \<Rightarrow> int \<times> 'w mtk_charger option" where
  "sc_etime_store = sc_store (\<lambda>v s. s\<lparr>end_time := sc_number v\<rparr>)"

definition sc_tuisoc_store ::
  "int option \<Rightarrow> nat \<Rightarrow> 'w mtk_charger option \<Rightarrow> int \<times> 'w mtk_charger option" where
  "sc_tuisoc_store = sc_store (\<lambda>v s. s\<lparr>target_percentage := sc_number v\<rparr>)"

definition sc_ibat_limit_store ::
  "int option \<Rightarrow> nat \<Rightarrow> 'w mtk_charger option \<Rightarrow> int \<times> 'w mtk_charger option" where
  "sc_ibat_limit_store = sc_store (\<lambda>v s. s\<lparr>current_limit := sc_number v\<rparr>)"

definition sc_show :: "(smartcharging \<Rightarrow> int) \<Rightarrow> 'w mtk_charger option \<Rightarrow> int + string" where
  "sc_show get info =
    (case info of None \<Rightarrow> Inl (- EINVAL) | Some m \<Rightarrow> Inr (fmt_d (get (sc m))))"

definition enable_sc_show :: "'w mtk_charger option \<Rightarrow> int + string" where
  "enable_sc_show = sc_show (\<lambda>s. b2i (sc_enable s))"

definition sc_stime_show :: "'w mtk_charger option \<Rightarrow> int + string" where
  "sc_stime_show = sc_show start_time"

definition sc_etime_show :: "'w mtk_charger option \<Rightarrow> int + string" where
  "sc_etime_show = sc_show end_time"

definition sc_tuisoc_show :: "'w mtk_charger option \<Rightarrow> int + string" where
  "sc_tuisoc_show = sc_show target_percentage"

definition sc_ibat_limit_show :: "'w mtk_charger option \<Rightarrow> int + string" where
  "sc_ibat_limit_show = sc_show current_limit"

definition enable_power_path_show :: "'w mtk_charger option \<Rightarrow> (int + string) \<times> 'w mtk_charger option" where
  "enable_power_path_show info =
    (case info of
       None \<Rightarrow> (Inl (- EINVAL), None)
     | Some m \<Rightarrow>
         let (_, outs, m) = on_dev (charger_dev_is_powerpath_enabled (chg1_dev m) True) m
         in (Inr (shown_flag True outs), Some m))"

definition enable_power_path_store ::
  "int option \<Rightarrow> nat \<Rightarrow> 'w mtk_charger option \<Rightarrow> int \<times> 'w mtk_charger option" where
  "enable_power_path_store v count info =
    (case info of
       None \<Rightarrow> (- EINVAL, None)
     | Some m \<Rightarrow>
         if count = 0 then (0, Some m)
         else (case v of
                 None \<Rightarrow> (- EINVAL, Some m)
               | Some v \<Rightarrow>
                   let m = run_dev (charger_dev_enable_powerpath (chg1_dev m) (v \<noteq> 0)) m
                   in (int count, Some (set_runtime (\<lambda>r. r\<lparr>cmd_pp := b2i (v \<noteq> 0)\<rparr>) m))))"

section \<open>All writes\<close>

text \<open>A write to one of the files, with the parsed number.  The numbers of smart charging's files
  are those of a write that finds the core.\<close>

datatype mtk_write =
    W_sw_jeita "int option" | W_sw_ovp_threshold "int option" | W_fast_chg_indicator "u32 option"
  | W_alg_new_arbitration "u32 option" | W_alg_unchangeable "u32 option"
  | W_enable_meta_current_limit "u32 option" | W_vbat_mon "u32 option"
  | W_input_current "int option" | W_charger_log_level "int option" | W_BatteryNotify "int + u32" int
  | W_set_cv "u32 option" | W_current_cmd "(int \<times> int) option" | W_en_power_path "u32 option"
  | W_en_safety_timer "u32 option" | W_enable_sc "int option" nat | W_sc_stime "int option" nat
  | W_sc_etime "int option" nat | W_sc_tuisoc "int option" nat | W_sc_ibat_limit "int option" nat
  | W_enable_power_path "int option" nat

definition on_core ::
  "('w mtk_charger option \<Rightarrow> int \<times> 'w mtk_charger option) \<Rightarrow> 'w mtk_charger \<Rightarrow> 'w mtk_charger" where
  "on_core f m = the (snd (f (Some m)))"

fun write_mtk_file ::
  "'w mtk_env \<Rightarrow> (int \<Rightarrow> 'w \<Rightarrow> 'w) option \<Rightarrow> mtk_write \<Rightarrow> 'w mtk_charger \<Rightarrow> 'w mtk_charger" where
  "write_mtk_file E g (W_sw_jeita v) m = sw_jeita_store v m"
| "write_mtk_file E g (W_sw_ovp_threshold v) m = sw_ovp_threshold_store v m"
| "write_mtk_file E g (W_fast_chg_indicator v) m = fast_chg_indicator_store v m"
| "write_mtk_file E g (W_alg_new_arbitration v) m = alg_new_arbitration_store v m"
| "write_mtk_file E g (W_alg_unchangeable v) m = alg_unchangeable_store v m"
| "write_mtk_file E g (W_enable_meta_current_limit v) m = enable_meta_current_limit_store v m"
| "write_mtk_file E g (W_vbat_mon v) m = vbat_mon_store v m"
| "write_mtk_file E g (W_input_current v) m = input_current_store v m"
| "write_mtk_file E g (W_charger_log_level v) m = charger_log_level_store v m"
| "write_mtk_file E g (W_BatteryNotify v n) m = snd (BatteryNotify_store E v n m)"
| "write_mtk_file E g (W_set_cv v) m = mtk_chg_set_cv_write g v m"
| "write_mtk_file E g (W_current_cmd v) m = mtk_chg_current_cmd_write v m"
| "write_mtk_file E g (W_en_power_path v) m = mtk_chg_en_power_path_write v m"
| "write_mtk_file E g (W_en_safety_timer v) m = mtk_chg_en_safety_timer_write v m"
| "write_mtk_file E g (W_enable_sc v n) m = on_core (enable_sc_store v n) m"
| "write_mtk_file E g (W_sc_stime v n) m = on_core (sc_stime_store v n) m"
| "write_mtk_file E g (W_sc_etime v n) m = on_core (sc_etime_store v n) m"
| "write_mtk_file E g (W_sc_tuisoc v n) m = on_core (sc_tuisoc_store v n) m"
| "write_mtk_file E g (W_sc_ibat_limit v n) m = on_core (sc_ibat_limit_store v n) m"
| "write_mtk_file E g (W_enable_power_path v n) m = on_core (enable_power_path_store v n) m"

section \<open>The master charger's properties\<close>

definition psy_charger_property_is_writeable :: "psp \<Rightarrow> bool" where
  "psy_charger_property_is_writeable p \<longleftrightarrow>
    p \<in> {POWER_SUPPLY_PROP_VOLTAGE_MAX, POWER_SUPPLY_PROP_CONSTANT_CHARGE_CURRENT_MAX,
         POWER_SUPPLY_PROP_INPUT_CURRENT_LIMIT}"

text \<open>\<open>idx\<close> is the setting of the supply (\<open>None\<close> when the core does not know it), \<open>present\<close> and
  \<open>zcv\<close> are the functions of another file that look for a charger and read the voltage
  at boot.\<close>

definition psy_charger_get_property ::
  "'w mtk_env \<Rightarrow> ('w \<Rightarrow> bool) \<Rightarrow> ('w \<Rightarrow> int) \<Rightarrow> bool option \<Rightarrow> psp \<Rightarrow> propval \<Rightarrow> 'w mtk_charger
   \<Rightarrow> int \<times> propval \<times> 'w mtk_charger" where
  "psy_charger_get_property E present zcv first p v m =
    (case first of
       None \<Rightarrow> (0, v, m)
     | Some f \<Rightarrow>
         let d = chg_data m (if f then CHG1_SETTING else CHG2_SETTING);
             chg = (if f then chg1_dev m else chg2_dev m) in
         if p = POWER_SUPPLY_PROP_ONLINE then (0, intval (b2i (present (outside m))), m)
         else if p = POWER_SUPPLY_PROP_PRESENT then (0, intval (b2i (chg \<noteq> None)), m)
         else if p = POWER_SUPPLY_PROP_VOLTAGE_MAX then (0, intval (b2i (enable_hv_charging m)), m)
         else if p = POWER_SUPPLY_PROP_VOLTAGE_NOW then (0, intval (get_vbus_mV E (outside m)), m)
         else if p = POWER_SUPPLY_PROP_TEMP then (0, intval (s32 (junction_temp_max d * 10)), m)
         else if p = POWER_SUPPLY_PROP_CONSTANT_CHARGE_CURRENT_MAX
           then (0, intval (thermal_charging_current_limit d), m)
         else if p = POWER_SUPPLY_PROP_INPUT_CURRENT_LIMIT
           then (0, intval (thermal_input_current_limit d), m)
         else if p = POWER_SUPPLY_PROP_VOLTAGE_BOOT then (0, intval (zcv (outside m)), m)
         else if p = POWER_SUPPLY_PROP_USB_TYPE then (0, v, m)
         else if p = POWER_SUPPLY_PROP_CHARGE_NOW then
           let (_, outs, m) = on_dev (charger_dev_get_adc (chg1_dev m) ADC_CHANNEL_VBAT 0 0) m
           in (0, out_val (intval 0) outs, m)
         else (- EINVAL, v, m))"

section \<open>The boot command line\<close>

text \<open>The rest of a text from the first occurrence of a word on.\<close>

fun strstr :: "string \<Rightarrow> string \<Rightarrow> string option" where
  "strstr [] k = (if k = [] then Some [] else None)"
| "strstr (c # s) k = (if take (length k) (c # s) = k then Some (c # s) else strstr s k)"

text \<open>The value after \<open>androidboot.atm=\<close>, up to the next space; without a space after it the
  word is passed over.\<close>

definition atm_value :: "string \<Rightarrow> string option" where
  "atm_value cmdline =
    (let key = ''androidboot.atm='' in
     case strstr cmdline key of
       None \<Rightarrow> None
     | Some s \<Rightarrow>
         if strstr s '' '' = None then None
         else Some (takeWhile (\<lambda>c. c \<noteq> CHR '' '') (drop (length key) s)))"

definition mtk_charger_get_atm_mode :: "string \<Rightarrow> 'w mtk_charger \<Rightarrow> 'w mtk_charger" where
  "mtk_charger_get_atm_mode cmdline m =
    (case atm_value cmdline of
       None \<Rightarrow> m
     | Some v \<Rightarrow>
         if take 6 v = ''enable'' then m\<lparr>board := (board m)\<lparr>atm_enabled := True\<rparr>\<rparr> else m)"

end
