(* ===== verification/Mtk_Events.thy ===== *)
theory Mtk_Events
  imports Mtk_Files
begin

text \<open>
  What happens to the charger core from outside its thread: notifications of the adapter
  class, the alarm that wakes the thread, suspend and resume.
\<close>

section \<open>Adapters\<close>

text \<open>The events; \<open>TA_EVENT\<close> carries the state that \<open>ta_status\<close> is set to.\<close>

datatype adapter_event =
    TA_EVENT ta_state | MTK_TYPEC_WD_STATUS bool | MTK_SINK_VBUS int
  | MTK_PD_ADAPTER_RESET_STATUS | ADAPTER_OTHER

definition get_pd_adapter :: "ta_state \<Rightarrow> psenum" where
  "get_pd_adapter t =
    (if t = TA_ATTACH then POWER_SUPPLY_USB_TYPE_PD else POWER_SUPPLY_USB_TYPE_UNKNOWN)"

definition set_ta_status :: "ta_idx \<Rightarrow> ta_state \<Rightarrow> 'w mtk_charger \<Rightarrow> 'w mtk_charger" where
  "set_ta_status i t m =
    m\<lparr>adapter := (adapter m)\<lparr>ta_status := (ta_status (adapter m))(i := t),
        ta_hardreset := (ta_hardreset (adapter m) \<or> t = TA_HARD_RESET)\<rparr>\<rparr>"

text \<open>Kernel power-off charging and low-battery power-off charging.\<close>

definition kpoc :: "'w mtk_charger \<Rightarrow> bool" where
  "kpoc m \<longleftrightarrow> bootmode m = 8 \<or> bootmode m = 9"

definition water_event :: "'w mtk_env \<Rightarrow> bool \<Rightarrow> 'w mtk_charger \<Rightarrow> 'w mtk_charger" where
  "water_event E wet m =
    (let m = m\<lparr>adapter := (adapter m)\<lparr>water_detected := wet,
                 record_water_detected := (record_water_detected (adapter m) \<or> wet)\<rparr>\<rparr>;
         m = (if wet then raise_status CHG_TYPEC_WD_STATUS m else clear_status CHG_TYPEC_WD_STATUS m);
         m = (if kpoc m then m\<lparr>enable_hv_charging := \<not> wet\<rparr> else m)
     in snd (mtk_chgstat_notify E m))"

text \<open>In the PD test mode every setting takes the sink's current, and a sink below 100 mA
  forces the power path off.\<close>

definition sink_vbus_event :: "'w mtk_env \<Rightarrow> int \<Rightarrow> 'w mtk_charger \<Rightarrow> 'w mtk_charger" where
  "sink_vbus_event E mA m =
    (if \<not> en_cts_mode m then m
     else
       let m = m\<lparr>chg_data := (\<lambda>i. (chg_data m i)\<lparr>pd_input_current_limit := s32 (mA * 1000)\<rparr>)\<rparr>;
           m = (if mA < 100 then
                  let m = (if power_path_en m
                           then (snd (mtk_charger_force_disable_power_path E CHG1_SETTING True m))
                                  \<lparr>power_path_en := False\<rparr>
                           else m)
                  in m\<lparr>en_power_path := False\<rparr>
                else m)
       in wake m)"

text \<open>The event itself, and whether the supply is reported as changed.  \<open>detach\<close> tells the
  fast charging algorithms of the adapter's removal.\<close>

definition adapter_event_step ::
  "'w mtk_env \<Rightarrow> ('w \<Rightarrow> 'w) \<Rightarrow> adapter_event \<Rightarrow> ta_idx \<Rightarrow> 'w mtk_charger \<Rightarrow> bool \<times> 'w mtk_charger"
where
  "adapter_event_step E detach ev i m =
    (case ev of
       TA_EVENT t \<Rightarrow>
         if t = TA_INIT_STATE then (True, m)
         else
           let m = set_ta_status i t m;
               m = (if t = TA_DETACH then m\<lparr>outside := detach (outside m)\<rparr> else m)
           in (True, wake m)
     | MTK_TYPEC_WD_STATUS wet \<Rightarrow> let m = water_event E wet m in (kpoc m, m)
     | MTK_SINK_VBUS mA \<Rightarrow> (True, sink_vbus_event E mA m)
     | MTK_PD_ADAPTER_RESET_STATUS \<Rightarrow> (True, set_ta_status i TA_ATTACH m)
     | ADAPTER_OTHER \<Rightarrow> (True, m))"

text \<open>The whole handler.  In kernel power-off charging it spins until the first charger and
  its table are there; it then never returns (\<open>None\<close>) unless another thread provides
  them.\<close>

definition notify_adapter_event ::
  "'w mtk_env \<Rightarrow> ('w \<Rightarrow> 'w) \<Rightarrow> adapter_event \<Rightarrow> ta_idx \<Rightarrow> 'w mtk_charger \<Rightarrow> 'w mtk_charger option"
where
  "notify_adapter_event E detach ev i m =
    (let m = m\<lparr>adapter := (adapter m)\<lparr>ta_hardreset := False\<rparr>\<rparr>;
         (report, m) = adapter_event_step E detach ev i m;
         pd = get_pd_adapter (ta_status (adapter m) PD);
         ready = (case chg1_dev m of None \<Rightarrow> False | Some d \<Rightarrow> dev_ops d \<noteq> None)
     in if kpoc m \<and> pd \<noteq> POWER_SUPPLY_USB_TYPE_UNKNOWN \<and> \<not> ready then None
        else
          let m = run_dev (charger_dev_set_pd_adapter (chg1_dev m) pd) m
          in Some (if report then mtk_logs psy1_changed m else m))"

section \<open>The timer\<close>

text \<open>The alarm is set \<open>CHARGING_INTERVAL\<close> seconds ahead, unless its callback is running.\<close>

definition CHARGING_INTERVAL :: int where "CHARGING_INTERVAL = 10"

definition mtk_charger_start_timer :: "bool \<Rightarrow> int \<times> int \<Rightarrow> 'w mtk_charger \<Rightarrow> 'w mtk_charger" where
  "mtk_charger_start_timer callback_running now m =
    (if callback_running then m
     else mtk_logs start_charger_timer
       (set_runtime (\<lambda>r. r\<lparr>endtime := (fst now + CHARGING_INTERVAL, snd now)\<rparr>) m))"

definition mtk_charger_alarm_timer_func :: "'w mtk_charger \<Rightarrow> 'w mtk_charger" where
  "mtk_charger_alarm_timer_func m =
    (if \<not> is_suspend (runtime m) then wake m
     else mtk_logs stay_awake (m\<lparr>wakelock_active := True\<rparr>))"

definition timespec_le :: "int \<times> int \<Rightarrow> int \<times> int \<Rightarrow> bool" where
  "timespec_le a b \<longleftrightarrow> fst a < fst b \<or> fst a = fst b \<and> snd a \<le> snd b"

datatype pm_event = PM_SUSPEND_PREPARE | PM_POST_SUSPEND | PM_OTHER

definition charger_pm_event :: "pm_event \<Rightarrow> int \<times> int \<Rightarrow> 'w mtk_charger \<Rightarrow> 'w mtk_charger" where
  "charger_pm_event ev now m =
    (case ev of
       PM_SUSPEND_PREPARE \<Rightarrow> set_runtime (\<lambda>r. r\<lparr>is_suspend := True\<rparr>) m
     | PM_POST_SUSPEND \<Rightarrow>
         let m = set_runtime (\<lambda>r. r\<lparr>is_suspend := False\<rparr>) m; e = endtime (runtime m)
         in if timespec_le e now \<and> fst e \<noteq> 0 \<and> snd e \<noteq> 0
            then wake (set_runtime (\<lambda>r. r\<lparr>endtime := (0, 0)\<rparr>)
                        (mtk_logs relax (m\<lparr>wakelock_active := False\<rparr>)))
            else m
     | PM_OTHER \<Rightarrow> m)"

end
