(* ===== verification/Mtk_Init.thy ===== *)
theory Mtk_Init
  imports Mtk_Board Mtk_Events Mtk_Smart
begin

text \<open>
  Bringing the charger core up: finding the chargers and the fast charging algorithms,
  the probe, and shutdown.
\<close>

section \<open>Chargers and algorithms\<close>

text \<open>What initialisation asks for: the numbers of the configurations, whether an algorithm
  is registered, its initialisation with the configuration (which also sets its
  identifier and registers the core's notifier), and whether the charging algorithm has
  an event handler for a setting.\<close>

record 'w init_env =
  dual_chargers_in_series :: int
  divider_charger :: int
  dual_divider_chargers :: int
  hvdivider_charger :: int
  dual_hvdivider_chargers :: int
  chg_alg_registered :: "string \<Rightarrow> bool"
  chg_alg_init_algo :: "string \<Rightarrow> int \<Rightarrow> 'w \<Rightarrow> 'w"
  algo_has_handler :: "chg_data_idx \<Rightarrow> bool"

text \<open>The current selector of a dual battery.\<close>

definition AC_CS_NORMAL_CC :: u32 where "AC_CS_NORMAL_CC = 2000"

definition init_selector :: "'w mtk_env \<Rightarrow> 'w mtk_charger \<Rightarrow> 'w mtk_charger" where
  "init_selector E m =
    (let name = ''current_selector_master'';
         m = (if curr_select_name (board m) = name
              then m\<lparr>cschg1_dev := get_charger_by_name (Some name) (class_devices E)\<rparr> else m);
         cs = cschg1_dev m
     in if cs = None then m
        else
          let (ret, _, m) = on_dev (charger_cs_init_setting cs) m;
              m = (if ret < 0 then m\<lparr>board := (board m)\<lparr>cs_hw_disable := True\<rparr>\<rparr>
                   else run_dev (charger_dev_set_charging_current cs AC_CS_NORMAL_CC)
                          (run_dev (charger_dev_set_constant_voltage cs 4350) m))
          in set_runtime (\<lambda>r. r\<lparr>cs_cc_now := uint AC_CS_NORMAL_CC\<rparr>) m)"

text \<open>The entries of the algorithm table: the first registered name of each.\<close>

definition alg_names :: "string list list" where
  "alg_names = [[''pe5p''], [''hvbp''], [''pe5''], [''pe45'', ''pe4''], [''pd''], [''pe2''], [''pe'']]"

definition init_alg ::
  "'w init_env \<Rightarrow> nat \<Rightarrow> string list \<Rightarrow> 'w mtk_charger \<Rightarrow> 'w mtk_charger" where
  "init_alg I i names m =
    (let a = List.find (chg_alg_registered I) names;
         m = set_runtime (\<lambda>r. r\<lparr>alg := (alg r)[i := a]\<rparr>) m
     in case a of
          None \<Rightarrow> m
        | Some n \<Rightarrow> m\<lparr>outside := chg_alg_init_algo I n (config (board m)) (outside m)\<rparr>)"

definition init_algs :: "'w init_env \<Rightarrow> 'w mtk_charger \<Rightarrow> 'w mtk_charger" where
  "init_algs I m = fold (\<lambda>(i, names). init_alg I i names) (enumerate 0 alg_names) m"

text \<open>Finding a charger: it is stored, and its absence ends the initialisation.\<close>

definition find_chg2 :: "'w mtk_env \<Rightarrow> 'w mtk_charger \<Rightarrow> bool \<times> 'w mtk_charger" where
  "find_chg2 E m =
    (let d = get_charger_by_name (Some ''secondary_chg'') (class_devices E)
     in (d \<noteq> None, m\<lparr>chg2_dev := d\<rparr>))"

definition find_dv ::
  "'w mtk_env \<Rightarrow> chg_data_idx \<Rightarrow> string \<Rightarrow> 'w mtk_charger \<Rightarrow> bool \<times> 'w mtk_charger" where
  "find_dv E i name m =
    (let d = get_charger_by_name (Some name) (class_devices E)
     in (d \<noteq> None, m\<lparr>dv_dev := (dv_dev m)(i := d)\<rparr>))"

text \<open>A single divider charger, or two of them.\<close>

definition find_dvs ::
  "'w mtk_env \<Rightarrow> bool \<Rightarrow> chg_data_idx \<Rightarrow> string \<Rightarrow> chg_data_idx \<Rightarrow> string
   \<Rightarrow> 'w mtk_charger \<Rightarrow> bool \<times> 'w mtk_charger" where
  "find_dvs E two i name i' name' m =
    (let (ok, m) = find_dv E i name m in
     if ok \<and> two then find_dv E i' name' m else (ok, m))"

definition find_chargers :: "'w mtk_env \<Rightarrow> 'w init_env \<Rightarrow> 'w mtk_charger \<Rightarrow> bool \<times> 'w mtk_charger" where
  "find_chargers E I m =
    (let c = config (board m) in
     if c = dual_chargers_in_series I then find_chg2 E m
     else if c = divider_charger I \<or> c = dual_divider_chargers I then
       find_dvs E (c = dual_divider_chargers I)
         DVCHG1_SETTING ''primary_dvchg'' DVCHG2_SETTING ''secondary_dvchg'' m
     else if c = hvdivider_charger I \<or> c = dual_hvdivider_chargers I then
       find_dvs E (c = dual_hvdivider_chargers I)
         HVDVCHG1_SETTING ''hvdiv2_chg1'' HVDVCHG2_SETTING ''hvdiv2_chg2'' m
     else (True, m))"

text \<open>The event handlers of the algorithm are hooked to the chargers that were found.\<close>

definition device_of :: "chg_data_idx \<Rightarrow> 'w mtk_charger \<Rightarrow> 'w charger_device option" where
  "device_of i m = (if i = CHG1_SETTING then chg1_dev m else dv_dev m i)"

definition register_handlers :: "'w init_env \<Rightarrow> 'w mtk_charger \<Rightarrow> 'w mtk_charger" where
  "register_handlers I m =
    fold (\<lambda>i m. if device_of i m \<noteq> None \<and> algo_has_handler I i
                then mtk_logs (register_notifier i) m else m)
      [CHG1_SETTING, DVCHG1_SETTING, DVCHG2_SETTING, HVDVCHG1_SETTING, HVDVCHG2_SETTING] m"

definition charger_init_algo :: "'w mtk_env \<Rightarrow> 'w init_env \<Rightarrow> 'w mtk_charger \<Rightarrow> bool \<times> 'w mtk_charger" where
  "charger_init_algo E I m =
    (let m = m\<lparr>chg1_dev := get_charger_by_name (Some ''primary_chg'') (class_devices E)\<rparr> in
     if chg1_dev m = None then (False, m)
     else
       let (ok, m) = find_chargers E I (init_algs I (init_selector E m))
       in if ok then (True, register_handlers I m) else (False, m))"

text \<open>The thread's first action: initialise until it succeeds, against the devices that are
  registered at each attempt (ten seconds apart, later a minute).  The result is \<open>None\<close>
  while no attempt has succeeded.\<close>

fun init_until ::
  "('w mtk_env \<times> 'w init_env) list \<Rightarrow> 'w mtk_charger \<Rightarrow> 'w mtk_charger option" where
  "init_until [] m = None"
| "init_until ((E, I) # ws) m =
    (let (ok, m) = charger_init_algo E I m in
     if \<not> ok then init_until ws m
     else if charger_unlimited (board m) then
       Some (run_dev (charger_dev_enable_safety_timer (chg1_dev m) False)
         (m\<lparr>board := (board m)\<lparr>enable_sw_safety_timer := False\<rparr>\<rparr>))
     else Some m)"

section \<open>Probe and shutdown\<close>

text \<open>The state the probe starts from is allocated as zeros.  The creation of files and the
  lookup of supplies leave the state alone.  \<open>pd_found\<close> says that the PD adapter is
  registered, \<open>pm_ok\<close> and \<open>psy_ok\<close> that registering the notifier of suspends and the
  master supply succeeds.  Outside kernel power-off charging the power path starts forced
  off.\<close>

definition EPROBE_DEFER :: int where "EPROBE_DEFER = 517"

definition probe_limits :: "charger_data \<Rightarrow> charger_data" where
  "probe_limits d =
    d\<lparr>thermal_charging_current_limit := - 1, thermal_input_current_limit := - 1,
      usb_input_current_limit := - 1, pd_input_current_limit := - 1,
      input_current_limit_by_aicl := - 1\<rparr>"

definition probe_board ::
  "'w dt_env \<Rightarrow> dt_node \<Rightarrow> int \<times> int \<Rightarrow> 'w mtk_charger \<Rightarrow> 'w mtk_charger" where
  "probe_board D np now m =
    mtk_charger_start_timer False now
      ((mtk_charger_parse_dt D np m)\<lparr>force_disable_pp := (\<lambda>_. False), enable_pp := (\<lambda>_. True)\<rparr>)"

definition probe_state :: "bool \<Rightarrow> string \<Rightarrow> 'w mtk_charger \<Rightarrow> 'w mtk_charger" where
  "probe_state psy_ok cmdline m =
    (let m = mtk_charger_get_atm_mode cmdline m;
         m = m\<lparr>chg_data := (\<lambda>i. probe_limits (chg_data m i)), enable_hv_charging := True,
               psy1_ok := psy_ok\<rparr>;
         m = set_runtime (\<lambda>r. r\<lparr>log_level := CHRLOG_ERROR_LEVEL, fast_charging_indicator := 0,
                 enable_meta_current_limit := 1, safety_timer_cmd := - 1, cmd_pp := - 1\<rparr>) m
     in m\<lparr>sc := (sc_init (sc m))\<lparr>chg_dev_chgen := False, chg_dev_chgen_eu := False,
                       disable_charger := False\<rparr>,
          pre_notify_code := 0, is_charging := False, power_path_en := True,
          en_power_path := True, is_chg_done := False, curr_flag := False\<rparr>)"

definition mtk_charger_probe ::
  "'w mtk_env \<Rightarrow> 'w dt_env \<Rightarrow> dt_node \<Rightarrow> string \<Rightarrow> int \<times> int \<Rightarrow> bool \<Rightarrow> bool \<Rightarrow> bool
   \<Rightarrow> 'w mtk_charger \<Rightarrow> int \<times> 'w mtk_charger" where
  "mtk_charger_probe E D np cmdline now pd_found pm_ok psy_ok m =
    (let m = adapter_protocol_init E m in
     if \<not> pd_found then (- EPROBE_DEFER, m)
     else
       let m = probe_board D np now m in
       if \<not> pm_ok then (- ENODEV, m)
       else
         let m = probe_state psy_ok cmdline m
         in (0, if kpoc m then m
                else snd (mtk_charger_force_disable_power_path E CHG1_SETTING True m)))"

definition mtk_charger_shutdown :: "'w mtk_charger \<Rightarrow> 'w mtk_charger" where
  "mtk_charger_shutdown m =
    fold (\<lambda>a m. if a = None then m else mtk_logs stop_algo m) (alg (runtime m)) m"

end
