(* ===== verification/Mtk_Thread.thy ===== *)
theory Mtk_Thread
  imports Mtk_Init Mtk_Status
begin

text \<open>
  The charger thread: one pass of its loop, from waking to relaxing, and the check that
  powers the phone off when the charger is unplugged in kernel power-off charging.
\<close>

section \<open>Kernel power-off charging\<close>

text \<open>The uevent repeated every minute; times in milliseconds.\<close>

definition charger_send_kpoc_uevent :: "'w mtk_env \<Rightarrow> int \<Rightarrow> 'w mtk_charger \<Rightarrow> 'w mtk_charger" where
  "charger_send_kpoc_uevent E now m =
    (case uevent_time (runtime m) of
       None \<Rightarrow> set_runtime (\<lambda>r. r\<lparr>uevent_time := Some now\<rparr>) m
     | Some t \<Rightarrow>
         if (now - t) sdiv 1000 \<ge> 60
         then set_runtime (\<lambda>r. r\<lparr>uevent_time := Some now\<rparr>) (snd (mtk_chgstat_notify E m))
         else m)"

text \<open>The power-off loop; \<open>susp n\<close> is the suspend flag at round \<open>n\<close>, which the suspend
  notifier changes meanwhile.\<close>

definition KPOC_ROUNDS :: nat where "KPOC_ROUNDS = 20000"

function power_off_loop :: "(nat \<Rightarrow> bool) \<Rightarrow> nat \<Rightarrow> 'w mtk_charger \<Rightarrow> 'w mtk_charger" where
  "power_off_loop susp counter m =
    (if counter \<ge> KPOC_ROUNDS then mtk_logs kernel_power_off m
     else power_off_loop susp (Suc counter)
            (if susp counter then m else mtk_logs kernel_power_off m))"
  by pat_completeness auto
termination
  by (relation "measure (\<lambda>(susp, counter, m). KPOC_ROUNDS - counter)") auto

declare power_off_loop.simps [simp del]

text \<open>A look at the voltage and the charger; \<open>hardreset\<close> is the part of the condition on the
  adapter that the first look adds.\<close>

definition vbus_gone :: "'w mtk_env \<Rightarrow> 'w mtk_charger \<Rightarrow> bool" where
  "vbus_gone E m \<longleftrightarrow> 0 \<le> get_vbus_mV E (outside m) \<and> get_vbus_mV E (outside m) < 2500"

text \<open>\<open>later\<close> is the outside after the three seconds between the two looks, \<open>susp\<close> the suspend
  flag during the loop.\<close>

definition kpoc_power_off_check ::
  "'w mtk_env \<Rightarrow> ('w \<Rightarrow> 'w) \<Rightarrow> (nat \<Rightarrow> bool) \<Rightarrow> int \<Rightarrow> 'w mtk_charger \<Rightarrow> 'w mtk_charger" where
  "kpoc_power_off_check E later susp now m =
    (if \<not> kpoc m then m
     else
       let (on, m) = (if vbus_gone E m then mtk_is_charger_on E m else (True, m));
           m = (if \<not> on \<and> (\<not> ta_hardreset (adapter m) \<or> \<not> pd_reset m) then
                  let m = m\<lparr>outside := later (outside m)\<rparr>;
                      (on, m) = (if vbus_gone E m then mtk_is_charger_on E m else (True, m))
                  in if \<not> on \<and> \<not> pd_reset m then power_off_loop susp 0 m else m
                else m)
       in charger_send_kpoc_uevent E now m)"

section \<open>The loop\<close>

text \<open>What a pass asks of the rest of the system: the battery temperature, the adapter
  arbitration, whether the alarm's callback is running, the times (since boot, in seconds
  without suspends, in milliseconds), and what the kernel power-off check needs.\<close>

record 'w pass_env =
  get_battery_temperature :: "'w \<Rightarrow> int"
  mtk_check_ta_status :: "'w mtk_charger \<Rightarrow> 'w mtk_charger"
  alarm_callback_running :: bool
  boot_time :: "int \<times> int"
  monotonic_seconds :: int
  real_time_ms :: int
  after_three_seconds :: "'w \<Rightarrow> 'w"
  suspended_in_round :: "nat \<Rightarrow> bool"
  power_ext :: bool

definition RESET_BOOT_VOLT_TIME :: int where "RESET_BOOT_VOLT_TIME = 50"

text \<open>Waking up: the wake lock is held, the request is taken, the temperature is read, and
  the charger is asked for two values that are only logged.\<close>

definition pass_begin :: "'w pass_env \<Rightarrow> 'w mtk_charger \<Rightarrow> 'w mtk_charger" where
  "pass_begin P m =
    (let m = (if wakelock_active m then m else mtk_logs stay_awake (m\<lparr>wakelock_active := True\<rparr>));
         m = m\<lparr>charger_thread_timeout := False\<rparr>;
         m = m\<lparr>battery_temp := get_battery_temperature P (outside m)\<rparr>;
         m = run_dev (charger_dev_get_adc (chg1_dev m) ADC_CHANNEL_VBAT 0 0) m
     in run_dev (charger_dev_get_constant_voltage (chg1_dev m) 0) m)"

text \<open>The checks, after the charger was found plugged in or not.\<close>

definition pass_checks :: "'w mtk_env \<Rightarrow> 'w pass_env \<Rightarrow> 'w mtk_charger \<Rightarrow> 'w mtk_charger" where
  "pass_checks E P m =
    (let m = (if charger_thread_polling m
              then mtk_charger_start_timer (alarm_callback_running P) (boot_time P) m else m);
         m = charger_check_status E (check_dynamic_mivr E m);
         m = mtk_check_ta_status P m;
         m = kpoc_power_off_check E (after_three_seconds P) (suspended_in_round P) (real_time_ms P) m;
         soc = get_uisoc E (outside m)
     in if soc \<noteq> pre_ui_soc (runtime m)
        then mtk_logs psy1_changed (set_runtime (\<lambda>r. r\<lparr>pre_ui_soc := soc\<rparr>) m) else m)"

text \<open>The boot voltage count is reset once, 50 seconds after boot.\<close>

definition pass_end :: "'w pass_env \<Rightarrow> 'w mtk_charger \<Rightarrow> 'w mtk_charger" where
  "pass_end P m =
    (let m = mtk_logs relax (m\<lparr>wakelock_active := False\<rparr>) in
     if enable_boot_volt (board m) \<and> monotonic_seconds P > RESET_BOOT_VOLT_TIME
        \<and> \<not> reset_boot_volt_times (runtime m) then
       let (ret, _, m) = on_dev (charger_dev_set_boot_volt_times (chg1_dev m) 0) m
       in if ret < 0 then m else set_runtime (\<lambda>r. r\<lparr>reset_boot_volt_times := True\<rparr>) m
     else m)"

definition charger_routine_pass :: "'w mtk_env \<Rightarrow> 'w pass_env \<Rightarrow> 'w mtk_charger \<Rightarrow> 'w mtk_charger" where
  "charger_routine_pass E P m =
    (let (on, m) = mtk_is_charger_on E (pass_begin P m);
         m = pass_checks E P m
     in pass_end P (charger_thread_decide (power_ext P) E on m))"

end
