(* ===== verification/Mtk_Frame.thy ===== *)
theory Mtk_Frame
  imports Mtk_Policy Mtk_Thread
begin

text \<open>
  What the operations of the core leave alone: the decision flags belong to smart charging,
  plugging and the supply's changes; everything else - files, events, timers, power path,
  status bits, temperatures, initialisation - keeps them.
\<close>

section \<open>The status check's parts\<close>

lemma decision_outside [simp]: "decision_of (m\<lparr>outside := w\<rparr>) = decision_of m"
  by (simp add: decision_of_def)

lemma decision_run_dev [simp]: "decision_of (run_dev f m) = decision_of m"
  by (simp add: run_dev_eq)

lemma decision_on_dev [simp]: "decision_of (snd (snd (on_dev f m))) = decision_of m"
  by (simp add: on_dev_def case_prod_beta Let_def)

lemma decision_status_check [simp]: "decision_of (charger_status_check m) = decision_of m"
  by (simp add: charger_status_check_def mtk_logs_def on_dev_def decision_of_def case_prod_beta Let_def)

lemma decision_wake [simp]: "decision_of (the (wake_up_charger (Some m))) = decision_of m"
  by (simp add: wake_up_charger_def mtk_logs_def decision_of_def Let_def)

lemma decision_chgstat [simp]: "decision_of (snd (mtk_chgstat_notify E m)) = decision_of m"
  by (simp add: mtk_chgstat_notify_def mtk_logs_def decision_of_def)

lemma decision_status_bits [simp]:
  "decision_of (raise_status b m) = decision_of m" "decision_of (clear_status b m) = decision_of m"
  "decision_of (raise_and_notify E b m) = decision_of m"
  by (simp_all add: raise_and_notify_def) (simp_all add: raise_status_def clear_status_def decision_of_def)

lemma decision_code_only [simp]:
  "decision_of (m\<lparr>lst_dpdmov_stat := b\<rparr>) = decision_of m"
  "decision_of (m\<lparr>notify_code := c\<rparr>) = decision_of m"
  by (simp_all add: decision_of_def)

lemma decision_notify_parts [simp]:
  "decision_of (mtk_battery_notify_VCharger_check E m) = decision_of m"
  "decision_of (mtk_battery_notify_VBatTemp_check E m) = decision_of m"
  "decision_of (mtk_battery_notify_VChargerDPDM_check E m) = decision_of m"
  "decision_of (mtk_battery_notify_UI_test E m) = decision_of m"
  by (simp_all add: mtk_battery_notify_VCharger_check_def mtk_battery_notify_VBatTemp_check_def
      mtk_battery_notify_VChargerDPDM_check_def mtk_battery_notify_UI_test_def case_prod_beta Let_def
      split: option.split)

lemma decision_notify_check [simp]: "decision_of (mtk_battery_notify_check E m) = decision_of m"
  by (simp add: mtk_battery_notify_check_def)

lemma decision_read_junction [simp]:
  "decision_of (snd (snd (read_junction i f x))) = decision_of (snd (snd x))"
  by (cases x) (simp add: read_junction_def set_junction_def on_dev_def decision_of_def
      case_prod_beta Let_def)

lemma decision_read_dv [simp]:
  "decision_of (snd (snd (read_dv_junction i x))) = decision_of (snd (snd x))"
  by (simp add: read_dv_junction_def Let_def)

lemma decision_tchg [simp]: "decision_of (mtk_chg_get_tchg m) = decision_of m"
  by (simp add: mtk_chg_get_tchg_def Let_def)

lemma decision_temperature [simp]: "decision_of (snd (temperature_stage m)) = decision_of m"
  by (simp add: temperature_stage_def do_sw_jeita_state_machine_def decision_of_def
      case_prod_beta Let_def)

section \<open>Files\<close>

lemma decision_logs [simp]: "decision_of (mtk_logs c m) = decision_of m"
  by (simp add: mtk_logs_def decision_of_def)

lemma decision_runtime [simp]: "decision_of (set_runtime f m) = decision_of m"
  by (simp add: set_runtime_def decision_of_def)

lemma decision_wake' [simp]: "decision_of (wake m) = decision_of m"
  by (simp add: wake_def)

lemma decision_fold_logs [simp]:
  "decision_of (fold (\<lambda>a m. if P a then m else mtk_logs (c a) m) as m) = decision_of m"
  by (induction as arbitrary: m) simp_all

lemma decision_algo_level [simp]: "decision_of (mtk_charger_set_algo_log_level l m) = decision_of m"
  by (simp add: mtk_charger_set_algo_log_level_def)

lemma decision_debug_level [simp]: "decision_of (debug_level m) = decision_of m"
  by (simp add: debug_level_def)

lemma decision_fields [simp]:
  "decision_of (m\<lparr>board := b\<rparr>) = decision_of m"
  "decision_of (m\<lparr>adapter := a\<rparr>) = decision_of m"
  "decision_of (m\<lparr>custom := d\<rparr>) = decision_of m"
  "decision_of (m\<lparr>chg_data := cd\<rparr>) = decision_of m"
  "decision_of (m\<lparr>enable_hv_charging := hv\<rparr>) = decision_of m"
  "decision_of (m\<lparr>power_path_en := pp\<rparr>) = decision_of m"
  "decision_of (m\<lparr>en_power_path := pp\<rparr>) = decision_of m"
  "decision_of (m\<lparr>wakelock_active := wl\<rparr>) = decision_of m"
  "decision_of (m\<lparr>charger_thread_timeout := tm\<rparr>) = decision_of m"
  "decision_of (m\<lparr>battery_temp := bt\<rparr>) = decision_of m"
  "decision_of (m\<lparr>enable_vbat_mon := vm\<rparr>) = decision_of m"
  "decision_of (m\<lparr>enable_sw_jeita := ej\<rparr>) = decision_of m"
  "decision_of (m\<lparr>usb_unlimited := ul\<rparr>) = decision_of m"
  "decision_of (m\<lparr>cmd_discharging := cd'\<rparr>) = decision_of m"
  "decision_of (m\<lparr>chg1_dev := dev\<rparr>) = decision_of m"
  "decision_of (m\<lparr>chg2_dev := dev\<rparr>) = decision_of m"
  "decision_of (m\<lparr>cschg1_dev := dev\<rparr>) = decision_of m"
  "decision_of (m\<lparr>dv_dev := dv\<rparr>) = decision_of m"
  by (simp_all add: decision_of_def)

text \<open>Smart charging's files write fields that the decision does not read.\<close>

lemma decision_sc_store:
  "(\<And>v s. disable_charger (put v s) = disable_charger s \<and> chg_dev_chgen (put v s) = chg_dev_chgen s
      \<and> chg_dev_chgen_eu (put v s) = chg_dev_chgen_eu s) \<Longrightarrow>
   decision_of (on_core (sc_store put v n) m) = decision_of m"
  by (simp add: on_core_def sc_store_def decision_of_def split: option.split)

lemmas file_stores = sw_jeita_store_def sw_ovp_threshold_store_def fast_chg_indicator_store_def
  alg_new_arbitration_store_def alg_unchangeable_store_def enable_meta_current_limit_store_def
  vbat_mon_store_def input_current_store_def charger_log_level_store_def BatteryNotify_store_def
  mtk_chg_set_cv_write_def mtk_chg_current_cmd_write_def mtk_chg_en_power_path_write_def
  mtk_chg_en_safety_timer_write_def enable_sc_store_def sc_stime_store_def sc_etime_store_def
  sc_tuisoc_store_def sc_ibat_limit_store_def

lemma decision_write_file: "decision_of (write_mtk_file E g w m) = decision_of m"
proof (cases w)
  case (W_enable_power_path v n)
  then show ?thesis
    by (simp add: on_core_def enable_power_path_store_def Let_def split: option.split)
qed (auto simp: file_stores decision_sc_store Let_def simp del: on_core_def
     split: option.split sum.split)

section \<open>Power path, adapters, timers\<close>

lemma decision_force [simp]:
  "decision_of (snd (mtk_charger_force_disable_power_path E i b m)) = decision_of m"
  by (auto simp: mtk_charger_force_disable_power_path_def decision_of_def on_dev_def case_prod_beta
      Let_def split: option.split)

lemma decision_enable_path [simp]:
  "decision_of (snd (mtk_charger_enable_power_path E i b m)) = decision_of m"
  by (auto simp: mtk_charger_enable_power_path_def decision_of_def on_dev_def case_prod_beta
      Let_def split: option.split)

lemma decision_psy_set [simp]: "decision_of (snd (psy_charger_set_property E i p v m)) = decision_of m"
  by (auto simp: psy_charger_set_property_def Let_def split: option.split mtk_prop.split)

lemma decision_ta_status [simp]: "decision_of (set_ta_status i t m) = decision_of m"
  by (simp add: set_ta_status_def)

lemma decision_water [simp]: "decision_of (water_event E wet m) = decision_of m"
  by (simp add: water_event_def Let_def)

lemma decision_sink [simp]: "decision_of (sink_vbus_event E mA m) = decision_of m"
  by (simp add: sink_vbus_event_def Let_def)

lemma decision_adapter_step [simp]: "decision_of (snd (adapter_event_step E dt ev i m)) = decision_of m"
  by (auto simp: adapter_event_step_def Let_def split: adapter_event.split)

lemma decision_adapter_event: "notify_adapter_event E dt ev i m = Some m' \<Longrightarrow> decision_of m' = decision_of m"
  by (auto simp: notify_adapter_event_def case_prod_beta Let_def split: if_splits)

lemma decision_timer [simp]: "decision_of (mtk_charger_start_timer cb now m) = decision_of m"
  by (simp add: mtk_charger_start_timer_def)

lemma decision_alarm [simp]: "decision_of (mtk_charger_alarm_timer_func m) = decision_of m"
  by (simp add: mtk_charger_alarm_timer_func_def)

lemma decision_pm [simp]: "decision_of (charger_pm_event ev now m) = decision_of m"
  by (simp add: charger_pm_event_def Let_def split: pm_event.split)

lemma decision_dynamic_mivr [simp]: "decision_of (check_dynamic_mivr E m) = decision_of m"
  by (simp add: check_dynamic_mivr_def Let_def)

lemma decision_vbus_ovp: "mtk_chg_enable_vbus_ovp f en (Some m) = (ret, Some m') \<Longrightarrow> decision_of m' = decision_of m"
  by (auto simp: mtk_chg_enable_vbus_ovp_def Let_def)

section \<open>The thread\<close>

lemma decision_power_off_loop [simp]: "decision_of (power_off_loop susp n m) = decision_of m"
  by (induction susp n m rule: power_off_loop.induct) (subst power_off_loop.simps, simp)

lemma decision_kpoc_uevent [simp]: "decision_of (charger_send_kpoc_uevent E now m) = decision_of m"
  by (simp add: charger_send_kpoc_uevent_def split: option.split)

lemma decision_pass_begin [simp]: "decision_of (pass_begin P m) = decision_of m"
  by (simp add: pass_begin_def Let_def)

lemma decision_pass_end [simp]: "decision_of (pass_end P m) = decision_of m"
  by (simp add: pass_end_def case_prod_beta Let_def)

section \<open>Initialisation\<close>

lemma decision_init_selector [simp]: "decision_of (init_selector E m) = decision_of m"
  by (simp add: init_selector_def case_prod_beta Let_def)

lemma decision_init_algs [simp]: "decision_of (init_algs I m) = decision_of m"
proof -
  have "decision_of (fold (\<lambda>(i, names). init_alg I i names) as m) = decision_of m" for as
    by (induction as arbitrary: m) (auto simp: init_alg_def Let_def split: option.split)
  then show ?thesis by (simp add: init_algs_def)
qed

lemma decision_find_chargers [simp]: "decision_of (snd (find_chargers E I m)) = decision_of m"
  by (simp add: find_chargers_def find_chg2_def find_dvs_def find_dv_def case_prod_beta Let_def)

lemma decision_register [simp]: "decision_of (register_handlers I m) = decision_of m"
  by (simp add: register_handlers_def)

lemma decision_init_algo [simp]: "decision_of (snd (charger_init_algo E I m)) = decision_of m"
  by (simp add: charger_init_algo_def case_prod_beta Let_def)

end
