(* ===== verification/Mtk_Bypass.thy ===== *)
theory Mtk_Bypass
  imports Mtk_Phone Mtk_Frame
begin

text \<open>
  The properties of the decision: smart charging implements the automaton, its flags
  are consistent in every reachable state of the core, and with an enabled bypass
  setting charging follows the latch on the state of charge.
\<close>

section \<open>One run of smart charging\<close>

lemma sdiv_hundred [simp]: "(x * 100) sdiv 100 = (x :: int)"
  by (simp add: signed_divide_int_def sgn_mult abs_mult) (metis sgn_mult_abs)

context charger_core begin

lemma decide_phase:
  "is_bypass_charging_phase (snd (sc_decide E pct setting setting_eu chg_en suspend m))
    = is_bypass_charging_phase m"
  by (simp add: sc_decide_def sc_suspend_input_def sc_protection_def sc_protection_switch_def
      sc_protection_eu_def sc_resume_def sc_action_defs case_prod_beta Let_def)

lemma phase_update: "decision_of (m\<lparr>is_bypass_charging_phase := b\<rparr>) = decision_of m"
  by (simp add: decision_of_def)

lemma smart_decision:
  assumes "D = charge_settings E (outside m)" "soc = get_uisoc E (outside m)"
    and "bypass_control (mm8xxx_bypass_data E (outside m)) soc (is_bypass_charging_phase m)
           (get_charging_enable D) (get_input_suspend D) = (phase, chg_en, suspend)"
  shows "decision_of (snd (smart_charging E m))
      = spec_decide (soc * 100) (get_battery_protection_setting D)
          (get_battery_protection_setting_eu D) (chg_en \<noteq> 0) (suspend \<noteq> 0) (decision_of m)"
    and "is_bypass_charging_phase (snd (smart_charging E m)) = phase"
  using assms by (simp_all add: smart_charging_def decide_decision decide_phase phase_update Let_def)

end

text \<open>C1: smart charging moves the four decision flags exactly as the automaton does, for
  the state of charge and the settings it reads, after the bypass setting has
  overridden the charging switch and the input suspend; the bypass phase becomes that
  of the setting.\<close>

theorem smart_charging_refines:
  assumes "charger_core E"
    and "D = charge_settings E (outside m)" "soc = get_uisoc E (outside m)"
    and "bypass_control (mm8xxx_bypass_data E (outside m)) soc (is_bypass_charging_phase m)
           (get_charging_enable D) (get_input_suspend D) = (phase, chg_en, suspend)"
  shows "decision_of (snd (smart_charging E m))
      = spec_decide (soc * 100) (get_battery_protection_setting D)
          (get_battery_protection_setting_eu D) (chg_en \<noteq> 0) (suspend \<noteq> 0) (decision_of m)
    \<and> is_bypass_charging_phase (snd (smart_charging E m)) = phase"
  using charger_core.smart_decision [OF assms] by simp

lemma smart_charging_refines_witness:
  "decision_of (snd (smart_charging (phone_core plain_bus 500000) demo_core))
     = spec_decide (50 * 100) 0 0 False False (decision_of demo_core)"
proof -
  have "bypass_control (Some \<lparr>bp_enable = True, low_capacity = 60, high_capacity = 80\<rparr>) 50 False 0 0
      = (True, 0, 0)"
    by (simp add: bypass_control_def bypass_phase_def)
  then have c: "bypass_control
      (mm8xxx_bypass_data (phone_core plain_bus 500000) (outside demo_core))
      50 (is_bypass_charging_phase demo_core) (get_charging_enable info_data0)
      (get_input_suspend info_data0) = (True, 0, 0)"
    by (simp add: demo_core_def core0_def phone_core_def phone0_def info_data0_def
        get_charging_enable_def get_input_suspend_def)
  have "info_data0 = charge_settings (phone_core plain_bus 500000) (outside demo_core)"
    "50 = get_uisoc (phone_core plain_bus 500000) (outside demo_core)"
    by (simp_all add: demo_core_def core0_def phone_core_def phone0_def)
  from smart_charging_refines [OF phone.charger_core_axioms this c] show ?thesis
    by (simp add: get_battery_protection_setting_def get_battery_protection_setting_eu_def
        info_data0_def)
qed

section \<open>Consistency of the flags\<close>

definition consistent :: "decision \<Rightarrow> bool" where
  "consistent d \<longleftrightarrow> (cut_off d \<longrightarrow> stopped d) \<and> (held_off d \<longrightarrow> stopped d)
     \<and> \<not> (protected_off d \<and> held_off d)"

lemma spec_decide_consistent: "consistent d \<Longrightarrow> consistent (spec_decide pct s s_eu forb susp d)"
  by (auto simp: consistent_def spec_decide_def spec_protection_def spec_eu_def Let_def)

text \<open>The reset of a write of 140060 to the protection file is made good by the run of
  smart charging that follows it.\<close>

lemma spec_decide_after_reset:
  "consistent d \<Longrightarrow> s sdiv 100000 \<noteq> 0 \<Longrightarrow>
   consistent (spec_decide pct s s_eu forb susp (d\<lparr>stopped := False, cut_off := False\<rparr>))"
  by (auto simp: consistent_def spec_decide_def spec_protection_def spec_eu_def Let_def)

text \<open>The steps of the core, in any order: the world changes (readings, settings, chips),
  smart charging runs, a settings write is notified with the event the settings file
  sends, the charger is plugged in or out, the supply changes, the status is checked, the
  thread decides or makes a whole pass, the core is initialised, one of its files or power
  supply properties is written, an adapter event, a suspend, a resume or the alarm arrives,
  or the overvoltage protection is switched.  The settings notifier and the files take no
  lock of the thread, so its parts are steps of their own.\<close>

inductive core_step :: "'w mtk_env \<Rightarrow> 'w mtk_charger \<Rightarrow> 'w mtk_charger \<Rightarrow> bool" for E where
  world: "core_step E m (m\<lparr>outside := w\<rparr>)"
| smart: "core_step E m (snd (smart_charging E m))"
| settings_write:
    "m' = snd (snd (on_dev (charger_dev_get_property (chg1_dev m) CHARGER_PROP_ONLINE v) m)) \<Longrightarrow>
     ev = b2i (get_battery_protection_setting (charge_settings E (outside m')) = 140060) \<Longrightarrow>
     core_step E m (sysfs_notify_event E ev v m)"
| plug_in: "core_step E m (mtk_charger_plug_in E t m)"
| plug_out: "core_step E m (mtk_charger_plug_out E m)"
| supply_change: "core_step E m (snd (mtk_charger_external_power_changed v m))"
| status: "core_step E m (charger_check_status E m)"
| thread: "core_step E m (charger_thread_decide ext E on m)"
| pass: "(\<And>m. decision_of (mtk_check_ta_status P m) = decision_of m) \<Longrightarrow>
    core_step E m (charger_routine_pass E P m)"
| initialise: "core_step E m (snd (charger_init_algo E I m))"
| file_write: "core_step E m (write_mtk_file E g fw m)"
| power_property: "core_step E m (snd (psy_charger_set_property E i p n m))"
| adapter_event: "notify_adapter_event E dt ae ix m = Some m' \<Longrightarrow> core_step E m m'"
| alarm: "core_step E m (mtk_charger_alarm_timer_func m)"
| suspend_resume: "core_step E m (charger_pm_event pe now m)"
| vbus_ovp: "mtk_chg_enable_vbus_ovp f en (Some m) = (ret, Some m') \<Longrightarrow> core_step E m m'"

lemma consistent_of: "consistent (decision_of m) \<Longrightarrow> decision_of m' = decision_of m \<Longrightarrow> consistent (decision_of m')"
  by simp

context charger_core begin

lemma smart_consistent:
  assumes "consistent (decision_of m)"
  shows "consistent (decision_of (snd (smart_charging E m)))"
proof -
  obtain phase chg_en suspend where
    "bypass_control (mm8xxx_bypass_data E (outside m)) (get_uisoc E (outside m))
       (is_bypass_charging_phase m) (get_charging_enable (charge_settings E (outside m)))
       (get_input_suspend (charge_settings E (outside m))) = (phase, chg_en, suspend)"
    by (metis prod.collapse)
  from smart_decision(1) [OF refl refl this] show ?thesis
    by (simp add: spec_decide_consistent assms)
qed

lemma smart_after_reset:
  assumes "consistent d" "decision_of m = d\<lparr>stopped := False, cut_off := False\<rparr>"
    and "get_battery_protection_setting (charge_settings E (outside m)) = 140060"
  shows "consistent (decision_of (snd (smart_charging E m)))"
proof -
  obtain phase chg_en suspend where
    "bypass_control (mm8xxx_bypass_data E (outside m)) (get_uisoc E (outside m))
       (is_bypass_charging_phase m) (get_charging_enable (charge_settings E (outside m)))
       (get_input_suspend (charge_settings E (outside m))) = (phase, chg_en, suspend)"
    by (metis prod.collapse)
  from smart_decision(1) [OF refl refl this] show ?thesis
    by (simp add: assms(2,3) spec_decide_after_reset [OF assms(1)])
qed

lemma idle_consistent:
  "\<not> stopped d \<Longrightarrow> \<not> cut_off d \<Longrightarrow> \<not> held_off d \<Longrightarrow> consistent d"
  by (simp add: consistent_def)

lemma run_algorithm_decision [simp]: "decision_of (run_algorithm E m) = decision_of m"
  by (simp add: decision_of_def)

lemma enable_decision [simp]: "decision_of (snd (mtk_enable_charging E en m)) = decision_of m"
  using enable_keeps by (simp add: mtk_enable_charging_def split: option.splits)

lemma permission_consistent:
  "consistent (decision_of m) \<Longrightarrow> consistent (decision_of (snd (permission_stage E m)))"
  by (simp add: permission_stage_def case_prod_beta Let_def smart_consistent)

lemma notify_event_consistent:
  assumes "consistent (decision_of m)"
    and "m' = snd (snd (on_dev (charger_dev_get_property (chg1_dev m) CHARGER_PROP_ONLINE v) m))"
    and "ev = b2i (get_battery_protection_setting (charge_settings E (outside m')) = 140060)"
  shows "consistent (decision_of (sysfs_notify_event E ev v m))"
proof -
  have d: "decision_of m' = decision_of m" by (simp add: assms(2))
  let ?r = "m'\<lparr>sc := (sc m')\<lparr>chg_dev_chgen := False, disable_charger := False\<rparr>\<rparr>"
  have "decision_of ?r = (decision_of m')\<lparr>stopped := False, cut_off := False\<rparr>"
    by (simp add: decision_of_def)
  from smart_after_reset [OF _ this] have r: "consistent (decision_of (snd (smart_charging E ?r)))"
    if "get_battery_protection_setting (charge_settings E (outside m')) = 140060"
    using that assms(1) by (simp add: d)
  have n: "consistent (decision_of (snd (smart_charging E m')))"
    by (rule smart_consistent) (simp add: d assms(1))
  show ?thesis using r n assms(1) d
    by (simp add: sysfs_notify_event_def assms(3) assms(2) [symmetric] b2i_def case_prod_beta Let_def)
qed

lemma announce_decision: "decision_of (plug_in_announce E m) = decision_of m"
  by (simp add: plug_in_announce_def Let_def decision_of_eq)

lemma plug_in_consistent: "consistent (decision_of (mtk_charger_plug_in E t m))"
proof -
  have d: "consistent (decision_of (snd (smart_charging E (set_sc False False False m'))))" for m'
    by (rule smart_consistent, rule idle_consistent) (simp_all add: set_sc_def decision_of_def)
  show ?thesis by (simp add: mtk_charger_plug_in_def Let_def announce_decision d)
qed

lemma plug_out_decision: "decision_of (mtk_charger_plug_out E m) = decision_of m"
  by (simp add: mtk_charger_plug_out_def Let_def adapter_keeps decision_of_eq)

lemma supply_consistent:
  assumes "consistent (decision_of m)"
  shows "consistent (decision_of (snd (mtk_charger_external_power_changed v m)))"
proof -
  have i: "consistent (decision_of (set_sc False False False m'))" for m' :: "'a mtk_charger"
    by (rule idle_consistent) (simp_all add: set_sc_def decision_of_def)
  show ?thesis using assms i
    by (simp add: mtk_charger_external_power_changed_def case_prod_beta Let_def)
qed

lemma status_consistent:
  assumes "consistent (decision_of m)"
  shows "consistent (decision_of (charger_check_status E m))"
proof -
  have p: "consistent (decision_of (snd (permission_stage E (m\<lparr>vbat_mon_en := b\<rparr>))))" for b
    using assms by (intro permission_consistent) (simp add: decision_of_def)
  have f: "decision_of (m'\<lparr>can_charging := c\<rparr>) = decision_of m'"
    "decision_of (m'\<lparr>vbat_mon_en := a, batpro_done := b, stop_6pin_re_en := c\<rparr>) = decision_of m'"
    for m' :: "'a mtk_charger" and a b c
    by (simp_all add: decision_of_def)
  show ?thesis
    using assms p by (simp add: charger_check_status_def case_prod_beta Let_def f)
qed

lemma thread_consistent:
  "consistent (decision_of m) \<Longrightarrow> consistent (decision_of (charger_thread_decide ext E on m))"
  by (simp add: charger_thread_decide_def Let_def smart_consistent)

lemma charger_on_consistent:
  assumes "consistent (decision_of m)"
  shows "consistent (decision_of (snd (mtk_is_charger_on E m)))"
proof -
  have k: "decision_of (m'\<lparr>cable_out_cnt := 0\<rparr>) = decision_of m'"
    "decision_of (m'\<lparr>chr_type := t, mt_usb_type := u\<rparr>) = decision_of m'"
    for m' :: "'a mtk_charger" and t u
    by (simp_all add: decision_of_def)
  show ?thesis
    using assms by (simp add: mtk_is_charger_on_def Let_def k plug_in_consistent plug_out_decision)
qed

lemma kpoc_consistent:
  assumes "consistent (decision_of m)"
  shows "consistent (decision_of (kpoc_power_off_check E later susp now m))"
proof -
  let ?look = "\<lambda>m. if vbus_gone E m then mtk_is_charger_on E m else (True, m)"
  have look: "consistent (decision_of (snd (?look m')))" if "consistent (decision_of m')" for m'
    using charger_on_consistent [OF that] that by simp
  have second: "consistent (decision_of (snd (?look (m'\<lparr>outside := w\<rparr>))))"
    if "consistent (decision_of m')" for m' w
    by (rule look) (use that in simp)
  show ?thesis
    using assms look [OF assms] second [OF look [OF assms]]
    unfolding kpoc_power_off_check_def by (simp add: case_prod_beta Let_def)
qed

lemma pass_consistent:
  assumes "consistent (decision_of m)" and "\<And>m. decision_of (mtk_check_ta_status P m) = decision_of m"
  shows "consistent (decision_of (charger_routine_pass E P m))"
proof -
  have "consistent (decision_of (snd (mtk_is_charger_on E (pass_begin P m))))"
    by (rule charger_on_consistent) (simp add: assms(1))
  then have "consistent (decision_of (pass_checks E P (snd (mtk_is_charger_on E (pass_begin P m)))))"
    by (simp add: pass_checks_def Let_def assms(2) kpoc_consistent status_consistent)
  then show ?thesis
    by (simp add: charger_routine_pass_def case_prod_beta Let_def thread_consistent)
qed

lemma step_consistent:
  "core_step E m m' \<Longrightarrow> consistent (decision_of m) \<Longrightarrow> consistent (decision_of m')"
proof (induction rule: core_step.induct)
  case (adapter_event dt ae ix m m')
  then show ?case by (simp add: decision_adapter_event)
next
  case (vbus_ovp f en m ret m')
  then show ?case by (simp add: decision_vbus_ovp)
qed (simp_all add: smart_consistent notify_event_consistent plug_in_consistent plug_out_decision
    supply_consistent status_consistent thread_consistent pass_consistent decision_write_file)

lemma reach_consistent:
  "(core_step E)\<^sup>*\<^sup>* m m' \<Longrightarrow> consistent (decision_of m) \<Longrightarrow> consistent (decision_of m')"
  by (induction rule: rtranclp_induct) (simp_all add: step_consistent)

end

text \<open>C5: in every state the core reaches from one in which nothing is held back, by any
  interleaving of its entry points with any change of the outside, a reason for
  stopping is only remembered while charging is stopped, and the EU stop excludes the
  memory of the first protection range.\<close>

theorem stop_reasons_only_while_stopped:
  assumes "charger_core E" "(core_step E)\<^sup>*\<^sup>* m0 m"
    and "\<not> disable_charger (sc m0)" "\<not> chg_dev_chgen (sc m0)" "\<not> chg_dev_chgen_eu (sc m0)"
  shows "(chg_dev_chgen (sc m) \<longrightarrow> disable_charger (sc m))
    \<and> (chg_dev_chgen_eu (sc m) \<longrightarrow> disable_charger (sc m))
    \<and> \<not> (protection_dischg m \<and> chg_dev_chgen_eu (sc m))"
proof -
  have "consistent (decision_of m0)"
    using assms(3-5) by (simp add: consistent_def decision_of_def)
  from charger_core.reach_consistent [OF assms(1,2) this] show ?thesis
    by (simp add: consistent_def decision_of_def)
qed

lemma stop_reasons_only_while_stopped_witness:
  "\<not> (chg_dev_chgen (sc (snd (smart_charging (phone_core plain_bus 500000)
        (demo_core\<lparr>outside := (demo_device, phone0\<lparr>ph_soc := 85\<rparr>)\<rparr>))))
     \<and> \<not> disable_charger (sc (snd (smart_charging (phone_core plain_bus 500000)
        (demo_core\<lparr>outside := (demo_device, phone0\<lparr>ph_soc := 85\<rparr>)\<rparr>)))))"
proof -
  have "(core_step (phone_core plain_bus 500000))\<^sup>*\<^sup>* demo_core (snd (smart_charging
      (phone_core plain_bus 500000) (demo_core\<lparr>outside := (demo_device, phone0\<lparr>ph_soc := 85\<rparr>)\<rparr>)))"
    by (rule rtranclp.rtrancl_into_rtrancl [OF r_into_rtranclp])
      (rule core_step.world, rule core_step.smart)
  from stop_reasons_only_while_stopped [OF phone.charger_core_axioms this] show ?thesis
    by (simp add: demo_core_def core0_def smartcharging0_def sc_init_def)
qed

section \<open>Bypass charging over time\<close>

definition sample :: "'w mtk_env \<Rightarrow> 'w \<Rightarrow> 'w mtk_charger \<Rightarrow> 'w mtk_charger" where
  "sample E w m = snd (smart_charging E (m\<lparr>outside := w\<rparr>))"

text \<open>A reading under an enabled bypass setting, the protection settings being off.\<close>

definition bypass_reading :: "'w mtk_env \<Rightarrow> mm8xxx_bypass_setting \<Rightarrow> 'w \<Rightarrow> bool" where
  "bypass_reading E b w \<longleftrightarrow> mm8xxx_bypass_data E w = Some b \<and> bp_enable b
     \<and> get_battery_protection_setting (charge_settings E w) sdiv 100000 = 0
     \<and> get_battery_protection_setting_eu (charge_settings E w) sdiv 100000 = 0"

lemma spec_bypass_charge:
  "s sdiv 100000 = 0 \<Longrightarrow> s_eu sdiv 100000 = 0 \<Longrightarrow>
   \<not> stopped (spec_decide pct s s_eu False False d)"
  by (auto simp: spec_decide_def Let_def)

lemma spec_bypass_hold:
  "consistent d \<Longrightarrow> s sdiv 100000 = 0 \<Longrightarrow> s_eu sdiv 100000 = 0 \<Longrightarrow> stopped (spec_decide pct s s_eu True susp d)"
  by (auto simp: spec_decide_def spec_eu_def consistent_def Let_def)

context charger_core begin

lemma sample_bypass:
  assumes "bypass_reading E b w" "consistent (decision_of m)"
  shows "is_bypass_charging_phase (sample E w m)
      = bypass_phase b (get_uisoc E w) (is_bypass_charging_phase m)" (is ?phase)
    and "disable_charger (sc (sample E w m)) = (\<not> is_bypass_charging_phase (sample E w m))" (is ?stop)
    and "consistent (decision_of (sample E w m))" (is ?cons)
proof -
  let ?m = "m\<lparr>outside := w\<rparr>" and ?ph = "bypass_phase b (get_uisoc E w) (is_bypass_charging_phase m)"
  let ?s = "if \<not> ?ph \<and> get_uisoc E w \<ge> uint (high_capacity b) then 1 else 0 :: int"
  have c: "bypass_control (mm8xxx_bypass_data E (outside ?m)) (get_uisoc E (outside ?m))
      (is_bypass_charging_phase ?m) (get_charging_enable (charge_settings E (outside ?m)))
      (get_input_suspend (charge_settings E (outside ?m))) = (?ph, if ?ph then 0 else 1, ?s)"
    using assms(1) by (simp add: bypass_reading_def bypass_control_def Let_def)
  note d = smart_decision [OF refl refl c]
  show p: ?phase using d(2) by (simp add: sample_def)
  have "stopped (decision_of (sample E w m)) = (\<not> ?ph)"
    using assms d(1) spec_bypass_charge spec_bypass_hold
    by (cases ?ph) (simp_all add: sample_def bypass_reading_def)
  then show ?stop by (simp add: p decision_of_def)
  show ?cons unfolding sample_def by (rule smart_consistent) (simp add: assms(2))
qed

lemma samples_bypass:
  assumes "\<forall>w \<in> set ws. bypass_reading E b w" "consistent (decision_of m)"
  shows "is_bypass_charging_phase (fold (sample E) ws m)
      = fold (bypass_phase b) (map (get_uisoc E) ws) (is_bypass_charging_phase m)
    \<and> consistent (decision_of (fold (sample E) ws m))
    \<and> (ws \<noteq> [] \<longrightarrow> disable_charger (sc (fold (sample E) ws m))
        = (\<not> is_bypass_charging_phase (fold (sample E) ws m)))"
  using assms
proof (induction ws rule: rev_induct)
  case (snoc w ws)
  then show ?case using sample_bypass [of b w "fold (sample E) ws m"] by simp
qed simp

end



end
