(* ===== verification/Mtk_Chip.thy ===== *)
theory Mtk_Chip
  imports Mtk_Bypass Charger_Contract
begin

text \<open>
  The decision on the chip: what smart charging makes of the charge-enable and the
  high-impedance bits of the SGM4154x when the core runs on top of that driver.
\<close>

text \<open>The driver's bus and the core, joined by the class: the SGM4154x driver is the only
  device of the class, and the charging algorithm leaves the two bits alone.\<close>

locale sgm_phone = smbus B reg cfg + charger_core E
  for B :: "('w, 'e) smbus_ops_scheme" and reg :: "'w \<Rightarrow> u8 \<Rightarrow> u8" and cfg :: "u8 \<Rightarrow> u8"
    and E :: "('w sgm4154x_device \<times> phone) mtk_env" +
  assumes devices: "class_devices E = [sgm_charger B]"
    and algorithm_hiz: "do_algorithm E = Some f \<Longrightarrow> chg1_dev m = Some (sgm_charger B) \<Longrightarrow>
      reg (client (fst (outside (f m)))) SGM4154x_CHRG_CTRL_0 AND SGM4154x_HIZ_EN
        = reg (client (fst (outside m))) SGM4154x_CHRG_CTRL_0 AND SGM4154x_HIZ_EN"
    and algorithm_chg: "do_algorithm E = Some f \<Longrightarrow> chg1_dev m = Some (sgm_charger B) \<Longrightarrow>
      reg (client (fst (outside (f m)))) SGM4154x_CHRG_CTRL_1 AND SGM4154x_CHRG_EN
        = reg (client (fst (outside m))) SGM4154x_CHRG_CTRL_1 AND SGM4154x_CHRG_EN"
    and algorithm_device: "do_algorithm E = Some f \<Longrightarrow> chg1_dev (f m) = chg1_dev m"

lemma class_enable_sgm:
  "charger_dev_enable (Some (sgm_charger B)) en
    = beside (\<lambda>s. plain_result (sgm4154x_chg_ops (op_enable en) B s))"
  by (rule ext) (simp add: charger_dev_enable_def class_call_def sgm_charger_def sgm4154x_class_ops_def)

lemma class_event_sgm:
  "charger_dev_do_event (Some (sgm_charger B)) ev a
    = beside (\<lambda>s. plain_result (sgm4154x_chg_ops (op_event ev) B s))"
  by (rule ext) (simp add: charger_dev_do_event_def class_call_def sgm_charger_def sgm4154x_class_ops_def)

text \<open>The driver has no power path: the request comes back and the phone stays as it was.\<close>

lemma class_powerpath_sgm:
  "charger_dev_enable_powerpath (Some (sgm_charger B)) en w = (- EOPNOTSUPP, [], w)"
  by (simp add: charger_dev_enable_powerpath_def class_call_def sgm_charger_def sgm4154x_class_ops_def)

lemma beside_outside:
  "outside (run_dev (beside (\<lambda>s. plain_result (f s))) m) = (snd (f (fst (outside m))), snd (outside m))"
  by (simp add: run_dev_eq beside_def plain_result_def Let_def)

text \<open>The bits of the chip of a phone.\<close>

definition hiz_bit :: "('w \<Rightarrow> u8 \<Rightarrow> u8) \<Rightarrow> 'w sgm4154x_device \<times> phone \<Rightarrow> u8" where
  "hiz_bit reg w = reg (client (fst w)) SGM4154x_CHRG_CTRL_0 AND SGM4154x_HIZ_EN"

definition chg_bit :: "('w \<Rightarrow> u8 \<Rightarrow> u8) \<Rightarrow> 'w sgm4154x_device \<times> phone \<Rightarrow> u8" where
  "chg_bit reg w = reg (client (fst w)) SGM4154x_CHRG_CTRL_1 AND SGM4154x_CHRG_EN"

context smbus begin

lemma switch_sets:
  "reliable B \<Longrightarrow> SGM4154x_CHRG_EN AND cfg SGM4154x_CHRG_CTRL_1 = SGM4154x_CHRG_EN \<Longrightarrow>
   reg (client (snd (sgm4154x_chg_ops (op_enable en) B s))) SGM4154x_CHRG_CTRL_1 AND SGM4154x_CHRG_EN
     = (if en then SGM4154x_CHRG_EN else 0)"
  using upd_sets [OF reliable_update_bits, of SGM4154x_CHRG_EN SGM4154x_CHRG_CTRL_1]
  by (simp add: sgm4154x_charging_switch_def sgm4154x_enable_charger_def sgm4154x_disable_charger_def)

end

context sgm_phone begin

lemma chg1_enable_bits:
  assumes "chg1_dev m = Some (sgm_charger B)"
  shows "hiz_bit reg (outside (chg1_enable en m)) = hiz_bit reg (outside m)"
    and "reliable B \<Longrightarrow> SGM4154x_CHRG_EN AND cfg SGM4154x_CHRG_CTRL_1 = SGM4154x_CHRG_EN \<Longrightarrow>
      chg_bit reg (outside (chg1_enable en m)) = (if en then SGM4154x_CHRG_EN else 0)"
  using ops_keep_hiz [of "op_enable en"] switch_sets [of en]
  by (simp_all add: chg1_enable_def assms class_enable_sgm beside_outside hiz_bit_def chg_bit_def
      del: sgm4154x_chg_ops.simps)

lemma chg1_event_bits:
  assumes "chg1_dev m = Some (sgm_charger B)"
  shows "hiz_bit reg (outside (chg1_event ev m)) = hiz_bit reg (outside m)"
    and "chg_bit reg (outside (chg1_event ev m)) = chg_bit reg (outside m)"
  using ops_keep_hiz [of "op_event ev"] ops_keep_enable [of "op_event ev"]
  by (simp_all add: chg1_event_def assms class_event_sgm beside_outside hiz_bit_def chg_bit_def
      del: sgm4154x_chg_ops.simps)

lemma force_path_outside: "outside (force_power_path_off E d m) = outside m"
  by (simp add: force_power_path_off_def mtk_charger_force_disable_power_path_def setting_dev_def
      devices get_charger_by_name_def charger_match_device_by_name_def on_dev_def
      class_powerpath_sgm Let_def)

lemma run_algorithm_bits:
  "chg1_dev m = Some (sgm_charger B) \<Longrightarrow>
   hiz_bit reg (outside (run_algorithm E m)) = hiz_bit reg (outside m)"
  "chg1_dev m = Some (sgm_charger B) \<Longrightarrow>
   chg_bit reg (outside (run_algorithm E m)) = chg_bit reg (outside m)"
  "chg1_dev (run_algorithm E m) = chg1_dev m"
  using algorithm_hiz algorithm_chg algorithm_device
  by (auto simp: run_algorithm_def hiz_bit_def chg_bit_def split: option.splits)

lemma chg1_dev_actions [simp]:
  "chg1_dev (chg1_enable en m) = chg1_dev m" "chg1_dev (chg1_event ev m) = chg1_dev m"
  by (simp_all add: chg1_enable_def chg1_event_def)

lemmas action_bits = chg1_enable_bits chg1_event_bits force_path_outside run_algorithm_bits

lemma stop_bits:
  assumes "chg1_dev m = Some (sgm_charger B)"
  shows "hiz_bit reg (outside (stop_and_discharge E m)) = hiz_bit reg (outside m)"
    and "reliable B \<Longrightarrow> SGM4154x_CHRG_EN AND cfg SGM4154x_CHRG_CTRL_1 = SGM4154x_CHRG_EN \<Longrightarrow>
      chg_bit reg (outside (stop_and_discharge E m)) = 0"
  by (simp_all add: stop_and_discharge_def action_bits assms)

text \<open>The three ways a decision changes, on the chip.\<close>

lemma suspend_bits:
  assumes "chg1_dev m = Some (sgm_charger B)"
  shows "hiz_bit reg (outside (snd (sc_suspend_input E m))) = hiz_bit reg (outside m)"
    and "reliable B \<Longrightarrow> SGM4154x_CHRG_EN AND cfg SGM4154x_CHRG_CTRL_1 = SGM4154x_CHRG_EN \<Longrightarrow>
      chg_bit reg (outside (snd (sc_suspend_input E m))) = 0"
  by (simp_all add: sc_suspend_input_def stop_bits assms set_sc_def)

lemma hold_bits:
  assumes "chg1_dev m = Some (sgm_charger B)" "\<not> chg_dev_chgen_eu (sc m)" "chg_en \<noteq> 0"
  shows "hiz_bit reg (outside (snd (sc_protection_eu E pct high chg_en m))) = hiz_bit reg (outside m)"
    and "reliable B \<Longrightarrow> SGM4154x_CHRG_EN AND cfg SGM4154x_CHRG_CTRL_1 = SGM4154x_CHRG_EN \<Longrightarrow>
      chg_bit reg (outside (snd (sc_protection_eu E pct high chg_en m))) = 0"
  by (simp_all add: sc_protection_eu_def action_bits assms Let_def)

lemma resume_bits:
  assumes "chg1_dev m = Some (sgm_charger B)"
  shows "hiz_bit reg (outside (snd (sc_resume E m))) = hiz_bit reg (outside m)"
    and "reliable B \<Longrightarrow> SGM4154x_CHRG_EN AND cfg SGM4154x_CHRG_CTRL_1 = SGM4154x_CHRG_EN \<Longrightarrow>
      chg_bit reg (outside (snd (sc_resume E m))) = SGM4154x_CHRG_EN"
  by (simp_all add: sc_resume_def action_bits assms Let_def)

lemmas decision_bits = suspend_bits hold_bits resume_bits

end

text \<open>The phone of the model meets the contract on every bus that meets its own.\<close>

lemma class_current_sgm:
  "charger_dev_set_charging_current (Some (sgm_charger B)) uA
    = beside (\<lambda>s. plain_result (sgm4154x_chg_ops (op_set_charging_current uA) B s))"
  by (rule ext) (simp add: charger_dev_set_charging_current_def class_call_def sgm_charger_def
      sgm4154x_class_ops_def)

context smbus begin

lemma phone_core_contract: "sgm_phone B reg cfg (phone_core B uA)"
  using ops_keep_hiz [of "op_set_charging_current uA"] ops_keep_enable [of "op_set_charging_current uA"]
  by (intro sgm_phone.intro sgm_phone_axioms.intro smbus_axioms phone.charger_core_axioms)
    (auto simp: phone_core_def class_current_sgm beside_outside run_dev_keeps
      simp del: sgm4154x_chg_ops.simps)

end

interpretation plain_phone: sgm_phone plain_bus "\<lambda>w. w" all_bits "phone_core plain_bus uA" for uA
  by (rule plain.phone_core_contract)

text \<open>The code's reading of a sample under a bypass setting, as one of the three.\<close>

lemma sample_branch:
  assumes "bypass_reading E b w" "consistent (decision_of m)"
    and "disable_charger (sc m) = bypass_phase b (get_uisoc E w) (is_bypass_charging_phase m)"
    and "m' = m\<lparr>outside := w, is_bypass_charging_phase := bypass_phase b (get_uisoc E w)
                (is_bypass_charging_phase m)\<rparr>"
  shows "sample E w m =
    (if is_bypass_charging_phase m' then snd (sc_resume E m')
     else if get_uisoc E w \<ge> uint (high_capacity b) then snd (sc_suspend_input E m')
     else snd (sc_protection_eu E (get_uisoc E w * 100)
            (snd (protection_eu_range (get_battery_protection_setting_eu (charge_settings E w)))) 1 m'))"
proof -
  have p: "mm8xxx_bypass_data E w = Some b" "bp_enable b"
    "get_battery_protection_setting (charge_settings E w) sdiv 100000 = 0"
    "get_battery_protection_setting_eu (charge_settings E w) sdiv 100000 = 0"
    using assms(1) by (simp_all add: bypass_reading_def)
  have d: "sc m' = sc m" "outside m' = w" by (simp_all add: assms(4))
  have g: "\<not> bypass_phase b (get_uisoc E w) (is_bypass_charging_phase m) \<Longrightarrow> \<not> chg_dev_chgen (sc m)"
    using assms(2,3) by (auto simp: consistent_def decision_of_def)
  show ?thesis
    using g assms(3)
    by (simp add: sample_def smart_charging_def bypass_control_def sc_decide_def p d
        assms(4) case_prod_beta Let_def)
qed



end
