(* ===== verification/Mtk_Safety.thy ===== *)
theory Mtk_Safety
  imports Mtk_Phone
begin

text \<open>
  Safety of the charger core's status check: temperatures at which charging is never
  allowed, the hysteresis of the JEITA states and their recovery, the power path while
  it is forced off, and the time window of smart charging.
\<close>

section \<open>JEITA\<close>

interpretation jeita_hot: latch "\<lambda>t s. fst (jeita_step d t s)" "\<lambda>s. s = TEMP_ABOVE_T4"
  "\<lambda>t. t \<ge> temp_t4_thres d" "\<lambda>t. t \<le> temp_t3_thres d \<or> t < temp_t4_thres_minus_x_degree d" for d
  by unfold_locales (auto simp: jeita_step_def)

lemma hot_forbids: "fst (jeita_step d t s) = TEMP_ABOVE_T4 \<Longrightarrow> \<not> snd (jeita_step d t s)"
  by (auto simp: jeita_step_def split: if_splits)

text \<open>The state machine over a sequence of readings of the battery temperature.\<close>

definition jeita_run :: "int list \<Rightarrow> 'w mtk_charger \<Rightarrow> 'w mtk_charger" where
  "jeita_run ts m = fold (\<lambda>t m. do_sw_jeita_state_machine (m\<lparr>battery_temp := t\<rparr>)) ts m"

lemma jeita_machine_state:
  "jt_sm (sw_jeita (do_sw_jeita_state_machine m)) = fst (jeita_step (custom m) (battery_temp m) (jt_sm (sw_jeita m)))"
  "jt_charging (sw_jeita (do_sw_jeita_state_machine m))
    = snd (jeita_step (custom m) (battery_temp m) (jt_sm (sw_jeita m)))"
  "custom (do_sw_jeita_state_machine m) = custom m"
  by (simp_all add: do_sw_jeita_state_machine_def case_prod_beta Let_def)

lemma jeita_run_state:
  "jt_sm (sw_jeita (jeita_run ts m)) = fold (\<lambda>t s. fst (jeita_step (custom m) t s)) ts (jt_sm (sw_jeita m))
   \<and> custom (jeita_run ts m) = custom m"
  by (induction ts arbitrary: m) (auto simp: jeita_run_def jeita_machine_state)

lemma jeita_run_charging:
  "ts \<noteq> [] \<Longrightarrow> jt_sm (sw_jeita (jeita_run ts m)) = TEMP_ABOVE_T4 \<Longrightarrow> \<not> jt_charging (sw_jeita (jeita_run ts m))"
proof (induction ts rule: rev_induct)
  case (snoc t ts)
  then show ?case by (simp add: jeita_run_def jeita_machine_state hot_forbids)
qed simp

text \<open>C25: once the battery has reached the upper threshold, charging stays forbidden
  until a reading is at most the third threshold or has fallen below the upper one by
  the hysteresis; readings in between change nothing.\<close>

theorem jeita_heat_latches:
  assumes "ts = before @ hot # later" "hot \<ge> temp_t4_thres (custom m)"
    and "\<forall>t \<in> set later. temp_t3_thres (custom m) < t \<and> temp_t4_thres_minus_x_degree (custom m) \<le> t"
  shows "jt_sm (sw_jeita (jeita_run ts m)) = TEMP_ABOVE_T4 \<and> \<not> jt_charging (sw_jeita (jeita_run ts m))"
proof -
  let ?d = "custom m" and ?step = "\<lambda>t s. fst (jeita_step (custom m) t s)"
  have "fold ?step later (?step hot (fold ?step before (jt_sm (sw_jeita m)))) = TEMP_ABOVE_T4"
    using assms(3) by (intro jeita_hot.stays_active [of _ later ?d] jeita_hot.switch_on [OF assms(2)]) auto
  then have "jt_sm (sw_jeita (jeita_run ts m)) = TEMP_ABOVE_T4"
    by (simp add: jeita_run_state assms(1))
  then show ?thesis using jeita_run_charging [of ts m] assms(1) by simp
qed

lemma jeita_heat_latches_witness:
  "\<not> jt_charging (sw_jeita (jeita_run [25, 51, 49, 48] demo_core))"
  using jeita_heat_latches [of "[25, 51, 49, 48]" "[25]" 51 "[49, 48]" demo_core]
  by (simp add: demo_core_def core0_def custom0_def)

text \<open>One reading strictly inside the normal range, past both hysteresis margins,
  brings every state back to normal and allows charging.\<close>

theorem jeita_recovers:
  assumes "temp_t2_thres (custom m) \<le> battery_temp m" "battery_temp m \<le> temp_t3_thres (custom m)"
    and "temp_t2_thres_plus_x_degree (custom m) < battery_temp m"
    and "battery_temp m < temp_t3_thres_minus_x_degree (custom m)"
    and "temp_t3_thres (custom m) < temp_t4_thres (custom m)"
  shows "jt_sm (sw_jeita (do_sw_jeita_state_machine m)) = TEMP_T2_TO_T3
    \<and> jt_charging (sw_jeita (do_sw_jeita_state_machine m))"
  using assms by (simp add: jeita_machine_state jeita_step_def)

lemma jeita_recovers_witness:
  "jt_charging (sw_jeita (do_sw_jeita_state_machine
     (demo_core\<lparr>sw_jeita := (sw_jeita demo_core)\<lparr>jt_sm := TEMP_ABOVE_T4\<rparr>\<rparr>)))"
  by (rule conjunct2 [OF jeita_recovers]) (simp_all add: demo_core_def core0_def custom0_def)

section \<open>Temperature limits of the status check\<close>

text \<open>The temperatures at which charging may be allowed.\<close>

definition temperature_ok :: "'w mtk_charger \<Rightarrow> bool" where
  "temperature_ok m \<longleftrightarrow>
    (if enable_sw_jeita m
     then temp_t0_thres (custom m) \<le> battery_temp m \<and> battery_temp m < temp_t4_thres (custom m)
     else battery_temp m < max_charge_temp (thermal m)
          \<and> (\<not> enable_min_charge_temp (thermal m) \<or> min_charge_temp (thermal m) \<le> battery_temp m))"

lemma jeita_step_range:
  "temp_t0_thres d \<le> temp_t1_thres d \<Longrightarrow> temp_t1_thres d \<le> temp_t2_thres d \<Longrightarrow>
   temp_t2_thres d \<le> temp_t3_thres d \<Longrightarrow> snd (jeita_step d t s) \<Longrightarrow>
   temp_t0_thres d \<le> t \<and> t < temp_t4_thres d"
  by (auto simp: jeita_step_def split: if_splits)

lemma thermal_step_range:
  "snd (thermal_step th t) \<Longrightarrow>
   t < max_charge_temp th \<and> (\<not> enable_min_charge_temp th \<or> min_charge_temp th \<le> t)"
  by (auto simp: thermal_step_def thermal_low_def thermal_high_def Let_def split: if_splits)

lemma temperature_stage_ok:
  assumes "temp_t0_thres (custom m) \<le> temp_t1_thres (custom m)"
    "temp_t1_thres (custom m) \<le> temp_t2_thres (custom m)"
    "temp_t2_thres (custom m) \<le> temp_t3_thres (custom m)"
    and "fst (temperature_stage m)"
  shows "temperature_ok m"
  using assms(4) jeita_step_range [OF assms(1-3)] thermal_step_range [of "thermal m" "battery_temp m"]
  by (auto simp: temperature_stage_def temperature_ok_def jeita_machine_state case_prod_beta Let_def
      split: if_splits)

lemma temperature_ok_vbat_mon [simp]: "temperature_ok (m\<lparr>vbat_mon_en := b\<rparr>) = temperature_ok m"
  unfolding temperature_ok_def by (cases "enable_sw_jeita m") simp_all

lemma permission_temperature: "fst (permission_stage E m) \<Longrightarrow> fst (temperature_stage m)"
  by (simp add: permission_stage_def case_prod_beta Let_def split: if_splits)

lemma can_charging_check:
  "get_charger_type E (outside m) \<noteq> POWER_SUPPLY_TYPE_UNKNOWN \<Longrightarrow>
   can_charging (charger_check_status E m) = fst (permission_stage E
     (m\<lparr>vbat_mon_en := \<not> (enable_sw_jeita m \<or> \<not> enable_vbat_mon m \<or> batpro_done m)\<rparr>))"
  by (simp add: charger_check_status_def case_prod_beta Let_def)

text \<open>Whatever the charging algorithm does, after a status check with a supply attached
  charging is only allowed at a temperature inside the limits: those of JEITA when it
  is on, and the plain ones otherwise.\<close>

lemma check_within_temperature:
  assumes "temp_t0_thres (custom m) \<le> temp_t1_thres (custom m)"
    "temp_t1_thres (custom m) \<le> temp_t2_thres (custom m)"
    "temp_t2_thres (custom m) \<le> temp_t3_thres (custom m)"
    and "get_charger_type E (outside m) \<noteq> POWER_SUPPLY_TYPE_UNKNOWN"
    and "can_charging (charger_check_status E m)"
  shows "temperature_ok m"
proof -
  let ?m = "m\<lparr>vbat_mon_en := \<not> (enable_sw_jeita m \<or> \<not> enable_vbat_mon m \<or> batpro_done m)\<rparr>"
  have "fst (permission_stage E ?m)"
    using assms(5) unfolding can_charging_check [OF assms(4)] .
  then have "temperature_ok ?m"
    using assms(1-3) by (intro temperature_stage_ok permission_temperature) simp_all
  then show ?thesis by (rule temperature_ok_vbat_mon [THEN iffD1])
qed

text \<open>A core without chargers in an ordinary state, whose phone has no bypass setting.\<close>

definition bare :: "'w mtk_env \<Rightarrow> 'w mtk_charger \<Rightarrow> bool" where
  "bare E m \<longleftrightarrow> chg1_dev m = None \<and> chg2_dev m = None \<and> dv_dev m = (\<lambda>_. None)
     \<and> \<not> enable_sw_jeita m \<and> th_sm (thermal m) = BAT_TEMP_NORMAL \<and> temperature_ok m
     \<and> mm8xxx_bypass_data E (outside m) = None \<and> charge_settings E (outside m) = info_data0
     \<and> \<not> chg_dev_chgen (sc m) \<and> \<not> disable_charger (sc m) \<and> mtk_chg_check_vbus E m
     \<and> \<not> cmd_discharging m \<and> \<not> safety_timeout m \<and> \<not> vbusov_stat m \<and> \<not> dpdmov_stat m"

lemma bare_tchg:
  "chg1_dev m = None \<Longrightarrow> chg2_dev m = None \<Longrightarrow> dv_dev m = (\<lambda>_. None) \<Longrightarrow>
   mtk_chg_get_tchg m = set_junction CHG1_SETTING (- EOPNOTSUPP) (- 127) (- 127) m"
  by (simp add: mtk_chg_get_tchg_def read_junction_def read_dv_junction_def on_dev_def
      charger_dev_get_temperature_def class_call_def set_junction_def int_out_def)

lemma idle_smart_charging:
  "mm8xxx_bypass_data E (outside m) = None \<Longrightarrow> charge_settings E (outside m) = info_data0 \<Longrightarrow>
   \<not> chg_dev_chgen (sc m) \<Longrightarrow> \<not> disable_charger (sc m) \<Longrightarrow> smart_charging E m = (SC_IGNORE, m)"
  by (simp add: smart_charging_def bypass_control_def sc_decide_def protection_range_def
      protection_eu_range_def info_data0_def get_charging_enable_def get_input_suspend_def
      get_battery_protection_setting_def get_battery_protection_setting_eu_def)

lemma bare_temperature:
  "\<not> enable_sw_jeita m \<Longrightarrow> th_sm (thermal m) = BAT_TEMP_NORMAL \<Longrightarrow> temperature_ok m \<Longrightarrow>
   temperature_stage m = (True, m)"
  by (cases "enable_min_charge_temp (thermal m)")
    (simp_all add: temperature_stage_def temperature_ok_def thermal_step_def thermal_low_def
      thermal_high_def)

lemma bare_check_charges:
  assumes "bare E m" "get_charger_type E (outside m) \<noteq> POWER_SUPPLY_TYPE_UNKNOWN"
  shows "can_charging (charger_check_status E m)"
proof -
  define m1 where
    "m1 = m\<lparr>vbat_mon_en := \<not> (enable_sw_jeita m \<or> \<not> enable_vbat_mon m \<or> batpro_done m)\<rparr>"
  let ?t = "set_junction CHG1_SETTING (- EOPNOTSUPP) (- 127) (- 127) m1"
  have "temperature_stage m1 = (True, m1)"
    using assms(1) by (intro bare_temperature) (simp_all add: m1_def bare_def)
  moreover have "mtk_chg_get_tchg m1 = ?t"
    using assms(1) by (intro bare_tchg) (simp_all add: m1_def bare_def)
  moreover have "smart_charging E ?t = (SC_IGNORE, ?t)"
    using assms(1) by (intro idle_smart_charging) (simp_all add: m1_def bare_def set_junction_def)
  moreover have "mtk_chg_check_vbus E ?t"
    using assms(1) by (simp add: bare_def m1_def mtk_chg_check_vbus_def set_junction_def)
  ultimately have "fst (permission_stage E m1)"
    using assms(1) by (simp add: permission_stage_def m1_def bare_def set_junction_def)
  then show ?thesis
    unfolding can_charging_check [OF assms(2)] m1_def .
qed

section \<open>The power path\<close>

text \<open>A sequence of requests to switch the power path of a charger on or off.\<close>

definition pp_requests :: "'w mtk_env \<Rightarrow> chg_data_idx \<Rightarrow> bool list \<Rightarrow> 'w mtk_charger \<Rightarrow> 'w mtk_charger" where
  "pp_requests E i ens m = fold (\<lambda>en m. snd (mtk_charger_enable_power_path E i en m)) ens m"

text \<open>The state in which the request and the force flag of charger \<open>i\<close> are as given.\<close>

definition pp_state :: "chg_data_idx \<Rightarrow> bool \<Rightarrow> bool \<Rightarrow> 'w mtk_charger \<Rightarrow> 'w mtk_charger" where
  "pp_state i en forced m =
    m\<lparr>enable_pp := (enable_pp m)(i := en), force_disable_pp := (force_disable_pp m)(i := forced)\<rparr>"

lemma pp_request_forced:
  "setting_dev E i = Some d \<Longrightarrow>
   mtk_charger_enable_power_path E i en (pp_state i en' True m) = (0, pp_state i en True m)"
  by (simp add: mtk_charger_enable_power_path_def pp_state_def)

lemma pp_requests_forced:
  "setting_dev E i = Some d \<Longrightarrow>
   pp_requests E i ens (pp_state i en True m) = pp_state i (last (en # ens)) True m"
  by (induction ens arbitrary: en) (simp_all add: pp_requests_def pp_request_forced)

lemma pp_force:
  "setting_dev E i = Some d \<Longrightarrow>
   snd (mtk_charger_force_disable_power_path E i (\<not> f) (pp_state i en f m))
    = run_dev (charger_dev_enable_powerpath (Some d) (f \<and> en)) (pp_state i en (\<not> f) m)"
  by (simp add: mtk_charger_force_disable_power_path_def pp_state_def run_dev_def case_prod_beta Let_def)

text \<open>C29: while the power path of a charger is forced off, requests to switch it reach no
  chip: they are recorded, and lifting the force makes exactly one class call, with
  the last of them.\<close>

theorem forced_power_path_replays_last:
  assumes "setting_dev E i = Some d" and "force_disable_pp m i"
  shows "pp_requests E i ens m = pp_state i (last (enable_pp m i # ens)) True m
    \<and> snd (mtk_charger_force_disable_power_path E i False (pp_requests E i ens m))
       = run_dev (charger_dev_enable_powerpath (Some d) (last (enable_pp m i # ens)))
           (pp_state i (last (enable_pp m i # ens)) False m)"
proof -
  have "m = pp_state i (enable_pp m i) True m"
    using assms(2) by (simp add: pp_state_def fun_upd_idem)
  then have "pp_requests E i ens m = pp_state i (last (enable_pp m i # ens)) True m"
    using pp_requests_forced [OF assms(1), of ens "enable_pp m i" m] by simp
  then show ?thesis
    using pp_force [OF assms(1), where f = True] by simp
qed

definition forced_core :: "((u8 \<Rightarrow> u8) sgm4154x_device \<times> phone) mtk_charger" where
  "forced_core = demo_core\<lparr>force_disable_pp := (\<lambda>_. True)\<rparr>"

lemma forced_power_path_replays_last_witness:
  "\<not> enable_pp (pp_requests (phone_core plain_bus 0) CHG1_SETTING [True, True, False] forced_core) CHG1_SETTING"
proof -
  have "setting_dev (phone_core plain_bus 0) CHG1_SETTING = Some (sgm_charger plain_bus)"
    by (simp add: setting_dev_def phone_core_def get_charger_by_name_def sgm_charger_def
        charger_match_device_by_name_def)
  from forced_power_path_replays_last [OF this, of forced_core "[True, True, False]"]
  show ?thesis by (simp add: forced_core_def pp_state_def)
qed

section \<open>The window of smart charging\<close>

text \<open>C34: for times of a day, the time left is within the day; when some is left, adding it to the
  current time gives the end of the window, today or tomorrow, and the current time
  lies in the window.\<close>

theorem left_time_reaches_end:
  assumes "0 \<le> s" "s < 86400" "0 \<le> e" "e < 86400" "0 \<le> now" "now < 86400"
  shows "0 \<le> sc_get_left_time s e now \<and> sc_get_left_time s e now < 86400
    \<and> (sc_get_left_time s e now > 0 \<longrightarrow> (now + sc_get_left_time s e now) mod 86400 = e)
    \<and> (sc_get_left_time s e now > 0 \<longleftrightarrow> (if s \<le> e then s \<le> now \<and> now < e else s \<le> now \<or> now < e))"
  using assms by (auto simp: sc_get_left_time_def)

lemma left_time_reaches_end_witness:
  "(82800 + sc_get_left_time 79200 21600 82800) mod 86400 = 21600"
  using left_time_reaches_end [of 79200 21600 82800] by (simp add: sc_get_left_time_def)

end
