(* ===== verification/Mtk_Power.thy ===== *)
theory Mtk_Power
  imports Mtk_Phone Mtk_Frame
begin

text \<open>
  Powering off in kernel power-off charging, the alarm across a suspend, and the adapter
  state the core hands to the charger.
\<close>

section \<open>Power off\<close>

definition power_offs :: "'w mtk_charger \<Rightarrow> nat" where
  "power_offs m = length (filter (\<lambda>c. c = kernel_power_off) (mtk_log m))"

lemma power_offs_logs [simp]: "power_offs (mtk_logs c m) = power_offs m + (if c = kernel_power_off then 1 else 0)"
  by (simp add: power_offs_def mtk_logs_def)

lemma power_offs_outside [simp]: "power_offs (m\<lparr>outside := w\<rparr>) = power_offs m"
  by (simp add: power_offs_def)

lemma power_offs_runtime [simp]: "power_offs (set_runtime f m) = power_offs m"
  by (simp add: power_offs_def set_runtime_def)

lemma power_offs_chgstat [simp]: "power_offs (snd (mtk_chgstat_notify E m)) = power_offs m"
proof -
  have "power_offs (m'\<lparr>pre_notify_code := c\<rparr>) = power_offs m'" for m' :: "'a mtk_charger" and c
    by (simp add: power_offs_def)
  then show ?thesis by (simp add: mtk_chgstat_notify_def)
qed

lemma power_offs_uevent [simp]: "power_offs (charger_send_kpoc_uevent E now m) = power_offs m"
  by (simp add: charger_send_kpoc_uevent_def split: option.split)

text \<open>The rounds of the loop that find the phone awake.\<close>

definition awake_rounds :: "(nat \<Rightarrow> bool) \<Rightarrow> nat \<Rightarrow> nat" where
  "awake_rounds susp from = length (filter (\<lambda>n. \<not> susp n) [from..<KPOC_ROUNDS])"

lemma power_off_loop_count:
  "power_offs (power_off_loop susp n m) = power_offs m + awake_rounds susp n + 1"
proof (induction susp n m rule: power_off_loop.induct)
  case (1 susp n m)
  show ?case
  proof (cases "n < KPOC_ROUNDS")
    case True
    then have "awake_rounds susp n = (if susp n then 0 else 1) + awake_rounds susp (Suc n)"
      by (simp add: awake_rounds_def upt_conv_Cons)
    then show ?thesis
      using 1 True by (subst power_off_loop.simps) simp
  next
    case False
    then show ?thesis
      by (subst power_off_loop.simps) (simp add: awake_rounds_def)
  qed
qed

text \<open>The supply is gone: no voltage, and no charger type.\<close>

definition unplugged :: "'w mtk_env \<Rightarrow> 'w \<Rightarrow> bool" where
  "unplugged E w \<longleftrightarrow> 0 \<le> get_vbus_mV E w \<and> get_vbus_mV E w < 2500
     \<and> get_charger_type E w = POWER_SUPPLY_TYPE_UNKNOWN"

lemma look_unplugged:
  "unplugged E (outside m) \<Longrightarrow> chr_type m = POWER_SUPPLY_TYPE_UNKNOWN \<Longrightarrow>
   vbus_gone E m \<and> mtk_is_charger_on E m = (False, m)"
  by (simp add: unplugged_def vbus_gone_def mtk_is_charger_on_def)

text \<open>C8: in kernel power-off charging, with the unplugging already handled and no reset of
  the adapter pending, a supply that is still gone after three seconds powers the phone
  off: once for every round of the loop that finds it awake and once at its end, so at
  least once even when every round finds a suspend in progress.  In a normal boot the
  check does not power it off.\<close>

theorem kpoc_powers_off:
  assumes "chr_type m = POWER_SUPPLY_TYPE_UNKNOWN" "\<not> pd_reset m"
    and "unplugged E (outside m)" "unplugged E (later (outside m))"
  shows "power_offs (kpoc_power_off_check E later susp now m)
    = power_offs m + (if kpoc m then awake_rounds susp 0 + 1 else 0)"
proof -
  let ?m = "m\<lparr>outside := later (outside m)\<rparr>"
  have first: "vbus_gone E m \<and> mtk_is_charger_on E m = (False, m)"
    by (rule look_unplugged [OF assms(3,1)])
  have second: "vbus_gone E ?m \<and> mtk_is_charger_on E ?m = (False, ?m)"
    by (rule look_unplugged) (simp_all add: assms)
  show ?thesis
    using first second assms(2)
    by (simp add: kpoc_power_off_check_def power_off_loop_count)
qed

definition kpoc_core :: "((u8 \<Rightarrow> u8) sgm4154x_device \<times> phone) mtk_charger" where
  "kpoc_core = demo_core\<lparr>bootmode := 8,
     outside := (demo_device, phone0\<lparr>ph_vbus_mV := 0, ph_supply := POWER_SUPPLY_TYPE_UNKNOWN\<rparr>)\<rparr>"

lemma kpoc_powers_off_witness:
  "power_offs (kpoc_power_off_check (phone_core plain_bus 0) (\<lambda>w. w) (\<lambda>n. True) 0 kpoc_core) = 1"
  by (subst kpoc_powers_off)
    (simp_all add: kpoc_core_def demo_core_def core0_def unplugged_def phone_core_def kpoc_def
      awake_rounds_def power_offs_def)

section \<open>The alarm\<close>

text \<open>C35: an alarm that goes off while the phone suspends is not lost: when the phone resumes at
  or after the time it was set for, the thread is woken - unless the alarm was set at a
  whole second, which the resume takes for no alarm.  The wake lock is held either way.\<close>

theorem alarm_survives_suspend:
  assumes "0 \<le> s" "timespec_le (s + CHARGING_INTERVAL, ns) now"
  shows "charger_thread_timeout (charger_pm_event PM_POST_SUSPEND now
      (mtk_charger_alarm_timer_func (charger_pm_event PM_SUSPEND_PREPARE t
        (mtk_charger_start_timer False (s, ns) m))))
    = (charger_thread_timeout m \<or> ns \<noteq> 0)
    \<and> wakelock_active (charger_pm_event PM_POST_SUSPEND now
      (mtk_charger_alarm_timer_func (charger_pm_event PM_SUSPEND_PREPARE t
        (mtk_charger_start_timer False (s, ns) m))))"
  using assms
  by (simp add: charger_pm_event_def mtk_charger_alarm_timer_func_def mtk_charger_start_timer_def
      set_runtime_def wake_def wake_up_charger_def mtk_logs_def CHARGING_INTERVAL_def Let_def)

lemma alarm_survives_suspend_witness:
  "charger_thread_timeout (charger_pm_event PM_POST_SUSPEND (120, 7)
      (mtk_charger_alarm_timer_func (charger_pm_event PM_SUSPEND_PREPARE (103, 0)
        (mtk_charger_start_timer False (100, 5) demo_core))))"
  by (subst conjunct1 [OF alarm_survives_suspend]) (simp_all add: timespec_le_def CHARGING_INTERVAL_def)

section \<open>The adapter\<close>

lemma chg1_adapter_step [simp]: "chg1_dev (snd (adapter_event_step E dt ev i m)) = chg1_dev m"
proof -
  have w: "chg1_dev (wake m') = chg1_dev m'" for m' :: "'a mtk_charger"
    by (simp add: wake_def wake_up_charger_def mtk_logs_def Let_def)
  have f: "chg1_dev (snd (mtk_charger_force_disable_power_path E CHG1_SETTING True m')) = chg1_dev m'"
    for m'
    by (auto simp: mtk_charger_force_disable_power_path_def on_dev_def case_prod_beta Let_def
        split: option.split)
  show ?thesis
    by (auto simp: adapter_event_step_def set_ta_status_def water_event_def sink_vbus_event_def
        mtk_chgstat_notify_def raise_status_def clear_status_def mtk_logs_def w f Let_def
        split: adapter_event.split)
qed

text \<open>C36: on the SGM4154x every notification of an adapter is handled to its end, and leaves the
  charger with the adapter type of the power delivery state the core then holds.\<close>

theorem adapter_state_reaches_chip:
  assumes "chg1_dev m = Some (sgm_charger B)"
  shows "\<exists>m'. notify_adapter_event E dt ev i m = Some m'
    \<and> pd_adapter (fst (outside m')) = get_pd_adapter (ta_status (adapter m') PD)"
proof -
  define m1 where "m1 = snd (adapter_event_step E dt ev i
    (m\<lparr>adapter := (adapter m)\<lparr>ta_hardreset := False\<rparr>\<rparr>))"
  let ?pd = "get_pd_adapter (ta_status (adapter m1) PD)"
  have d: "chg1_dev m1 = Some (sgm_charger B)"
    using assms by (simp add: m1_def)
  have "outside (run_dev (charger_dev_set_pd_adapter (chg1_dev m1) ?pd) m1)
      = ((fst (outside m1))\<lparr>pd_adapter := ?pd\<rparr>, snd (outside m1))"
    by (simp add: run_dev_eq d charger_dev_set_pd_adapter_def class_call_def sgm_charger_def
        sgm4154x_class_ops_def beside_def plain_result_def sgm4154x_pd_adapter_def)
  then show ?thesis
    by (simp add: notify_adapter_event_def case_prod_beta Let_def m1_def [symmetric] assms
        sgm_charger_def mtk_logs_def run_dev_eq)
qed

lemma adapter_state_reaches_chip_witness:
  "\<exists>m'. notify_adapter_event (phone_core plain_bus 0) (\<lambda>w. w) (TA_EVENT TA_ATTACH) PD demo_core = Some m'
    \<and> pd_adapter (fst (outside m')) = get_pd_adapter (ta_status (adapter m') PD)"
  by (rule adapter_state_reaches_chip) (simp add: demo_core_def core0_def)

end
