(* ===== verification/Mtk_Pass.thy ===== *)
theory Mtk_Pass
  imports Mtk_Safety Mtk_Frame
begin

text \<open>
  One pass of the charger thread keeps the battery within its temperature limits: the
  limits of the board and the temperature that the pass has read are what its status check
  decides by, and nothing after the check allows charging again.
\<close>

section \<open>What a pass keeps\<close>

text \<open>The data the temperature decision rests on, and the boot mode.\<close>

definition safety_of ::
  "'w mtk_charger \<Rightarrow> bool \<times> charger_custom_data \<times> thermal_protection \<times> int \<times> int" where
  "safety_of m = (enable_sw_jeita m, custom m, thermal m, battery_temp m, bootmode m)"

lemma temperature_ok_safety: "safety_of m' = safety_of m \<Longrightarrow> temperature_ok m' = temperature_ok m"
  by (simp add: safety_of_def temperature_ok_def)

lemma kpoc_safety: "safety_of m' = safety_of m \<Longrightarrow> kpoc m' = kpoc m"
  by (simp add: safety_of_def kpoc_def)

lemma safety_fields [simp]:
  "safety_of (m\<lparr>outside := w\<rparr>) = safety_of m"
  "safety_of (m\<lparr>sc := s\<rparr>) = safety_of m"
  "safety_of (m\<lparr>protection_dischg := b\<rparr>) = safety_of m"
  "safety_of (m\<lparr>is_bypass_charging_phase := b\<rparr>) = safety_of m"
  "safety_of (m\<lparr>adapter := a\<rparr>) = safety_of m"
  "safety_of (m\<lparr>power_path_en := b\<rparr>) = safety_of m"
  "safety_of (m\<lparr>cable_out_cnt := n\<rparr>) = safety_of m"
  "safety_of (m\<lparr>chr_type := t, mt_usb_type := u\<rparr>) = safety_of m"
  "safety_of (m\<lparr>wakelock_active := b\<rparr>) = safety_of m"
  "safety_of (m\<lparr>charger_thread_timeout := b\<rparr>) = safety_of m"
  "safety_of (m\<lparr>can_charging := b\<rparr>) = safety_of m"
  "safety_of (m\<lparr>is_charging := b\<rparr>) = safety_of m"
  by (simp_all add: safety_of_def)

lemma safety_ops [simp]:
  "safety_of (run_dev f m) = safety_of m"
  "safety_of (snd (snd (on_dev f m))) = safety_of m"
  "safety_of (mtk_logs c m) = safety_of m"
  "safety_of (set_runtime g m) = safety_of m"
  "safety_of (set_sc a b c' m) = safety_of m"
  by (simp_all add: run_dev_eq on_dev_def case_prod_beta Let_def mtk_logs_def set_runtime_def
      set_sc_def safety_of_def)

lemma can_charging_ops [simp]:
  "can_charging (run_dev f m) = can_charging m"
  "can_charging (snd (snd (on_dev f m))) = can_charging m"
  "can_charging (mtk_logs c m) = can_charging m"
  "can_charging (set_runtime g m) = can_charging m"
  "can_charging (set_sc a b c' m) = can_charging m"
  by (simp_all add: run_dev_eq on_dev_def case_prod_beta Let_def mtk_logs_def set_runtime_def
      set_sc_def)

lemma force_keeps_safety [simp]:
  "safety_of (force_power_path_off E b m) = safety_of m"
  "can_charging (force_power_path_off E b m) = can_charging m"
  by (auto simp: force_power_path_off_def mtk_charger_force_disable_power_path_def on_dev_def
      safety_of_def case_prod_beta Let_def split: option.splits)

section \<open>The thread and the code it calls\<close>

text \<open>The algorithm, the adapter code, the enable routine and the adapter arbitration do not
  change the limits, the temperature, the boot mode or the permission to charge.\<close>

locale thread_core =
  fixes E :: "'w mtk_env" and P :: "'w pass_env"
  assumes algorithm_safe: "do_algorithm E = Some f \<Longrightarrow>
      safety_of (f m) = safety_of m \<and> can_charging (f m) = can_charging m"
    and adapter_safe: "safety_of (adapter_protocol_init E m) = safety_of m"
    and enable_safe: "enable_charging E = Some g \<Longrightarrow> bootmode (snd (g en m)) = bootmode m"
    and arbitration_safe: "bootmode (mtk_check_ta_status P m) = bootmode m
      \<and> can_charging (mtk_check_ta_status P m) = can_charging m"
begin

lemma algorithm_keeps_safety [simp]:
  "safety_of (run_algorithm E m) = safety_of m" "can_charging (run_algorithm E m) = can_charging m"
  using algorithm_safe by (auto simp: run_algorithm_def split: option.splits)

lemmas sc_safety_defs = sc_suspend_input_def sc_protection_def sc_protection_switch_def
  sc_protection_eu_def sc_resume_def stop_and_discharge_def chg1_enable_def chg1_event_def

lemma smart_keeps_safety [simp]:
  "safety_of (snd (smart_charging E m)) = safety_of m"
proof -
  have "safety_of (snd (sc_decide E pct s s_eu c u m')) = safety_of m'" for pct s s_eu c u m'
    by (simp add: sc_decide_def sc_safety_defs case_prod_beta Let_def)
  then show ?thesis by (simp add: smart_charging_def case_prod_beta Let_def)
qed

lemma smart_keeps_permission [simp]:
  "can_charging (snd (smart_charging E m)) = can_charging m"
proof -
  have "can_charging (snd (sc_decide E pct s s_eu c u m')) = can_charging m'" for pct s s_eu c u m'
    by (simp add: sc_decide_def sc_safety_defs case_prod_beta Let_def)
  then show ?thesis by (simp add: smart_charging_def case_prod_beta Let_def)
qed

lemma plug_in_keeps_safety [simp]: "safety_of (mtk_charger_plug_in E t m) = safety_of m"
proof -
  have "safety_of (plug_in_announce E m') = safety_of m'" for m'
    by (simp add: plug_in_announce_def Let_def)
  then show ?thesis by (simp add: mtk_charger_plug_in_def Let_def) (simp add: safety_of_def)
qed

lemma plug_out_keeps_safety [simp]: "safety_of (mtk_charger_plug_out E m) = safety_of m"
  by (simp add: mtk_charger_plug_out_def adapter_safe Let_def) (simp add: safety_of_def)

lemma charger_on_keeps_safety [simp]: "safety_of (snd (mtk_is_charger_on E m)) = safety_of m"
  by (simp add: mtk_is_charger_on_def Let_def)

lemma mivr_keeps_safety [simp]: "safety_of (check_dynamic_mivr E m) = safety_of m"
  by (simp add: check_dynamic_mivr_def Let_def)

lemma timer_keeps_safety [simp]: "safety_of (mtk_charger_start_timer cb now m) = safety_of m"
  by (simp add: mtk_charger_start_timer_def)

lemma status_check_keeps [simp]:
  "can_charging (charger_status_check m) = can_charging m"
  by (simp add: charger_status_check_def case_prod_beta Let_def)

lemma decide_keeps_permission [simp]:
  "can_charging (charger_thread_decide ext E on m) = can_charging m"
  by (simp add: charger_thread_decide_def Let_def)

lemma pass_end_keeps [simp]: "can_charging (pass_end P m) = can_charging m"
  by (simp add: pass_end_def case_prod_beta Let_def)

lemma pass_begin_safety:
  "safety_of (pass_begin P m) = safety_of (m\<lparr>battery_temp := get_battery_temperature P (outside m)\<rparr>)"
  by (simp add: pass_begin_def Let_def) (simp add: safety_of_def mtk_logs_def)

end

text \<open>The boot mode through the status check.\<close>

lemma bootmode_chgstat [simp]: "bootmode (snd (mtk_chgstat_notify E m)) = bootmode m"
  by (simp add: mtk_chgstat_notify_def mtk_logs_def)

lemma bootmode_bits [simp]:
  "bootmode (raise_status b m) = bootmode m" "bootmode (clear_status b m) = bootmode m"
  "bootmode (raise_and_notify E b m) = bootmode m"
  by (simp_all add: raise_and_notify_def) (simp_all add: raise_status_def clear_status_def)

lemma bootmode_notify [simp]: "bootmode (mtk_battery_notify_check E m) = bootmode m"
  by (simp add: mtk_battery_notify_check_def mtk_battery_notify_VCharger_check_def
      mtk_battery_notify_VBatTemp_check_def mtk_battery_notify_VChargerDPDM_check_def
      mtk_battery_notify_UI_test_def case_prod_beta Let_def split: option.split)

lemma bootmode_read_junction [simp]:
  "bootmode (snd (snd (read_junction i f x))) = bootmode (snd (snd x))"
  by (cases x) (simp add: read_junction_def set_junction_def on_dev_def case_prod_beta Let_def)

lemma bootmode_read_dv [simp]:
  "bootmode (snd (snd (read_dv_junction i x))) = bootmode (snd (snd x))"
  by (simp add: read_dv_junction_def Let_def)

lemma bootmode_tchg [simp]: "bootmode (mtk_chg_get_tchg m) = bootmode m"
  by (simp add: mtk_chg_get_tchg_def Let_def)

lemma bootmode_temperature [simp]: "bootmode (snd (temperature_stage m)) = bootmode m"
  by (simp add: temperature_stage_def do_sw_jeita_state_machine_def case_prod_beta Let_def)

context thread_core begin

lemma smart_keeps_boot [simp]: "bootmode (snd (smart_charging E m)) = bootmode m"
  using smart_keeps_safety [of m] by (simp add: safety_of_def)

lemma check_keeps_boot [simp]: "bootmode (charger_check_status E m) = bootmode m"
proof -
  have "bootmode (snd (permission_stage E m')) = bootmode m'" for m'
    by (simp add: permission_stage_def case_prod_beta Let_def)
  moreover have "bootmode (snd (mtk_enable_charging E en m')) = bootmode m'" for en m'
    using enable_safe by (simp add: mtk_enable_charging_def split: option.split)
  moreover have "bootmode (snd (snd (on_dev f m'))) = bootmode m'" for f and m' :: "'w mtk_charger"
    by (simp add: on_dev_def case_prod_beta Let_def)
  ultimately show ?thesis by (simp add: charger_check_status_def case_prod_beta Let_def)
qed

text \<open>Outside kernel power-off charging the permission of a pass is the one its status check
  gives.\<close>

lemma pass_checks_permission:
  "\<not> kpoc m \<Longrightarrow> can_charging (pass_checks E P m)
    = can_charging (charger_check_status E (check_dynamic_mivr E
        (if charger_thread_polling m
         then mtk_charger_start_timer (alarm_callback_running P) (boot_time P) m else m)))"
proof -
  assume k: "\<not> kpoc m"
  let ?m = "if charger_thread_polling m
    then mtk_charger_start_timer (alarm_callback_running P) (boot_time P) m else m"
  have "safety_of (check_dynamic_mivr E ?m) = safety_of m" by simp
  then have "bootmode (check_dynamic_mivr E ?m) = bootmode m" by (simp add: safety_of_def)
  then have "\<not> kpoc (mtk_check_ta_status P (charger_check_status E (check_dynamic_mivr E ?m)))"
    using k arbitration_safe by (simp add: kpoc_def)
  then show ?thesis
    using arbitration_safe by (simp add: pass_checks_def kpoc_power_off_check_def Let_def)
qed

lemma pass_temperature:
  assumes "\<And>w. get_charger_type E w \<noteq> POWER_SUPPLY_TYPE_UNKNOWN" and "\<not> kpoc m"
    and "temp_t0_thres (custom m) \<le> temp_t1_thres (custom m)"
    "temp_t1_thres (custom m) \<le> temp_t2_thres (custom m)"
    "temp_t2_thres (custom m) \<le> temp_t3_thres (custom m)"
    and "can_charging (charger_routine_pass E P m)"
  shows "temperature_ok (m\<lparr>battery_temp := get_battery_temperature P (outside m)\<rparr>)"
proof -
  let ?m = "m\<lparr>battery_temp := get_battery_temperature P (outside m)\<rparr>"
  define m1 where "m1 = snd (mtk_is_charger_on E (pass_begin P m))"
  let ?m2 = "check_dynamic_mivr E (if charger_thread_polling m1
    then mtk_charger_start_timer (alarm_callback_running P) (boot_time P) m1 else m1)"
  have s1: "safety_of m1 = safety_of ?m" by (simp add: m1_def pass_begin_safety)
  then have s2: "safety_of ?m2 = safety_of ?m" by simp
  have "\<not> kpoc m1" using kpoc_safety [OF s1] assms(2) by (simp add: kpoc_def)
  then have "can_charging (charger_check_status E ?m2)"
    using assms(6) pass_checks_permission [of m1]
    by (simp add: charger_routine_pass_def case_prod_beta Let_def m1_def)
  moreover have "custom ?m2 = custom m" using s2 by (simp add: safety_of_def)
  ultimately have "temperature_ok ?m2"
    using assms(1,3-5) by (intro check_within_temperature [of _ E]) simp_all
  then show ?thesis by (simp only: temperature_ok_safety [OF s2])
qed

end


text \<open>The phone with a wall supply that stays, and a pass in which nothing else happens.\<close>

definition quiet_pass :: "int \<Rightarrow> 'w pass_env" where
  "quiet_pass t = \<lparr>get_battery_temperature = (\<lambda>_. t), mtk_check_ta_status = (\<lambda>m. m),
     alarm_callback_running = False, boot_time = (100, 5), monotonic_seconds = 100,
     real_time_ms = 100000, after_three_seconds = (\<lambda>w. w), suspended_in_round = (\<lambda>_. False),
     power_ext = False\<rparr>"

definition wall_core ::
  "('w, 'e) smbus_ops_scheme \<Rightarrow> u32 \<Rightarrow> ('w sgm4154x_device \<times> phone) mtk_env" where
  "wall_core B uA = (phone_core B uA)\<lparr>get_charger_type := (\<lambda>_. POWER_SUPPLY_TYPE_USB_DCP)\<rparr>"

lemma run_dev_boot [simp]: "bootmode (run_dev f m) = bootmode m"
  by (simp add: run_dev_eq)

interpretation phone_pass: thread_core "phone_core B uA" "quiet_pass t" for B uA t
  by unfold_locales (auto simp: phone_core_def quiet_pass_def on_dev_def case_prod_beta Let_def)

interpretation wall_pass: thread_core "wall_core B uA" "quiet_pass t" for B uA t
  by unfold_locales
    (auto simp: wall_core_def phone_core_def quiet_pass_def on_dev_def case_prod_beta Let_def)

definition bare_core :: "((u8 \<Rightarrow> u8) sgm4154x_device \<times> phone) mtk_charger" where
  "bare_core = (core0 None (demo_device, phone0\<lparr>ph_bypass := None\<rparr>))
     \<lparr>chr_type := POWER_SUPPLY_TYPE_USB_DCP\<rparr>"

lemma bare_pass_charges: "can_charging (charger_routine_pass (wall_core plain_bus 0) (quiet_pass 25) bare_core)"
proof -
  define m1 where "m1 = snd (mtk_is_charger_on (wall_core plain_bus 0) (pass_begin (quiet_pass 25) bare_core))"
  have c: "class_call None r w = (- EOPNOTSUPP, [], w)" for r and w :: "(u8 \<Rightarrow> u8) sgm4154x_device \<times> phone"
    by (simp add: class_call_def)
  have m1: "m1 = mtk_logs stay_awake (bare_core\<lparr>wakelock_active := True,
      mt_usb_type := POWER_SUPPLY_USB_TYPE_DCP\<rparr>)"
    by (simp add: m1_def pass_begin_def mtk_is_charger_on_def quiet_pass_def wall_core_def
        phone_core_def phone0_def bare_core_def core0_def run_dev_eq charger_dev_get_adc_def
        charger_dev_get_constant_voltage_def c mtk_logs_def Let_def)
  have "\<not> kpoc m1" by (simp add: m1 mtk_logs_def kpoc_def bare_core_def core0_def)
  moreover have "can_charging (charger_check_status (wall_core plain_bus 0)
      (check_dynamic_mivr (wall_core plain_bus 0) m1))"
    by (rule bare_check_charges)
      (simp_all add: m1 mtk_logs_def bare_core_def core0_def bare_def check_dynamic_mivr_def
        temperature_ok_def wall_core_def phone_core_def phone0_def mtk_chg_check_vbus_def
        custom0_def smartcharging0_def sc_init_def s32_def)
  moreover have "\<not> charger_thread_polling m1" by (simp add: m1 mtk_logs_def bare_core_def core0_def)
  ultimately show ?thesis
    using wall_pass.pass_checks_permission [where m = m1 and B = plain_bus and uA = 0 and t = 25]
    by (simp add: charger_routine_pass_def case_prod_beta Let_def m1_def)
qed


end
