(* ===== verification/Mtk_Setup.thy ===== *)
theory Mtk_Setup
  imports Mtk_Init Mtk_Safety Lenovo_Settings
begin

text \<open>
  What the core is set up with: the chargers it waits for, the limits of its device tree
  and their defaults, and what its files show after any writes.
\<close>

section \<open>Waiting for the chargers\<close>

text \<open>The names of the chargers that a configuration needs, with the place each is kept at.\<close>

definition slots ::
  "'w init_env \<Rightarrow> int \<Rightarrow> (string \<times> ('w mtk_charger \<Rightarrow> 'w charger_device option)) list" where
  "slots I c =
    (''primary_chg'', chg1_dev) #
    (if c = dual_chargers_in_series I then [(''secondary_chg'', chg2_dev)]
     else if c = divider_charger I \<or> c = dual_divider_chargers I then
       (''primary_dvchg'', \<lambda>m. dv_dev m DVCHG1_SETTING) #
       (if c = dual_divider_chargers I then [(''secondary_dvchg'', \<lambda>m. dv_dev m DVCHG2_SETTING)] else [])
     else if c = hvdivider_charger I \<or> c = dual_hvdivider_chargers I then
       (''hvdiv2_chg1'', \<lambda>m. dv_dev m HVDVCHG1_SETTING) #
       (if c = dual_hvdivider_chargers I then [(''hvdiv2_chg2'', \<lambda>m. dv_dev m HVDVCHG2_SETTING)] else [])
     else [])"

definition registered :: "'w mtk_env \<Rightarrow> string \<Rightarrow> 'w charger_device option" where
  "registered E name = get_charger_by_name (Some name) (class_devices E)"

definition all_registered :: "'w mtk_env \<times> 'w init_env \<Rightarrow> int \<Rightarrow> bool" where
  "all_registered W c = (case W of (E, I) \<Rightarrow> list_all (\<lambda>(name, _). registered E name \<noteq> None) (slots I c))"

definition all_bound :: "'w mtk_env \<times> 'w init_env \<Rightarrow> int \<Rightarrow> 'w mtk_charger \<Rightarrow> bool" where
  "all_bound W c m = (case W of (E, I) \<Rightarrow>
    list_all (\<lambda>(name, dev). dev m \<noteq> None \<and> dev m = registered E name) (slots I c))"

text \<open>Before the chargers are looked up, the configuration and the first charger are settled.\<close>

definition plan :: "'w mtk_charger \<Rightarrow> int \<times> 'w charger_device option" where
  "plan m = (config (board m), chg1_dev m)"

lemma plan_simps [simp]:
  "plan (m\<lparr>outside := w\<rparr>) = plan m" "plan (run_dev f m) = plan m"
  "plan (snd (snd (on_dev f m))) = plan m" "plan (set_runtime g m) = plan m"
  "plan (m\<lparr>cschg1_dev := d\<rparr>) = plan m" "plan (m\<lparr>board := (board m)\<lparr>cs_hw_disable := b\<rparr>\<rparr>) = plan m"
  by (simp_all add: plan_def run_dev_def on_dev_def set_runtime_def case_prod_beta Let_def)

lemma plan_init_selector [simp]: "plan (init_selector E m) = plan m"
  by (simp add: init_selector_def case_prod_beta Let_def)

lemma plan_init_alg [simp]: "plan (init_alg I i names m) = plan m"
  by (simp add: init_alg_def Let_def split: option.split)

lemma plan_init_algs [simp]: "plan (init_algs I m) = plan m"
proof -
  have "plan (fold (\<lambda>(i, names). init_alg I i names) xs m) = plan m" for xs
    by (induction xs arbitrary: m) auto
  then show ?thesis by (simp add: init_algs_def)
qed

text \<open>The place of a charger is not touched by what happens after the lookups.\<close>

definition devices :: "'w mtk_charger \<Rightarrow>
  'w charger_device option \<times> 'w charger_device option \<times> (chg_data_idx \<Rightarrow> 'w charger_device option)"
where "devices m = (chg1_dev m, chg2_dev m, dv_dev m)"

lemma slots_devices: "devices m = devices m' \<Longrightarrow> all_bound W c m = all_bound W c m'"
  by (cases W) (simp add: devices_def all_bound_def slots_def)

lemma devices_logs [simp]: "devices (mtk_logs c m) = devices m"
  by (simp add: devices_def mtk_logs_def)

lemma devices_register [simp]: "devices (register_handlers I m) = devices m"
  by (simp add: register_handlers_def)

lemma all_bound_register [simp]: "all_bound W c (register_handlers I m) = all_bound W c m"
  by (rule slots_devices) simp

lemma devices_run_dev [simp]: "devices (run_dev f m) = devices m"
  by (simp add: devices_def run_dev_def on_dev_def case_prod_beta)

lemma devices_board [simp]: "devices (m\<lparr>board := b\<rparr>) = devices m"
  by (simp add: devices_def)

lemma find_chargers_ok:
  assumes "chg1_dev m = registered E ''primary_chg''" "chg1_dev m \<noteq> None"
  shows "fst (find_chargers E I m) = all_registered (E, I) (config (board m))"
    and "fst (find_chargers E I m) \<Longrightarrow> all_bound (E, I) (config (board m)) (snd (find_chargers E I m))"
    and "plan (snd (find_chargers E I m)) = plan m"
  using assms
  by (auto simp: find_chargers_def find_chg2_def find_dvs_def find_dv_def all_registered_def
      all_bound_def slots_def registered_def plan_def Let_def split: if_splits)

lemma plan_register [simp]: "plan (register_handlers I m) = plan m"
  by (simp add: register_handlers_def plan_def mtk_logs_def)

lemma charger_init_algo_ok:
  "fst (charger_init_algo E I m) = all_registered (E, I) (config (board m))"
  "fst (charger_init_algo E I m) \<Longrightarrow> all_bound (E, I) (config (board m)) (snd (charger_init_algo E I m))"
  "config (board (snd (charger_init_algo E I m))) = config (board m)"
proof -
  define m1 where "m1 = m\<lparr>chg1_dev := registered E ''primary_chg''\<rparr>"
  define m2 where "m2 = init_algs I (init_selector E m1)"
  have plan: "config (board m2) = config (board m)" "chg1_dev m2 = registered E ''primary_chg''"
  proof -
    have "plan m2 = plan m1" by (simp add: m2_def)
    then show "config (board m2) = config (board m)" "chg1_dev m2 = registered E ''primary_chg''"
      by (simp_all add: plan_def m1_def)
  qed
  have algo: "charger_init_algo E I m =
    (if registered E ''primary_chg'' = None then (False, m1)
     else if fst (find_chargers E I m2) then (True, register_handlers I (snd (find_chargers E I m2)))
     else (False, snd (find_chargers E I m2)))"
    by (simp add: charger_init_algo_def m1_def m2_def registered_def case_prod_beta Let_def)
  note found = find_chargers_ok [of m2 E I, unfolded plan]
  show "fst (charger_init_algo E I m) = all_registered (E, I) (config (board m))"
    using found(1) by (auto simp: algo all_registered_def slots_def)
  show "config (board (snd (charger_init_algo E I m))) = config (board m)"
    using found(3) plan_register [of I "snd (find_chargers E I m2)"]
    by (auto simp: algo plan_def m1_def plan)
  show "all_bound (E, I) (config (board m)) (snd (charger_init_algo E I m))"
    if "fst (charger_init_algo E I m)"
    using that found(2) by (auto simp: algo split: if_splits)
qed

text \<open>C17: the thread leaves its first loop exactly when one of its attempts finds every
  charger that the configuration of the device tree needs registered.\<close>

theorem start_waits_for_chargers:
  "init_until ws m \<noteq> None \<longleftrightarrow> list_ex (\<lambda>W. all_registered W (config (board m))) ws"
proof (induction ws arbitrary: m)
  case (Cons W ws)
  obtain E I where W: "W = (E, I)" by (cases W)
  show ?case
    using Cons.IH [of "snd (charger_init_algo E I m)"] charger_init_algo_ok(1,3) [of E I m]
    by (cases "charger_init_algo E I m") (auto simp: W)
qed simp

text \<open>C18: when it leaves the loop, every charger that the configuration needs is at its
  place, and is the device registered under its name at the attempt that succeeded.\<close>

theorem start_binds_named_chargers:
  assumes "init_until ws m = Some m'"
  shows "list_ex (\<lambda>W. all_bound W (config (board m)) m') ws"
  using assms
proof (induction ws arbitrary: m)
  case (Cons W ws)
  obtain E I where W: "W = (E, I)" by (cases W)
  show ?case
    using Cons.IH [of "snd (charger_init_algo E I m)"] Cons.prems charger_init_algo_ok(2,3) [of E I m]
      slots_devices [of m' "snd (charger_init_algo E I m)" W "config (board m)"]
    by (cases "charger_init_algo E I m") (auto simp: W Let_def split: if_splits)
qed simp

definition single_board :: "'w init_env" where
  "single_board = \<lparr>dual_chargers_in_series = 1, divider_charger = 2, dual_divider_chargers = 3,
     hvdivider_charger = 4, dual_hvdivider_chargers = 5, chg_alg_registered = (\<lambda>_. False),
     chg_alg_init_algo = (\<lambda>_ _ w. w), algo_has_handler = (\<lambda>_. False)\<rparr>"

lemma start_binds_named_chargers_witness:
  "\<exists>m'. init_until [(phone_core plain_bus 0, single_board)] demo_core = Some m'
    \<and> chg1_dev m' = Some (sgm_charger plain_bus)"
proof -
  let ?W = "(phone_core plain_bus 0, single_board)"
  have c: "config (board demo_core) = 0" by (simp add: demo_core_def core0_def board0_def)
  have r: "registered (phone_core plain_bus 0) ''primary_chg'' = Some (sgm_charger plain_bus)"
    by (simp add: registered_def phone_core_def get_charger_by_name_def sgm_charger_def
        charger_match_device_by_name_def)
  have "fst (charger_init_algo (phone_core plain_bus 0) single_board demo_core)"
    by (simp add: charger_init_algo_ok(1) c all_registered_def slots_def single_board_def r)
  then have "init_until [?W] demo_core \<noteq> None"
    by (cases "charger_init_algo (phone_core plain_bus 0) single_board demo_core") (simp add: Let_def)
  then obtain m' where m': "init_until [?W] demo_core = Some m'" by blast
  from start_binds_named_chargers [OF this] have "chg1_dev m' = Some (sgm_charger plain_bus)"
    by (simp add: c all_bound_def slots_def r)
  with m' show ?thesis by blast
qed

section \<open>Limits from the device tree\<close>

text \<open>What the parser leaves in the custom data and the protection of the core: only the node
  decides, but for the fields the parser does not store.\<close>

lemma parsed_custom:
  obtains d where
    "custom (mtk_charger_parse_dt D np m) = parse_currents np (parse_jeita np (parse_voltages np d))"
  by (simp add: mtk_charger_parse_dt_def Let_def)

lemma parsed_thermal:
  obtains th where "thermal (mtk_charger_parse_dt D np m) = parse_thermal np th"
  by (simp add: mtk_charger_parse_dt_def Let_def)

lemma parse_currents_jeita [simp]:
  "jeita_cv (parse_currents np d) = jeita_cv d" "jeita_term (parse_currents np d) = jeita_term d"
  "jeita_recharge (parse_currents np d) = jeita_recharge d"
  "temp_t0_thres (parse_currents np d) = temp_t0_thres d"
  "temp_t4_thres (parse_currents np d) = temp_t4_thres d"
  by (simp_all add: parse_currents_def Let_def split: option.split)

lemma parsed_switches:
  "enable_sw_jeita (mtk_charger_parse_dt D np m) = dt_flag np (spellings ''enable_sw_jeita'')"
  by (simp add: mtk_charger_parse_dt_def parse_switches_def Let_def)

text \<open>The voltage of a JEITA range; below T0 the spelling with underscores is ignored.\<close>

lemma parse_jeita_cv_value:
  "parse_jeita_cv np f s =
    (if s = TEMP_BELOW_T0 then dt_int np [dashes (jeita_name s ''cv'')] (JEITA_CV s)
     else dt_int np (spellings (jeita_name s ''cv'')) (JEITA_CV s))"
  by (simp add: parse_jeita_cv_def dt_int_def Let_def split: option.split)

text \<open>The other values: the default of T2 to T3 that is stored at the wrong place is
  overwritten by the next range, so that only the range itself stays without a value.\<close>

lemma parse_jeita_range_value:
  "parse_jeita_range np what d f s =
    (if s = TEMP_T2_TO_T3 \<and> u32_prop np (jeita_name s what) = None then f s
     else dt_int np [jeita_name s what] d)"
  by (cases s) (simp_all add: parse_jeita_range_def store_jeita_def dt_int_def split: option.split)

text \<open>The voltage, termination current and recharge voltage that JEITA hands to the
  charging algorithm are those of the device tree for the range it is in, with the
  defaults; in the normal range they are 0.  Below T0 the voltage is only read under its
  second spelling.\<close>

theorem jeita_limits_from_tree:
  assumes "m = do_sw_jeita_state_machine (mtk_charger_parse_dt D np m0\<lparr>battery_temp := t\<rparr>)"
    and "s = jt_sm (sw_jeita m)"
  shows "(jt_cv (sw_jeita m), jt_iterm (sw_jeita m), jt_recharge_vol (sw_jeita m)) =
    (if s = TEMP_T2_TO_T3 then (0, 0, 0)
     else (dt_int np ((if s = TEMP_BELOW_T0 then tl else id) (spellings (jeita_name s ''cv''))) (JEITA_CV s),
           dt_int np [jeita_name s ''term''] ITERM,
           dt_int np [jeita_name s ''recharge''] RECHARGE_VOL))"
proof -
  let ?n = "mtk_charger_parse_dt D np m0"
  obtain d where d: "custom ?n = parse_currents np (parse_jeita np (parse_voltages np d))"
    by (rule parsed_custom)
  have field: "jeita_cv (custom ?n) r = parse_jeita_cv np (jeita_cv (parse_voltages np d)) r"
    "jeita_term (custom ?n) r = parse_jeita_range np ''term'' ITERM (jeita_term (parse_voltages np d)) r"
    "jeita_recharge (custom ?n) r
      = parse_jeita_range np ''recharge'' RECHARGE_VOL (jeita_recharge (parse_voltages np d)) r" for r
    by (simp_all add: d parse_jeita_def parse_thresholds_def)
  have m: "m = do_sw_jeita_state_machine (?n\<lparr>battery_temp := t\<rparr>)"
    "s = fst (jeita_step (custom ?n) t (jt_sm (sw_jeita ?n)))"
    by (simp_all add: assms jeita_machine_state)
  have "jt_cv (sw_jeita m) = (if s = TEMP_T2_TO_T3 then 0 else jeita_cv (custom ?n) s)"
    "jt_iterm (sw_jeita m) = (if s = TEMP_T2_TO_T3 then 0 else jeita_term (custom ?n) s)"
    "jt_recharge_vol (sw_jeita m) = (if s = TEMP_T2_TO_T3 then 0 else jeita_recharge (custom ?n) s)"
    by (simp_all add: m do_sw_jeita_state_machine_def case_prod_beta Let_def)
  then show ?thesis
    by (simp add: field parse_jeita_cv_value parse_jeita_range_value spellings_def)
qed

text \<open>Two device trees: one with a voltage below T0 under its first spelling, one that only
  switches JEITA on.\<close>

definition cold_tree :: dt_node where
  "cold_tree = \<lparr>u32_prop = (\<lambda>s. if s = ''jeita_temp_below_t0_cv'' then Some 3900000 else None),
     bool_prop = (\<lambda>_. False), string_prop = (\<lambda>_. None)\<rparr>"

definition plain_tree :: dt_node where
  "plain_tree = \<lparr>u32_prop = (\<lambda>_. None), bool_prop = (\<lambda>s. s = ''enable_sw_jeita''),
     string_prop = (\<lambda>_. None)\<rparr>"

definition plain_dt :: "'w dt_env" where
  "plain_dt = \<lparr>boot_tag = None, single_charger = 0, current_selector = None, cs_gpio = 0,
     mtk_basic_charger_init = id, mtk_pulse_charger_init = id\<rparr>"

lemma jeita_limits_from_tree_witness:
  "jt_cv (sw_jeita (do_sw_jeita_state_machine
     (mtk_charger_parse_dt plain_dt cold_tree demo_core\<lparr>battery_temp := - 5\<rparr>))) = 4040000"
proof -
  let ?n = "mtk_charger_parse_dt plain_dt cold_tree demo_core"
  have "jt_sm (sw_jeita (do_sw_jeita_state_machine (?n\<lparr>battery_temp := - 5\<rparr>))) = TEMP_BELOW_T0"
  proof -
    obtain d where "custom ?n = parse_currents cold_tree (parse_jeita cold_tree (parse_voltages cold_tree d))"
      by (rule parsed_custom)
    then show ?thesis
      by (simp add: jeita_machine_state jeita_step_def parse_jeita_def parse_thresholds_def
          parse_currents_def dt_int_def spellings_def dashes_def cold_tree_def)
  qed
  with jeita_limits_from_tree [OF refl refl, where D = plain_dt and np = cold_tree and ?m0.0 = demo_core and t = "- 5"] show ?thesis
    by (simp add: spellings_def dashes_def jeita_name_def state_name_def dt_int_def cold_tree_def
        JEITA_CV_def)
qed

text \<open>The properties that give the ends of the temperature range.\<close>

definition range_names :: "string list" where
  "range_names = concat (map spellings
    [''temp_t0_thres'', ''temp_t4_thres'', ''min_charge_temp'', ''max_charge_temp''])"

lemma absent_default: "list_all (\<lambda>s. u32_prop np s = None) ss \<Longrightarrow> dt_int np ss d = d"
  by (induction ss) (auto simp: dt_int_def)

text \<open>On a board whose device tree does not give the ends of the temperature range,
  charging is allowed from 0 to below 50 units under JEITA, and to below 500 without it,
  of the same reading, which the battery's file shows divided by ten.\<close>

theorem default_temperature_range:
  assumes "list_all (\<lambda>s. u32_prop np s = None) range_names"
  shows "temperature_ok ((mtk_charger_parse_dt D np m)\<lparr>battery_temp := t\<rparr>) =
      (if dt_flag np (spellings ''enable_sw_jeita'') then 0 \<le> t \<and> t < 50
       else t < 500 \<and> (dt_flag np (spellings ''enable_min_charge_temp'') \<longrightarrow> 0 \<le> t))
    \<and> battery_temp_show ((mtk_charger_parse_dt D np m)\<lparr>battery_temp := t\<rparr>) = fmt_d (t sdiv 10)"
proof -
  have "dt_int np (spellings s) d = d"
    if "s \<in> set [''temp_t0_thres'', ''temp_t4_thres'', ''min_charge_temp'', ''max_charge_temp'']" for s d
    using assms that by (intro absent_default) (auto simp: range_names_def list_all_iff)
  note default = this [simplified]
  let ?m = "mtk_charger_parse_dt D np m"
  obtain d where "custom ?m = parse_currents np (parse_jeita np (parse_voltages np d))"
    by (rule parsed_custom)
  then have "temp_t0_thres (custom ?m) = 0" "temp_t4_thres (custom ?m) = 50"
    by (simp_all add: parse_jeita_def parse_thresholds_def default)
  moreover obtain th where "thermal ?m = parse_thermal np th"
    by (rule parsed_thermal)
  then have "min_charge_temp (thermal ?m) = 0" "max_charge_temp (thermal ?m) = 500"
    "enable_min_charge_temp (thermal ?m) = dt_flag np (spellings ''enable_min_charge_temp'')"
    by (simp_all add: parse_thermal_def default MIN_CHARGE_TEMP_def MAX_CHARGE_TEMP_def)
  ultimately show ?thesis
    by (auto simp: temperature_ok_def parsed_switches battery_temp_show_def)
qed

lemma default_temperature_range_witness:
  "\<not> temperature_ok ((mtk_charger_parse_dt plain_dt plain_tree demo_core)\<lparr>battery_temp := 250\<rparr>)
    \<and> battery_temp_show ((mtk_charger_parse_dt plain_dt plain_tree demo_core)\<lparr>battery_temp := 250\<rparr>)
       = ''25'' @ [CHR 0x0A]"
proof -
  have "list_all (\<lambda>s. u32_prop plain_tree s = None) range_names"
    by (simp add: plain_tree_def list_all_iff)
  from default_temperature_range [OF this, where D = plain_dt and m = demo_core and t = 250] show ?thesis
    by (simp add: plain_tree_def dt_flag_def spellings_def fmt_d_def show_int_def show_nat.simps
        signed_divide_int_def char_of_def bit_Suc_0_iff)
qed

section \<open>Files\<close>

text \<open>The files that show what was written to them, and nothing else changes.  (The log level
  is also raised by two other files, the voltage threshold falls back to a value of the
  board, and the safety timer and the power path show the charger's answer.)\<close>

datatype core_file =
    F_sw_jeita | F_fast_chg_indicator | F_alg_new_arbitration | F_alg_unchangeable
  | F_enable_meta_current_limit | F_vbat_mon | F_input_current | F_BatteryNotify | F_set_cv
  | F_enable_sc | F_sc_stime | F_sc_etime | F_sc_tuisoc | F_sc_ibat_limit

definition text_of :: "int + string \<Rightarrow> string" where
  "text_of r = (case r of Inl _ \<Rightarrow> [] | Inr t \<Rightarrow> t)"

fun core_file_text :: "core_file \<Rightarrow> 'w mtk_charger \<Rightarrow> string" where
  "core_file_text F_sw_jeita m = sw_jeita_show m"
| "core_file_text F_fast_chg_indicator m = fast_chg_indicator_show m"
| "core_file_text F_alg_new_arbitration m = alg_new_arbitration_show m"
| "core_file_text F_alg_unchangeable m = alg_unchangeable_show m"
| "core_file_text F_enable_meta_current_limit m = enable_meta_current_limit_show m"
| "core_file_text F_vbat_mon m = vbat_mon_show m"
| "core_file_text F_input_current m = input_current_show m"
| "core_file_text F_BatteryNotify m = BatteryNotify_show m"
| "core_file_text F_set_cv m = mtk_chg_set_cv_show m"
| "core_file_text F_enable_sc m = text_of (enable_sc_show (Some m))"
| "core_file_text F_sc_stime m = text_of (sc_stime_show (Some m))"
| "core_file_text F_sc_etime m = text_of (sc_etime_show (Some m))"
| "core_file_text F_sc_tuisoc m = text_of (sc_tuisoc_show (Some m))"
| "core_file_text F_sc_ibat_limit m = text_of (sc_ibat_limit_show (Some m))"

text \<open>The file a write changes, and the number it shows afterwards: a switch keeps 0 or 1, the
  input current is not negative, the voltage is capped, and a number of smart charging
  is cut to 32 bits once negative ones were replaced by 0.\<close>

definition sc_effect :: "int option \<Rightarrow> nat \<Rightarrow> core_file \<Rightarrow> (int \<Rightarrow> int) \<Rightarrow> (core_file \<times> int) option" where
  "sc_effect v n f g = (if n = 0 then None else map_option (\<lambda>t. (f, g t)) v)"

fun write_effect :: "mtk_write \<Rightarrow> (core_file \<times> int) option" where
  "write_effect (W_sw_jeita v) = map_option (\<lambda>t. (F_sw_jeita, b2i (t \<noteq> 0))) v"
| "write_effect (W_fast_chg_indicator v) = map_option (\<lambda>t. (F_fast_chg_indicator, sint t)) v"
| "write_effect (W_alg_new_arbitration v) = map_option (\<lambda>t. (F_alg_new_arbitration, b2i (t \<noteq> 0))) v"
| "write_effect (W_alg_unchangeable v) = map_option (\<lambda>t. (F_alg_unchangeable, b2i (t \<noteq> 0))) v"
| "write_effect (W_enable_meta_current_limit v) = map_option (\<lambda>t. (F_enable_meta_current_limit, sint t)) v"
| "write_effect (W_vbat_mon v) = map_option (\<lambda>t. (F_vbat_mon, b2i (t \<noteq> 0))) v"
| "write_effect (W_input_current v) = map_option (\<lambda>t. (F_input_current, max 0 t)) v"
| "write_effect (W_BatteryNotify v n) = (case v of Inl _ \<Rightarrow> None | Inr c \<Rightarrow> Some (F_BatteryNotify, uint c))"
| "write_effect (W_set_cv v) = map_option (\<lambda>t. (F_set_cv, min BATTERY_CV (uint t))) v"
| "write_effect (W_enable_sc v n) = sc_effect v n F_enable_sc (\<lambda>t. b2i (t \<noteq> 0))"
| "write_effect (W_sc_stime v n) = sc_effect v n F_sc_stime (\<lambda>t. s32 (max 0 t))"
| "write_effect (W_sc_etime v n) = sc_effect v n F_sc_etime (\<lambda>t. s32 (max 0 t))"
| "write_effect (W_sc_tuisoc v n) = sc_effect v n F_sc_tuisoc (\<lambda>t. s32 (max 0 t))"
| "write_effect (W_sc_ibat_limit v n) = sc_effect v n F_sc_ibat_limit (\<lambda>t. s32 (max 0 t))"
| "write_effect _ = None"

definition shown_effect :: "mtk_write \<Rightarrow> (core_file \<times> string) option" where
  "shown_effect w = map_option (\<lambda>(f, v). (f, fmt_d v)) (write_effect w)"

text \<open>What all of these files read; the steps the writes share leave it alone.\<close>

definition shown :: "core_file \<Rightarrow> 'w mtk_charger \<Rightarrow> int" where
  "shown f m =
    (case f of
       F_sw_jeita \<Rightarrow> b2i (enable_sw_jeita m)
     | F_fast_chg_indicator \<Rightarrow> sint (fast_charging_indicator (runtime m))
     | F_alg_new_arbitration \<Rightarrow> b2i (alg_new_arbitration (board m))
     | F_alg_unchangeable \<Rightarrow> b2i (alg_unchangeable (board m))
     | F_enable_meta_current_limit \<Rightarrow> sint (enable_meta_current_limit (runtime m))
     | F_vbat_mon \<Rightarrow> b2i (enable_vbat_mon m)
     | F_input_current \<Rightarrow> thermal_input_current_limit (chg_data m CHG1_SETTING)
     | F_BatteryNotify \<Rightarrow> uint (notify_code m)
     | F_set_cv \<Rightarrow> battery_cv (custom m)
     | F_enable_sc \<Rightarrow> b2i (sc_enable (sc m))
     | F_sc_stime \<Rightarrow> start_time (sc m)
     | F_sc_etime \<Rightarrow> end_time (sc m)
     | F_sc_tuisoc \<Rightarrow> target_percentage (sc m)
     | F_sc_ibat_limit \<Rightarrow> current_limit (sc m))"

lemma core_file_text_shown: "core_file_text f m = fmt_d (shown f m)"
  by (cases f) (simp_all add: shown_def text_of_def sw_jeita_show_def fast_chg_indicator_show_def
      alg_new_arbitration_show_def alg_unchangeable_show_def enable_meta_current_limit_show_def
      vbat_mon_show_def input_current_show_def BatteryNotify_show_def mtk_chg_set_cv_show_def
      sc_show_def enable_sc_show_def sc_stime_show_def sc_etime_show_def sc_tuisoc_show_def
      sc_ibat_limit_show_def)

lemma shown_logs [simp]: "shown f (mtk_logs c m) = shown f m"
  by (simp add: shown_def mtk_logs_def cong: core_file.case_cong)

lemma shown_outside [simp]: "shown f (m\<lparr>outside := w\<rparr>) = shown f m"
  by (simp add: shown_def cong: core_file.case_cong)

lemma shown_run_dev [simp]: "shown f (run_dev g m) = shown f m"
  by (simp add: run_dev_def on_dev_def case_prod_beta)

lemma shown_wake [simp]: "shown f (wake m) = shown f m"
proof -
  have "shown f (m'\<lparr>wakelock_active := b\<rparr>) = shown f m'"
    "shown f (m'\<lparr>charger_thread_timeout := b\<rparr>) = shown f m'" for m' :: "'a mtk_charger" and b
    by (simp_all add: shown_def cong: core_file.case_cong)
  then show ?thesis by (simp add: wake_def wake_up_charger_def Let_def)
qed

lemma shown_chgstat [simp]: "shown f (snd (mtk_chgstat_notify E m)) = shown f m"
proof -
  have "shown f (m'\<lparr>pre_notify_code := c\<rparr>) = shown f m'" for m' :: "'a mtk_charger" and c
    by (simp add: shown_def cong: core_file.case_cong)
  then show ?thesis by (simp add: mtk_chgstat_notify_def)
qed

lemma shown_log_level [simp]: "shown f (set_runtime (\<lambda>r. r\<lparr>log_level := l\<rparr>) m) = shown f m"
  by (simp add: shown_def set_runtime_def cong: core_file.case_cong)

lemma shown_algo_log_level [simp]: "shown f (mtk_charger_set_algo_log_level l m) = shown f m"
proof -
  have "shown f (fold (\<lambda>a m. if a = None then m else mtk_logs (algo_log_level l) m) as m) = shown f m" for as
    by (induction as arbitrary: m) auto
  then show ?thesis by (simp add: mtk_charger_set_algo_log_level_def)
qed

lemma shown_debug_level [simp]: "shown f (debug_level m) = shown f m"
  by (simp add: debug_level_def)

lemmas writers = sw_jeita_store_def sw_ovp_threshold_store_def fast_chg_indicator_store_def
  alg_new_arbitration_store_def alg_unchangeable_store_def enable_meta_current_limit_store_def
  vbat_mon_store_def input_current_store_def charger_log_level_store_def BatteryNotify_store_def
  mtk_chg_set_cv_write_def mtk_chg_current_cmd_write_def mtk_chg_en_power_path_write_def
  mtk_chg_en_safety_timer_write_def on_core_def sc_store_def enable_sc_store_def sc_stime_store_def
  sc_etime_store_def sc_tuisoc_store_def sc_ibat_limit_store_def enable_power_path_store_def
  sc_effect_def sc_number_def max_def min_def

text \<open>The fields that are shown.\<close>

lemma shown_fields [simp]:
  "shown f (m\<lparr>enable_sw_jeita := b\<rparr>) = (if f = F_sw_jeita then b2i b else shown f m)"
  "shown f (m\<lparr>enable_vbat_mon := b\<rparr>) = (if f = F_vbat_mon then b2i b else shown f m)"
  "shown f (m\<lparr>notify_code := c\<rparr>) = (if f = F_BatteryNotify then uint c else shown f m)"
  "shown f (m\<lparr>usb_unlimited := b\<rparr>) = shown f m"
  "shown f (m\<lparr>cmd_discharging := b\<rparr>) = shown f m"
  by (cases f; simp add: shown_def)+

lemma shown_runtime [simp]:
  "shown f (set_runtime (\<lambda>r. r\<lparr>fast_charging_indicator := t\<rparr>) m)
    = (if f = F_fast_chg_indicator then sint t else shown f m)"
  "shown f (set_runtime (\<lambda>r. r\<lparr>enable_meta_current_limit := t\<rparr>) m)
    = (if f = F_enable_meta_current_limit then sint t else shown f m)"
  "shown f (set_runtime (\<lambda>r. r\<lparr>safety_timer_cmd := n\<rparr>) m) = shown f m"
  "shown f (set_runtime (\<lambda>r. r\<lparr>cmd_pp := n\<rparr>) m) = shown f m"
  by (cases f; simp add: shown_def set_runtime_def)+

lemma shown_board [simp]:
  "shown f (m\<lparr>board := (board m)\<lparr>alg_new_arbitration := b\<rparr>\<rparr>)
    = (if f = F_alg_new_arbitration then b2i b else shown f m)"
  "shown f (m\<lparr>board := (board m)\<lparr>alg_unchangeable := b\<rparr>\<rparr>)
    = (if f = F_alg_unchangeable then b2i b else shown f m)"
  "shown f (m\<lparr>board := (board m')\<lparr>enable_sw_safety_timer := b\<rparr>\<rparr>)
    = shown f (m\<lparr>board := board m'\<rparr>)"
  "shown f (m\<lparr>board := board m\<rparr>) = shown f m"
  by (cases f; simp add: shown_def)+

lemma shown_limits [simp]:
  "shown f (m\<lparr>custom := (custom m)\<lparr>max_charger_voltage := v\<rparr>\<rparr>) = shown f m"
  "shown f (m\<lparr>custom := (custom m)\<lparr>battery_cv := v\<rparr>\<rparr>) = (if f = F_set_cv then v else shown f m)"
  "shown f (m\<lparr>chg_data := (chg_data m)(CHG1_SETTING :=
      (chg_data m CHG1_SETTING)\<lparr>thermal_input_current_limit := v\<rparr>)\<rparr>)
    = (if f = F_input_current then v else shown f m)"
  by (cases f; simp add: shown_def)+

lemma shown_sc [simp]:
  "shown f (m\<lparr>sc := (sc m)\<lparr>sc_enable := b\<rparr>\<rparr>) = (if f = F_enable_sc then b2i b else shown f m)"
  "shown f (m\<lparr>sc := (sc m)\<lparr>start_time := v\<rparr>\<rparr>) = (if f = F_sc_stime then v else shown f m)"
  "shown f (m\<lparr>sc := (sc m)\<lparr>end_time := v\<rparr>\<rparr>) = (if f = F_sc_etime then v else shown f m)"
  "shown f (m\<lparr>sc := (sc m)\<lparr>target_percentage := v\<rparr>\<rparr>) = (if f = F_sc_tuisoc then v else shown f m)"
  "shown f (m\<lparr>sc := (sc m)\<lparr>current_limit := v\<rparr>\<rparr>) = (if f = F_sc_ibat_limit then v else shown f m)"
  by (cases f; simp add: shown_def)+

lemma shown_wakes [simp]: "shown f (the (wake_up_charger (Some m))) = shown f m"
  using shown_wake [of f m] by (simp add: wake_def)

text \<open>One write.\<close>

lemma shown_after_write:
  "shown f (write_mtk_file E g w m) =
    (case write_effect w of None \<Rightarrow> shown f m | Some (q, v) \<Rightarrow> if q = f then v else shown f m)"
  by (cases w) (auto simp: writers Let_def split: option.split sum.split prod.split)

text \<open>The files of the core are a log of writes.\<close>

interpretation core_files: write_log core_file_text "write_mtk_file E g" shown_effect "\<lambda>_. True" for E g
  by unfold_locales (simp add: core_file_text_shown shown_effect_def shown_after_write
      split: option.split)


end
