(* ===== verification/Mtk_Sysfs.thy ===== *)
theory Mtk_Sysfs
  imports Mtk_Smart Mtk_Files
begin

text \<open>
  The rest of the charger core's files: the adapter texts, the command line, the debug
  level, the time of day smart charging looks at, and the creation of the files.
\<close>

section \<open>Texts and values\<close>

text \<open>A type written as a number; \<open>of_code\<close> reads the kernel's numbering of the types.\<close>

definition chr_type_store :: "(int \<Rightarrow> psenum) \<Rightarrow> int option \<Rightarrow> 'w mtk_charger \<Rightarrow> 'w mtk_charger" where
  "chr_type_store of_code v m = (case v of None \<Rightarrow> m | Some n \<Rightarrow> m\<lparr>chr_type := of_code n\<rparr>)"

definition pd_type_show :: "cap_type \<Rightarrow> string" where
  "pd_type_show t = cap_type_name t @ [CHR 0x0A]"

text \<open>The record of thermal throttling, which other drivers keep, and the battery current.\<close>

definition Thermal_throttle_show :: "bool \<Rightarrow> string" where
  "Thermal_throttle_show thermal_throttle_record = fmt_d (b2i thermal_throttle_record)"

definition ADC_Charging_Current_show :: "('w \<Rightarrow> int) \<Rightarrow> 'w mtk_charger \<Rightarrow> string" where
  "ADC_Charging_Current_show get_battery_current m = fmt_d (get_battery_current (outside m))"

definition dump_charger_type :: "psenum \<Rightarrow> psenum \<Rightarrow> string" where
  "dump_charger_type chg usb =
    (case chg of
       POWER_SUPPLY_TYPE_UNKNOWN \<Rightarrow> ''none''
     | POWER_SUPPLY_TYPE_USB \<Rightarrow> if usb = POWER_SUPPLY_USB_TYPE_SDP then ''usb'' else ''nonstd''
     | POWER_SUPPLY_TYPE_USB_CDP \<Rightarrow> ''usb-h''
     | POWER_SUPPLY_TYPE_USB_DCP \<Rightarrow> ''std''
     | _ \<Rightarrow> ''unknown'')"

text \<open>The boot command line, kept once it was found: \<open>chosen\<close> is the node and its property.\<close>

definition chg_get_cmd :: "string option option \<Rightarrow> string \<Rightarrow> string" where
  "chg_get_cmd chosen kept =
    (if kept \<noteq> [] then kept
     else case chosen of Some (Some t) \<Rightarrow> t | _ \<Rightarrow> kept)"

text \<open>The level of the log, from the core when the master charger is registered; the static
  pointer to it is kept.\<close>

definition chr_get_debug_level ::
  "'w mtk_charger option option \<Rightarrow> 'w mtk_charger option \<Rightarrow> int \<times> 'w mtk_charger option" where
  "chr_get_debug_level psy info =
    (case info of
       Some m \<Rightarrow> (log_level (runtime m), info)
     | None \<Rightarrow>
         (case psy of
            None \<Rightarrow> (CHRLOG_DEBUG_LEVEL, None)
          | Some None \<Rightarrow> (CHRLOG_DEBUG_LEVEL, None)
          | Some (Some m) \<Rightarrow> (log_level (runtime m), Some m)))"

text \<open>Seconds since midnight at a local time \<open>minuteswest\<close> of UTC.\<close>

definition sc_get_sys_time :: "int \<Rightarrow> int \<Rightarrow> int" where
  "sc_get_sys_time tv_sec minuteswest =
    (let t = (tv_sec - minuteswest * 60) mod 86400; tm_hour = t div 3600; tm_min = t mod 3600 div 60;
         tm_sec = t mod 60
     in tm_sec + tm_min * 60 + tm_hour * 3600)"

section \<open>The creation of the files\<close>

definition device_files :: "string list" where
  "device_files =
    [''sw_jeita'', ''sw_ovp_threshold'', ''chr_type'', ''usb_type'', ''battery_temp'', ''battery_present'',
     ''battery_status'', ''enable_meta_current_limit'', ''fast_chg_indicator'', ''Charging_mode'', ''pd_type'',
     ''ta_type'', ''High_voltage_chg_enable'', ''Rust_detect'', ''Thermal_throttle'', ''alg_new_arbitration'',
     ''alg_unchangeable'', ''vbat_mon'', ''Pump_Express'', ''ADC_Charger_Voltage'', ''ADC_Charging_Current'',
     ''input_current'', ''charger_log_level'', ''BatteryNotify'', ''enable_sc'', ''sc_stime'', ''sc_etime'',
     ''sc_tuisoc'', ''sc_ibat_limit'', ''enable_power_path'']"

definition proc_files :: "string list" where
  "proc_files = [''current_cmd'', ''en_power_path'', ''en_safety_timer'', ''set_cv'']"

text \<open>One after the other until one fails; the result is the failure and the files there are.\<close>

fun create_files :: "(string \<Rightarrow> int) \<Rightarrow> string list \<Rightarrow> int \<times> string list" where
  "create_files creates [] = (0, [])"
| "create_files creates (f # fs) =
    (if creates f \<noteq> 0 then (creates f, [])
     else let (ret, made) = create_files creates fs in (ret, f # made))"

text \<open>A failure below \<open>/proc\<close> takes the directory away; the files of the device stay.\<close>

definition mtk_charger_setup_files ::
  "(string \<Rightarrow> int) \<Rightarrow> bool \<Rightarrow> (string \<Rightarrow> bool) \<Rightarrow> int \<times> string list \<times> string list option" where
  "mtk_charger_setup_files creates mkdir proc =
    (let (ret, made) = create_files creates device_files in
     if ret \<noteq> 0 then (ret, made, None)
     else if \<not> mkdir then (- ENOMEM, made, None)
     else
       let (ret, entries) = create_files (\<lambda>f. if proc f then 0 else - ENODEV) proc_files in
       if ret \<noteq> 0 then (ret, made, None) else (0, made, Some entries))"

section \<open>Properties\<close>

lemma create_files_result:
  "create_files creates fs = (ret, made) \<Longrightarrow>
   (ret = 0 \<longleftrightarrow> (\<forall>f \<in> set fs. creates f = 0)) \<and> (ret = 0 \<longrightarrow> made = fs)
   \<and> (ret \<noteq> 0 \<longrightarrow> (\<exists>f rest. fs = made @ f # rest \<and> creates f = ret))"
proof (induction fs arbitrary: ret made)
  case (Cons f fs)
  show ?case
  proof (cases "creates f = 0")
    case True
    then obtain made' where "create_files creates fs = (ret, made')" "made = f # made'"
      using Cons.prems by (auto split: prod.splits)
    then show ?thesis using Cons.IH [of ret made'] True by auto
  next
    case False
    then show ?thesis using Cons.prems by auto
  qed
qed auto

text \<open>Either everything is there, or the result is the first failure: then there is no directory
  under \<open>/proc\<close>, but the files of the device before it are left.\<close>

lemma setup_files_result:
  assumes "mtk_charger_setup_files creates mkdir proc = (ret, made, entries)"
  shows "(ret = 0 \<longleftrightarrow> (\<forall>f \<in> set device_files. creates f = 0) \<and> mkdir \<and> (\<forall>f \<in> set proc_files. proc f))
    \<and> (ret = 0 \<longrightarrow> made = device_files \<and> entries = Some proc_files) \<and> (ret \<noteq> 0 \<longrightarrow> entries = None)
    \<and> (\<exists>rest. device_files = made @ rest)"
proof -
  obtain r1 m1 where c1: "create_files creates device_files = (r1, m1)" by fastforce
  obtain r2 m2 where c2: "create_files (\<lambda>f. if proc f then 0 else - ENODEV) proc_files = (r2, m2)" by fastforce
  note R1 = create_files_result [OF c1] and R2 = create_files_result [OF c2]
  have e: "- ENODEV \<noteq> 0" "- ENOMEM \<noteq> 0" by (simp_all add: ENODEV_def ENOMEM_def)
  have "\<exists>rest. device_files = m1 @ rest" using R1 by (cases "r1 = 0") auto
  moreover have "(r2 = 0) = (\<forall>f \<in> set proc_files. proc f)" using R2 e(1) by auto
  ultimately show ?thesis
    using assms R1 R2 e(2)
    by (cases "r1 = 0"; cases mkdir; cases "r2 = 0") (fastforce simp: mtk_charger_setup_files_def c1 c2)+
qed

text \<open>The time of day is one for which the window of smart charging is computed.\<close>

lemma sys_time_is_time_of_day:
  "sc_get_sys_time t z = (t - z * 60) mod 86400" "0 \<le> sc_get_sys_time t z" "sc_get_sys_time t z < 86400"
proof -
  have "n mod 60 + n mod 3600 div 60 * 60 + n div 3600 * 3600 = n" for n :: int
  proof -
    have "n mod 3600 mod 60 = n mod 60" by (rule mod_mod_cancel) simp
    then have "n mod 3600 = n mod 3600 div 60 * 60 + n mod 60" using div_mult_mod_eq [of "n mod 3600" 60] by simp
    then show ?thesis using div_mult_mod_eq [of n 3600] by linarith
  qed
  then show v: "sc_get_sys_time t z = (t - z * 60) mod 86400" by (simp add: sc_get_sys_time_def Let_def)
  show "0 \<le> sc_get_sys_time t z" "sc_get_sys_time t z < 86400" unfolding v by simp_all
qed

end
