(* ===== verification/Lk_Logo.thy ===== *)
theory Lk_Logo
  imports Prelude
begin

text \<open>
  The pictures of the boot loader: the virtual battery drawn into the frame buffer, and
  finding a picture in the logo partition.
\<close>

section \<open>The screen\<close>

text \<open>The fields of \<open>LCM_SCREEN_T\<close> that are used.\<close>

datatype lcd_info = LCD_MAIN | LCD_EXT

record lcm_screen =
  scr_width :: u32
  scr_height :: u32
  fb_size :: u32
  allignWidth :: u32
  rotation :: int
  lcm :: lcd_info

record rect_region =
  left :: int
  top :: int
  right :: int
  bottom :: int

section \<open>The virtual battery\<close>

text \<open>The sizes of the three pictures; their bytes are parameters.\<close>

definition LOGO_WIDTH :: u32 where "LOGO_WIDTH = 174"
definition LOGO_HEIGHT :: u32 where "LOGO_HEIGHT = 442"
definition LOGO_WIDTH_EN :: u32 where "LOGO_WIDTH_EN = 50"
definition LOGO_HEIGHT_EN :: u32 where "LOGO_HEIGHT_EN = 1272"
definition LOGO_WIDTH_CN :: u32 where "LOGO_WIDTH_CN = 50"
definition LOGO_HEIGHT_CN :: u32 where "LOGO_HEIGHT_CN = 712"

named_theorems logo_sizes "the sizes of the pictures"
lemmas [logo_sizes] = LOGO_WIDTH_def LOGO_HEIGHT_def LOGO_WIDTH_EN_def LOGO_HEIGHT_EN_def
  LOGO_WIDTH_CN_def LOGO_HEIGHT_CN_def

text \<open>A picture is an array of bytes, four for a pixel: red, green, blue, alpha.\<close>

definition argb_pixel :: "(nat \<Rightarrow> u8) \<Rightarrow> nat \<Rightarrow> u32" where
  "argb_pixel pic i =
    (push_bit 24 (ucast (pic (4 * i + 3))) OR push_bit 16 (ucast (pic (4 * i)))
     OR push_bit 8 (ucast (pic (4 * i + 1))) OR ucast (pic (4 * i + 2)))"

text \<open>The index of a pixel of the frame buffer, computed unsigned and stored as an \<open>int\<close>.\<close>

definition dst_index :: "u32 \<Rightarrow> int \<Rightarrow> int \<Rightarrow> int" where
  "dst_index stride x y = s32 (y * uint stride + x)"

text \<open>The words beside the battery: drawn where they are on the screen.\<close>

definition word_x :: "int \<Rightarrow> u32 \<Rightarrow> int" where
  "word_x screen_w ww =
    s32 ((screen_w - uint ww) sdiv 2 - uint ((LOGO_WIDTH + ww) div 2) - 70)"

definition word_y :: "int \<Rightarrow> u32 \<Rightarrow> int" where
  "word_y screen_h hw = (screen_h - uint hw) sdiv 2"

definition draw_word ::
  "(nat \<Rightarrow> u8) \<Rightarrow> u32 \<Rightarrow> u32 \<Rightarrow> u32 \<Rightarrow> int \<Rightarrow> int \<Rightarrow> (int \<Rightarrow> u32) \<Rightarrow> int \<Rightarrow> u32" where
  "draw_word pic ww hw stride screen_w screen_h fb =
    (let sx = word_x screen_w ww; sy = word_y screen_h hw in
     fold (\<lambda>y. fold (\<lambda>x fb.
         let dx = sx + int x; dy = sy + int y in
         if 0 \<le> dx \<and> dx < screen_w \<and> 0 \<le> dy \<and> dy < screen_h
         then fb(dst_index stride dx dy := argb_pixel pic (y * unat ww + x)) else fb)
       [0..<unat ww]) [0..<unat hw] fb)"

definition display_hardcoded_logo_word ::
  "(nat \<Rightarrow> u8) \<Rightarrow> lcm_screen \<Rightarrow> int \<Rightarrow> int \<Rightarrow> (int \<Rightarrow> u32) \<Rightarrow> int \<Rightarrow> u32" where
  "display_hardcoded_logo_word pic s = draw_word pic LOGO_WIDTH_EN LOGO_HEIGHT_EN (allignWidth s)"

definition display_hardcoded_logo_word_cn ::
  "(nat \<Rightarrow> u8) \<Rightarrow> lcm_screen \<Rightarrow> int \<Rightarrow> int \<Rightarrow> (int \<Rightarrow> u32) \<Rightarrow> int \<Rightarrow> u32" where
  "display_hardcoded_logo_word_cn pic s = draw_word pic LOGO_WIDTH_CN LOGO_HEIGHT_CN (allignWidth s)"

text \<open>The battery in the middle, with unsigned differences and no test of the borders, and the
  English words.  The frame buffer is \<open>None\<close> when there is none.\<close>

definition display_hardcoded_logo ::
  "(nat \<Rightarrow> u8) \<Rightarrow> (nat \<Rightarrow> u8) \<Rightarrow> lcm_screen \<Rightarrow> (int \<Rightarrow> u32) option \<Rightarrow> (int \<Rightarrow> u32) option" where
  "display_hardcoded_logo logo words s addr =
    (case addr of
       None \<Rightarrow> None
     | Some fb \<Rightarrow>
         let sx = uint ((scr_width s - LOGO_WIDTH) div 2); sy = uint ((scr_height s - LOGO_HEIGHT) div 2);
             fb = fold (\<lambda>y. fold (\<lambda>x fb.
                 fb(dst_index (allignWidth s) (sx + int x) (sy + int y) :=
                    argb_pixel logo (y * unat LOGO_WIDTH + x)))
               [0..<unat LOGO_WIDTH]) [0..<unat LOGO_HEIGHT] fb
         in Some (display_hardcoded_logo_word words s (sint (scr_width s)) (sint (scr_height s)) fb))"

section \<open>What is drawn\<close>

text \<open>A picture painted at a place of the screen, with the part outside cut off.\<close>

definition painted ::
  "int \<Rightarrow> int \<Rightarrow> int \<Rightarrow> int \<Rightarrow> int \<Rightarrow> int \<Rightarrow> int \<Rightarrow> (nat \<Rightarrow> nat \<Rightarrow> u32) \<Rightarrow> (int \<Rightarrow> u32) \<Rightarrow> int \<Rightarrow> u32" where
  "painted stride w h sx sy pw ph f fb k =
    (let x = k mod stride; y = k div stride in
     if 0 \<le> x \<and> x < w \<and> 0 \<le> y \<and> y < h \<and> sx \<le> x \<and> x < sx + pw \<and> sy \<le> y \<and> y < sy + ph
     then f (nat (y - sy)) (nat (x - sx)) else fb k)"

lemma dst_index_value:
  "0 \<le> x \<Longrightarrow> 0 \<le> y \<Longrightarrow> y * uint stride + x < 2 ^ 31 \<Longrightarrow> dst_index stride x y = y * uint stride + x"
proof -
  assume a: "0 \<le> x" "0 \<le> y" "y * uint stride + x < 2 ^ 31"
  then have "0 \<le> y * uint stride + x" by simp
  with a(3) show ?thesis unfolding dst_index_def by (intro s32_id) linarith+
qed

text \<open>One row, and the pixel an index stands for.\<close>

lemma row_painted:
  assumes "\<And>x. x < n \<Longrightarrow> P x \<Longrightarrow> idx x = base + int x"
  shows "fold (\<lambda>x fb. if P x then fb(idx x := v x) else fb) [0..<n] fb k =
    (if base \<le> k \<and> k < base + int n \<and> P (nat (k - base)) then v (nat (k - base)) else fb k)"
  using assms
proof (induction n)
  case (Suc n)
  then have IH: "fold (\<lambda>x fb. if P x then fb(idx x := v x) else fb) [0..<n] fb k =
    (if base \<le> k \<and> k < base + int n \<and> P (nat (k - base)) then v (nat (k - base)) else fb k)"
    by simp
  have "nat (k - base) = n" if "k = base + int n" using that by simp
  then show ?case using Suc.prems [of n] by (auto simp: IH)
qed auto

lemma column_of:
  assumes "0 \<le> x" "x < (s :: int)"
  shows "k = y * s + x \<longleftrightarrow> k div s = y \<and> k mod s = x"
proof
  assume "k = y * s + x"
  then show "k div s = y \<and> k mod s = x"
    using assms by (simp add: div_pos_pos_trivial mod_pos_pos_trivial)
next
  assume "k div s = y \<and> k mod s = x"
  then show "k = y * s + x" by (metis mult_div_mod_eq mult.commute)
qed

lemma rows_painted:
  assumes "w \<le> stride"
    and idx: "\<And>x y. 0 \<le> x \<Longrightarrow> x < w \<Longrightarrow> 0 \<le> y \<Longrightarrow> y < h \<Longrightarrow> idx x y = y * stride + x"
  shows "fold (\<lambda>y. fold (\<lambda>x fb.
        if 0 \<le> sx + int x \<and> sx + int x < w \<and> 0 \<le> sy + int y \<and> sy + int y < h
        then fb(idx (sx + int x) (sy + int y) := f y x) else fb) [0..<pw]) [0..<ph] fb k
    = painted stride w h sx sy (int pw) (int ph) f fb k"
proof (induction ph)
  case 0
  then show ?case by (auto simp: painted_def Let_def)
next
  case (Suc ph)
  let ?base = "(sy + int ph) * stride + sx"
  let ?in = "\<lambda>x. 0 \<le> sx + int x \<and> sx + int x < w \<and> 0 \<le> sy + int ph \<and> sy + int ph < h"
  have here: "(?base \<le> k \<and> k < ?base + int pw \<and> ?in (nat (k - ?base))) \<longleftrightarrow>
      k div stride = sy + int ph \<and> sx \<le> k mod stride \<and> k mod stride < sx + int pw
      \<and> 0 \<le> k mod stride \<and> k mod stride < w \<and> 0 \<le> sy + int ph \<and> sy + int ph < h" (is "?l \<longleftrightarrow> ?r")
  proof
    assume l: ?l
    then have "k = (sy + int ph) * stride + (sx + (k - ?base))" "0 \<le> sx + (k - ?base)"
      "sx + (k - ?base) < stride" using assms(1) by auto
    then show ?r using l column_of [of "sx + (k - ?base)" stride k "sy + int ph"] by auto
  next
    assume r: ?r
    then have "k = (sy + int ph) * stride + k mod stride"
      using assms(1) column_of [of "k mod stride" stride k "sy + int ph"] by auto
    then show ?l using r by auto
  qed
  define row where "row g = fold (\<lambda>x fb. if ?in x then fb(idx (sx + int x) (sy + int ph) := f ph x) else fb)
    [0..<pw] g" for g
  have "row g k = (if ?base \<le> k \<and> k < ?base + int pw \<and> ?in (nat (k - ?base))
      then f ph (nat (k - ?base)) else g k)" for g
    unfolding row_def by (rule row_painted) (simp add: idx algebra_simps)
  then have row: "row g k = (if k div stride = sy + int ph \<and> sx \<le> k mod stride \<and> k mod stride < sx + int pw
      \<and> 0 \<le> k mod stride \<and> k mod stride < w \<and> 0 \<le> sy + int ph \<and> sy + int ph < h
      then f ph (nat (k - ?base)) else g k)" for g
    unfolding here .
  have off: "nat (k - ?base) = nat (k mod stride - sx)" if "k div stride = sy + int ph"
  proof -
    have "k = (sy + int ph) * stride + k mod stride"
      using div_mult_mod_eq [of k stride] that by simp
    then show ?thesis by (simp add: algebra_simps)
  qed
  have "fold (\<lambda>y. fold (\<lambda>x fb.
        if 0 \<le> sx + int x \<and> sx + int x < w \<and> 0 \<le> sy + int y \<and> sy + int y < h
        then fb(idx (sx + int x) (sy + int y) := f y x) else fb) [0..<pw]) [0..<Suc ph] fb k
    = row (fold (\<lambda>y. fold (\<lambda>x fb.
        if 0 \<le> sx + int x \<and> sx + int x < w \<and> 0 \<le> sy + int y \<and> sy + int y < h
        then fb(idx (sx + int x) (sy + int y) := f y x) else fb) [0..<pw]) [0..<ph] fb) k"
    by (simp add: row_def)
  also have "\<dots> = painted stride w h sx sy (int pw) (int (Suc ph)) f fb k"
  proof (cases "k div stride = sy + int ph")
    case True
    then show ?thesis by (simp only: row Suc.IH off [OF True]) (auto simp: painted_def Let_def)
  next
    case False
    then show ?thesis by (simp only: row Suc.IH) (auto simp: painted_def Let_def)
  qed
  finally show ?case .
qed

text \<open>The place of the battery, and of the words to the left of it, on a screen that is wide and
  high enough for the battery.\<close>

definition battery_x :: "lcm_screen \<Rightarrow> int" where
  "battery_x s = (uint (scr_width s) - 174) div 2"

definition battery_y :: "lcm_screen \<Rightarrow> int" where
  "battery_y s = (uint (scr_height s) - 442) div 2"

definition screen_ok :: "lcm_screen \<Rightarrow> bool" where
  "screen_ok s \<longleftrightarrow> 174 \<le> scr_width s \<and> 442 \<le> scr_height s \<and> scr_width s \<le> allignWidth s
     \<and> uint (allignWidth s) * uint (scr_height s) < 2 ^ 31"

lemma screen_index:
  assumes "screen_ok s" "0 \<le> x" "x < uint (scr_width s)" "0 \<le> y" "y < uint (scr_height s)"
  shows "dst_index (allignWidth s) x y = y * uint (allignWidth s) + x"
proof (rule dst_index_value [OF assms(2,4)])
  have "x < uint (allignWidth s)"
    using assms(1,3) by (simp add: screen_ok_def word_le_def)
  moreover have "(y + 1) * uint (allignWidth s) \<le> uint (scr_height s) * uint (allignWidth s)"
    using assms(5) by (intro mult_right_mono) auto
  ultimately show "y * uint (allignWidth s) + x < 2 ^ 31"
    using assms(1) by (simp add: screen_ok_def algebra_simps)
qed

lemma screen_sizes:
  assumes "screen_ok s"
  shows "uint ((scr_width s - LOGO_WIDTH) div 2) = battery_x s"
    and "uint ((scr_height s - LOGO_HEIGHT) div 2) = battery_y s"
    and "uint (scr_width s) < 2 ^ 31" "uint (scr_height s) < 2 ^ 31"
    and "174 \<le> uint (scr_width s)" "442 \<le> uint (scr_height s)"
    and "uint (scr_width s) \<le> uint (allignWidth s)"
proof -
  show w: "174 \<le> uint (scr_width s)" "442 \<le> uint (scr_height s)"
      "uint (scr_width s) \<le> uint (allignWidth s)"
    using assms by (simp_all add: screen_ok_def word_le_def)
  show "uint ((scr_width s - LOGO_WIDTH) div 2) = battery_x s"
      "uint ((scr_height s - LOGO_HEIGHT) div 2) = battery_y s"
    using assms by (simp_all add: uint_div uint_minus_simple_alt [THEN iffD1] screen_ok_def
        battery_x_def battery_y_def logo_sizes)
  have "uint (allignWidth s) * 1 \<le> uint (allignWidth s) * uint (scr_height s)"
    "1 * uint (scr_height s) \<le> uint (allignWidth s) * uint (scr_height s)"
    using w by (intro mult_left_mono mult_right_mono; simp)+
  then show "uint (scr_width s) < 2 ^ 31" "uint (scr_height s) < 2 ^ 31"
    using assms w unfolding screen_ok_def by linarith+
qed

lemma word_painted:
  assumes "screen_ok s"
  shows "draw_word pic ww hw (allignWidth s) (uint (scr_width s)) (uint (scr_height s)) fb =
    painted (uint (allignWidth s)) (uint (scr_width s)) (uint (scr_height s))
      (word_x (uint (scr_width s)) ww) (word_y (uint (scr_height s)) hw) (int (unat ww)) (int (unat hw))
      (\<lambda>y x. argb_pixel pic (y * unat ww + x)) fb"
  unfolding draw_word_def Let_def
  by (rule ext, rule rows_painted) (use assms screen_sizes(7) screen_index in auto)

lemma battery_painted:
  assumes "screen_ok s"
  shows "fold (\<lambda>y. fold (\<lambda>x fb.
        fb(dst_index (allignWidth s) (battery_x s + int x) (battery_y s + int y) := f y x))
      [0..<174]) [0..<442] fb =
    painted (uint (allignWidth s)) (uint (scr_width s)) (uint (scr_height s))
      (battery_x s) (battery_y s) 174 442 f fb"
proof -
  let ?guarded = "fold (\<lambda>y. fold (\<lambda>x fb.
        if 0 \<le> battery_x s + int x \<and> battery_x s + int x < uint (scr_width s)
           \<and> 0 \<le> battery_y s + int y \<and> battery_y s + int y < uint (scr_height s)
        then fb(dst_index (allignWidth s) (battery_x s + int x) (battery_y s + int y) := f y x) else fb)
      [0..<174]) [0..<442] fb"
  have "fold (\<lambda>y. fold (\<lambda>x fb.
        fb(dst_index (allignWidth s) (battery_x s + int x) (battery_y s + int y) := f y x))
      [0..<174]) [0..<442] fb = ?guarded"
    using screen_sizes [OF assms] by (intro fold_cong refl ext) (auto simp: battery_x_def battery_y_def)
  also have "?guarded = painted (uint (allignWidth s)) (uint (scr_width s)) (uint (scr_height s))
      (battery_x s) (battery_y s) (int 174) (int 442) f fb"
    by (rule ext, rule rows_painted) (use assms screen_sizes(7) screen_index in auto)
  finally show ?thesis by simp
qed

lemma sint_small:
  assumes "uint (x :: u32) < 2 ^ 31"
  shows "sint x = uint x"
proof -
  have "- (2 ^ 31) \<le> uint x" by (rule order_trans [OF _ uint_ge_0]) simp
  from signed_take_bit_int_eq_self [OF this assms] show ?thesis by (simp add: sint_uint)
qed

lemma logo_painted:
  assumes "screen_ok s"
  shows "display_hardcoded_logo logo words s (Some fb) = Some (
    painted (uint (allignWidth s)) (uint (scr_width s)) (uint (scr_height s))
      ((uint (scr_width s) - 50) div 2 - 182) ((uint (scr_height s) - 1272) sdiv 2) 50 1272
      (\<lambda>y x. argb_pixel words (y * 50 + x))
      (painted (uint (allignWidth s)) (uint (scr_width s)) (uint (scr_height s))
        (battery_x s) (battery_y s) 174 442 (\<lambda>y x. argb_pixel logo (y * 174 + x)) fb))"
proof -
  have sint: "sint (scr_width s) = uint (scr_width s)" "sint (scr_height s) = uint (scr_height s)"
    by (intro sint_small screen_sizes(3,4) [OF assms])+
  have "word_x (uint (scr_width s)) 50 = (uint (scr_width s) - 50) div 2 - 182"
  proof -
    have "(uint (scr_width s) - 50) sdiv 2 = (uint (scr_width s) - 50) div 2"
      using screen_sizes(5) [OF assms] by (simp add: signed_divide_int_def)
    then show ?thesis
      using screen_sizes(3,5) [OF assms] unfolding word_x_def by (subst s32_id) (auto simp: logo_sizes)
  qed
  then show ?thesis
    using word_painted [OF assms, of words 50 1272] battery_painted [OF assms]
    by (simp add: display_hardcoded_logo_def display_hardcoded_logo_word_def screen_sizes(1,2) [OF assms]
        sint Let_def word_y_def LOGO_WIDTH_EN_def LOGO_HEIGHT_EN_def del: upt_rec_numeral)
      (simp add: LOGO_WIDTH_def LOGO_HEIGHT_def del: upt_rec_numeral)
qed

lemma painted_at:
  assumes "0 \<le> x" "x < stride"
  shows "painted stride w h sx sy pw ph f fb (y * stride + x) =
    (if x < w \<and> 0 \<le> y \<and> y < h \<and> sx \<le> x \<and> x < sx + pw \<and> sy \<le> y \<and> y < sy + ph
     then f (nat (y - sy)) (nat (x - sx)) else fb (y * stride + x))"
proof -
  have "(y * stride + x) div stride = y" "(y * stride + x) mod stride = x"
    using column_of [OF assms, of "y * stride + x" y] by simp_all
  then show ?thesis using assms(1) unfolding painted_def Let_def by simp
qed

text \<open>C11: on a screen at least as large as the battery, drawing the virtual battery sets every
  pixel of the battery in the middle to its colour - the words beside it do not cover it -
  and changes nothing outside the rows of the screen, nor in the columns beyond its width.\<close>

theorem virtual_battery_on_screen:
  assumes "screen_ok s" "display_hardcoded_logo logo words s (Some fb) = Some fb'"
  shows "(x < 174 \<and> y < 442 \<longrightarrow>
      fb' ((battery_y s + int y) * uint (allignWidth s) + (battery_x s + int x)) = argb_pixel logo (y * 174 + x))
    \<and> (k < 0 \<or> uint (allignWidth s) * uint (scr_height s) \<le> k
        \<or> uint (scr_width s) \<le> k mod uint (allignWidth s) \<longrightarrow> fb' k = fb k)"
proof -
  let ?s = "uint (allignWidth s)" and ?w = "uint (scr_width s)" and ?h = "uint (scr_height s)"
  define drawn where "drawn = painted ?s ?w ?h (battery_x s) (battery_y s) 174 442
    (\<lambda>y x. argb_pixel logo (y * 174 + x)) fb"
  have fb': "fb' = painted ?s ?w ?h ((?w - 50) div 2 - 182) ((?h - 1272) sdiv 2) 50 1272
      (\<lambda>y x. argb_pixel words (y * 50 + x)) drawn"
    using assms by (simp add: logo_painted drawn_def)
  note sizes = screen_sizes [OF assms(1)]
  have "fb' ((battery_y s + int y) * ?s + (battery_x s + int x)) = argb_pixel logo (y * 174 + x)"
    if "x < 174" "y < 442"
  proof -
    let ?k = "(battery_y s + int y) * ?s + (battery_x s + int x)"
    have x: "0 \<le> battery_x s + int x" "battery_x s + int x < ?w" "(?w - 50) div 2 - 132 \<le> battery_x s + int x"
      and y: "0 \<le> battery_y s + int y" "battery_y s + int y < ?h"
      using sizes that by (auto simp: battery_x_def battery_y_def)
    have X: "battery_x s + int x < ?s" using x(2) sizes(7) by simp
    have "fb' ?k = drawn ?k"
      unfolding fb' painted_at [OF x(1) X] using x(3) by simp
    also have "\<dots> = argb_pixel logo (y * 174 + x)"
      unfolding drawn_def painted_at [OF x(1) X] using x y that by simp
    finally show ?thesis .
  qed
  moreover have "fb' k = fb k" if "k < 0 \<or> ?s * ?h \<le> k \<or> ?w \<le> k mod ?s"
  proof -
    have "\<not> (0 \<le> k mod ?s \<and> k mod ?s < ?w \<and> 0 \<le> k div ?s \<and> k div ?s < ?h)"
    proof
      assume in_screen: "0 \<le> k mod ?s \<and> k mod ?s < ?w \<and> 0 \<le> k div ?s \<and> k div ?s < ?h"
      then have "0 < ?s" using sizes(5,7) by linarith
      then have "0 \<le> k \<and> k < ?h * ?s"
        using in_screen zdiv_mono1 [of "?h * ?s" k ?s]
        by (cases "k < ?h * ?s") (auto simp: pos_imp_zdiv_nonneg_iff)
      then show False using that in_screen by (auto simp: mult.commute)
    qed
    then show ?thesis by (auto simp: fb' drawn_def painted_def Let_def)
  qed
  ultimately show ?thesis by blast
qed

text \<open>A screen of 1200 by 2000 pixels with rows of 1216, and a red battery.\<close>

definition tablet_screen :: lcm_screen where
  "tablet_screen = \<lparr>scr_width = 1200, scr_height = 2000, fb_size = 9728000, allignWidth = 1216,
     rotation = 0, lcm = LCD_MAIN\<rparr>"

definition red :: "nat \<Rightarrow> u8" where
  "red i = (if i mod 4 = 0 \<or> i mod 4 = 3 then 255 else 0)"

lemma virtual_battery_on_screen_witness:
  "\<exists>fb'. display_hardcoded_logo red (\<lambda>_. 0) tablet_screen (Some (\<lambda>_. 0)) = Some fb'
    \<and> fb' (779 * 1216 + 513) = 0xFFFF0000 \<and> fb' (- 1) = 0"
proof -
  have ok: "screen_ok tablet_screen" by (simp add: screen_ok_def tablet_screen_def)
  obtain fb' where fb': "display_hardcoded_logo red (\<lambda>_. 0) tablet_screen (Some (\<lambda>_. 0)) = Some fb'"
    using logo_painted [OF ok] by blast
  from virtual_battery_on_screen [OF ok this, of 0 0 "- 1"]
  have "fb' (779 * 1216 + 513) = argb_pixel red 0" "fb' (- 1) = 0"
    by (simp_all add: tablet_screen_def battery_x_def battery_y_def)
  moreover have "argb_pixel red 0 = 0xFFFF0000"
    by (simp add: argb_pixel_def red_def)
  ultimately show ?thesis using fb' by auto
qed

text \<open>On a narrower screen the unsigned difference wraps, and the first pixel is drawn far
  beyond the row.\<close>

lemma narrow_screen_wraps:
  assumes "scr_width s < 174"
  shows "2 ^ 31 - 87 \<le> uint ((scr_width s - LOGO_WIDTH) div 2)"
proof -
  have "uint (scr_width s) < 174" using assms by (simp add: word_less_def)
  then have "uint (scr_width s - LOGO_WIDTH) = uint (scr_width s) - 174 + 2 ^ 32"
    by (simp add: LOGO_WIDTH_def uint_sub_if')
  moreover have "2147483561 \<le> (4294967122 + u) div 2" if "0 \<le> u" for u :: int
    using that by presburger
  ultimately show ?thesis by (simp add: uint_div)
qed

end
