(* ===== verification/Decimal.thy ===== *)
theory Decimal
  imports Prelude
begin

text \<open>
  Reading decimal numbers: \<open>atoi\<close>, that it reads what \<open>show_int\<close> writes, and the length of
  what is written.
\<close>

section \<open>The C library's reader\<close>

text \<open>The C library's \<open>atoi\<close>: spaces, a sign, and digits up to the first other character.\<close>

fun digits :: "string \<Rightarrow> int \<Rightarrow> int" where
  "digits [] n = n"
| "digits (c # cs) n =
    (if 48 \<le> (of_char c :: int) \<and> (of_char c :: int) \<le> 57
     then digits cs (10 * n + (of_char c - 48)) else n)"

definition isspace :: "char \<Rightarrow> bool" where
  "isspace c = (let n = of_char c in n = (32 :: int) \<or> 9 \<le> n \<and> n \<le> 13)"

definition atoi :: "string \<Rightarrow> int" where
  "atoi s =
    (let t = dropWhile isspace s in
     if t = [] then 0
     else if hd t = CHR ''-'' then - digits (tl t) 0
     else if hd t = CHR ''+'' then digits (tl t) 0
     else digits t 0)"

section \<open>Reading back what was written\<close>

lemma digits_append:
  "list_all (\<lambda>c. 48 \<le> (of_char c :: int) \<and> (of_char c :: int) \<le> 57) cs \<Longrightarrow>
   digits (cs @ ds) n = digits ds (digits cs n)"
  by (induction cs arbitrary: n) auto

lemma of_digit: "k < 10 \<Longrightarrow> (of_char (char_of (48 + k :: nat)) :: int) = 48 + int k"
proof -
  assume "k < 10"
  have "(of_char (char_of (48 + k :: nat)) :: int) = int (of_char (char_of (48 + k :: nat)))"
    by (simp only: of_nat_of_char)
  also have "\<dots> = int ((48 + k) mod 256)" by simp
  also have "\<dots> = 48 + int k" using \<open>k < 10\<close> by simp
  finally show ?thesis .
qed

lemma show_nat_digits:
  "list_all (\<lambda>c. 48 \<le> (of_char c :: int) \<and> (of_char c :: int) \<le> 57) (show_nat n)"
proof (induction n rule: show_nat.induct)
  case (1 n)
  then show ?case
    by (subst show_nat.simps) (auto simp: of_digit)
qed

lemma digit_last: "k < 10 \<Longrightarrow> digits [char_of (48 + k :: nat)] n = 10 * n + int k"
  by (simp add: of_digit)

lemma digits_show_nat: "digits (show_nat n) 0 = int n"
proof (induction n rule: show_nat.induct)
  case (1 n)
  show ?case
  proof (cases "n < 10")
    case True
    then show ?thesis by (subst show_nat.simps) (simp add: of_digit)
  next
    case False
    then have "digits (show_nat n) 0 = digits [char_of (48 + n mod 10)] (int (n div 10))"
      using 1 by (subst show_nat.simps) (simp add: digits_append [OF show_nat_digits])
    also have "\<dots> = 10 * int (n div 10) + int (n mod 10)"
      by (rule digit_last) simp
    also have "\<dots> = int n" by presburger
    finally show ?thesis .
  qed
qed

lemma show_nat_start:
  obtains c cs where "show_nat k = c # cs" "48 \<le> (of_char c :: int)" "\<not> isspace c"
proof -
  obtain c cs where s: "show_nat k = c # cs" by (cases "show_nat k") (subst (asm) show_nat.simps, auto split: if_splits)
  moreover have "48 \<le> (of_char c :: int) \<and> (of_char c :: int) \<le> 57" using show_nat_digits [of k] by (simp add: s)
  ultimately show thesis using that by (simp add: isspace_def Let_def)
qed

lemma atoi_show_nat: "atoi (show_nat k) = int k"
proof -
  obtain c cs where s: "show_nat k = c # cs" and c: "48 \<le> (of_char c :: int)" "\<not> isspace c"
    by (rule show_nat_start)
  then have "c \<noteq> CHR ''-''" "c \<noteq> CHR ''+''" by auto
  then show ?thesis using digits_show_nat [of k] c(2) by (simp add: atoi_def Let_def s)
qed

lemma atoi_show_int: "atoi (show_int n) = n"
  by (cases "n < 0") (simp_all add: show_int_def atoi_show_nat, simp add: atoi_def isspace_def digits_show_nat)

section \<open>Lengths\<close>

lemma length_show_nat: "n < 10 ^ Suc k \<Longrightarrow> length (show_nat n) \<le> Suc k"
proof (induction k arbitrary: n)
  case 0
  then show ?case by (subst show_nat.simps) simp
next
  case (Suc k)
  show ?case
  proof (cases "n < 10")
    case True
    then show ?thesis by (subst show_nat.simps) simp
  next
    case False
    have "n div 10 < 10 ^ Suc k" using Suc.prems by (simp add: less_mult_imp_div_less mult.commute)
    from Suc.IH [OF this] False show ?thesis by (subst show_nat.simps) simp
  qed
qed

lemma length_show_int: "- (10 ^ 10) < n \<Longrightarrow> n < 10 ^ 10 \<Longrightarrow> length (show_int n) \<le> 11"
  using length_show_nat [of "nat n" 9] length_show_nat [of "nat (- n)" 9]
  by (auto simp: show_int_def nat_less_iff)

lemma show_nat_no_space: "c \<in> set (show_nat n) \<Longrightarrow> 48 \<le> (of_char c :: int) \<and> (of_char c :: int) \<le> 57"
  using show_nat_digits [of n] by (simp add: list_all_iff)

end
