(* ===== verification/Lk_Anim.thy ===== *)
theory Lk_Anim
  imports Lk_Logo Decimal
begin

text \<open>
  The charging animation of the boot loader: finding a picture in the logo partition,
  and the pictures of the three versions of the animation.
\<close>

section \<open>State\<close>

text \<open>The constants of \<open>cust_display.h\<close> and \<open>show_logo_common.h\<close>, which are not in the
  repository.\<close>

record cust_display =
  NUMBER_RECT :: rect_region
  PERCENT_RECT :: rect_region
  CAPACITY_RECT :: rect_region
  TOP_ANIMATION_RECT :: rect_region
  BAR_RECT :: rect_region
  BAR_OCCUPIED_COLOR :: u32
  BAR_EMPTY_COLOR :: u32
  LOGOS_COUNT_NORMAL :: int
  LOGOS_COUNT_FAST_CHARGING :: int
  LOGOS_COUNT_WIRELESS :: int
  FULL_BATTERY_INDEX :: u32
  LOW_BAT_ANIM_START_0 :: u32
  BAT_ANIM_START_0 :: u32
  NUMBER_PIC_START_0 :: u32
  NUMBER_PIC_PERCENT :: u32
  ANIM_V0_BACKGROUND_INDEX :: u32
  ANIM_V1_BACKGROUND_INDEX :: u32
  ANIM_LINE_INDEX :: u32
  V2_BAT_0_INDEX :: u32
  V2_BAT_100_INDEX :: u32
  V2_BAT_0_10_START_INDEX :: u32
  V2_BAT_10_40_START_INDEX :: u32
  V2_BAT_40_80_START_INDEX :: u32
  V2_BAT_80_100_START_NDEX :: u32
  V2_NUM_START_0_INDEX :: u32
  V2_NUM_PERCENT_INDEX :: u32

text \<open>What the code calls: the environment of the boot loader, the decompressor (source,
  length and room give a size and a picture), the words at the start of the logo
  partition, and the two build options.\<close>

record ('w, 'p) lk_env =
  get_env :: "string \<Rightarrow> 'w \<Rightarrow> string option"
  set_env :: "string \<Rightarrow> string \<Rightarrow> 'w \<Rightarrow> 'w"
  decompress_logo :: "u32 \<Rightarrow> u32 \<Rightarrow> int \<Rightarrow> int \<times> 'p"
  pinfo :: "u32 \<Rightarrow> u32"
  logo_addr :: u32
  MTK_FAST_CHARGER_TECH :: bool
  MTK_WIRELESS_CHARGER_SUPPORT :: bool
  cust :: cust_display

text \<open>What is painted: a picture or a colour in a rectangle.\<close>

datatype 'p drawing = Content rect_region 'p int | Color rect_region u32

record ('w, 'p) lk_state =
  bits :: int
  is_logo :: bool
  logo_offset :: int
  logo_offset_ext :: int
  charging_low_index :: int
  charging_animation_index :: int
  version0_charging_index :: int
  drawn :: "'p drawing list"
  world :: 'w

definition enable_logo :: "bool \<Rightarrow> ('w, 'p) lk_state \<Rightarrow> ('w, 'p) lk_state" where
  "enable_logo b s = s\<lparr>is_logo := b\<rparr>"

section \<open>The logo partition\<close>

definition offset_name :: "lcd_info \<Rightarrow> string" where
  "offset_name l = (if l = LCD_MAIN then ''logo-offset'' else ''logo-offset-ext'')"

definition set_logo_offset ::
  "('w, 'p) lk_env \<Rightarrow> int \<Rightarrow> lcd_info \<Rightarrow> ('w, 'p) lk_state \<Rightarrow> ('w, 'p) lk_state" where
  "set_logo_offset E n l s = s\<lparr>world := set_env E (offset_name l) (show_int n) (world s)\<rparr>"

definition get_logo_offset :: "('w, 'p) lk_env \<Rightarrow> lcd_info \<Rightarrow> ('w, 'p) lk_state \<Rightarrow> int" where
  "get_logo_offset E l s =
    (case get_env E (offset_name l) (world s) of None \<Rightarrow> - 1 | Some t \<Rightarrow> atoi t)"

text \<open>A picture's length and address, when the partition is loaded and has it.\<close>

definition check_logo_index_valid ::
  "('w, 'p) lk_env \<Rightarrow> bool \<Rightarrow> u32 \<Rightarrow> (u32 \<times> u32) option" where
  "check_logo_index_valid E on i =
    (if \<not> on then None
     else
       let n = pinfo E 0 in
       if i \<ge> n then None
       else
         let len = (if i < n - 1 then pinfo E (3 + i) - pinfo E (2 + i) else pinfo E 1 - pinfo E (2 + i))
         in Some (len, logo_addr E + pinfo E (2 + i)))"

definition get_total_logo_images_entries :: "('w, 'p) lk_env \<Rightarrow> int" where
  "get_total_logo_images_entries E =
    LOGOS_COUNT_NORMAL (cust E)
    + (if MTK_FAST_CHARGER_TECH E then LOGOS_COUNT_FAST_CHARGING (cust E) else 0)
    + (if MTK_WIRELESS_CHARGER_SUPPORT E then LOGOS_COUNT_WIRELESS (cust E) else 0)"

text \<open>The partition holds the same pictures for several resolutions.  The search tries picture
  \<open>i\<close> of each until one has the size of the screen; the loop has no other bound than the
  number of pictures, which a wrapping index need not reach.\<close>

definition screen_pixels :: "lcm_screen \<Rightarrow> int" where
  "screen_pixels scr = uint (scr_width scr) * uint (scr_height scr)"

definition depth_of :: "int \<Rightarrow> int \<Rightarrow> int option" where
  "depth_of raw pixels = (if raw = pixels * 4 then Some 32 else if raw = pixels * 2 then Some 16 else None)"

partial_function (option) find_logos ::
  "('w, 'p) lk_env \<Rightarrow> lcm_screen \<Rightarrow> bool \<Rightarrow> int \<Rightarrow> u32 \<Rightarrow> int \<Rightarrow> (int \<times> int option) option" where
  "find_logos E scr on entries i offset =
    (if \<not> i < pinfo E 0 then Some (offset, None)
     else case check_logo_index_valid E on i of
       None \<Rightarrow> Some (- 1, None)
     | Some (len, addr) \<Rightarrow>
         (case depth_of (fst (decompress_logo E addr len (uint (fb_size scr)))) (screen_pixels scr) of
            Some b \<Rightarrow> Some (offset, Some b)
          | None \<Rightarrow> find_logos E scr on entries (i + word_of_int entries) (offset + entries)))"

definition store_offset :: "lcd_info \<Rightarrow> int \<Rightarrow> ('w, 'p) lk_state \<Rightarrow> ('w, 'p) lk_state" where
  "store_offset l n s = (if l = LCD_MAIN then s\<lparr>logo_offset := n\<rparr> else s\<lparr>logo_offset_ext := n\<rparr>)"

definition calculate_logo_offset ::
  "('w, 'p) lk_env \<Rightarrow> lcm_screen \<Rightarrow> u32 \<Rightarrow> ('w, 'p) lk_state \<Rightarrow> (int \<times> ('w, 'p) lk_state) option" where
  "calculate_logo_offset E scr i s =
    (let l = lcm scr; known = get_logo_offset E l s; s = store_offset l known s;
         entries = get_total_logo_images_entries E in
     if known \<noteq> - 1 then Some (known, s)
     else if entries = - 1 then Some (- 1, store_offset l (- 1) s)
     else case find_logos E scr (is_logo s) entries i 0 of
       None \<Rightarrow> None
     | Some (n, depth) \<Rightarrow>
         let s = store_offset l n (case depth of None \<Rightarrow> s | Some b \<Rightarrow> s\<lparr>bits := b\<rparr>)
         in Some (n, set_logo_offset E n l s))"

section \<open>Painting\<close>

definition draw :: "'p drawing \<Rightarrow> ('w, 'p) lk_state \<Rightarrow> ('w, 'p) lk_state" where
  "draw d s = s\<lparr>drawn := drawn s @ [d]\<rparr>"

definition rect_width :: "rect_region \<Rightarrow> int" where "rect_width r = right r - left r"
definition rect_height :: "rect_region \<Rightarrow> int" where "rect_height r = bottom r - top r"
definition area :: "rect_region \<Rightarrow> int" where "area r = rect_width r * rect_height r"

definition rect_of :: "int \<Rightarrow> int \<Rightarrow> int \<Rightarrow> int \<Rightarrow> rect_region" where
  "rect_of l t r b = \<lparr>left = l, top = t, right = r, bottom = b\<rparr>"

text \<open>What the four painters share: find the picture, unpack it into a buffer with some room, and
  settle the depth of the pixels when it is not known yet.  A painter returns early when
  there is no picture or its size is neither of the two.\<close>

definition picture ::
  "('w, 'p) lk_env \<Rightarrow> lcm_screen \<Rightarrow> u32 \<Rightarrow> int \<Rightarrow> ('w, 'p) lk_state
   \<Rightarrow> ((int \<times> 'p) option \<times> ('w, 'p) lk_state) option" where
  "picture E scr i room s =
    (case calculate_logo_offset E scr i s of
       None \<Rightarrow> None
     | Some (n, s) \<Rightarrow>
         if n = - 1 then Some (None, s)
         else (case check_logo_index_valid E (is_logo s) (i + word_of_int n) of
                 None \<Rightarrow> Some (None, s)
               | Some (len, addr) \<Rightarrow> Some (Some (decompress_logo E addr len room), s)))"

definition paint ::
  "(int \<Rightarrow> 'p \<Rightarrow> ('w, 'p) lk_state \<Rightarrow> ('w, 'p) lk_state) \<Rightarrow> int \<Rightarrow> int \<times> 'p
   \<Rightarrow> ('w, 'p) lk_state \<Rightarrow> ('w, 'p) lk_state" where
  "paint f pixels = (\<lambda>(raw, pic) s.
    if bits s \<noteq> 0 then f (bits s) pic s
    else case depth_of raw pixels of None \<Rightarrow> s | Some b \<Rightarrow> f b pic (s\<lparr>bits := b\<rparr>))"

definition painter ::
  "('w, 'p) lk_env \<Rightarrow> lcm_screen \<Rightarrow> u32 \<Rightarrow> int \<Rightarrow> int
   \<Rightarrow> (int \<Rightarrow> 'p \<Rightarrow> ('w, 'p) lk_state \<Rightarrow> ('w, 'p) lk_state)
   \<Rightarrow> ('w, 'p) lk_state \<Rightarrow> ('w, 'p) lk_state option" where
  "painter E scr i room pixels f s =
    (case picture E scr i room s of
       None \<Rightarrow> None
     | Some (None, s) \<Rightarrow> Some s
     | Some (Some p, s) \<Rightarrow> Some (paint f pixels p s))"

definition fill_animation_logo ::
  "('w, 'p) lk_env \<Rightarrow> lcm_screen \<Rightarrow> u32 \<Rightarrow> ('w, 'p) lk_state \<Rightarrow> ('w, 'p) lk_state option" where
  "fill_animation_logo E scr i =
    (let turned = (rotation scr = 270 \<or> rotation scr = 90);
         w = uint (if turned then scr_height scr else scr_width scr);
         h = uint (if turned then scr_width scr else scr_height scr)
     in painter E scr i (uint (fb_size scr)) (w * h)
          (\<lambda>b pic. draw (Content (rect_of 0 0 w h) pic b)))"

definition fill_animation_dynamic ::
  "('w, 'p) lk_env \<Rightarrow> lcm_screen \<Rightarrow> u32 \<Rightarrow> rect_region \<Rightarrow> ('w, 'p) lk_state
   \<Rightarrow> ('w, 'p) lk_state option" where
  "fill_animation_dynamic E scr i r =
    painter E scr i (area r * 4) (area r) (\<lambda>b pic. draw (Content r pic b))"

definition number_rect :: "cust_display \<Rightarrow> int \<Rightarrow> rect_region" where
  "number_rect C k =
    (let r = NUMBER_RECT C
     in rect_of (left r + rect_width r * k) (top r) (right r + rect_width r * k) (bottom r))"

definition fill_animation_number ::
  "('w, 'p) lk_env \<Rightarrow> lcm_screen \<Rightarrow> u32 \<Rightarrow> int \<Rightarrow> ('w, 'p) lk_state \<Rightarrow> ('w, 'p) lk_state option" where
  "fill_animation_number E scr i k =
    (let a = area (NUMBER_RECT (cust E))
     in painter E scr i (a * 4) a (\<lambda>b pic. draw (Content (number_rect (cust E) k) pic b)))"

text \<open>One picture of a line, painted from the height of the charge level to the bottom.\<close>

definition fill_animation_line ::
  "('w, 'p) lk_env \<Rightarrow> lcm_screen \<Rightarrow> u32 \<Rightarrow> u32 \<Rightarrow> ('w, 'p) lk_state \<Rightarrow> ('w, 'p) lk_state option" where
  "fill_animation_line E scr i grids =
    (let w = rect_width (TOP_ANIMATION_RECT (cust E)); r = CAPACITY_RECT (cust E)
     in painter E scr i (w * 4) w
          (\<lambda>b pic s. fold (\<lambda>k. draw (Content (rect_of (left r) k (right r) (k + 1)) pic b))
             [sint grids .. bottom r - 1] s))"

definition ANIM_V0_REGIONS :: int where "ANIM_V0_REGIONS = 4"
definition ANIM_V0_SPACE_AFTER_REGION :: int where "ANIM_V0_SPACE_AFTER_REGION = 4"

text \<open>The four regions of the old animation, counted from the bottom, in unsigned arithmetic.\<close>

definition bar_region :: "rect_region \<Rightarrow> nat \<Rightarrow> rect_region" where
  "bar_region r i =
    (let div_size = (bottom r - top r) sdiv ANIM_V0_REGIONS;
         b = bottom r - div_size * int i - ANIM_V0_SPACE_AFTER_REGION
     in rect_of (left r) (s32 (b - (div_size - ANIM_V0_SPACE_AFTER_REGION))) (right r) (s32 b))"

definition fill_animation_prog_bar ::
  "rect_region \<Rightarrow> u32 \<Rightarrow> nat \<Rightarrow> nat \<Rightarrow> ('w, 'p) lk_state \<Rightarrow> ('w, 'p) lk_state" where
  "fill_animation_prog_bar r color start n =
    fold (\<lambda>i. draw (Color (bar_region r i) color)) [start..<start + n]"

section \<open>The animations\<close>

text \<open>The old one: the background, then the regions that are full and those that are empty.\<close>

definition old_index :: "int \<Rightarrow> int \<Rightarrow> int" where
  "old_index capacity idx =
    (let grids = (capacity * ANIM_V0_REGIONS) sdiv 100; idx = (if idx < grids * 2 then grids * 2 else idx) in
     if capacity < 100 then (if idx > 7 then grids * 2 else idx + 1) else ANIM_V0_REGIONS * 2)"

definition fill_animation_battery_old ::
  "('w, 'p) lk_env \<Rightarrow> lcm_screen \<Rightarrow> u32 \<Rightarrow> ('w, 'p) lk_state \<Rightarrow> ('w, 'p) lk_state option" where
  "fill_animation_battery_old E scr capacity s =
    (let c = (if capacity > 100 then 100 else uint capacity);
         s = s\<lparr>version0_charging_index := old_index c (version0_charging_index s)\<rparr>;
         r = BAR_RECT (cust E); bar = rect_of (left r + 1) (top r + 1) (right r) (bottom r);
         full = version0_charging_index s sdiv 2
     in case fill_animation_logo E scr (ANIM_V0_BACKGROUND_INDEX (cust E)) s of
          None \<Rightarrow> None
        | Some s \<Rightarrow>
            Some (fill_animation_prog_bar bar (BAR_EMPTY_COLOR (cust E)) (nat full) (nat (ANIM_V0_REGIONS - full))
              (fill_animation_prog_bar bar (BAR_OCCUPIED_COLOR (cust E)) 0 (nat full) s)))"

text \<open>A sequence of painters; one that does not return ends it.\<close>

fun in_order :: "('s \<Rightarrow> 's option) list \<Rightarrow> 's \<Rightarrow> 's option" where
  "in_order [] s = Some s"
| "in_order (f # fs) s = (case f s of None \<Rightarrow> None | Some s \<Rightarrow> in_order fs s)"

text \<open>The new one, with the charge level in digits.\<close>

definition capacity_line :: "cust_display \<Rightarrow> u32 \<Rightarrow> u32" where
  "capacity_line C capacity =
    (let r = CAPACITY_RECT C
     in word_of_int (bottom r) - word_of_int (rect_height r) * (capacity - 10) div 90)"

definition next_frame :: "int \<Rightarrow> int" where
  "next_frame k = (if k \<ge> 9 then 0 else k)"

definition percent :: "('w, 'p) lk_env \<Rightarrow> lcm_screen \<Rightarrow> ('w, 'p) lk_state \<Rightarrow> ('w, 'p) lk_state option" where
  "percent E scr = fill_animation_dynamic E scr (NUMBER_PIC_PERCENT (cust E)) (PERCENT_RECT (cust E))"

definition fill_animation_battery_new ::
  "('w, 'p) lk_env \<Rightarrow> lcm_screen \<Rightarrow> u32 \<Rightarrow> ('w, 'p) lk_state \<Rightarrow> ('w, 'p) lk_state option" where
  "fill_animation_battery_new E scr capacity s =
    (let C = cust E in
     if capacity \<ge> 100 then fill_animation_logo E scr (FULL_BATTERY_INDEX C) s
     else if capacity < 10 then
       let k = charging_low_index s + 1
       in in_order [fill_animation_logo E scr (LOW_BAT_ANIM_START_0 C + word_of_int k),
              fill_animation_number E scr (NUMBER_PIC_START_0 C + capacity) 1,
              percent E scr, \<lambda>s. Some (s\<lparr>charging_low_index := next_frame k\<rparr>)]
            (s\<lparr>charging_low_index := k\<rparr>)
     else
       let grids = capacity_line C capacity
       in in_order [fill_animation_logo E scr (ANIM_V1_BACKGROUND_INDEX C),
              fill_animation_line E scr (ANIM_LINE_INDEX C) grids,
              fill_animation_number E scr (NUMBER_PIC_START_0 C + capacity div 10) 0,
              fill_animation_number E scr (NUMBER_PIC_START_0 C + capacity mod 10) 1,
              percent E scr,
              \<lambda>s. if capacity > 90 then Some s
                  else
                    let a = TOP_ANIMATION_RECT C; k = charging_animation_index s + 1;
                        r = rect_of (left a) (s32 (uint grids - rect_height a)) (right a) (sint grids)
                    in in_order [fill_animation_dynamic E scr (BAT_ANIM_START_0 C + word_of_int k) r,
                         \<lambda>s. Some (s\<lparr>charging_animation_index := next_frame k\<rparr>)]
                       (s\<lparr>charging_animation_index := k\<rparr>)] s)"

text \<open>The one of wireless charging: its background by the charge level, and the digits.\<close>

definition wireless_start :: "cust_display \<Rightarrow> u32 \<Rightarrow> u32" where
  "wireless_start C capacity =
    (if 10 \<le> capacity \<and> capacity < 40 then V2_BAT_10_40_START_INDEX C
     else if 40 \<le> capacity \<and> capacity < 80 then V2_BAT_40_80_START_INDEX C
     else if 80 \<le> capacity \<and> capacity < 100 then V2_BAT_80_100_START_NDEX C
     else V2_BAT_0_10_START_INDEX C)"

definition wireless_rect :: "lcm_screen \<Rightarrow> int \<Rightarrow> rect_region" where
  "wireless_rect scr k =
    (let w = uint (scr_width scr); h = uint (scr_height scr)
     in rect_of (w * 4 sdiv 10 + k * (w sdiv 10)) (h sdiv 6) (w * 5 sdiv 10 + k * (w sdiv 10)) (h * 16 sdiv 60))"

text \<open>The buffer the digits are unpacked into, in bytes.\<close>

definition wireless_buffer :: "lcm_screen \<Rightarrow> int" where
  "wireless_buffer scr = 2 * (screen_pixels scr sdiv 100)"

definition fill_animation_battery_wireless_charging ::
  "('w, 'p) lk_env \<Rightarrow> lcm_screen \<Rightarrow> u32 \<Rightarrow> ('w, 'p) lk_state \<Rightarrow> ('w, 'p) lk_state option" where
  "fill_animation_battery_wireless_charging E scr capacity s =
    (let C = cust E; s = s\<lparr>charging_low_index := (if charging_low_index s \<ge> 3 then 0 else charging_low_index s + 1)\<rparr>;
         digit = (\<lambda>d k. fill_animation_dynamic E scr d (wireless_rect scr k))
     in if capacity \<ge> 100 then fill_animation_logo E scr (V2_BAT_100_INDEX C) s
        else if capacity = 0 then fill_animation_logo E scr (V2_BAT_0_INDEX C) s
        else
          let two = (if capacity \<ge> 10 then 1 else 0)
          in in_order
               ([fill_animation_logo E scr (wireless_start C capacity + word_of_int (charging_low_index s))]
                @ (if capacity \<ge> 10 then [digit (V2_NUM_START_0_INDEX C + capacity div 10) 0] else [])
                @ [digit (V2_NUM_START_0_INDEX C + capacity mod 10) two,
                   digit (V2_NUM_PERCENT_INDEX C) (two + 1)]) s)"

definition VERION_OLD_ANIMATION :: int where "VERION_OLD_ANIMATION = 0"
definition VERION_NEW_ANIMATION :: int where "VERION_NEW_ANIMATION = 1"
definition VERION_WIRELESS_CHARGING_ANIMATION :: int where "VERION_WIRELESS_CHARGING_ANIMATION = 2"

definition fill_animation_battery_by_ver ::
  "('w, 'p) lk_env \<Rightarrow> lcm_screen \<Rightarrow> u32 \<Rightarrow> int \<Rightarrow> ('w, 'p) lk_state \<Rightarrow> ('w, 'p) lk_state option" where
  "fill_animation_battery_by_ver E scr capacity version =
    (if version = VERION_NEW_ANIMATION then fill_animation_battery_new E scr capacity
     else if version = VERION_WIRELESS_CHARGING_ANIMATION
       then fill_animation_battery_wireless_charging E scr capacity
     else fill_animation_battery_old E scr capacity)"

end
