(* ===== verification/Lk_Show.thy ===== *)
theory Lk_Show
  imports Lk_Anim
begin

text \<open>
  What the boot loader's animation shows: the resolution it settles on, the frames it
  steps through, and the regions of its bar.
\<close>

section \<open>The resolution\<close>

text \<open>The depth at which picture \<open>j\<close> fits the screen, if it does.\<close>

definition fits :: "('w, 'p) lk_env \<Rightarrow> lcm_screen \<Rightarrow> u32 \<Rightarrow> int option" where
  "fits E scr j =
    (case check_logo_index_valid E True j of
       None \<Rightarrow> None
     | Some (len, addr) \<Rightarrow>
         depth_of (fst (decompress_logo E addr len (uint (fb_size scr)))) (screen_pixels scr))"

text \<open>The partition holds fewer pictures than would make an index wrap.\<close>

definition partition_ok :: "('w, 'p) lk_env \<Rightarrow> bool" where
  "partition_ok E \<longleftrightarrow> 0 < get_total_logo_images_entries E
     \<and> uint (pinfo E 0) + get_total_logo_images_entries E \<le> 2 ^ 32"

lemma valid_below: "i < pinfo E 0 \<Longrightarrow> check_logo_index_valid E True i \<noteq> None"
  by (simp add: check_logo_index_valid_def Let_def)

lemma find_logos_steps:
  assumes "0 < n" "uint (pinfo E 0) + n \<le> 2 ^ 32"
  shows "\<exists>k. find_logos E scr True n i off =
      Some (off + n * int k, if uint i + n * int k < uint (pinfo E 0) then fits E scr (i + word_of_int (n * int k)) else None)
    \<and> (\<forall>j < k. uint i + n * int j < uint (pinfo E 0) \<and> fits E scr (i + word_of_int (n * int j)) = None)
    \<and> (uint i + n * int k < uint (pinfo E 0) \<longrightarrow> fits E scr (i + word_of_int (n * int k)) \<noteq> None)"
proof (induction "nat (uint (pinfo E 0) - uint i)" arbitrary: i off rule: less_induct)
  case less
  show ?case
  proof (cases "i < pinfo E 0")
    case False
    then have "\<not> uint i < uint (pinfo E 0)" by (simp add: word_less_def)
    then show ?thesis
      using False by (intro exI [of _ 0]) (simp add: find_logos.simps)
  next
    case True
    then have below: "uint i < uint (pinfo E 0)" by (simp add: word_less_def)
    obtain len addr where v: "check_logo_index_valid E True i = Some (len, addr)"
      using valid_below [OF True] by (cases "check_logo_index_valid E True i") auto
    show ?thesis
    proof (cases "fits E scr i")
      case (Some b)
      then show ?thesis
        using True below v by (intro exI [of _ 0]) (simp add: find_logos.simps fits_def)
    next
      case None
      have next_i: "uint (i + word_of_int n) = uint i + n"
      proof -
        have "uint i + n < 2 ^ 32" "0 \<le> uint i + n" using below assms by auto
        then have "uint (word_of_int (uint i + n) :: u32) = uint i + n"
          by (simp only: uint_word_of_int) simp
        then show ?thesis by simp
      qed
      have step: "find_logos E scr True n i off = find_logos E scr True n (i + word_of_int n) (off + n)"
        using True None v by (subst find_logos.simps) (simp add: fits_def)
      have "nat (uint (pinfo E 0) - uint (i + word_of_int n)) < nat (uint (pinfo E 0) - uint i)"
        using below assms(1) by (simp add: next_i)
      from less [OF this, of "off + n"] obtain k where
        k: "find_logos E scr True n (i + word_of_int n) (off + n) =
          Some (off + n + n * int k, if uint i + n + n * int k < uint (pinfo E 0)
            then fits E scr (i + word_of_int n + word_of_int (n * int k)) else None)"
        "\<And>j. j < k \<Longrightarrow> uint i + n + n * int j < uint (pinfo E 0)
            \<and> fits E scr (i + word_of_int n + word_of_int (n * int j)) = None"
        "uint i + n + n * int k < uint (pinfo E 0) \<Longrightarrow>
            fits E scr (i + word_of_int n + word_of_int (n * int k)) \<noteq> None"
        unfolding next_i by blast
      have move: "i + word_of_int n + word_of_int (n * int j) = i + word_of_int (n * int (Suc j))"
        "uint i + n + n * int j = uint i + n * int (Suc j)" for j
        by (simp_all add: algebra_simps)
      have "\<forall>j < Suc k. uint i + n * int j < uint (pinfo E 0) \<and> fits E scr (i + word_of_int (n * int j)) = None"
      proof (intro allI impI)
        fix j assume "j < Suc k"
        then show "uint i + n * int j < uint (pinfo E 0) \<and> fits E scr (i + word_of_int (n * int j)) = None"
          using k(2) [unfolded move] below None by (cases j) auto
      qed
      moreover have "off + n + n * int k = off + n * int (Suc k)" by (simp add: algebra_simps)
      ultimately show ?thesis
        using step k(1,3) unfolding move by (intro exI [of _ "Suc k"]) simp
    qed
  qed
qed

lemma store_offset_keeps [simp]:
  "is_logo (store_offset l n s) = is_logo s" "world (store_offset l n s) = world s"
  "drawn (store_offset l n s) = drawn s"
  by (simp_all add: store_offset_def)

text \<open>With the logo partition loaded and no offset in the environment, the search ends at
  the first resolution whose picture has the size of the screen (or past the last one, when
  none has), and the offset it returns is the one that is used from then on for every
  picture, without another search.\<close>

theorem resolution_found_and_kept:
  assumes "partition_ok E" "is_logo s" "get_logo_offset E (lcm scr) s = - 1"
    and env: "\<And>k v w. get_env E k (set_env E k v w) = Some v"
  shows "\<exists>k s'. calculate_logo_offset E scr i s = Some (get_total_logo_images_entries E * int k, s')
    \<and> (\<forall>j < k. uint i + get_total_logo_images_entries E * int j < uint (pinfo E 0)
        \<and> fits E scr (i + word_of_int (get_total_logo_images_entries E * int j)) = None)
    \<and> (uint i + get_total_logo_images_entries E * int k < uint (pinfo E 0) \<longrightarrow>
        fits E scr (i + word_of_int (get_total_logo_images_entries E * int k)) \<noteq> None)
    \<and> map_option fst (calculate_logo_offset E scr i' s') = Some (get_total_logo_images_entries E * int k)"
proof -
  let ?n = "get_total_logo_images_entries E"
  have n: "0 < ?n" "uint (pinfo E 0) + ?n \<le> 2 ^ 32"
    using assms(1) by (simp_all add: partition_ok_def)
  from find_logos_steps [OF n, of scr i 0] obtain k b where
    k: "find_logos E scr True ?n i 0 = Some (?n * int k, b)"
      "\<forall>j < k. uint i + ?n * int j < uint (pinfo E 0) \<and> fits E scr (i + word_of_int (?n * int j)) = None"
      "uint i + ?n * int k < uint (pinfo E 0) \<longrightarrow> fits E scr (i + word_of_int (?n * int k)) \<noteq> None"
    by auto
  define s' where "s' = snd (the (calculate_logo_offset E scr i s))"
  have calc: "calculate_logo_offset E scr i s = Some (?n * int k, s')"
    "get_logo_offset E (lcm scr) s' = ?n * int k"
    using n(1) assms(2,3) k(1) env
    by (simp_all add: s'_def calculate_logo_offset_def Let_def set_logo_offset_def get_logo_offset_def
        atoi_show_int split: option.split)
  have "0 \<le> ?n * int k" using n(1) by simp
  then have "map_option fst (calculate_logo_offset E scr i' s') = Some (?n * int k)"
    using calc(2) by (simp add: calculate_logo_offset_def Let_def)
  with calc(1) k(2,3) show ?thesis by blast
qed

text \<open>A phone with one picture per resolution: a first one of the wrong size and one that fits at
  32 bits; the environment is a map.\<close>

definition plain_cust :: cust_display where
  "plain_cust = \<lparr>NUMBER_RECT = rect_of 100 100 120 140, PERCENT_RECT = rect_of 140 100 160 140,
     CAPACITY_RECT = rect_of 50 200 150 290, TOP_ANIMATION_RECT = rect_of 50 190 150 200,
     BAR_RECT = rect_of 50 200 150 301, BAR_OCCUPIED_COLOR = 1, BAR_EMPTY_COLOR = 2,
     LOGOS_COUNT_NORMAL = 1, LOGOS_COUNT_FAST_CHARGING = 0, LOGOS_COUNT_WIRELESS = 0,
     FULL_BATTERY_INDEX = 37, LOW_BAT_ANIM_START_0 = 25, BAT_ANIM_START_0 = 15, NUMBER_PIC_START_0 = 4,
     NUMBER_PIC_PERCENT = 14, ANIM_V0_BACKGROUND_INDEX = 1, ANIM_V1_BACKGROUND_INDEX = 35,
     ANIM_LINE_INDEX = 36, V2_BAT_0_INDEX = 66, V2_BAT_100_INDEX = 67, V2_BAT_0_10_START_INDEX = 50,
     V2_BAT_10_40_START_INDEX = 54, V2_BAT_40_80_START_INDEX = 58, V2_BAT_80_100_START_NDEX = 62,
     V2_NUM_START_0_INDEX = 39, V2_NUM_PERCENT_INDEX = 49\<rparr>"

definition two_logos :: "(string \<Rightarrow> string option, unit) lk_env" where
  "two_logos = \<lparr>get_env = (\<lambda>k w. w k), set_env = (\<lambda>k v w. w(k := Some v)),
     decompress_logo = (\<lambda>addr len room. (if addr = 0x1020 then 9600000 else 4, ())),
     pinfo = (\<lambda>j. if j = 0 then 2 else if j = 1 then 0x40 else if j = 2 then 0x10 else 0x20),
     logo_addr = 0x1000, MTK_FAST_CHARGER_TECH = False, MTK_WIRELESS_CHARGER_SUPPORT = False,
     cust = plain_cust\<rparr>"

definition lk_state0 :: "(string \<Rightarrow> string option, unit) lk_state" where
  "lk_state0 = \<lparr>bits = 0, is_logo = True, logo_offset = - 1, logo_offset_ext = - 1,
     charging_low_index = 0, charging_animation_index = 0, version0_charging_index = 0,
     drawn = [], world = (\<lambda>_. None)\<rparr>"

lemma uint_numeral_2: "uint (2 :: u32) = 2" by simp

lemma resolution_found_and_kept_witness:
  "\<exists>s'. calculate_logo_offset two_logos tablet_screen 0 lk_state0 = Some (1, s')
    \<and> map_option fst (calculate_logo_offset two_logos tablet_screen 5 s') = Some 1"
proof -
  have n: "get_total_logo_images_entries two_logos = 1" "pinfo two_logos 0 = 2"
    by (simp_all add: get_total_logo_images_entries_def two_logos_def plain_cust_def)
  have fits: "fits two_logos tablet_screen (word_of_int 0) = None"
    "fits two_logos tablet_screen (word_of_int 1) = Some 32"
    by (simp_all add: fits_def check_logo_index_valid_def two_logos_def depth_of_def screen_pixels_def
        tablet_screen_def word_le_def Let_def)
  have ok: "partition_ok two_logos" by (simp add: partition_ok_def n)
  have start: "is_logo lk_state0" "get_logo_offset two_logos (lcm tablet_screen) lk_state0 = - 1"
    by (simp_all add: lk_state0_def get_logo_offset_def two_logos_def)
  have env: "get_env two_logos k (set_env two_logos k v w) = Some v" for k v w
    by (simp add: two_logos_def)
  obtain k s' where
    k: "calculate_logo_offset two_logos tablet_screen 0 lk_state0 = Some (int k, s')"
      "\<forall>j < k. int j < 2 \<and> fits two_logos tablet_screen (word_of_int (int j)) = None"
      "int k < 2 \<longrightarrow> fits two_logos tablet_screen (word_of_int (int k)) \<noteq> None"
      "map_option fst (calculate_logo_offset two_logos tablet_screen 5 s') = Some (int k)"
    using resolution_found_and_kept [OF ok start env, of 0 5]
    unfolding n unsigned_0 uint_numeral_2 add_0 mult_1 by blast
  have "\<not> 1 < k" using k(2) [THEN spec, of 1] fits(2) by auto
  moreover have "k \<noteq> 0" using k(3) fits(1) by (intro notI) simp
  ultimately have "k = 1" by simp
  with k(1,4) show ?thesis by auto
qed

section \<open>Frames\<close>

definition frames :: "('w, 'p) lk_state \<Rightarrow> int \<times> int \<times> int" where
  "frames s = (charging_low_index s, charging_animation_index s, version0_charging_index s)"

text \<open>Painting does not move a frame.\<close>

lemma frames_fields [simp]:
  "frames (store_offset l n s) = frames s" "frames (set_logo_offset E n l s) = frames s"
  "frames (s\<lparr>bits := b\<rparr>) = frames s" "frames (draw d s) = frames s"
  by (simp_all add: frames_def store_offset_def set_logo_offset_def draw_def)

lemma frames_draws [simp]: "frames (fold (\<lambda>k. draw (f k)) ks s) = frames s"
  by (induction ks arbitrary: s) simp_all

lemma frames_offset: "calculate_logo_offset E scr i s = Some (n, s') \<Longrightarrow> frames s' = frames s"
  by (auto simp: calculate_logo_offset_def Let_def split: if_splits option.splits)

lemma frames_picture: "picture E scr i room s = Some (p, s') \<Longrightarrow> frames s' = frames s"
  by (auto simp: picture_def dest: frames_offset split: option.splits if_splits)

lemma frames_painter:
  assumes "\<And>b pic s. frames (f b pic s) = frames s" "painter E scr i room pixels f s = Some s'"
  shows "frames s' = frames s"
  using assms
  by (auto simp: painter_def paint_def dest!: frames_picture split: option.splits prod.splits if_splits)

lemma frames_fill:
  "fill_animation_logo E scr i s = Some s' \<Longrightarrow> frames s' = frames s"
  "fill_animation_dynamic E scr i r s = Some s' \<Longrightarrow> frames s' = frames s"
  "fill_animation_number E scr i k s = Some s' \<Longrightarrow> frames s' = frames s"
  "fill_animation_line E scr i g s = Some s' \<Longrightarrow> frames s' = frames s"
  "percent E scr s = Some s' \<Longrightarrow> frames s' = frames s"
  by (auto simp: fill_animation_logo_def fill_animation_dynamic_def fill_animation_number_def
      fill_animation_line_def percent_def Let_def elim!: frames_painter [rotated])

text \<open>The frames that the three versions may stand at.\<close>

definition frames_ok :: "('w, 'p) lk_state \<Rightarrow> bool" where
  "frames_ok s \<longleftrightarrow> 0 \<le> charging_low_index s \<and> charging_low_index s \<le> 8
     \<and> 0 \<le> charging_animation_index s \<and> charging_animation_index s \<le> 8
     \<and> 0 \<le> version0_charging_index s \<and> version0_charging_index s \<le> 8"

lemma frames_ok_cong: "frames s = frames s' \<Longrightarrow> frames_ok s = frames_ok s'"
  by (simp add: frames_def frames_ok_def)

lemma old_index_range:
  "0 \<le> c \<Longrightarrow> c \<le> 100 \<Longrightarrow> 0 \<le> k \<Longrightarrow> k \<le> 8 \<Longrightarrow>
   (c * 4) sdiv 100 * 2 \<le> old_index c k \<and> 0 \<le> old_index c k \<and> old_index c k \<le> 8"
proof -
  assume c: "0 \<le> c" "c \<le> 100" "0 \<le> k" "k \<le> 8"
  have q: "(c * 4) sdiv 100 = c * 4 div 100" using c(1) by (cases "c = 0") (simp_all add: signed_divide_int_def)
  have "0 \<le> c * 4 div 100" using c(1) by simp
  moreover have "c * 4 div 100 \<le> 400 div 100" using c(2) by (intro zdiv_mono1) simp_all
  moreover have "c * 4 div 100 \<le> 396 div 100" if "c < 100" using that by (intro zdiv_mono1) simp_all
  ultimately have "0 \<le> c * 4 div 100" "c * 4 div 100 \<le> 4" "c < 100 \<Longrightarrow> c * 4 div 100 \<le> 3"
    by simp_all
  then show ?thesis
    using c unfolding old_index_def ANIM_V0_REGIONS_def q Let_def by auto
qed

lemma in_order_Cons:
  "in_order (f # fs) s = Some s' \<longleftrightarrow> (\<exists>s1. f s = Some s1 \<and> in_order fs s1 = Some s')"
  by (simp split: option.split)

lemmas in_order_steps = in_order_Cons in_order.simps(1)

lemma next_frame_range: "0 \<le> k \<Longrightarrow> k \<le> 8 \<Longrightarrow> 0 \<le> next_frame (k + 1) \<and> next_frame (k + 1) \<le> 8"
  by (simp add: next_frame_def)

lemma old_frames:
  assumes "fill_animation_battery_old E scr c s = Some s'" "frames_ok s"
  shows "frames_ok s'"
proof -
  let ?c = "if c > 100 then 100 else uint c"
  let ?s = "s\<lparr>version0_charging_index := old_index ?c (version0_charging_index s)\<rparr>"
  obtain s1 where s1: "fill_animation_logo E scr (ANIM_V0_BACKGROUND_INDEX (cust E)) ?s = Some s1"
    "frames s' = frames s1"
    using assms(1) unfolding fill_animation_battery_old_def fill_animation_prog_bar_def Let_def
    by (auto split: option.splits)
  have "0 \<le> ?c \<and> ?c \<le> 100" by (simp add: word_less_def)
  then have "frames_ok ?s"
    using assms(2) old_index_range [of ?c "version0_charging_index s"] by (simp add: frames_ok_def)
  moreover have "frames s' = frames ?s" using frames_fill(1) [OF s1(1)] s1(2) by simp
  ultimately show ?thesis using frames_ok_cong by metis
qed

lemma new_frames:
  assumes "fill_animation_battery_new E scr c s = Some s'" "frames_ok s"
  shows "frames_ok s'"
proof -
  consider (full) "c \<ge> 100" | (low) "\<not> c \<ge> 100" "c < 10" | (mid) "\<not> c \<ge> 100" "\<not> c < 10" by blast
  then show ?thesis
  proof cases
    case full
    then have "frames s' = frames s"
      using assms(1) by (auto simp: fill_animation_battery_new_def dest: frames_fill)
    then show ?thesis using assms(2) frames_ok_cong by metis
  next
    case low
    then have "frames s' = (next_frame (charging_low_index s + 1), snd (frames s))"
      using assms(1) unfolding fill_animation_battery_new_def Let_def
      by (auto simp: in_order_steps frames_def dest!: frames_fill simp del: in_order.simps(2))
    then show ?thesis
      using assms(2) next_frame_range [of "charging_low_index s"] by (simp add: frames_def frames_ok_def)
  next
    case mid
    then have "frames s' = frames s \<or>
        frames s' = (charging_low_index s, next_frame (charging_animation_index s + 1), version0_charging_index s)"
      using assms(1) unfolding fill_animation_battery_new_def Let_def
      by (auto simp: in_order_steps frames_def dest!: frames_fill simp del: in_order.simps(2) split: if_splits)
    then show ?thesis
      using assms(2) next_frame_range [of "charging_animation_index s"] by (auto simp: frames_def frames_ok_def)
  qed
qed

lemma wireless_frames:
  assumes "fill_animation_battery_wireless_charging E scr c s = Some s'" "frames_ok s"
  shows "frames_ok s'"
proof -
  let ?k = "if charging_low_index s \<ge> 3 then 0 else charging_low_index s + 1"
  have "frames s' = frames (s\<lparr>charging_low_index := ?k\<rparr>)"
    using assms(1) unfolding fill_animation_battery_wireless_charging_def Let_def
    by (auto simp: in_order_steps dest!: frames_fill simp del: in_order.simps(2) split: if_splits)
  moreover have "frames_ok (s\<lparr>charging_low_index := ?k\<rparr>)"
    using assms(2) by (auto simp: frames_ok_def)
  ultimately show ?thesis using frames_ok_cong by metis
qed

lemma version_frames:
  "fill_animation_battery_by_ver E scr c v s = Some s' \<Longrightarrow> frames_ok s \<Longrightarrow> frames_ok s'"
  by (auto simp: fill_animation_battery_by_ver_def split: if_splits
      intro: old_frames new_frames wireless_frames)

text \<open>The painters return: with the partition as above, and whatever the environment holds, no
  search is without end.\<close>

lemma calculate_logo_offset_returns:
  assumes "partition_ok E"
  shows "calculate_logo_offset E scr i s \<noteq> None"
proof -
  have n: "0 < get_total_logo_images_entries E" "uint (pinfo E 0) + get_total_logo_images_entries E \<le> 2 ^ 32"
    using assms by (simp_all add: partition_ok_def)
  have "find_logos E scr (is_logo s) (get_total_logo_images_entries E) i 0 \<noteq> None"
  proof (cases "is_logo s")
    case True
    then show ?thesis using find_logos_steps [OF n, of scr i 0] by auto
  next
    case False
    then show ?thesis by (subst find_logos.simps) (simp add: check_logo_index_valid_def)
  qed
  then show ?thesis
    by (auto simp: calculate_logo_offset_def Let_def store_offset_def split: option.splits)
qed

lemma painter_returns: "partition_ok E \<Longrightarrow> \<exists>s'. painter E scr i room pixels f s = Some s'"
  using calculate_logo_offset_returns [of E scr i s]
  by (auto simp: painter_def picture_def split: option.splits prod.splits)

lemma fills_return:
  assumes "partition_ok E"
  shows "\<exists>s'. fill_animation_logo E scr i s = Some s'" "\<exists>s'. fill_animation_dynamic E scr i r s = Some s'"
    "\<exists>s'. fill_animation_number E scr i k s = Some s'" "\<exists>s'. fill_animation_line E scr i g s = Some s'"
    "\<exists>s'. percent E scr s = Some s'"
  by (simp_all add: fill_animation_logo_def fill_animation_dynamic_def fill_animation_number_def
      fill_animation_line_def percent_def Let_def painter_returns [OF assms])

lemma in_order_returns:
  "(\<And>f s. f \<in> set fs \<Longrightarrow> \<exists>s'. f s = Some s') \<Longrightarrow> \<exists>s'. in_order fs s = Some s'"
proof (induction fs arbitrary: s)
  case (Cons f fs)
  obtain s1 where "f s = Some s1" using Cons.prems [of f s] by auto
  moreover obtain s' where "in_order fs s1 = Some s'" using Cons.IH Cons.prems by (meson list.set_intros(2))
  ultimately show ?case by simp
qed simp

lemma old_returns: "partition_ok E \<Longrightarrow> \<exists>s'. fill_animation_battery_old E scr c s = Some s'"
  using fills_return(1) [of E scr "ANIM_V0_BACKGROUND_INDEX (cust E)"]
  by (auto simp: fill_animation_battery_old_def Let_def split: option.split) (metis option.simps(3))+

lemma new_returns:
  assumes "partition_ok E" shows "\<exists>s'. fill_animation_battery_new E scr c s = Some s'"
  unfolding fill_animation_battery_new_def Let_def
  by (auto simp: fills_return [OF assms] simp del: in_order.simps intro!: in_order_returns)

lemma wireless_returns:
  assumes "partition_ok E" shows "\<exists>s'. fill_animation_battery_wireless_charging E scr c s = Some s'"
  unfolding fill_animation_battery_wireless_charging_def Let_def
  by (auto simp: fills_return [OF assms] simp del: in_order.simps intro!: in_order_returns)

lemma version_returns:
  "partition_ok E \<Longrightarrow> \<exists>s'. fill_animation_battery_by_ver E scr c v s = Some s'"
  by (simp add: fill_animation_battery_by_ver_def old_returns new_returns wireless_returns)

text \<open>C39: on a loaded partition, any sequence of charge levels and versions of the animation is
  painted to its end, and no frame counter leaves its range: each of the three stays between
  0 and 8, although the first two are incremented before they are tested.\<close>

theorem animation_frames_in_range:
  assumes "partition_ok E" "frames s = (0, 0, 0)"
  shows "\<exists>s'. in_order (map (\<lambda>(c, v). fill_animation_battery_by_ver E scr c v) calls) s = Some s'
    \<and> frames_ok s'"
proof -
  have "frames_ok s \<Longrightarrow> in_order (map (\<lambda>(c, v). fill_animation_battery_by_ver E scr c v) calls) s = Some s'
    \<Longrightarrow> frames_ok s'" for s s'
    by (induction calls arbitrary: s)
      (auto simp: in_order_steps simp del: in_order.simps(2) intro: version_frames)
  moreover have "frames_ok s" using assms(2) by (simp add: frames_def frames_ok_def)
  moreover have "\<exists>s'. in_order (map (\<lambda>(c, v). fill_animation_battery_by_ver E scr c v) calls) s = Some s'"
    by (rule in_order_returns) (clarsimp simp: version_returns [OF assms(1)])
  ultimately show ?thesis by blast
qed

lemma two_logos_ok: "partition_ok two_logos"
  by (simp add: partition_ok_def get_total_logo_images_entries_def two_logos_def plain_cust_def)

lemma animation_frames_in_range_witness:
  "\<exists>s'. in_order (map (\<lambda>(c, v). fill_animation_battery_by_ver two_logos tablet_screen c v)
      [(5, 1), (50, 0), (50, 1), (7, 2)]) lk_state0 = Some s' \<and> frames_ok s'"
  by (rule animation_frames_in_range [OF two_logos_ok]) (simp add: frames_def lk_state0_def)

section \<open>The bar\<close>

text \<open>A bar of the old animation high enough for its four regions and the space after each.\<close>

definition bar_ok :: "rect_region \<Rightarrow> bool" where
  "bar_ok r \<longleftrightarrow> 0 \<le> top r \<and> 16 < bottom r - top r \<and> bottom r < 2 ^ 31"

lemma region_values:
  assumes "bar_ok r" "i < 4"
  defines "d \<equiv> (bottom r - top r) div 4"
  shows "bottom (bar_region r i) = bottom r - d * int i - 4"
    and "top (bar_region r i) = bottom r - d * (int i + 1)"
    and "left (bar_region r i) = left r" "right (bar_region r i) = right r"
proof -
  have h: "16 < bottom r - top r" using assms(1) by (simp add: bar_ok_def)
  then have q: "(bottom r - top r) sdiv 4 = d"
    by (simp add: d_def signed_divide_int_def sgn_if)
  have d: "4 \<le> d" "4 * d \<le> bottom r - top r" using h unfolding d_def by presburger+
  have "0 \<le> top r" "bottom r < 2 ^ 31" using assms(1) by (simp_all add: bar_ok_def)
  moreover have "d * int i \<le> d * 3" using assms(2) d(1) by (intro mult_left_mono) simp_all
  moreover have "0 \<le> d * int i" using d(1) by simp
  moreover have "d * (int i + 1) = d * int i + d" by (simp add: algebra_simps)
  ultimately have "s32 (bottom r - d * int i - 4) = bottom r - d * int i - 4"
    "s32 (bottom r - d * (int i + 1)) = bottom r - d * (int i + 1)"
    using d by (intro s32_id; linarith)+
  then show "bottom (bar_region r i) = bottom r - d * int i - 4"
    "top (bar_region r i) = bottom r - d * (int i + 1)"
    "left (bar_region r i) = left r" "right (bar_region r i) = right r"
    by (simp_all add: bar_region_def Let_def q ANIM_V0_REGIONS_def ANIM_V0_SPACE_AFTER_REGION_def
        rect_of_def algebra_simps)
qed

text \<open>The four regions of the old animation's bar lie inside the bar, the first at the
  bottom, one above the other with a space of four lines between them.\<close>

theorem bar_regions_inside_and_apart:
  assumes "bar_ok r" "i < 4" "j < 4"
  shows "top r \<le> top (bar_region r i) \<and> top (bar_region r i) \<le> bottom (bar_region r i)
    \<and> bottom (bar_region r i) \<le> bottom r - 4 \<and> left (bar_region r i) = left r
    \<and> right (bar_region r i) = right r
    \<and> (i < j \<longrightarrow> bottom (bar_region r j) + 4 \<le> top (bar_region r i))"
proof -
  define d where "d = (bottom r - top r) div 4"
  note R = region_values [OF assms(1), folded d_def]
  have d: "4 \<le> d" "4 * d \<le> bottom r - top r"
    using assms(1) unfolding d_def bar_ok_def by linarith+
  have up: "d * (int k + 1) \<le> d * int m" if "k < m" for k m :: nat
    using that d(1) by (intro mult_left_mono) simp_all
  have step: "d * (int i + 1) = d * int i + d" by (simp add: algebra_simps)
  have at0: "0 \<le> d * int i" using d(1) by simp
  have at4: "d * (int i + 1) \<le> d * 4" using assms(2) d(1) by (intro mult_left_mono) simp_all
  have "top r \<le> bottom r - d * (int i + 1)" using at4 d(2) by linarith
  moreover have "bottom r - d * (int i + 1) \<le> bottom r - d * int i - 4" using step d(1) by linarith
  moreover have "bottom r - d * int i - 4 \<le> bottom r - 4" using at0 by linarith
  moreover have "i < j \<longrightarrow> bottom r - d * int j - 4 + 4 \<le> bottom r - d * (int i + 1)"
    using up [of i j] by linarith
  ultimately show ?thesis
    unfolding R(1) [OF assms(2)] R(2) [OF assms(2)] R(3) [OF assms(2)] R(4) [OF assms(2)] R(1) [OF assms(3)]
    by (simp only: simp_thms)
qed

lemma bar_regions_inside_and_apart_witness:
  "bottom (bar_region (rect_of 50 200 150 301) 2) + 4 \<le> top (bar_region (rect_of 50 200 150 301) 1)"
  using bar_regions_inside_and_apart [of "rect_of 50 200 150 301" 1 2]
  by (simp add: bar_ok_def rect_of_def)

text \<open>The digits of the wireless animation: at 32 bits a picture of that size is twice as large as
  the array that \<open>show_animation_common.c\<close> declares for it.\<close>

lemma wireless_buffer_half:
  assumes "uint (scr_width scr) = 10 * w" "uint (scr_height scr) = 60 * h" "0 \<le> w" "0 \<le> h"
  shows "area (wireless_rect scr k) * 4 = 2 * wireless_buffer scr"
proof -
  have s: "(a :: int) sdiv b = a div b" if "0 \<le> a" "0 < b" for a b
    using that by (cases "a = 0") (simp_all add: signed_divide_int_def)
  have "wireless_rect scr k = rect_of (4 * w + k * w) (10 * h) (5 * w + k * w) (16 * h)"
    using assms(3,4) by (simp add: wireless_rect_def assms(1,2) s)
  moreover have "wireless_buffer scr = 2 * (w * h * 600 div 100)"
    using assms(3,4) by (simp add: wireless_buffer_def screen_pixels_def assms(1,2) s mult.commute mult.left_commute)
  ultimately show ?thesis
    by (simp add: area_def rect_width_def rect_height_def rect_of_def algebra_simps)
qed

end
