(* ===== verification/Lk_Display.thy ===== *)
theory Lk_Display
  imports Lk_Show
begin

text \<open>
  The screens of the boot loader (\<open>mt_logo.c\<close>): the parameters of the panel, the version of
  the animation, the logos, and the virtual battery.  What the code calls elsewhere is
  logged; a caller can be read off the log.
\<close>

section \<open>State\<close>

text \<open>The log: a call with its arguments, a line printed on the screen, a value that was read.\<close>

datatype lk_event = Call string "int list" | Print string | Got string int

record ('w, 'p) lk_boot =
  lk_anim :: "('w, 'p) lk_state"
  phical_screen :: lcm_screen
  show_animationm_ver :: int
  frame_buffer :: "(int \<Rightarrow> u32) option"
  bypass_en :: bool
  backlight_on :: bool
  lk_calls :: "lk_event list"

text \<open>The board: the build options, the constants of the panel and of the pictures, the hooks of
  the custom logo interface that are set, the effect of a call on the world, and the
  painter of the logo library, which writes a drawing into the frame buffer.\<close>

record ('w, 'p) lk_board =
  lk :: "('w, 'p) lk_env"
  build :: "string \<Rightarrow> bool"
  lk_run :: "string \<Rightarrow> int list \<Rightarrow> 'w \<Rightarrow> 'w"
  render :: "'p drawing \<Rightarrow> lcm_screen \<Rightarrow> (int \<Rightarrow> u32) \<Rightarrow> int \<Rightarrow> u32"
  mt_get_fb_size :: "'w \<Rightarrow> u32"
  CFG_DISPLAY_WIDTH :: u32
  CFG_DISPLAY_HEIGHT :: u32
  ALIGN_TO :: "u32 \<Rightarrow> u32 \<Rightarrow> u32"
  MTK_FB_ALIGNMENT :: u32
  MTK_LCM_PHYSICAL_ROTATION :: string
  logo_hook :: "string \<Rightarrow> bool"
  g_logo_argb :: "nat \<Rightarrow> u8"
  g_word_logo_argb_en :: "nat \<Rightarrow> u8"
  BOOT_LOGO_INDEX :: u32
  CHARGER_OV_INDEX :: u32
  LOW_BATTERY_INDEX :: u32
  LOW_BATTERY01_INDEX :: u32
  LOW_BATTERY_REMIND_INDEX :: u32

definition BOOT_MENU_INDEX :: u32 where "BOOT_MENU_INDEX = 99"
definition BOOT_FASTBOOT_INDEX :: u32 where "BOOT_FASTBOOT_INDEX = 100"
definition BOOT_META_INDEX :: u32 where "BOOT_META_INDEX = 101"

abbreviation lk_world :: "('w, 'p) lk_boot \<Rightarrow> 'w" where
  "lk_world s \<equiv> world (lk_anim s)"

text \<open>A step of the boot either returns a state or does not return.\<close>

type_synonym ('w, 'p) lk_step = "('w, 'p) lk_boot \<Rightarrow> ('w, 'p) lk_boot option"

definition lk_log :: "lk_event \<Rightarrow> ('w, 'p) lk_boot \<Rightarrow> ('w, 'p) lk_boot" where
  "lk_log e s = s\<lparr>lk_calls := lk_calls s @ [e]\<rparr>"

definition lk_call :: "('w, 'p) lk_board \<Rightarrow> string \<Rightarrow> int list \<Rightarrow> ('w, 'p) lk_step" where
  "lk_call B f args s =
    Some (lk_log (Call f args) (s\<lparr>lk_anim := (lk_anim s)\<lparr>world := lk_run B f args (lk_world s)\<rparr>\<rparr>))"

definition video_printf :: "string \<Rightarrow> ('w, 'p) lk_step" where
  "video_printf t s = Some (lk_log (Print t) s)"

text \<open>Code of a build option, and of a condition on the world.\<close>

definition when_on :: "bool \<Rightarrow> ('w, 'p) lk_step \<Rightarrow> ('w, 'p) lk_step" where
  "when_on b f = (if b then f else Some)"

definition when_now :: "('w \<Rightarrow> bool) \<Rightarrow> ('w, 'p) lk_step \<Rightarrow> ('w, 'p) lk_step" where
  "when_now c f s = (if c (lk_world s) then f s else Some s)"

section \<open>The panel\<close>

definition sync_anim_version :: "('w, 'p) lk_board \<Rightarrow> ('w, 'p) lk_boot \<Rightarrow> ('w, 'p) lk_boot" where
  "sync_anim_version B s =
    s\<lparr>show_animationm_ver := (if build B ''ANIMATION_NEW'' then VERION_NEW_ANIMATION else VERION_OLD_ANIMATION)\<rparr>"

text \<open>The rotation by 180 degrees needs \<open>need180Adjust\<close>, which the code sets to 0.\<close>

definition lcm_rotation :: "string \<Rightarrow> int \<Rightarrow> int" where
  "lcm_rotation r need180Adjust =
    (if take 3 r = ''270'' then 270
     else if take 2 r = ''90'' then 90
     else if take 3 r = ''180'' \<and> need180Adjust = 1 then 180
     else 0)"

definition init_fb_screen :: "('w, 'p) lk_board \<Rightarrow> ('w, 'p) lk_boot \<Rightarrow> ('w, 'p) lk_boot" where
  "init_fb_screen B s =
    (let s = s\<lparr>phical_screen := (phical_screen s)
          \<lparr>scr_width := CFG_DISPLAY_WIDTH B, scr_height := CFG_DISPLAY_HEIGHT B,
           fb_size := mt_get_fb_size B (lk_world s),
           allignWidth := ALIGN_TO B (CFG_DISPLAY_WIDTH B) (MTK_FB_ALIGNMENT B),
           rotation := lcm_rotation (MTK_LCM_PHYSICAL_ROTATION B) 0\<rparr>\<rparr>;
         s = sync_anim_version B s
     in if show_animationm_ver s = 1
        then s\<lparr>show_animationm_ver := (if pinfo (lk B) 0 < 6 then 0 else 1)\<rparr> else s)"

section \<open>Logos\<close>

text \<open>A painter of the logo library on the screen: its drawings reach the frame buffer.\<close>

definition on_screen ::
  "('w, 'p) lk_board \<Rightarrow> (lcm_screen \<Rightarrow> ('w, 'p) lk_state \<Rightarrow> ('w, 'p) lk_state option) \<Rightarrow> ('w, 'p) lk_step" where
  "on_screen B f s =
    (case f (phical_screen s) (lk_anim s) of
       None \<Rightarrow> None
     | Some a \<Rightarrow>
         let new = drop (length (drawn (lk_anim s))) (drawn a)
         in Some (s\<lparr>lk_anim := a,
              frame_buffer := map_option (fold (\<lambda>d. render B d (phical_screen s)) new) (frame_buffer s)\<rparr>))"

definition mt_disp_update :: "('w, 'p) lk_board \<Rightarrow> ('w, 'p) lk_step" where
  "mt_disp_update B =
    lk_call B ''mt_disp_update'' [0, 0, uint (CFG_DISPLAY_WIDTH B), uint (CFG_DISPLAY_HEIGHT B)]"

definition show_picture ::
  "('w, 'p) lk_board \<Rightarrow> (lcm_screen \<Rightarrow> ('w, 'p) lk_state \<Rightarrow> ('w, 'p) lk_state option) \<Rightarrow> ('w, 'p) lk_step" where
  "show_picture B f = in_order [\<lambda>s. Some (init_fb_screen B s), on_screen B f, mt_disp_update B]"

text \<open>A hook of the custom interface replaces the picture.\<close>

definition hook_or :: "('w, 'p) lk_board \<Rightarrow> string \<Rightarrow> int list \<Rightarrow> ('w, 'p) lk_step \<Rightarrow> ('w, 'p) lk_step" where
  "hook_or B h args f = (if logo_hook B h then lk_call B h args else f)"

definition mt_disp_show_boot_logo :: "('w, 'p) lk_board \<Rightarrow> ('w, 'p) lk_step" where
  "mt_disp_show_boot_logo B =
    hook_or B ''show_boot_logo'' [] (show_picture B (\<lambda>scr. fill_animation_logo (lk B) scr (BOOT_LOGO_INDEX B)))"

definition mt_disp_show_boot_meta_logo :: "('w, 'p) lk_board \<Rightarrow> ('w, 'p) lk_step" where
  "mt_disp_show_boot_meta_logo B = show_picture B (\<lambda>scr. fill_animation_logo (lk B) scr BOOT_META_INDEX)"

definition mt_disp_show_boot_fastboot_logo :: "('w, 'p) lk_board \<Rightarrow> ('w, 'p) lk_step" where
  "mt_disp_show_boot_fastboot_logo B =
    show_picture B (\<lambda>scr. fill_animation_logo (lk B) scr BOOT_FASTBOOT_INDEX)"

definition mt_disp_show_boot_menu_logo :: "('w, 'p) lk_board \<Rightarrow> ('w, 'p) lk_step" where
  "mt_disp_show_boot_menu_logo B = show_picture B (\<lambda>scr. fill_animation_logo (lk B) scr BOOT_MENU_INDEX)"

definition mt_disp_enter_charging_state :: "('w, 'p) lk_board \<Rightarrow> ('w, 'p) lk_step" where
  "mt_disp_enter_charging_state B = hook_or B ''enter_charging_state'' [] Some"

text \<open>The version of the animation is the one that \<open>init_fb_screen\<close> has just settled.\<close>

definition mt_disp_show_battery_capacity :: "('w, 'p) lk_board \<Rightarrow> u32 \<Rightarrow> ('w, 'p) lk_step" where
  "mt_disp_show_battery_capacity B capacity =
    hook_or B ''show_battery_capacity'' [uint capacity]
      (in_order [\<lambda>s. Some (init_fb_screen B s),
         \<lambda>s. on_screen B (\<lambda>scr. fill_animation_battery_by_ver (lk B) scr capacity (show_animationm_ver s)) s,
         mt_disp_update B])"

definition mt_disp_show_battery_full :: "('w, 'p) lk_board \<Rightarrow> ('w, 'p) lk_step" where
  "mt_disp_show_battery_full B = mt_disp_show_battery_capacity B 100"

definition mt_disp_show_charger_ov_logo :: "('w, 'p) lk_board \<Rightarrow> ('w, 'p) lk_step" where
  "mt_disp_show_charger_ov_logo B =
    hook_or B ''show_boot_logo'' [] (show_picture B (\<lambda>scr. fill_animation_logo (lk B) scr (CHARGER_OV_INDEX B)))"

definition mt_disp_show_low_battery :: "('w, 'p) lk_board \<Rightarrow> ('w, 'p) lk_step" where
  "mt_disp_show_low_battery B =
    hook_or B ''show_boot_logo'' [] (show_picture B (\<lambda>scr. fill_animation_logo (lk B) scr (LOW_BATTERY_INDEX B)))"

definition mt_disp_show_charging :: "('w, 'p) lk_board \<Rightarrow> int \<Rightarrow> ('w, 'p) lk_step" where
  "mt_disp_show_charging B i =
    hook_or B ''show_boot_logo'' []
      (show_picture B (\<lambda>scr. fill_animation_logo (lk B) scr (word_of_int i + LOW_BATTERY01_INDEX B)))"

definition mt_disp_show_plug_charger :: "('w, 'p) lk_board \<Rightarrow> ('w, 'p) lk_step" where
  "mt_disp_show_plug_charger B =
    hook_or B ''show_boot_logo'' []
      (show_picture B (\<lambda>scr. fill_animation_logo (lk B) scr (LOW_BATTERY_REMIND_INDEX B)))"

text \<open>The virtual battery: no hook, and an update only when there is a frame buffer.\<close>

definition mt_disp_show_vitural_battery :: "('w, 'p) lk_board \<Rightarrow> ('w, 'p) lk_step" where
  "mt_disp_show_vitural_battery B s =
    (let s = init_fb_screen B s; scr = phical_screen s in
     case display_hardcoded_logo (g_logo_argb B) (g_word_logo_argb_en B) scr (frame_buffer s) of
       None \<Rightarrow> Some s
     | Some fb \<Rightarrow> lk_call B ''mt_disp_update'' [0, 0, uint (scr_width scr), uint (scr_height scr)]
                    (s\<lparr>frame_buffer := Some fb\<rparr>))"

definition mt_disp_fill_rect :: "('w, 'p) lk_board \<Rightarrow> rect_region \<Rightarrow> u32 \<Rightarrow> ('w, 'p) lk_step" where
  "mt_disp_fill_rect B r color s =
    on_screen B (\<lambda>scr a. Some (draw (Color r color) a)) (init_fb_screen B s)"

end
