(* ===== verification/Lk_Platform.thy ===== *)
theory Lk_Platform
  imports Lk_Display
begin

text \<open>
  The boot of the platform (\<open>platform.c\<close>): the bypass byte of \<open>proinfo\<close>, the sequence of
  \<open>platform_init\<close> with the decision between the virtual battery and the logo, and what the
  sequence calls in the same file.
\<close>

section \<open>The platform\<close>

datatype boot_mode = NORMAL_BOOT | META_BOOT | RECOVERY_BOOT | SW_REBOOT | FACTORY_BOOT
  | ADVMETA_BOOT | ATE_FACTORY_BOOT | ALARM_BOOT | FASTBOOT | DOWNLOAD_BOOT | BOOT_MENU
  | KERNEL_POWER_OFF_CHARGING_BOOT | LOW_POWER_OFF_CHARGING_BOOT | OTHER_BOOT int

text \<open>What the sequence asks outside this file.  A call may change the world, and with it the
  answers.\<close>

record ('w, 'p) lk_platform =
  board :: "('w, 'p) lk_board"
  g_boot_mode :: "'w \<Rightarrow> boot_mode"
  boot_arg_mode :: "'w \<Rightarrow> boot_mode"
  boot_reason_usb :: "'w \<Rightarrow> bool"
  meta_com_type :: "'w \<Rightarrow> int"
  upmu_is_chr_det :: "'w \<Rightarrow> bool"
  mtk_bat_allow_backlight_enable :: "'w \<Rightarrow> bool"
  get_chr_volt :: "'w \<Rightarrow> u32"
  is_low_battery :: "'w \<Rightarrow> bool"
  charger_is_standard_host :: "'w \<Rightarrow> bool"
  charger_is_nonstandard :: "'w \<Rightarrow> bool"
  logo_size :: "'w \<Rightarrow> int"
  LK_LOGO_MAX_SIZE :: int
  mt_get_logo_db_addr_pa :: int
  mt_disp_get_vram_size :: "'w \<Rightarrow> u32"
  da_info :: "'w \<Rightarrow> int list"
  mmc_get_dl_info :: "'w \<Rightarrow> int"
  ver_test_fails :: "'w \<Rightarrow> bool"
  img_auth_stor :: "'w \<Rightarrow> int"
  bio_open :: "string \<Rightarrow> 'w \<Rightarrow> bool"
  bio_read :: "int \<Rightarrow> int \<Rightarrow> 'w \<Rightarrow> int \<times> u8"
  mmc_block_read :: "u32 \<Rightarrow> 'w \<Rightarrow> int \<times> (nat \<Rightarrow> u8)"
  read_reg32 :: "u32 \<Rightarrow> 'w \<Rightarrow> u32"
  CA7MCUCFG_BASE :: u32
  nr_cpu :: "'w \<Rightarrow> int"

abbreviation opt :: "('w, 'p) lk_platform \<Rightarrow> string \<Rightarrow> bool" where
  "opt P \<equiv> build (board P)"

abbreviation do_call :: "('w, 'p) lk_platform \<Rightarrow> string \<Rightarrow> ('w, 'p) lk_step" where
  "do_call P f \<equiv> lk_call (board P) f []"

definition mode_is :: "('w, 'p) lk_platform \<Rightarrow> boot_mode list \<Rightarrow> 'w \<Rightarrow> bool" where
  "mode_is P ms w \<longleftrightarrow> g_boot_mode P w \<in> set ms"

text \<open>An assertion that fails does not return.\<close>

definition lk_assert :: "('w \<Rightarrow> bool) \<Rightarrow> ('w, 'p) lk_step" where
  "lk_assert c s = (if c (lk_world s) then Some s else None)"

section \<open>The bypass byte\<close>

definition PRO_INFO_NAME :: string where "PRO_INFO_NAME = ''proinfo''"
definition NV_BYPASSENABLE_OFFSET :: int where "NV_BYPASSENABLE_OFFSET = 35"
definition NV_BYPASSENABLE_LEN :: int where "NV_BYPASSENABLE_LEN = 1"

text \<open>The result says whether the byte was read; only then the caller's flag is set.  Without the
  block device the sector of the partition is read directly, at an address taken from one
  phone's partition table.\<close>

definition readBypassEnable :: "('w, 'p) lk_platform \<Rightarrow> bool \<Rightarrow> ('w, 'p) lk_boot \<Rightarrow> (bool \<times> ('w, 'p) lk_boot)" where
  "readBypassEnable P given s =
    (let w = lk_world s;
         got = (\<lambda>code s. (True, lk_log (Got ''bypass'' (uint code)) (s\<lparr>bypass_en := (code \<noteq> (0 :: u8))\<rparr>)))
     in if \<not> given then (False, s)
        else if bio_open P PRO_INFO_NAME w then
          (let (len, code) = bio_read P NV_BYPASSENABLE_OFFSET NV_BYPASSENABLE_LEN w
           in if len \<ge> NV_BYPASSENABLE_LEN then got code s else (False, s))
        else
          (let sector = 0x1bd000 + word_of_int (NV_BYPASSENABLE_OFFSET sdiv 512);
               (ret, buf) = mmc_block_read P sector w
           in if ret = 0 then got (buf (nat (NV_BYPASSENABLE_OFFSET smod 512))) s else (False, s)))"

definition getBypassSetting :: "('w, 'p) lk_platform \<Rightarrow> ('w, 'p) lk_boot \<Rightarrow> (bool \<times> ('w, 'p) lk_boot)" where
  "getBypassSetting P = readBypassEnable P True"

section \<open>The decision\<close>

definition show_logo :: "('w, 'p) lk_platform \<Rightarrow> ('w, 'p) lk_step" where
  "show_logo P = mt_disp_show_boot_logo (board P)"

definition voltage_decision :: "('w, 'p) lk_platform \<Rightarrow> ('w, 'p) lk_step" where
  "voltage_decision P s =
    (let volt = get_chr_volt P (lk_world s); s = lk_log (Got ''volt'' (uint volt)) s
     in if bypass_en s \<and> volt < 3000
        then in_order [mt_disp_show_vitural_battery (board P),
               lk_call (board P) ''mdelay'' [4000], do_call P ''chr_power_off''] s
        else show_logo P s)"

definition battery_decision :: "('w, 'p) lk_platform \<Rightarrow> ('w, 'p) lk_step" where
  "battery_decision P s =
    (if g_boot_mode P (lk_world s) = NORMAL_BOOT \<or> g_boot_mode P (lk_world s) = ALARM_BOOT then
       let (res, s) = getBypassSetting P s
       in in_order [if res then Some else (\<lambda>s. show_logo P (s\<lparr>bypass_en := False\<rparr>)), voltage_decision P] s
     else show_logo P s)"

section \<open>Parts of the sequence\<close>

definition init_storage :: "('w, 'p) lk_platform \<Rightarrow> ('w, 'p) lk_step" where
  "init_storage P = in_order
    [if opt P ''MTK_EMMC_SUPPORT'' then lk_call (board P) ''mmc_legacy_init'' [1]
     else if opt P ''MTK_UFS_SUPPORT'' then do_call P ''ufs_lk_init''
     else when_on (\<not> opt P ''MACH_FPGA'') (in_order [do_call P ''nand_init'', do_call P ''nand_driver_test'']),
     when_on (opt P ''MTK_EMMC_SUPPORT'' \<or> opt P ''MTK_UFS_SUPPORT'') (do_call P ''init_rpmb_sharemem'')]"

definition lk_vb_init :: "('w, 'p) lk_platform \<Rightarrow> ('w, 'p) lk_step" where
  "lk_vb_init P = when_on (opt P ''MTK_SECURITY_SW_SUPPORT'') (in_order
    [when_on (opt P ''MTK_VER_SIMPLE_TEST'')
       (in_order [do_call P ''sec_mtk_internal_ver_test'', lk_assert (\<lambda>w. \<not> ver_test_fails P w)]),
     when_on (opt P ''MTK_OTP_FRAMEWORK_V2'') (do_call P ''enable_anti_rollback_v2_framework''),
     do_call P ''plinfo_get_brom_header_block_size'', do_call P ''sec_func_init'',
     do_call P ''seclib_set_oemkey''])"

definition lk_vb_vfy_logo :: "('w, 'p) lk_platform \<Rightarrow> ('w, 'p) lk_step" where
  "lk_vb_vfy_logo P = when_on (opt P ''MTK_SECURITY_SW_SUPPORT'')
    (when_now (\<lambda>w. \<not> mode_is P [META_BOOT] w)
      (in_order [do_call P ''img_auth_stor'', lk_assert (\<lambda>w. img_auth_stor P w = 0)]))"

definition kernel_charging_boot :: "('w, 'p) lk_platform \<Rightarrow> 'w \<Rightarrow> int" where
  "kernel_charging_boot P w =
    (if mode_is P [KERNEL_POWER_OFF_CHARGING_BOOT, LOW_POWER_OFF_CHARGING_BOOT] w
     then if upmu_is_chr_det P w then 1 else - 1 else 0)"

definition show_update :: "('w, 'p) lk_platform \<Rightarrow> ('w, 'p) lk_step" where
  "show_update P = when_on (\<not> opt P ''MACH_FPGA_NO_DISPLAY'') (mt_disp_update (board P))"

definition light_up :: "('w, 'p) lk_platform \<Rightarrow> ('w, 'p) lk_step" where
  "light_up P = when_on (\<not> opt P ''MACH_FPGA'')
    (in_order [lk_call (board P) ''mdelay'' [40], do_call P ''mt65xx_backlight_on''])"

text \<open>The cache is shared with the SRAM for the download agent.  The code clears the size field by
  and-ing the complement of its mask, shifted.\<close>

definition cache_config :: "('w, 'p) lk_platform \<Rightarrow> int \<Rightarrow> u32" where
  "cache_config P cluster = CA7MCUCFG_BASE P + 0x200 * word_of_int cluster"

definition is_l2_need_config :: "('w, 'p) lk_platform \<Rightarrow> 'w \<Rightarrow> bool" where
  "is_l2_need_config P w \<longleftrightarrow> drop_bit 8 (read_reg32 P (cache_config P 0) w) AND 7 = 1"

definition shared_size :: "u32 \<Rightarrow> u32" where
  "shared_size cfg = ((cfg AND push_bit 8 (NOT 7)) OR push_bit 8 1) OR push_bit 12 1"

definition unshared_size :: "u32 \<Rightarrow> u32" where
  "unshared_size cfg = (cfg AND push_bit 8 (NOT 7)) OR push_bit 8 3"

definition write_reg32 :: "('w, 'p) lk_platform \<Rightarrow> u32 \<Rightarrow> u32 \<Rightarrow> ('w, 'p) lk_step" where
  "write_reg32 P a v = lk_call (board P) ''DRV_WriteReg32'' [uint a, uint v]"

definition cluster_l2_share_enable :: "('w, 'p) lk_platform \<Rightarrow> int \<Rightarrow> ('w, 'p) lk_step" where
  "cluster_l2_share_enable P cluster s =
    write_reg32 P (cache_config P cluster) (shared_size (read_reg32 P (cache_config P cluster) (lk_world s))) s"

text \<open>Disabling writes the size, reads the register again, and clears the sharing bit.\<close>

definition cluster_l2_share_disable :: "('w, 'p) lk_platform \<Rightarrow> int \<Rightarrow> ('w, 'p) lk_step" where
  "cluster_l2_share_disable P cluster =
    (let a = cache_config P cluster in in_order
      [\<lambda>s. write_reg32 P a (unshared_size (read_reg32 P a (lk_world s))) s,
       \<lambda>s. write_reg32 P a (read_reg32 P a (lk_world s) AND NOT (push_bit 12 1)) s])"

definition config_L2_size :: "('w, 'p) lk_platform \<Rightarrow> ('w, 'p) lk_step" where
  "config_L2_size P = when_now (is_l2_need_config P)
    (\<lambda>s. if nr_cpu P (lk_world s) = 6
         then in_order [cluster_l2_share_disable P 0, cluster_l2_share_enable P 1] s
         else in_order (map (cluster_l2_share_disable P) [0, 1]) s)"

definition config_shared_SRAM_size :: "('w, 'p) lk_platform \<Rightarrow> ('w, 'p) lk_step" where
  "config_shared_SRAM_size P =
    when_now (is_l2_need_config P) (in_order (map (cluster_l2_share_enable P) [0, 1]))"

definition platform_uninit :: "('w, 'p) lk_platform \<Rightarrow> ('w, 'p) lk_step" where
  "platform_uninit P = in_order
    [when_on (\<not> opt P ''MACH_FPGA'') (in_order [do_call P ''leds_deinit'', do_call P ''platform_clear_all_on_mux'']),
     do_call P ''platform_deinit_interrupts'']"

text \<open>The first initialisation: without a correct number of memory banks it does not return.\<close>

definition platform_early_init :: "('w, 'p) lk_platform \<Rightarrow> int \<Rightarrow> ('w, 'p) lk_step" where
  "platform_early_init P dram_ret = in_order
    [when_on (opt P ''MTK_LK_REGISTER_WDT'') (do_call P ''lk_register_wdt_callback''),
     do_call P ''uart_init_early'', do_call P ''init_devinfo_data'', do_call P ''platform_init_interrupts'',
     when_on (\<not> opt P ''MTK_POL_DEPRECATED'' \<and> opt P ''MTK_SYSIRQ_INIT_LK'') (do_call P ''mt_irq_sysirq_init''),
     do_call P ''platform_early_init_timer'',
     when_on (opt P ''USE_DTB_NO_DWS'' \<and> \<not> opt P ''MACH_FPGA'') (do_call P ''mt_gpio_set_default''),
     lk_assert (\<lambda>w. \<not> dram_ret < 0),
     do_call P ''mtk_wdt_init'', do_call P ''i2c_hw_init'',
     when_on (opt P ''MACH_FPGA'') (in_order [do_call P ''mtk_timer_init'', do_call P ''mtk_wdt_disable'']),
     do_call P ''pwrap_init_lk'',
     when_on (\<not> opt P ''MACH_FPGA'' \<and> \<not> opt P ''NO_PMIC'') (do_call P ''pmic_init'')]"

text \<open>What the cache settings do to the register: the size and the sharing bit are set as they
  should be, but the shifted complement clears the low byte as well.\<close>

lemma shared_size_fields:
  "drop_bit 8 (shared_size cfg) AND 7 = 1" "bit (shared_size cfg) 12" "shared_size cfg AND 0xFF = 0"
proof -
  have m: "push_bit 8 (NOT 7) = (0xFFFFF800 :: u32)" by simp
  show "drop_bit 8 (shared_size cfg) AND 7 = 1"
    unfolding shared_size_def m
    by (rule bit_word_eqI) (auto simp: bit_simps numeral_eq_Suc less_Suc_eq)
  show "bit (shared_size cfg) 12" unfolding shared_size_def by (simp add: bit_simps)
  show "shared_size cfg AND 0xFF = 0"
    unfolding shared_size_def m
    by (rule bit_word_eqI) (auto simp: bit_simps numeral_eq_Suc less_Suc_eq)
qed

end
