(* ===== verification/Lk_Init.thy ===== *)
theory Lk_Init
  imports Lk_Platform
begin

text \<open>
  The sequence of \<open>platform_init\<close> and the screen messages of \<open>sw_env\<close>.  The lines that only
  write the debug log or take a time stamp are left out.
\<close>

section \<open>Messages\<close>

definition sw_env_message :: "('w, 'p) lk_platform \<Rightarrow> 'w \<Rightarrow> ('w, 'p) lk_step" where
  "sw_env_message P w =
    (let charging = opt P ''MTK_KERNEL_POWER_OFF_CHARGING'' in
     case g_boot_mode P w of
       META_BOOT \<Rightarrow> in_order [video_printf '' => META MODE'',
           when_on (meta_com_type P w \<noteq> 1) (lk_call (board P) ''meta_com_type'' [2]),
           mt_disp_show_boot_meta_logo (board P)]
     | FACTORY_BOOT \<Rightarrow> video_printf '' => FACTORY MODE''
     | RECOVERY_BOOT \<Rightarrow> video_printf '' => RECOVERY MODE''
     | SW_REBOOT \<Rightarrow> Some
     | NORMAL_BOOT \<Rightarrow>
         video_printf (if map_option atoi (get_env (lk (board P)) ''hibboot'' w) = Some 1
           then '' => HIBERNATION BOOT'' else '' => NORMAL BOOT'')
     | ADVMETA_BOOT \<Rightarrow> video_printf '' => ADVANCED META MODE''
     | ATE_FACTORY_BOOT \<Rightarrow> video_printf '' => ATE FACTORY MODE''
     | KERNEL_POWER_OFF_CHARGING_BOOT \<Rightarrow>
         video_printf (if charging then '' => POWER OFF CHARGING MODE'' else '' => UNKNOWN BOOT'')
     | LOW_POWER_OFF_CHARGING_BOOT \<Rightarrow>
         video_printf (if charging then '' => LOW POWER OFF CHARGING MODE'' else '' => UNKNOWN BOOT'')
     | ALARM_BOOT \<Rightarrow> video_printf '' => ALARM BOOT''
     | FASTBOOT \<Rightarrow>
         in_order [video_printf '' => FASTBOOT mode...'', mt_disp_show_boot_fastboot_logo (board P)]
     | BOOT_MENU \<Rightarrow>
         in_order [video_printf '' => BOOT_MENU mode...'', mt_disp_show_boot_menu_logo (board P)]
     | _ \<Rightarrow> video_printf '' => UNKNOWN BOOT'')"

definition sw_env_messages :: "('w, 'p) lk_platform \<Rightarrow> ('w, 'p) lk_step" where
  "sw_env_messages P s = sw_env_message P (lk_world s) s"

text \<open>The messages of a user build.\<close>

definition sw_env_user :: "('w, 'p) lk_platform \<Rightarrow> ('w, 'p) lk_step" where
  "sw_env_user P = in_order
    [when_now (mode_is P [BOOT_MENU])
       (in_order [do_call P ''mtk_wdt_disable'', mt_disp_show_boot_menu_logo (board P),
          do_call P ''boot_menu_select'', do_call P ''mtk_wdt_init'']),
     when_now (mode_is P [META_BOOT])
       (in_order [when_now (\<lambda>w. meta_com_type P w \<noteq> 1) (lk_call (board P) ''meta_com_type'' [2]),
          mt_disp_show_boot_meta_logo (board P)]),
     when_now (mode_is P [FASTBOOT]) (mt_disp_show_boot_fastboot_logo (board P))]"

text \<open>A failed download is reported, and the blocking variant does not return.\<close>

definition sw_env :: "('w, 'p) lk_platform \<Rightarrow> ('w, 'p) lk_step" where
  "sw_env P = in_order
    [when_on (opt P ''LK_DL_CHECK'' \<and> (opt P ''MTK_EMMC_SUPPORT'' \<or> opt P ''MTK_UFS_SUPPORT''))
       (when_now (\<lambda>w. mmc_get_dl_info P w \<noteq> 0)
          (in_order [video_printf ''=> TOOL DL image Fail!'',
             lk_assert (\<lambda>w. \<not> opt P ''LK_DL_CHECK_BLOCK_LEVEL'')])),
     when_on (\<not> opt P ''MACH_FPGA_NO_DISPLAY'')
       (if opt P ''USER_BUILD'' then sw_env_user P else sw_env_messages P)]"

section \<open>Up to the battery\<close>

definition init_display :: "('w, 'p) lk_platform \<Rightarrow> ('w, 'p) lk_step" where
  "init_display P = when_on (\<not> opt P ''MACH_FPGA_NO_DISPLAY'') (in_order
    [do_call P ''env_init'', do_call P ''print_env'',
     \<lambda>s. lk_call (board P) ''mblock_reserve_ext'' [uint (mt_disp_get_vram_size P (lk_world s)), 0x10000, 0x80000000, 1] s,
     when_on (\<not> opt P ''MACH_FPGA'' \<and> opt P ''MTK_SMI_SUPPORT'') (do_call P ''smi_apply_register_setting''),
     do_call P ''mt_disp_init'', do_call P ''drv_video_init''])"

definition init_board :: "('w, 'p) lk_platform \<Rightarrow> ('w, 'p) lk_step" where
  "init_board P = in_order
    [do_call P ''bio_init'',
     init_storage P, lk_vb_init P,
     when_on (opt P ''dummy_ap_entry'') (do_call P ''dummy_ap_entry''),
     when_on (opt P ''MTK_AB_OTA_UPDATER'') (do_call P ''get_AB_OTA_param''),
     do_call P ''rsc_init'', do_call P ''load_device_tree'',
     when_on (opt P ''USE_DTB_NO_DWS'' \<and> \<not> opt P ''MACH_FPGA'') (do_call P ''mt_gpio_set_default''),
     do_call P ''bdg_tx_pull_6382_reset_pin'', lk_call (board P) ''clk_buf_disp_ctrl'' [1],
     do_call P ''spi_slave_probe'',
     when_on (opt P ''MT6768_REF_DEV'')
       (in_order [lk_call (board P) ''mdelay'' [5], do_call P ''bdg_tx_pull_6382_reset_pin'']),
     when_on (\<not> opt P ''MACH_FPGA'') (do_call P ''leds_init''),
     when_on (opt P ''MTK_KERNEL_POWER_OFF_CHARGING'')
       (when_now (\<lambda>w. boot_reason_usb P w \<and> \<not> upmu_is_chr_det P w) (do_call P ''mt_power_off''))]"

definition select_mode :: "('w, 'p) lk_platform \<Rightarrow> ('w, 'p) lk_step" where
  "select_mode P = in_order
    [do_call P ''set_kpd_pmic_mode'',
     when_on (\<not> opt P ''MACH_FPGA'') (in_order
       [when_on (\<not> opt P ''NO_BOOT_MODE_SEL'') (do_call P ''boot_mode_select''),
        do_call P ''wdt_check_exception'',
        when_on (opt P ''MTK_USB2JTAG_SUPPORT'')
          (when_now (\<lambda>w. \<not> mode_is P [FASTBOOT] w) (do_call P ''usb2jtag_init'')),
        when_on (opt P ''MTK_AEE_PLATFORM_DEBUG_SUPPORT'') (do_call P ''latch_lastbus_init'')])]"

text \<open>The logo partition; in fast meta mode it is marked as not loaded.\<close>

definition load_logo :: "('w, 'p) lk_platform \<Rightarrow> ('w, 'p) lk_step" where
  "load_logo P = when_on (\<not> opt P ''MACH_FPGA_NO_DISPLAY'')
    (\<lambda>s. if \<not> mode_is P [META_BOOT] (lk_world s)
         then in_order [lk_call (board P) ''mboot_common_load_logo'' [mt_get_logo_db_addr_pa P],
                lk_assert (\<lambda>w. logo_size P w \<le> LK_LOGO_MAX_SIZE P)] s
         else Some (s\<lparr>lk_anim := enable_logo False (lk_anim s)\<rparr>))"

definition download_boot :: "('w, 'p) lk_platform \<Rightarrow> ('w, 'p) lk_step" where
  "download_boot P = in_order
    [when_on (\<not> opt P ''MACH_FPGA_NO_DISPLAY'') (show_logo P),
     video_printf '' => Downloading...'', light_up P, show_update P,
     do_call P ''mtk_wdt_disable'', platform_uninit P,
     when_on (opt P ''HAVE_CACHE_PL310'') (do_call P ''l2_disable''),
     do_call P ''arch_disable_cache'', do_call P ''arch_disable_mmu'',
     when_on (opt P ''ENABLE_L2_SHARING'') (config_shared_SRAM_size P),
     \<lambda>s. lk_call (board P) ''jump_da'' (da_info P (lk_world s)) s]"

definition early_modes :: "('w, 'p) lk_platform \<Rightarrow> 'w \<Rightarrow> bool" where
  "early_modes P w \<longleftrightarrow> \<not> mode_is P [META_BOOT, ALARM_BOOT, FASTBOOT,
     KERNEL_POWER_OFF_CHARGING_BOOT, LOW_POWER_OFF_CHARGING_BOOT] w \<and> mtk_bat_allow_backlight_enable P w"

text \<open>The logo before the battery is known, with the backlight on.\<close>

definition early_logo :: "('w, 'p) lk_platform \<Rightarrow> ('w, 'p) lk_step" where
  "early_logo P s =
    (if boot_arg_mode P (lk_world s) = DOWNLOAD_BOOT then download_boot P s
     else if opt P ''MTK_KERNEL_POWER_OFF_CHARGING'' \<and> early_modes P (lk_world s)
     then in_order [when_on (\<not> opt P ''MACH_FPGA_NO_DISPLAY'') (show_logo P), light_up P, show_update P,
            \<lambda>s. Some (s\<lparr>backlight_on := True\<rparr>)] s
     else Some s)"

section \<open>From the battery on\<close>

definition init_battery :: "('w, 'p) lk_platform \<Rightarrow> ('w, 'p) lk_step" where
  "init_battery P = when_on (\<not> opt P ''MACH_FPGA'') (in_order
    [when_on (\<not> opt P ''NO_PLL_TURN_OFF'') (do_call P ''mt_pll_turn_off''),
     when_on (\<not> opt P ''NO_DCM'') (do_call P ''mt_dcm_init''),
     when_on (\<not> opt P ''NO_BAT_INIT'')
       (if opt P ''MTK_CHARGER_NEW_ARCH''
        then in_order [do_call P ''mtk_charger_init'', do_call P ''pmic_dlpt_init'', do_call P ''check_sw_ocv'',
               do_call P ''mtk_charger_start'', do_call P ''get_dlpt_imix_r'']
        else do_call P ''mt65xx_bat_init'')])"

definition show_charging :: "('w, 'p) lk_platform \<Rightarrow> ('w, 'p) lk_step" where
  "show_charging P = in_order
    [lk_call (board P) ''mt_disp_power'' [1],
     when_on (\<not> opt P ''MACH_FPGA_NO_DISPLAY'') (mt_disp_show_low_battery (board P)),
     lk_call (board P) ''mt65xx_leds_brightness_set'' [6, 110], show_update P,
     \<lambda>s. Some (s\<lparr>backlight_on := True\<rparr>)]"

definition charging_logo :: "('w, 'p) lk_platform \<Rightarrow> ('w, 'p) lk_step" where
  "charging_logo P = when_on (opt P ''MTK_KERNEL_POWER_OFF_CHARGING'')
    (when_now (\<lambda>w. kernel_charging_boot P w = 1)
      (if opt P ''MTK_BATLOWV_NO_PANEL_ON_EARLY''
       then in_order [do_call P ''hw_charging_get_charger_type'',
              when_now (\<lambda>w. \<not> mode_is P [LOW_POWER_OFF_CHARGING_BOOT] w
                  \<or> \<not> charger_is_standard_host P w \<and> \<not> charger_is_nonstandard P w)
                (show_charging P)]
       else show_charging P))"

text \<open>The backlight, when no earlier step has put it on.\<close>

definition late_backlight :: "('w, 'p) lk_platform \<Rightarrow> ('w, 'p) lk_step" where
  "late_backlight P s =
    (if opt P ''MTK_BATLOWV_NO_PANEL_ON_EARLY'' \<and> is_low_battery P (lk_world s) \<or> backlight_on s then Some s
     else in_order [show_update P, light_up P] s)"

definition before_decision :: "('w, 'p) lk_platform \<Rightarrow> ('w, 'p) lk_step list" where
  "before_decision P = [\<lambda>s. Some (s\<lparr>bypass_en := False, backlight_on := False\<rparr>),
     init_board P, init_display P, select_mode P, lk_vb_vfy_logo P, load_logo P, early_logo P, init_battery P]"

definition after_decision :: "('w, 'p) lk_platform \<Rightarrow> ('w, 'p) lk_step list" where
  "after_decision P =
    [when_on (\<not> opt P ''CFG_POWER_CHARGING'') (lk_call (board P) ''rtc_boot_check'' [0]),
     charging_logo P, late_backlight P, when_on (\<not> opt P ''MACH_FPGA'') (sw_env P)]"

definition platform_init :: "('w, 'p) lk_platform \<Rightarrow> ('w, 'p) lk_step" where
  "platform_init P = in_order (before_decision P @ [battery_decision P] @ after_decision P)"

end
