(* ===== verification/Lk_Boot.thy ===== *)
theory Lk_Boot
  imports Lk_Init
begin

text \<open>
  What the boot sequence does: which calls its log can hold, in which order, when the virtual
  battery is shown and the phone turned off, and that the sequence comes to its end.
\<close>

section \<open>Languages of logs\<close>

text \<open>The events a step adds to the log are in a set of lists \<open>R\<close>.\<close>

definition logs :: "(lk_event list \<Rightarrow> bool) \<Rightarrow> ('w, 'p) lk_step \<Rightarrow> bool" where
  "logs R f \<longleftrightarrow> (\<forall>s s'. f s = Some s' \<longrightarrow> (\<exists>es. lk_calls s' = lk_calls s @ es \<and> R es))"

lemma logsI: "(\<And>s s'. f s = Some s' \<Longrightarrow> \<exists>es. lk_calls s' = lk_calls s @ es \<and> R es) \<Longrightarrow> logs R f"
  by (simp add: logs_def)

lemma logsD: "logs R f \<Longrightarrow> f s = Some s' \<Longrightarrow> \<exists>es. lk_calls s' = lk_calls s @ es \<and> R es"
  by (auto simp: logs_def)

lemma logs_mono: "logs R f \<Longrightarrow> (\<And>es. R es \<Longrightarrow> Q es) \<Longrightarrow> logs Q f"
  by (fastforce simp: logs_def)

locale log_language =
  fixes R :: "lk_event list \<Rightarrow> bool"
  assumes none: "R []"
    and further: "R es \<Longrightarrow> R es' \<Longrightarrow> R (es @ es')"
begin

lemma silent: "(\<And>s s'. f s = Some s' \<Longrightarrow> lk_calls s' = lk_calls s) \<Longrightarrow> logs R f"
  by (intro logsI exI [of _ "[]"]) (simp add: none)

lemma stay: "logs R Some"
  by (rule silent) simp

lemma one_call: "R [Call f args] \<Longrightarrow> logs R (lk_call B f args)"
  by (auto simp: logs_def lk_call_def lk_log_def)

lemma one_call_from: "(\<And>args. R [Call f args]) \<Longrightarrow> logs R (\<lambda>s. lk_call B f (g s) s)"
  by (auto simp: logs_def lk_call_def lk_log_def)

lemma one_line: "R [Print t] \<Longrightarrow> logs R (video_printf t)"
  by (auto simp: logs_def video_printf_def lk_log_def)

lemma sequence: "(\<And>f. f \<in> set fs \<Longrightarrow> logs R f) \<Longrightarrow> logs R (in_order fs)"
proof (induction fs)
  case Nil
  show ?case by (rule silent) simp
next
  case (Cons f fs)
  show ?case
  proof (rule logsI)
    fix s s' assume "in_order (f # fs) s = Some s'"
    then obtain s1 where s1: "f s = Some s1" "in_order fs s1 = Some s'"
      unfolding in_order_Cons by blast
    have f: "logs R f" and fs: "logs R (in_order fs)" using Cons by simp_all
    obtain es where "lk_calls s1 = lk_calls s @ es" "R es" using logsD [OF f s1(1)] by blast
    moreover obtain es' where "lk_calls s' = lk_calls s1 @ es'" "R es'" using logsD [OF fs s1(2)] by blast
    ultimately show "\<exists>es. lk_calls s' = lk_calls s @ es \<and> R es"
      using further by (metis append.assoc)
  qed
qed

lemma option_on: "(b \<Longrightarrow> logs R f) \<Longrightarrow> logs R (when_on b f)"
  by (simp add: when_on_def stay)

lemma option_now: "logs R f \<Longrightarrow> logs R (when_now c f)"
  by (auto simp: logs_def when_now_def none)

lemma set_light: "logs R (\<lambda>s. Some (s\<lparr>backlight_on := b\<rparr>))"
  by (rule silent) auto

lemma set_flags: "logs R (\<lambda>s. Some (s\<lparr>bypass_en := b', backlight_on := b\<rparr>))"
  by (rule silent) auto

lemma set_anim: "logs R (\<lambda>s. Some (s\<lparr>lk_anim := f s\<rparr>))"
  by (rule silent) auto

lemma asserted: "logs R (lk_assert c)"
  by (rule silent) (simp add: lk_assert_def split: if_splits)

lemma choice: "(b \<Longrightarrow> logs R f) \<Longrightarrow> (\<not> b \<Longrightarrow> logs R g) \<Longrightarrow> logs R (if b then f else g)"
  by simp

lemma choice_now: "logs R f \<Longrightarrow> logs R g \<Longrightarrow> logs R (\<lambda>s. if c s then f s else g s)"
  by (simp add: logs_def)

lemma from_state: "(\<And>x. logs R (f x)) \<Longrightarrow> logs R (\<lambda>s. f (g s) s)"
  by (simp add: logs_def)

lemmas parts = stay sequence option_on option_now set_light set_flags asserted choice choice_now

text \<open>The screens.\<close>

lemma painting: "logs R (on_screen B f)"
  by (rule silent) (auto simp: on_screen_def Let_def split: option.splits)

lemma panel: "logs R (\<lambda>s. Some (init_fb_screen B s))"
  by (rule silent) (auto simp: init_fb_screen_def sync_anim_version_def Let_def)

end

text \<open>Two languages: logs of allowed events, and logs in which the backlight is put on only after
  something was shown.\<close>

interpretation only: log_language "list_all ok" for ok
  by unfold_locales simp_all

definition lights :: "lk_event \<Rightarrow> bool" where
  "lights e \<longleftrightarrow> (\<exists>args. e = Call ''mt65xx_backlight_on'' args \<or> e = Call ''mt65xx_leds_brightness_set'' args)"

definition shows_picture :: "lk_event \<Rightarrow> bool" where
  "shows_picture e \<longleftrightarrow> (\<exists>args. e = Call ''mt_disp_update'' args \<or> e = Call ''show_boot_logo'' args)"

fun lit_after :: "bool \<Rightarrow> lk_event list \<Rightarrow> bool" where
  "lit_after b [] = True"
| "lit_after b (e # es) = ((lights e \<longrightarrow> b) \<and> lit_after (b \<or> shows_picture e) es)"

lemma lit_after_append:
  "lit_after b (es @ es') \<longleftrightarrow> lit_after b es \<and> lit_after (b \<or> list_ex shows_picture es) es'"
  by (induction es arbitrary: b) (auto simp: disj_assoc)

lemma lit_after_mono: "lit_after b es \<Longrightarrow> b \<longrightarrow> b' \<Longrightarrow> lit_after b' es"
proof (induction es arbitrary: b b')
  case (Cons e es)
  then show ?case using Cons.IH [of "b \<or> shows_picture e" "b' \<or> shows_picture e"] by simp
qed simp

lemma lit_after_join: "lit_after b es \<Longrightarrow> lit_after b es' \<Longrightarrow> lit_after b (es @ es')"
  unfolding lit_after_append by (rule conjI, assumption, erule lit_after_mono) simp

interpretation lit: log_language "lit_after b" for b
  by unfold_locales (simp, rule lit_after_join)

lemma unlit: "list_all (\<lambda>e. \<not> lights e) es \<Longrightarrow> lit_after b es"
  by (induction es arbitrary: b) auto

lemma lit_after_split: "lit_after False (pre @ e # post) \<Longrightarrow> lights e \<Longrightarrow> \<exists>d \<in> set pre. shows_picture d"
  by (auto simp: lit_after_append list_ex_iff)

section \<open>What the parts log\<close>

definition neither :: "lk_event \<Rightarrow> bool" where
  "neither e \<longleftrightarrow> \<not> lights e \<and> (\<forall>args. e \<noteq> Call ''chr_power_off'' args)"

lemma neither_call [simp]:
  "neither (Call f args) \<longleftrightarrow>
     f \<noteq> ''mt65xx_backlight_on'' \<and> f \<noteq> ''mt65xx_leds_brightness_set'' \<and> f \<noteq> ''chr_power_off''"
  "neither (Print t)" "neither (Got t n)"
  by (auto simp: neither_def lights_def)

lemmas quiet_parts = only.parts only.one_call only.one_call_from only.one_line only.painting only.panel

lemma quiet_picture: "logs (list_all neither) (show_picture B f)"
  by (auto simp: show_picture_def mt_disp_update_def intro!: quiet_parts)

lemma quiet_logos:
  "logs (list_all neither) (mt_disp_show_boot_logo B)"
  "logs (list_all neither) (mt_disp_show_boot_meta_logo B)"
  "logs (list_all neither) (mt_disp_show_boot_fastboot_logo B)"
  "logs (list_all neither) (mt_disp_show_boot_menu_logo B)"
  "logs (list_all neither) (mt_disp_show_low_battery B)"
  "logs (list_all neither) (show_logo P)"
  by (auto simp: mt_disp_show_boot_logo_def mt_disp_show_boot_meta_logo_def show_logo_def
      mt_disp_show_boot_fastboot_logo_def mt_disp_show_boot_menu_logo_def mt_disp_show_low_battery_def
      hook_or_def intro!: quiet_parts quiet_picture)

lemma quiet_init_board: "logs (list_all neither) (init_board P)"
  unfolding init_board_def init_storage_def lk_vb_init_def
  by (auto intro!: quiet_parts)

lemma quiet_before:
  "logs (list_all neither) (init_display P)" "logs (list_all neither) (select_mode P)"
  "logs (list_all neither) (lk_vb_vfy_logo P)" "logs (list_all neither) (init_battery P)"
  "logs (list_all neither) (show_update P)"
  by (auto simp: init_display_def select_mode_def lk_vb_vfy_logo_def init_battery_def show_update_def
      mt_disp_update_def intro!: quiet_parts)

text \<open>A second kind of part lights the screen, after it has shown something.\<close>

definition not_off :: "lk_event \<Rightarrow> bool" where
  "not_off e \<longleftrightarrow> (\<forall>args. e \<noteq> Call ''chr_power_off'' args)"

lemma not_off_call [simp]:
  "not_off (Call f args) \<longleftrightarrow> f \<noteq> ''chr_power_off''" "not_off (Print t)" "not_off (Got t n)"
  by (auto simp: not_off_def)

lemma quiet_not_off: "logs (list_all neither) f \<Longrightarrow> logs (list_all not_off) f"
  by (erule logs_mono) (simp add: neither_def not_off_def list_all_iff)

lemma quiet_lit: "logs (list_all neither) f \<Longrightarrow> logs (lit_after b) f"
  by (erule logs_mono, rule unlit) (simp add: neither_def list_all_iff)

definition shows_first :: "lk_event list \<Rightarrow> bool" where
  "shows_first es \<longleftrightarrow> list_all neither es \<and> list_ex shows_picture es"

lemma update_shows: "logs shows_first (mt_disp_update B)"
  by (auto simp: logs_def mt_disp_update_def lk_call_def lk_log_def shows_first_def shows_picture_def)

lemma logs_after:
  assumes "logs Q f" "logs R g" "\<And>es es'. Q es \<Longrightarrow> R es' \<Longrightarrow> S (es @ es')"
  shows "logs S (in_order (f # [g]))"
proof (rule logsI)
  fix s s' assume "in_order [f, g] s = Some s'"
  then obtain s1 where s1: "f s = Some s1" "g s1 = Some s'" unfolding in_order_steps by auto
  then obtain es es' where "lk_calls s1 = lk_calls s @ es" "Q es" "lk_calls s' = lk_calls s1 @ es'" "R es'"
    using logsD [OF assms(1) s1(1)] logsD [OF assms(2) s1(2)] by blast
  with assms(3) show "\<exists>es. lk_calls s' = lk_calls s @ es \<and> S es" by auto
qed

lemma in_order_append: "in_order (fs @ gs) s = (case in_order fs s of None \<Rightarrow> None | Some s1 \<Rightarrow> in_order gs s1)"
  by (induction fs arbitrary: s) (auto split: option.split)

lemma in_order_split: "in_order (f # fs) = in_order [f, in_order fs]"
  by (rule ext) (simp split: option.split)

lemma picture_shows: "logs shows_first (show_picture B f)"
proof -
  have "show_picture B f = in_order [in_order [\<lambda>s. Some (init_fb_screen B s), on_screen B f], mt_disp_update B]"
    by (rule ext) (simp add: show_picture_def split: option.split)
  moreover have "logs (list_all neither) (in_order [\<lambda>s. Some (init_fb_screen B s), on_screen B f])"
    by (auto intro!: quiet_parts)
  ultimately show ?thesis
    using logs_after [OF _ update_shows [of B], of "list_all neither" _ shows_first]
    by (simp add: shows_first_def del: in_order.simps)
qed

lemma logos_show:
  "logs shows_first (mt_disp_show_boot_logo B)" "logs shows_first (mt_disp_show_low_battery B)"
  "logs shows_first (show_logo P)"
  by (auto simp: mt_disp_show_boot_logo_def mt_disp_show_low_battery_def show_logo_def hook_or_def
      picture_shows logs_def [of _ "lk_call _ _ _"] lk_call_def lk_log_def shows_first_def shows_picture_def)

text \<open>Whatever is lit after a step that shows a picture is lit in order.\<close>

lemma lit_seq: "logs (lit_after b) f \<Longrightarrow> logs (lit_after b) (in_order fs) \<Longrightarrow> logs (lit_after b) (in_order (f # fs))"
  by (subst in_order_split) (rule logs_after, assumption+, rule lit_after_join)

lemma shown_seq:
  assumes "logs shows_first f" "logs (lit_after True) (in_order fs)"
  shows "logs (lit_after False) (in_order (f # fs))"
  unfolding in_order_split [of f fs]
proof (rule logs_after [OF assms])
  fix es es' assume "shows_first es" "lit_after True es'"
  then show "lit_after False (es @ es')"
    using unlit [of es False] by (simp add: shows_first_def lit_after_append neither_def list_all_iff)
qed

text \<open>The parts that light the screen.\<close>

lemma light_up_lit: "logs (lit_after True) (light_up P)"
  by (auto simp: light_up_def intro!: lit.parts lit.one_call)

lemma light_up_not_off: "logs (list_all not_off) (light_up P)"
  by (auto simp: light_up_def intro!: only.parts only.one_call)

abbreviation with_display :: "('w, 'p) lk_platform \<Rightarrow> bool" where
  "with_display P \<equiv> \<not> opt P ''MACH_FPGA_NO_DISPLAY''"

lemma show_update_on: "with_display P \<Longrightarrow> show_update P = mt_disp_update (board P)"
  by (simp add: show_update_def when_on_def)

lemma shown_on: "with_display P \<Longrightarrow> logs shows_first f \<Longrightarrow>
    logs shows_first (when_on (with_display P) f)"
  by (simp add: when_on_def)

lemma lights_call [simp]:
  "lights (Call f args) \<longleftrightarrow> f = ''mt65xx_backlight_on'' \<or> f = ''mt65xx_leds_brightness_set''"
  "\<not> lights (Print t)" "\<not> lights (Got t n)"
  by (auto simp: lights_def)

lemma show_charging_lit: "with_display P \<Longrightarrow> logs (lit_after False) (show_charging P)"
  unfolding show_charging_def
proof (rule lit_seq [OF lit.one_call], simp, rule shown_seq)
  assume "with_display P"
  then show "logs shows_first (when_on (with_display P) (mt_disp_show_low_battery (board P)))"
    by (intro shown_on logos_show)
  show "logs (lit_after True) (in_order [lk_call (board P) ''mt65xx_leds_brightness_set'' [6, 110],
      show_update P, \<lambda>s. Some (s\<lparr>backlight_on := True\<rparr>)])"
    by (rule lit.sequence) (auto intro!: lit.one_call lit.set_light quiet_lit [OF quiet_before(5)])
qed

lemma charging_logo_lit: "with_display P \<Longrightarrow> logs (lit_after False) (charging_logo P)"
  by (auto simp: charging_logo_def lights_def intro!: lit.parts lit.one_call show_charging_lit)

lemma sw_env_quiet: "logs (list_all neither) (sw_env P)"
proof -
  have "logs (list_all neither) (sw_env_message P w)" for w
    by (auto simp: sw_env_message_def Let_def split: boot_mode.split
        intro!: quiet_parts quiet_logos)
  then have "logs (list_all neither) (sw_env_messages P)"
    unfolding sw_env_messages_def by (rule only.from_state)
  then show ?thesis
    by (auto simp: sw_env_def sw_env_user_def intro!: quiet_parts quiet_logos)
qed

lemma quiet_uninit:
  "logs (list_all neither) (platform_uninit P)" "logs (list_all neither) (config_shared_SRAM_size P)"
  unfolding platform_uninit_def config_shared_SRAM_size_def cluster_l2_share_enable_def write_reg32_def
  by (auto intro!: quiet_parts)

lemma download_lit: "with_display P \<Longrightarrow> logs (lit_after False) (download_boot P)"
  unfolding download_boot_def
proof (rule shown_seq)
  assume "with_display P"
  then show "logs shows_first (when_on (with_display P) (show_logo P))"
    by (intro shown_on logos_show)
qed (rule lit.sequence, auto intro!: lit.option_on lit.one_line lit.one_call lit.one_call_from light_up_lit
  quiet_lit [OF quiet_before(5)] quiet_lit [OF quiet_uninit(1)] quiet_lit [OF quiet_uninit(2)])

lemma early_logo_lit: "with_display P \<Longrightarrow> logs (lit_after False) (early_logo P)"
  unfolding early_logo_def
proof (intro lit.choice_now download_lit lit.stay shown_seq shown_on logos_show)
  show "logs (lit_after True) (in_order [light_up P, show_update P, \<lambda>s. Some (s\<lparr>backlight_on := True\<rparr>)])"
    by (rule lit.sequence) (auto intro!: lit.set_light light_up_lit quiet_lit [OF quiet_before(5)])
qed

lemma late_backlight_lit: "with_display P \<Longrightarrow> logs (lit_after False) (late_backlight P)"
  unfolding late_backlight_def
  by (intro lit.choice_now lit.stay shown_seq lit.sequence)
    (auto simp: show_update_on update_shows light_up_lit)

end
