(* ===== verification/Lk_Decision.thy ===== *)
theory Lk_Decision
  imports Lk_Boot
begin

text \<open>
  The decision of the boot loader between the virtual battery and the logo: when it turns the
  phone off, what is on the screen then, and what the whole sequence guarantees.
\<close>

section \<open>The bypass byte\<close>

text \<open>What the code asks of the storage, as a function of the world.\<close>

definition bypass_byte :: "('w, 'p) lk_platform \<Rightarrow> 'w \<Rightarrow> u8 option" where
  "bypass_byte P w =
    (if bio_open P ''proinfo'' w
     then if fst (bio_read P 35 1 w) \<ge> 1 then Some (snd (bio_read P 35 1 w)) else None
     else if fst (mmc_block_read P 0x1bd000 w) = 0 then Some (snd (mmc_block_read P 0x1bd000 w) 35) else None)"

lemma getBypassSetting_byte:
  "getBypassSetting P s =
    (case bypass_byte P (lk_world s) of
       None \<Rightarrow> (False, s)
     | Some c \<Rightarrow> (True, lk_log (Got ''bypass'' (uint c)) (s\<lparr>bypass_en := (c \<noteq> 0)\<rparr>)))"
  by (simp add: getBypassSetting_def readBypassEnable_def bypass_byte_def PRO_INFO_NAME_def Let_def
      NV_BYPASSENABLE_OFFSET_def NV_BYPASSENABLE_LEN_def split: prod.split)

text \<open>C13: reading the bypass byte through the block layer and reading its sector directly give the
  same answer, on a phone whose \<open>proinfo\<close> partition starts at the sector the code assumes.\<close>

theorem bypass_read_paths_agree:
  assumes bio: "\<And>off w. bio_read P off 1 w = (1, disk w (start * 512 + nat off))"
    and mmc: "\<And>n w. mmc_block_read P n w = (0, \<lambda>i. disk w (unat n * 512 + i))"
    and start: "start = 0x1bd000"
  shows "getBypassSetting (P\<lparr>bio_open := (\<lambda>_ _. True)\<rparr>) s = getBypassSetting (P\<lparr>bio_open := (\<lambda>_ _. False)\<rparr>) s
    \<and> bypass_en (snd (getBypassSetting P s)) = (disk (lk_world s) (0x1bd000 * 512 + 35) \<noteq> 0)"
proof -
  have "bypass_byte (P\<lparr>bio_open := f\<rparr>) w = Some (disk w (0x1bd000 * 512 + 35))" for f w
    by (simp add: bypass_byte_def bio mmc start)
  moreover have "P = P\<lparr>bio_open := bio_open P\<rparr>" by simp
  ultimately have "bypass_byte P w = Some (disk w (0x1bd000 * 512 + 35))" for w by metis
  then show ?thesis by (simp add: getBypassSetting_byte bypass_byte_def bio mmc start lk_log_def)
qed

section \<open>The decision\<close>

text \<open>The boots that end with the virtual battery: a normal one or one by an alarm, with the bypass
  byte set and less than 3000 mV at the charger.\<close>

definition virtual_boot :: "('w, 'p) lk_platform \<Rightarrow> 'w \<Rightarrow> bool" where
  "virtual_boot P w \<longleftrightarrow> g_boot_mode P w \<in> {NORMAL_BOOT, ALARM_BOOT}
     \<and> (\<exists>c. bypass_byte P w = Some c \<and> c \<noteq> 0) \<and> get_chr_volt P w < 3000"

text \<open>What the virtual battery needs of the screen.\<close>

abbreviation panel_of :: "('w, 'p) lk_platform \<Rightarrow> ('w, 'p) lk_boot \<Rightarrow> lcm_screen" where
  "panel_of P s \<equiv> phical_screen (init_fb_screen (board P) s)"

lemma init_fb_screen_keeps [simp]:
  "lk_anim (init_fb_screen B s) = lk_anim s" "frame_buffer (init_fb_screen B s) = frame_buffer s"
  "lk_calls (init_fb_screen B s) = lk_calls s" "bypass_en (init_fb_screen B s) = bypass_en s"
  by (simp_all add: init_fb_screen_def sync_anim_version_def Let_def)

lemma init_fb_screen_log [simp]:
  "phical_screen (init_fb_screen B (lk_log e s)) = phical_screen (init_fb_screen B s)"
  "phical_screen (init_fb_screen B (s\<lparr>bypass_en := b\<rparr>)) = phical_screen (init_fb_screen B s)"
  "phical_screen (init_fb_screen B (s\<lparr>bypass_en := b, lk_calls := es\<rparr>)) = phical_screen (init_fb_screen B s)"
  by (simp_all add: init_fb_screen_def sync_anim_version_def Let_def lk_log_def)

text \<open>C4: in such a boot, with a frame buffer, the virtual battery is drawn into it and brought to
  the screen, and four seconds later the phone is turned off; nothing else is called.\<close>

theorem virtual_battery_then_off:
  assumes "virtual_boot P (lk_world s)" "frame_buffer s = Some fb"
  shows "\<exists>s' c. battery_decision P s = Some s'
    \<and> frame_buffer s' = display_hardcoded_logo (g_logo_argb (board P)) (g_word_logo_argb_en (board P))
         (panel_of P s) (Some fb)
    \<and> lk_calls s' = lk_calls s @ [Got ''bypass'' c, Got ''volt'' (uint (get_chr_volt P (lk_world s))),
         Call ''mt_disp_update'' [0, 0, uint (scr_width (panel_of P s)), uint (scr_height (panel_of P s))],
         Call ''mdelay'' [4000], Call ''chr_power_off'' []]"
proof -
  obtain c where c: "bypass_byte P (lk_world s) = Some c" "c \<noteq> 0"
    and m: "g_boot_mode P (lk_world s) = NORMAL_BOOT \<or> g_boot_mode P (lk_world s) = ALARM_BOOT"
    and v: "get_chr_volt P (lk_world s) < 3000"
    using assms(1) by (auto simp: virtual_boot_def)
  obtain fb' where fb': "display_hardcoded_logo (g_logo_argb (board P)) (g_word_logo_argb_en (board P))
      (panel_of P s) (Some fb) = Some fb'"
    by (simp add: display_hardcoded_logo_def Let_def)
  show ?thesis
    using m c v fb' assms(2)
    by (auto simp: battery_decision_def voltage_decision_def getBypassSetting_byte mt_disp_show_vitural_battery_def Let_def
        lk_call_def lk_log_def)
qed

text \<open>In every other boot the phone is not turned off here.\<close>

lemma show_logo_keeps: "show_logo P s = Some s' \<Longrightarrow> bypass_en s' = bypass_en s"
  by (auto simp: show_logo_def mt_disp_show_boot_logo_def hook_or_def show_picture_def on_screen_def
      mt_disp_update_def lk_call_def lk_log_def Let_def split: if_splits option.splits)

lemma show_logo_quiet:
  "show_logo P s = Some s' \<Longrightarrow> \<exists>es. lk_calls s' = lk_calls s @ es \<and> list_all neither es"
  using logsD [OF quiet_logos(6)] .

lemma logo_for_voltage:
  assumes "voltage_decision P s = Some s'" "\<not> (bypass_en s \<and> get_chr_volt P (lk_world s) < 3000)"
  shows "\<exists>es. lk_calls s' = lk_calls s @ es \<and> list_all neither es"
proof -
  have "bypass_en (lk_log e s) = bypass_en s" for e by (simp add: lk_log_def)
  then have "show_logo P (lk_log (Got ''volt'' (uint (get_chr_volt P (lk_world s)))) s) = Some s'"
    using assms by (auto simp: voltage_decision_def Let_def)
  from show_logo_quiet [OF this] show ?thesis by (auto simp: lk_log_def)
qed

lemma decision_quiet:
  assumes "battery_decision P s = Some s'" "\<not> virtual_boot P (lk_world s)"
  shows "\<exists>es. lk_calls s' = lk_calls s @ es \<and> list_all neither es"
proof (cases "g_boot_mode P (lk_world s) = NORMAL_BOOT \<or> g_boot_mode P (lk_world s) = ALARM_BOOT")
  case False
  then show ?thesis
    using assms(1) show_logo_quiet [of P s s'] by (simp add: battery_decision_def)
next
  case True
  show ?thesis
  proof (cases "bypass_byte P (lk_world s)")
    case None
    then obtain s1 where s1: "show_logo P (s\<lparr>bypass_en := False\<rparr>) = Some s1" "voltage_decision P s1 = Some s'"
      using True assms(1) by (auto simp: battery_decision_def getBypassSetting_byte split: option.splits)
    have "\<not> bypass_en s1" using show_logo_keeps [OF s1(1)] by simp
    from logo_for_voltage [OF s1(2)] this show_logo_quiet [OF s1(1)] show ?thesis by auto
  next
    case (Some c)
    let ?s = "lk_log (Got ''bypass'' (uint c)) (s\<lparr>bypass_en := (c \<noteq> 0)\<rparr>)"
    have "voltage_decision P ?s = Some s'"
      using Some True assms(1) by (auto simp: battery_decision_def getBypassSetting_byte split: option.splits)
    moreover have "\<not> (bypass_en ?s \<and> get_chr_volt P (lk_world ?s) < 3000)"
      using assms(2) True Some by (auto simp: virtual_boot_def lk_log_def)
    ultimately show ?thesis using logo_for_voltage [of P ?s s'] by (auto simp: lk_log_def)
  qed
qed

lemma decision_off:
  assumes "battery_decision P s = Some s'" "virtual_boot P (lk_world s)"
  shows "\<exists>es. lk_calls s' = lk_calls s @ es @ [Call ''chr_power_off'' []] \<and> list_all neither es"
proof -
  have "mt_disp_show_vitural_battery B s = Some s1 \<Longrightarrow> \<exists>es. lk_calls s1 = lk_calls s @ es \<and> list_all neither es" for B s s1
    by (auto simp: mt_disp_show_vitural_battery_def Let_def lk_call_def lk_log_def split: option.splits)
  then show ?thesis
    using assms
    by (auto simp: battery_decision_def voltage_decision_def virtual_boot_def getBypassSetting_byte Let_def
        lk_call_def lk_log_def split: option.splits if_splits) fastforce+
qed

lemma decision_lit: "logs (lit_after False) (battery_decision P)"
proof (rule logsI)
  fix s s' assume d: "battery_decision P s = Some s'"
  have "list_all neither es \<Longrightarrow> lit_after False es" for es
    by (rule unlit) (simp add: neither_def list_all_iff)
  then show "\<exists>es. lk_calls s' = lk_calls s @ es \<and> lit_after False es"
    using decision_off [OF d] decision_quiet [OF d] by (fastforce simp: lit_after_append)
qed

section \<open>The whole sequence\<close>

lemma steps_not_off:
  "logs (list_all not_off) (show_charging P)" "logs (list_all not_off) (download_boot P)"
  by (auto simp: show_charging_def download_boot_def
      intro!: only.stay only.sequence only.option_on only.set_light only.one_call only.one_call_from only.one_line
        light_up_not_off quiet_not_off [OF quiet_logos(5)] quiet_not_off [OF quiet_logos(6)]
        quiet_not_off [OF quiet_before(5)] quiet_not_off [OF quiet_uninit(1)] quiet_not_off [OF quiet_uninit(2)])

lemma late_not_off:
  "logs (list_all not_off) (early_logo P)" "logs (list_all not_off) (charging_logo P)"
  "logs (list_all not_off) (late_backlight P)"
  unfolding early_logo_def charging_logo_def late_backlight_def
  by (auto intro!: only.choice_now only.choice only.stay only.sequence only.option_on only.option_now only.set_light
        only.one_call light_up_not_off steps_not_off quiet_not_off [OF quiet_logos(6)] quiet_not_off [OF quiet_before(5)])

lemma load_logo_quiet: "logs (list_all neither) (load_logo P)"
  unfolding load_logo_def
  by (auto intro!: only.option_on only.choice_now only.sequence only.one_call only.asserted only.set_anim)

lemma before_not_off: "logs (list_all not_off) (in_order (before_decision P))"
  by (rule only.sequence) (auto simp: before_decision_def intro!: only.set_flags late_not_off
      quiet_not_off [OF quiet_init_board] quiet_not_off [OF quiet_before(1)] quiet_not_off [OF quiet_before(2)]
      quiet_not_off [OF quiet_before(3)] quiet_not_off [OF quiet_before(4)] quiet_not_off [OF load_logo_quiet])

lemma after_not_off: "logs (list_all not_off) (in_order (after_decision P))"
  by (rule only.sequence) (auto simp: after_decision_def intro!: only.option_on only.one_call late_not_off
      quiet_not_off [OF sw_env_quiet])

lemma platform_init_split:
  assumes "platform_init P s = Some s'"
  obtains s1 s2 where "in_order (before_decision P) s = Some s1" "battery_decision P s1 = Some s2"
    "in_order (after_decision P) s2 = Some s'"
  using assms unfolding platform_init_def in_order_append by (auto split: option.splits)


text \<open>C10: with a display, the backlight is put on - whole, or the charging light - only after a
  picture was brought to the screen: no noise of an unwritten panel is ever lit.\<close>

theorem backlight_after_picture:
  assumes "platform_init P s = Some s'" "lk_calls s = []" "with_display P"
    and "lk_calls s' = pre @ e # post" "lights e"
  shows "\<exists>d \<in> set pre. shows_picture d"
proof -
  have "logs (lit_after False) (platform_init P)"
    unfolding platform_init_def
    using assms(3)
    by (intro lit.sequence) (auto simp: before_decision_def after_decision_def
      intro!: decision_lit early_logo_lit charging_logo_lit late_backlight_lit lit.set_flags lit.option_on lit.one_call
        quiet_lit [OF quiet_init_board] quiet_lit [OF quiet_before(1)] quiet_lit [OF quiet_before(2)]
        quiet_lit [OF quiet_before(3)] quiet_lit [OF quiet_before(4)] quiet_lit [OF load_logo_quiet] quiet_lit [OF sw_env_quiet])
  from logsD [OF this assms(1)] assms(2,4) have "lit_after False (pre @ e # post)" by auto
  then show ?thesis using assms(5) by (rule lit_after_split)
qed

text \<open>C12: in a boot by the alarm the virtual battery is drawn in the dark: no call before the
  phone is turned off puts the backlight on.\<close>

theorem alarm_boot_stays_dark:
  assumes "platform_init P s = Some s'" "lk_calls s = []"
    and alarm: "\<And>w. g_boot_mode P w = ALARM_BOOT" "\<And>w. boot_arg_mode P w \<noteq> DOWNLOAD_BOOT"
    and off: "lk_calls s' = pre @ Call ''chr_power_off'' args # post"
  shows "\<not> list_ex lights pre"
proof -
  obtain s1 s2 where s: "in_order (before_decision P) s = Some s1" "battery_decision P s1 = Some s2"
    "in_order (after_decision P) s2 = Some s'"
    using platform_init_split [OF assms(1)] .
  have "logs (list_all neither) (early_logo P)"
    using alarm by (auto simp: logs_def early_logo_def early_modes_def mode_is_def)
  then have "logs (list_all neither) (in_order (before_decision P))"
    by (intro only.sequence) (auto simp: before_decision_def intro!: only.set_flags
      quiet_init_board quiet_before load_logo_quiet)
  from logsD [OF this s(1)] assms(2) obtain es where es: "lk_calls s1 = es" "list_all neither es" by auto
  obtain fs where fs: "lk_calls s' = lk_calls s2 @ fs" "list_all not_off fs"
    using logsD [OF after_not_off s(3)] by auto
  let ?off = "Call ''chr_power_off'' args"
  have no: "?off \<notin> set xs" if "list_all neither xs \<or> list_all not_off xs" for xs
    using that by (auto simp: list_all_iff)
  have neither_dark: "list_all neither xs \<Longrightarrow> \<not> list_ex lights xs" for xs
    by (auto simp: list_all_iff list_ex_iff neither_def)
  show ?thesis
  proof (cases "virtual_boot P (lk_world s1)")
    case True
    then obtain ds where ds: "lk_calls s2 = es @ ds @ [Call ''chr_power_off'' []]" "list_all neither ds"
      using decision_off [OF s(2)] es(1) by auto
    have "(es @ ds) @ Call ''chr_power_off'' [] # fs = pre @ ?off # post"
      using off fs(1) ds(1) by simp
    moreover have "?off \<notin> set (es @ ds)" "?off \<notin> set fs" using no es(2) ds(2) fs(2) by auto
    moreover have "?off = Call ''chr_power_off'' []"
    proof (rule ccontr)
      assume "?off \<noteq> Call ''chr_power_off'' []"
      with calculation(2,3) have "?off \<notin> set ((es @ ds) @ Call ''chr_power_off'' [] # fs)" by simp
      with calculation(1) show False by simp
    qed
    ultimately have "pre = es @ ds" by (metis append_Cons_eq_iff)
    then show ?thesis using neither_dark [OF es(2)] neither_dark [OF ds(2)] by simp
  next
    case False
    then obtain ds where "lk_calls s2 = es @ ds" "list_all neither ds"
      using decision_quiet [OF s(2)] es(1) by auto
    then have "?off \<notin> set (lk_calls s')" using no es(2) fs by auto
    then show ?thesis using off by simp
  qed
qed

section \<open>The end of the sequence\<close>

definition returns :: "('w, 'p) lk_step \<Rightarrow> bool" where
  "returns f \<longleftrightarrow> (\<forall>s. \<exists>s'. f s = Some s')"

lemma returnsI: "(\<And>s. \<exists>s'. f s = Some s') \<Longrightarrow> returns f"
  by (simp add: returns_def)

lemma returns_basic:
  "returns Some" "returns (lk_call B f args)" "returns (video_printf t)"
  "returns (\<lambda>s. Some (g s))" "returns (\<lambda>s. lk_call B f (h s) s)"
  by (simp_all add: returns_def lk_call_def video_printf_def)

lemma returns_sequence: "(\<And>f. f \<in> set fs \<Longrightarrow> returns f) \<Longrightarrow> returns (in_order fs)"
  unfolding returns_def by (intro allI in_order_returns) blast

lemma returns_branch:
  "(b \<Longrightarrow> returns f) \<Longrightarrow> returns (when_on b f)" "returns f \<Longrightarrow> returns (when_now c f)"
  "returns f \<Longrightarrow> returns g \<Longrightarrow> returns (\<lambda>s. if d s then f s else g s)"
  "(b \<Longrightarrow> returns f) \<Longrightarrow> (\<not> b \<Longrightarrow> returns g) \<Longrightarrow> returns (if b then f else g)"
  "(\<And>x. returns (k x)) \<Longrightarrow> returns (\<lambda>s. k (h s) s)"
  by (auto simp: returns_def when_on_def when_now_def)

lemmas returns_parts = returns_basic returns_sequence returns_branch(1-4)

text \<open>The assertions hold, the block on a failed download is not built in, and the logo partition is
  as the search needs it.\<close>

definition boot_ok :: "('w, 'p) lk_platform \<Rightarrow> bool" where
  "boot_ok P \<longleftrightarrow> partition_ok (lk (board P)) \<and> (\<forall>w. logo_size P w \<le> LK_LOGO_MAX_SIZE P)
     \<and> (\<forall>w. img_auth_stor P w = 0) \<and> (\<forall>w. \<not> ver_test_fails P w) \<and> \<not> opt P ''LK_DL_CHECK_BLOCK_LEVEL''"

lemma returns_assert: "(\<And>w. c w) \<Longrightarrow> returns (lk_assert c)"
  by (simp add: returns_def lk_assert_def)

lemma returns_picture: "partition_ok (lk B) \<Longrightarrow> returns (show_picture B (\<lambda>scr. fill_animation_logo (lk B) scr i))"
proof -
  assume ok: "partition_ok (lk B)"
  have "returns (on_screen B (\<lambda>scr. fill_animation_logo (lk B) scr i))"
  proof (rule returnsI)
    fix s :: "('a, 'b) lk_boot"
    obtain a where "fill_animation_logo (lk B) (phical_screen s) i (lk_anim s) = Some a"
      using fills_return(1) [OF ok] by blast
    then show "\<exists>s'. on_screen B (\<lambda>scr. fill_animation_logo (lk B) scr i) s = Some s'"
      by (simp add: on_screen_def Let_def)
  qed
  then show ?thesis by (auto simp: show_picture_def mt_disp_update_def intro!: returns_parts)
qed

lemma returns_logos:
  assumes "partition_ok (lk (board P))"
  shows "returns (show_logo P)" "returns (mt_disp_show_low_battery (board P))"
    "returns (mt_disp_show_boot_meta_logo (board P))" "returns (mt_disp_show_boot_fastboot_logo (board P))"
    "returns (mt_disp_show_boot_menu_logo (board P))" "returns (show_update P)"
  by (auto simp: show_logo_def mt_disp_show_boot_logo_def mt_disp_show_low_battery_def
      mt_disp_show_boot_meta_logo_def mt_disp_show_boot_fastboot_logo_def mt_disp_show_boot_menu_logo_def
      show_update_def mt_disp_update_def hook_or_def intro!: returns_parts returns_picture assms)

lemma returns_decision:
  fixes P :: "('w, 'p) lk_platform"
  assumes "partition_ok (lk (board P))"
  shows "returns (battery_decision P)"
proof -
  have battery: "returns (mt_disp_show_vitural_battery (board P))"
    by (auto simp: returns_def mt_disp_show_vitural_battery_def Let_def lk_call_def split: option.split)
  have "returns (voltage_decision P)"
  proof (rule returnsI)
    fix s :: "('w, 'p) lk_boot"
    have "returns (in_order [mt_disp_show_vitural_battery (board P),
        lk_call (board P) ''mdelay'' [4000], do_call P ''chr_power_off''])"
      using battery by (auto intro!: returns_parts)
    then show "\<exists>s'. voltage_decision P s = Some s'"
      using returns_logos(1) [OF assms] by (simp add: voltage_decision_def Let_def returns_def)
  qed
  moreover have "returns (\<lambda>s. show_logo P (s\<lparr>bypass_en := False\<rparr>))"
    using returns_logos(1) [OF assms] by (simp add: returns_def)
  ultimately have two: "returns (in_order [if b then Some else (\<lambda>s. show_logo P (s\<lparr>bypass_en := False\<rparr>)),
      voltage_decision P])" for b
    by (auto intro!: returns_parts)
  show ?thesis
    using two returns_logos(1) [OF assms]
    by (auto simp: returns_def battery_decision_def split: prod.split simp del: in_order.simps)
qed

lemma returns_sw_env: "boot_ok P \<Longrightarrow> returns (sw_env P)"
proof -
  assume ok: "boot_ok P"
  then have p: "partition_ok (lk (board P))" by (simp add: boot_ok_def)
  have "returns (sw_env_message P w)" for w
    by (auto simp: sw_env_message_def Let_def split: boot_mode.split intro!: returns_parts returns_logos p)
  then have "returns (sw_env_messages P)" by (simp add: returns_def sw_env_messages_def)
  moreover have "\<not> opt P ''LK_DL_CHECK_BLOCK_LEVEL''" using ok by (simp add: boot_ok_def)
  ultimately show ?thesis
    by (auto simp: sw_env_def sw_env_user_def intro!: returns_parts returns_logos returns_assert p)
qed

lemma returns_board: "boot_ok P \<Longrightarrow> returns (init_board P)"
  by (auto simp: init_board_def init_storage_def lk_vb_init_def boot_ok_def intro!: returns_parts returns_assert)

lemma returns_before:
  assumes "boot_ok P"
  shows "returns (init_display P)" "returns (select_mode P)" "returns (lk_vb_vfy_logo P)" "returns (load_logo P)"
    "returns (init_battery P)" "returns (light_up P)" "returns (platform_uninit P)" "returns (config_shared_SRAM_size P)"
  using assms
  unfolding init_display_def select_mode_def lk_vb_vfy_logo_def load_logo_def init_battery_def light_up_def
    platform_uninit_def config_shared_SRAM_size_def cluster_l2_share_enable_def write_reg32_def boot_ok_def
  by (auto intro!: returns_parts returns_assert)

lemma returns_late:
  assumes "boot_ok P"
  shows "returns (early_logo P)" "returns (charging_logo P)" "returns (late_backlight P)"
proof -
  have p: "partition_ok (lk (board P))" using assms by (simp add: boot_ok_def)
  note parts = returns_parts returns_logos [OF p] returns_before [OF assms]
  have "returns (download_boot P)" unfolding download_boot_def by (auto intro!: parts)
  then show "returns (early_logo P)" unfolding early_logo_def by (auto intro!: parts)
  show "returns (charging_logo P)"
    unfolding charging_logo_def show_charging_def by (auto intro!: parts)
  show "returns (late_backlight P)"
    unfolding late_backlight_def by (auto intro!: parts)
qed

lemma returns_boot:
  assumes "boot_ok P"
  shows "returns (platform_init P)"
proof -
  have p: "partition_ok (lk (board P))" using assms by (simp add: boot_ok_def)
  show ?thesis
    unfolding platform_init_def before_decision_def after_decision_def
    by (rule returns_sequence)
      (auto intro!: returns_parts returns_late [OF assms] returns_before [OF assms] returns_board [OF assms]
        returns_decision [OF p] returns_sw_env [OF assms])
qed


end
