(* ===== verification/Lk_Phone.thy ===== *)
theory Lk_Phone
  imports Lk_Decision
begin

text \<open>
  Concrete phones for the boot loader: a board with a custom logo, a world that does not
  change, and the properties of the boot applied to them.
\<close>

definition phone_board :: "(string \<Rightarrow> string option, unit) lk_board" where
  "phone_board = \<lparr>lk = two_logos, build = (\<lambda>f. f = ''MTK_EMMC_SUPPORT''), lk_run = (\<lambda>f args w. w),
     render = (\<lambda>d scr fb. fb), mt_get_fb_size = (\<lambda>w. 9728000),
     CFG_DISPLAY_WIDTH = 1200, CFG_DISPLAY_HEIGHT = 2000, ALIGN_TO = (\<lambda>n a. 1216), MTK_FB_ALIGNMENT = 32,
     MTK_LCM_PHYSICAL_ROTATION = ''0'', logo_hook = (\<lambda>h. h = ''show_boot_logo''),
     g_logo_argb = red, g_word_logo_argb_en = (\<lambda>_. 0),
     BOOT_LOGO_INDEX = 0, CHARGER_OV_INDEX = 3, LOW_BATTERY_INDEX = 2, LOW_BATTERY01_INDEX = 4,
     LOW_BATTERY_REMIND_INDEX = 5\<rparr>"

text \<open>A phone in a mode, with a bypass byte and a charger voltage; its \<open>proinfo\<close> partition starts at
  the sector that is assumed.\<close>

definition phone :: "boot_mode \<Rightarrow> u8 \<Rightarrow> u32 \<Rightarrow> (string \<Rightarrow> string option, unit) lk_platform" where
  "phone m c v = \<lparr>board = phone_board, g_boot_mode = (\<lambda>w. m), boot_arg_mode = (\<lambda>w. NORMAL_BOOT),
     boot_reason_usb = (\<lambda>w. False), meta_com_type = (\<lambda>w. 0), upmu_is_chr_det = (\<lambda>w. False),
     mtk_bat_allow_backlight_enable = (\<lambda>w. False), get_chr_volt = (\<lambda>w. v), is_low_battery = (\<lambda>w. False),
     charger_is_standard_host = (\<lambda>w. False), charger_is_nonstandard = (\<lambda>w. False),
     logo_size = (\<lambda>w. 4096), LK_LOGO_MAX_SIZE = 8192, mt_get_logo_db_addr_pa = 0x1000,
     mt_disp_get_vram_size = (\<lambda>w. 9728000), da_info = (\<lambda>w. []), mmc_get_dl_info = (\<lambda>w. 0),
     ver_test_fails = (\<lambda>w. False), img_auth_stor = (\<lambda>w. 0), bio_open = (\<lambda>n w. False),
     bio_read = (\<lambda>off len w. (1, if 0x1bd000 * 512 + nat off = 0x1bd000 * 512 + 35 then c else 0)),
     mmc_block_read = (\<lambda>n w. (0, \<lambda>i. if unat n * 512 + i = 0x1bd000 * 512 + 35 then c else 0)),
     read_reg32 = (\<lambda>a w. 0), CA7MCUCFG_BASE = 0, nr_cpu = (\<lambda>w. 4)\<rparr>"

definition at_start :: "(string \<Rightarrow> string option, unit) lk_boot" where
  "at_start = \<lparr>lk_anim = lk_state0, phical_screen = tablet_screen, show_animationm_ver = 0,
     frame_buffer = Some (\<lambda>_. 0), bypass_en = False, backlight_on = False, lk_calls = []\<rparr>"

lemma phone_fields [simp]:
  "g_boot_mode (phone m c v) w = m" "boot_arg_mode (phone m c v) w = NORMAL_BOOT"
  "get_chr_volt (phone m c v) w = v" "lk_calls at_start = []" "frame_buffer at_start = Some (\<lambda>_. 0)"
  "opt (phone m c v) f = (f = ''MTK_EMMC_SUPPORT'')"
  by (simp_all add: phone_def at_start_def phone_board_def)

lemma phone_ok: "boot_ok (phone m c v)"
proof -
  have "board (phone m c v) = phone_board" by (simp add: phone_def)
  moreover have "lk phone_board = two_logos" by (simp add: phone_board_def)
  ultimately show ?thesis
    using two_logos_ok unfolding boot_ok_def by (simp add: phone_def phone_board_def)
qed

lemma phone_byte: "bypass_byte (phone m c v) w = Some c"
  by (simp add: bypass_byte_def phone_def)

lemma phone_virtual: "virtual_boot (phone ALARM_BOOT 1 2500) w"
  by (simp add: virtual_boot_def phone_byte)

section \<open>The properties on the phone\<close>

lemma bypass_read_paths_agree_witness:
  "getBypassSetting (phone NORMAL_BOOT 1 2500\<lparr>bio_open := (\<lambda>_ _. True)\<rparr>) at_start
    = getBypassSetting (phone NORMAL_BOOT 1 2500\<lparr>bio_open := (\<lambda>_ _. False)\<rparr>) at_start"
  using bypass_read_paths_agree [where P = "phone NORMAL_BOOT 1 2500" and start = "0x1bd000"
      and disk = "\<lambda>w n. if n = 0x1bd000 * 512 + 35 then 1 else 0" and s = at_start]
  by (simp add: phone_def)

lemma virtual_battery_then_off_witness:
  "\<exists>s'. battery_decision (phone ALARM_BOOT 1 2500) at_start = Some s' \<and> frame_buffer s' \<noteq> None
     \<and> Call ''chr_power_off'' [] \<in> set (lk_calls s')"
  using virtual_battery_then_off [of "phone ALARM_BOOT 1 2500" at_start "\<lambda>_. 0"]
  by (auto simp: phone_virtual display_hardcoded_logo_def Let_def)


lemma phone_boots:
  obtains s' s1 where "platform_init (phone m c v) at_start = Some s'"
    "in_order (before_decision (phone m c v)) at_start = Some s1"
proof -
  obtain s' where s': "platform_init (phone m c v) at_start = Some s'"
    using returns_boot [OF phone_ok, of m c v] unfolding returns_def by blast
  show thesis by (rule platform_init_split [OF s']) (rule that [OF s'])
qed


text \<open>The alarm boot: the phone is turned off, so there is a log before that.\<close>

lemma alarm_boot_off:
  obtains s' pre post where "platform_init (phone ALARM_BOOT 1 2500) at_start = Some s'"
    "lk_calls s' = pre @ Call ''chr_power_off'' [] # post"
proof -
  obtain s' where s': "platform_init (phone ALARM_BOOT 1 2500) at_start = Some s'"
    by (rule phone_boots)
  obtain s1 s2 where d: "battery_decision (phone ALARM_BOOT 1 2500) s1 = Some s2"
    "in_order (after_decision (phone ALARM_BOOT 1 2500)) s2 = Some s'"
    by (rule platform_init_split [OF s'])
  obtain es fs where "lk_calls s2 = lk_calls s1 @ es @ [Call ''chr_power_off'' []]" "lk_calls s' = lk_calls s2 @ fs"
    using decision_off [OF d(1) phone_virtual] logsD [OF after_not_off d(2)] by auto
  then show thesis using that [OF s', of "lk_calls s1 @ es" fs] by simp
qed

lemma alarm_boot_stays_dark_witness:
  "\<exists>s' pre post. platform_init (phone ALARM_BOOT 1 2500) at_start = Some s'
     \<and> lk_calls s' = pre @ Call ''chr_power_off'' [] # post \<and> \<not> list_ex lights pre"
proof -
  obtain s' pre post where s': "platform_init (phone ALARM_BOOT 1 2500) at_start = Some s'"
    "lk_calls s' = pre @ Call ''chr_power_off'' [] # post"
    by (rule alarm_boot_off)
  then show ?thesis using alarm_boot_stays_dark [OF s'(1) _ _ _ s'(2)] by auto
qed

text \<open>A normal boot, run: the steps that set nothing but the log.\<close>

definition quiet_flags :: "('w, 'p) lk_step \<Rightarrow> bool" where
  "quiet_flags f \<longleftrightarrow> (\<forall>s s'. f s = Some s' \<longrightarrow> backlight_on s' = backlight_on s)"

lemma flags_call: "quiet_flags (lk_call B f args)" "quiet_flags Some" "quiet_flags (\<lambda>s. lk_call B f (g s) s)"
  by (auto simp: quiet_flags_def lk_call_def lk_log_def)

lemma flags_sequence: "(\<And>f. f \<in> set fs \<Longrightarrow> quiet_flags f) \<Longrightarrow> quiet_flags (in_order fs)"
proof (induction fs)
  case (Cons f fs)
  then have "quiet_flags f" "quiet_flags (in_order fs)" by simp_all
  then show ?case unfolding quiet_flags_def in_order_Cons by metis
qed (simp add: quiet_flags_def)

lemma flags_branch: "(b \<Longrightarrow> quiet_flags f) \<Longrightarrow> quiet_flags (when_on b f)" "quiet_flags f \<Longrightarrow> quiet_flags (when_now c f)"
  "quiet_flags (lk_assert d)" "quiet_flags (\<lambda>s. Some (s\<lparr>lk_anim := h s\<rparr>))"
  "quiet_flags f \<Longrightarrow> quiet_flags g \<Longrightarrow> quiet_flags (\<lambda>s. if k s then f s else g s)"
  by (auto simp: quiet_flags_def when_on_def when_now_def lk_assert_def split: if_splits)

lemmas flags = flags_call flags_sequence flags_branch

lemma normal_boot_dark:
  assumes "in_order (before_decision (phone NORMAL_BOOT 0 4000)) s = Some s1"
  shows "\<not> backlight_on s1"
proof -
  let ?P = "phone NORMAL_BOOT 0 4000"
  have "quiet_flags (in_order [init_board ?P, init_display ?P, select_mode ?P, lk_vb_vfy_logo ?P, load_logo ?P,
      early_logo ?P, init_battery ?P])"
    unfolding init_board_def init_storage_def lk_vb_init_def init_display_def select_mode_def lk_vb_vfy_logo_def
      load_logo_def init_battery_def early_logo_def
    by (auto intro!: flags)
  then show ?thesis using assms by (auto simp: before_decision_def quiet_flags_def simp del: in_order.simps(2) simp: in_order_Cons [of "\<lambda>s. Some (_ s)"])
qed

lemma phone_logo: "show_logo (phone m c v) = lk_call phone_board ''show_boot_logo'' []"
proof -
  have "logo_hook phone_board ''show_boot_logo''" "board (phone m c v) = phone_board"
    by (simp_all add: phone_board_def phone_def)
  then show ?thesis by (simp add: show_logo_def mt_disp_show_boot_logo_def hook_or_def)
qed

lemma normal_boot_decision:
  assumes "battery_decision (phone NORMAL_BOOT 0 4000) s = Some s'"
  shows "backlight_on s' = backlight_on s"
  using assms
  by (auto simp: battery_decision_def voltage_decision_def getBypassSetting_byte phone_byte phone_logo
      lk_call_def lk_log_def Let_def)

lemma late_light:
  assumes "in_order (after_decision (phone NORMAL_BOOT 0 4000)) s = Some s'" "\<not> backlight_on s"
  shows "Call ''mt65xx_backlight_on'' [] \<in> set (lk_calls s')"
  using assms
  by (auto simp: after_decision_def when_on_def charging_logo_def late_backlight_def light_up_def show_update_def
      mt_disp_update_def lk_call_def lk_log_def sw_env_def sw_env_messages_def sw_env_message_def video_printf_def
      split: option.splits)

lemma backlight_after_picture_witness:
  "\<exists>s' pre post. platform_init (phone NORMAL_BOOT 0 4000) at_start = Some s'
     \<and> lk_calls s' = pre @ Call ''mt65xx_backlight_on'' [] # post \<and> (\<exists>d \<in> set pre. shows_picture d)"
proof -
  let ?P = "phone NORMAL_BOOT 0 4000"
  obtain s' where s': "platform_init ?P at_start = Some s'" by (rule phone_boots)
  obtain s1 s2 where s: "in_order (before_decision ?P) at_start = Some s1" "battery_decision ?P s1 = Some s2"
    "in_order (after_decision ?P) s2 = Some s'"
    by (rule platform_init_split [OF s'])
  have "Call ''mt65xx_backlight_on'' [] \<in> set (lk_calls s')"
    using late_light [OF s(3)] normal_boot_decision [OF s(2)] normal_boot_dark [OF s(1)] by simp
  then obtain pre post where c: "lk_calls s' = pre @ Call ''mt65xx_backlight_on'' [] # post"
    by (auto dest: split_list)
  from backlight_after_picture [OF s' _ _ c] have "\<exists>d \<in> set pre. shows_picture d" by simp
  with s' c show ?thesis by blast
qed

end
