(* ===== verification/Lk_Tags.thy ===== *)
theory Lk_Tags
  imports Prelude
begin

text \<open>
  The boot arguments of the preloader (\<open>dram_init\<close> of \<open>platform.c\<close>): copied whole when they
  carry the magic number, and else read from a chain of tags; and the size of the memory.
\<close>

section \<open>Arguments and tags\<close>

text \<open>Structures that are copied as they are have the type \<open>'b\<close>; an array is a function of its
  index.\<close>

record 'b boot_argument =
  ba_magic :: u32
  ba_boot_reason :: int
  ba_boot_mode :: int
  ba_meta_com :: "int list"
  ba_log_com :: "int list"
  ba_dram_rank_num :: u32
  ba_dram_rank_size :: "nat \<Rightarrow> int"
  ba_mblock_info :: 'b
  ba_orig_dram_info :: 'b
  ba_lca_reserved_mem :: 'b
  ba_tee_reserved_mem :: 'b
  ba_md_type :: "nat \<Rightarrow> int"
  ba_boot_time :: int
  ba_da_info :: 'b
  ba_sec_limit :: 'b
  ba_part_num :: int
  ba_part_info :: int
  ba_e_flag :: int
  ba_ddr_reserve :: "int \<times> int \<times> int"
  ba_dram_buf_size :: int
  ba_non_secure_sram :: "int \<times> int"
  ba_plat_dbg_info_max :: u32
  ba_plat_dbg_info :: "nat \<Rightarrow> int \<times> int \<times> int"
  ba_ptp_volt_info :: 'b
  ba_emi_info :: 'b
  ba_pl_imgver_status :: int
  ba_max_cpus :: int
  ba_boot_voltage :: int
  ba_shutdown_time :: int
  ba_ram_console :: "int \<times> int \<times> int \<times> int"
  ba_charger_type :: int
  ba_gz_md_shm :: "int \<times> int"
  ba_socid :: 'b

text \<open>The tags; the meta tag holds type, id, port, whether the log is off, and the GPIO, the log tag
  port, baud rate, whether it is on, and the dynamic switch.\<close>

datatype 'b boot_tag =
    BOOT_TAG_BOOT_REASON int
  | BOOT_TAG_BOOT_MODE int
  | BOOT_TAG_META_COM "int list"
  | BOOT_TAG_LOG_COM "int list"
  | BOOT_TAG_MEM u32 "nat \<Rightarrow> int" 'b 'b 'b 'b
  | BOOT_TAG_MD_INFO "nat \<Rightarrow> int"
  | BOOT_TAG_BOOT_TIME int
  | BOOT_TAG_DA_INFO 'b
  | BOOT_TAG_SEC_INFO 'b
  | BOOT_TAG_PART_NUM int
  | BOOT_TAG_PART_INFO int
  | BOOT_TAG_EFLAG int
  | BOOT_TAG_DDR_RESERVE "int \<times> int \<times> int"
  | BOOT_TAG_DRAM_BUF int
  | BOOT_TAG_SRAM_INFO "int \<times> int"
  | BOOT_TAG_PLAT_DBG_INFO u32 "nat \<Rightarrow> int \<times> int \<times> int"
  | BOOT_TAG_PTP 'b
  | BOOT_TAG_EMI_INFO 'b
  | BOOT_TAG_IMGVER_INFO int
  | BOOT_TAG_MAX_CPUS int
  | BOOT_TAG_BAT_INFO int int
  | BOOT_TAG_RAM_CONSOLE_INFO "int \<times> int \<times> int \<times> int"
  | BOOT_TAG_CHR_INFO int
  | BOOT_TAG_GZ_PARAM "int \<times> int"
  | BOOT_TAG_SOC_ID 'b
  | BOOT_TAG_ROM_INFO int int u8
  | BOOT_TAG_OTHER int

record 'b boot_globals =
  g_boot_arg :: "'b boot_argument"
  bootarg_addr :: u32
  bootarg_size :: u32
  m_sec_usb_dl :: int
  m_sec_boot :: int
  m_seccfg_ac_en :: u8
  g_nr_bank :: int
  g_dram_init_ret :: int

text \<open>What is read: the arguments at the fixed location with their magic number, the tag at an
  address with the size in its header, and the address of the next one.\<close>

record 'b boot_memory =
  boot_location :: u32
  BOOT_ARGUMENT_MAGIC :: u32
  sizeof_BOOT_ARGUMENT :: u32
  arg_at :: "'b boot_argument"
  magic_at :: u32
  tag_at :: "u32 \<Rightarrow> u32 \<times> 'b boot_tag"
  boot_tag_next :: "u32 \<Rightarrow> u32"
  MAX_NR_BANK :: int
  INFO_TYPE_MAX :: u32
  WITH_GZ_MD_SHAREMEM :: bool

text \<open>The first \<open>n\<close> elements of an array.\<close>

definition copy_to :: "nat \<Rightarrow> (nat \<Rightarrow> 'a) \<Rightarrow> (nat \<Rightarrow> 'a) \<Rightarrow> nat \<Rightarrow> 'a" where
  "copy_to n src dst = fold (\<lambda>i d. d(i := src i)) [0..<n] dst"

definition apply_arg_tag :: "'b boot_memory \<Rightarrow> 'b boot_tag \<Rightarrow> 'b boot_argument \<Rightarrow> 'b boot_argument" where
  "apply_arg_tag M t a =
    (case t of
       BOOT_TAG_BOOT_REASON r \<Rightarrow> a\<lparr>ba_boot_reason := r\<rparr>
     | BOOT_TAG_BOOT_MODE m \<Rightarrow> a\<lparr>ba_boot_mode := m\<rparr>
     | BOOT_TAG_META_COM xs \<Rightarrow> a\<lparr>ba_meta_com := xs\<rparr>
     | BOOT_TAG_LOG_COM xs \<Rightarrow> a\<lparr>ba_log_com := xs\<rparr>
     | BOOT_TAG_MEM n ranks mb od lca tee \<Rightarrow>
         a\<lparr>ba_dram_rank_num := n, ba_dram_rank_size := copy_to (unat n) ranks (ba_dram_rank_size a),
           ba_mblock_info := mb, ba_orig_dram_info := od, ba_lca_reserved_mem := lca, ba_tee_reserved_mem := tee\<rparr>
     | BOOT_TAG_MD_INFO ts \<Rightarrow> a\<lparr>ba_md_type := copy_to 4 ts (ba_md_type a)\<rparr>
     | BOOT_TAG_BOOT_TIME x \<Rightarrow> a\<lparr>ba_boot_time := x\<rparr>
     | BOOT_TAG_DA_INFO x \<Rightarrow> a\<lparr>ba_da_info := x\<rparr>
     | BOOT_TAG_SEC_INFO x \<Rightarrow> a\<lparr>ba_sec_limit := x\<rparr>
     | BOOT_TAG_PART_NUM x \<Rightarrow> a\<lparr>ba_part_num := x\<rparr>
     | BOOT_TAG_PART_INFO p \<Rightarrow> a\<lparr>ba_part_info := p\<rparr>
     | BOOT_TAG_EFLAG x \<Rightarrow> a\<lparr>ba_e_flag := x\<rparr>
     | BOOT_TAG_DDR_RESERVE x \<Rightarrow> a\<lparr>ba_ddr_reserve := x\<rparr>
     | BOOT_TAG_DRAM_BUF x \<Rightarrow> a\<lparr>ba_dram_buf_size := x\<rparr>
     | BOOT_TAG_SRAM_INFO x \<Rightarrow> a\<lparr>ba_non_secure_sram := x\<rparr>
     | BOOT_TAG_PLAT_DBG_INFO n info \<Rightarrow>
         let k = (if n > INFO_TYPE_MAX M then INFO_TYPE_MAX M else n)
         in a\<lparr>ba_plat_dbg_info_max := k, ba_plat_dbg_info := copy_to (unat k) info (ba_plat_dbg_info a)\<rparr>
     | BOOT_TAG_PTP x \<Rightarrow> a\<lparr>ba_ptp_volt_info := x\<rparr>
     | BOOT_TAG_EMI_INFO x \<Rightarrow> a\<lparr>ba_emi_info := x\<rparr>
     | BOOT_TAG_IMGVER_INFO x \<Rightarrow> a\<lparr>ba_pl_imgver_status := x\<rparr>
     | BOOT_TAG_MAX_CPUS x \<Rightarrow> a\<lparr>ba_max_cpus := x\<rparr>
     | BOOT_TAG_BAT_INFO v t \<Rightarrow> a\<lparr>ba_boot_voltage := v, ba_shutdown_time := t\<rparr>
     | BOOT_TAG_RAM_CONSOLE_INFO x \<Rightarrow> a\<lparr>ba_ram_console := x\<rparr>
     | BOOT_TAG_CHR_INFO x \<Rightarrow> a\<lparr>ba_charger_type := x\<rparr>
     | BOOT_TAG_GZ_PARAM x \<Rightarrow> if WITH_GZ_MD_SHAREMEM M then a\<lparr>ba_gz_md_shm := x\<rparr> else a
     | BOOT_TAG_SOC_ID x \<Rightarrow> a\<lparr>ba_socid := x\<rparr>
     | BOOT_TAG_ROM_INFO _ _ _ \<Rightarrow> a
     | BOOT_TAG_OTHER _ \<Rightarrow> a)"

text \<open>The security bits of the ROM go to globals; every tag adds its size.\<close>

definition apply_tag :: "'b boot_memory \<Rightarrow> u32 \<times> 'b boot_tag \<Rightarrow> 'b boot_globals \<Rightarrow> 'b boot_globals" where
  "apply_tag M = (\<lambda>(n, t) s.
    let s = (case t of
        BOOT_TAG_ROM_INFO u b ac \<Rightarrow> s\<lparr>m_sec_usb_dl := u, m_sec_boot := b, m_seccfg_ac_en := ac\<rparr>
      | _ \<Rightarrow> s\<lparr>g_boot_arg := apply_arg_tag M t (g_boot_arg s)\<rparr>)
    in s\<lparr>bootarg_size := bootarg_size s + n\<rparr>)"

text \<open>The loop has no bound but the header of size 0.\<close>

partial_function (option) walk_tags :: "'b boot_memory \<Rightarrow> u32 \<Rightarrow> 'b boot_globals \<Rightarrow> 'b boot_globals option" where
  "walk_tags M a s =
    (if fst (tag_at M a) = 0 then Some s
     else walk_tags M (boot_tag_next M a) (apply_tag M (tag_at M a) s))"

definition finish_dram_init :: "'b boot_memory \<Rightarrow> 'b boot_globals \<Rightarrow> int \<times> 'b boot_globals" where
  "finish_dram_init M s =
    (let n = sint (ba_dram_rank_num (g_boot_arg s)); s = s\<lparr>g_nr_bank := n\<rparr>
     in if n = 0 \<or> n > MAX_NR_BANK M then (- 1, s\<lparr>g_dram_init_ret := - 1\<rparr>) else (0, s))"

definition dram_init :: "'b boot_memory \<Rightarrow> 'b boot_globals \<Rightarrow> (int \<times> 'b boot_globals) option" where
  "dram_init M s =
    (let s = s\<lparr>bootarg_addr := boot_location M, bootarg_size := 0\<rparr>
     in map_option (finish_dram_init M)
          (if magic_at M = BOOT_ARGUMENT_MAGIC M
           then Some (s\<lparr>g_boot_arg := arg_at M, bootarg_size := sizeof_BOOT_ARGUMENT M\<rparr>)
           else walk_tags M (boot_location M)
                  (s\<lparr>g_boot_arg := (g_boot_arg s)\<lparr>ba_magic := BOOT_ARGUMENT_MAGIC M\<rparr>\<rparr>)))"

section \<open>The chain\<close>

text \<open>The tags that lie from an address on, up to the header of size 0.\<close>

inductive tag_chain :: "'b boot_memory \<Rightarrow> u32 \<Rightarrow> (u32 \<times> 'b boot_tag) list \<Rightarrow> bool" for M where
  chain_end: "fst (tag_at M a) = 0 \<Longrightarrow> tag_chain M a []"
| chain_tag: "fst (tag_at M a) \<noteq> 0 \<Longrightarrow> tag_chain M (boot_tag_next M a) ts \<Longrightarrow> tag_chain M a (tag_at M a # ts)"

lemma walk_chain: "tag_chain M a ts \<Longrightarrow> walk_tags M a s = Some (fold (apply_tag M) ts s)"
proof (induction arbitrary: s rule: tag_chain.induct)
  case (chain_end a)
  then show ?case by (subst walk_tags.simps) simp
next
  case (chain_tag a ts)
  then show ?case by (subst walk_tags.simps) simp
qed

lemma copy_to_value: "copy_to n src dst i = (if i < n then src i else dst i)"
  unfolding copy_to_def by (induction n) auto

lemma apply_tag_arg: "g_boot_arg (apply_tag M t s) = apply_arg_tag M (snd t) (g_boot_arg s)"
  by (cases t; cases "snd t") (simp_all add: apply_tag_def apply_arg_tag_def Let_def)

lemma fold_arg:
  "g_boot_arg (fold (apply_tag M) ts s) = fold (\<lambda>t. apply_arg_tag M (snd t)) ts (g_boot_arg s)"
  by (induction ts arbitrary: s) (simp_all add: apply_tag_arg)

text \<open>The number of ranks after some tags: that of the last memory tag.\<close>

definition last_rank_num :: "(u32 \<times> 'b boot_tag) list \<Rightarrow> u32 \<Rightarrow> u32" where
  "last_rank_num = fold (\<lambda>t n. case snd t of BOOT_TAG_MEM n' _ _ _ _ _ \<Rightarrow> n' | _ \<Rightarrow> n)"

lemma fold_rank_num:
  "ba_dram_rank_num (g_boot_arg (fold (apply_tag M) ts s)) = last_rank_num ts (ba_dram_rank_num (g_boot_arg s))"
proof (induction ts arbitrary: s)
  case (Cons t ts)
  have "ba_dram_rank_num (g_boot_arg (apply_tag M t s)) =
      (case snd t of BOOT_TAG_MEM n' _ _ _ _ _ \<Rightarrow> n' | _ \<Rightarrow> ba_dram_rank_num (g_boot_arg s))"
    by (cases "snd t") (simp_all add: apply_tag_arg apply_arg_tag_def Let_def)
  with Cons show ?case by (simp add: last_rank_num_def)
qed (simp add: last_rank_num_def)

lemma fold_size:
  "bootarg_size (fold (apply_tag M) ts s) = bootarg_size s + sum_list (map fst ts)"
proof (induction ts arbitrary: s)
  case (Cons t ts)
  have "bootarg_size (apply_tag M t s) = bootarg_size s + fst t"
    by (cases t; cases "snd t") (simp_all add: apply_tag_def Let_def)
  with Cons show ?case by (simp add: add.assoc)
qed simp

text \<open>A memory tag overwrites as many rank sizes as it announces, before the number is compared
  with the size of the array of banks.\<close>

lemma rank_sizes_unchecked:
  "ba_dram_rank_size (apply_arg_tag M (BOOT_TAG_MEM n ranks mb od lca tee) a) i =
    (if i < unat n then ranks i else ba_dram_rank_size a i)"
  by (simp add: apply_arg_tag_def copy_to_value)


section \<open>The size of the memory\<close>

definition physical_memory_size :: "64 word list \<Rightarrow> 64 word" where
  "physical_memory_size sizes = fold (\<lambda>n s. s + n) sizes 0"

partial_function (option) fit_4gb :: "64 word \<Rightarrow> 64 word \<Rightarrow> 64 word option" where
  "fit_4gb addr n = (if addr + n > 0x100000000 then fit_4gb addr (n - 0x40000000) else Some n)"

definition memory_size :: "64 word \<Rightarrow> 64 word list \<Rightarrow> u32 option" where
  "memory_size addr sizes = map_option ucast (fit_4gb addr (physical_memory_size sizes))"

lemma fit_4gb_result:
  assumes "uint addr \<le> 3 * 2 ^ 30" "uint addr + uint n < 2 ^ 64"
  shows "\<exists>r k. fit_4gb addr n = Some r \<and> uint r = uint n - 2 ^ 30 * int k \<and> uint addr + uint r \<le> 2 ^ 32
    \<and> (k > 0 \<longrightarrow> 3 * 2 ^ 30 < uint addr + uint r)"
  using assms(2)
proof (induction "nat (uint n)" arbitrary: n rule: less_induct)
  case less
  have sum: "uint (addr + n) = uint addr + uint n" using less.prems by (intro uint_add_lem [THEN iffD1]) simp
  show ?case
  proof (cases "addr + n > 0x100000000")
    case False
    then have "uint addr + uint n \<le> 2 ^ 32" by (simp add: word_less_def sum)
    then show ?thesis using False by (intro exI [of _ n] exI [of _ 0]) (simp add: fit_4gb.simps)
  next
    case True
    then have big: "2 ^ 32 < uint addr + uint n" by (simp add: word_less_def sum)
    then have "2 ^ 30 \<le> uint n" using assms(1) by simp
    then have m: "uint (n - 0x40000000) = uint n - 2 ^ 30" by (simp add: uint_sub_if')
    have "nat (uint (n - 0x40000000)) < nat (uint n)" using \<open>2 ^ 30 \<le> uint n\<close> unfolding m by (subst nat_less_eq_zless) simp_all
    moreover have "uint addr + uint (n - 0x40000000) < 2 ^ 64" using less.prems m by simp
    ultimately obtain r k where rk: "fit_4gb addr (n - 0x40000000) = Some r"
      "uint r = uint (n - 0x40000000) - 2 ^ 30 * int k" "uint addr + uint r \<le> 2 ^ 32"
      "k > 0 \<longrightarrow> 3 * 2 ^ 30 < uint addr + uint r"
      using less.hyps by blast
    have "fit_4gb addr n = Some r" using True rk(1) by (subst fit_4gb.simps) simp
    moreover have "uint r = uint n - 2 ^ 30 * int (Suc k)" using rk(2) m by simp
    moreover have "3 * 2 ^ 30 < uint addr + uint r"
      using rk(2,4) m big by (cases k) simp_all
    ultimately show ?thesis using rk(3) by blast
  qed
qed

text \<open>The loop that trims the memory to what 32 bits can address ends, for a base of at most 3
  GiB: it takes off whole gibibytes, no more than needed, and the truncation of the result
  to 32 bits loses nothing.\<close>

theorem memory_size_fits:
  assumes "0 < uint addr" "uint addr \<le> 3 * 2 ^ 30" "uint addr + uint (physical_memory_size sizes) < 2 ^ 64"
  shows "\<exists>r k. memory_size addr sizes = Some r \<and> uint r = uint (physical_memory_size sizes) - 2 ^ 30 * int k
    \<and> uint addr + uint r \<le> 2 ^ 32 \<and> (k > 0 \<longrightarrow> 3 * 2 ^ 30 < uint addr + uint r)"
proof -
  obtain r k where r: "fit_4gb addr (physical_memory_size sizes) = Some r"
    "uint r = uint (physical_memory_size sizes) - 2 ^ 30 * int k" "uint addr + uint r \<le> 2 ^ 32"
    "k > 0 \<longrightarrow> 3 * 2 ^ 30 < uint addr + uint r"
    using fit_4gb_result [OF assms(2,3)] by blast
  have "uint r < 2 ^ 32" using r(3) assms(1) by simp
  then have "uint (ucast r :: u32) = uint r" by (simp add: unsigned_ucast_eq take_bit_int_eq_self)
  then show ?thesis using r by (auto simp: memory_size_def)
qed

lemma memory_size_fits_witness: "\<exists>r. memory_size 0x40000000 [0x100000000, 0x80000000] = Some r \<and> r = 0xC0000000"
proof -
  have s: "physical_memory_size [0x100000000, 0x80000000] = 0x180000000" by (simp add: physical_memory_size_def)
  obtain r k where r: "memory_size 0x40000000 [0x100000000, 0x80000000] = Some r"
    "uint r = 0x180000000 - 2 ^ 30 * int k" "2 ^ 30 + uint r \<le> 2 ^ 32" "k > 0 \<longrightarrow> 3 * 2 ^ 30 < 2 ^ 30 + uint r"
    using memory_size_fits [of "0x40000000" "[0x100000000, 0x80000000]"] by (auto simp: s)
  have "3 \<le> k" using r(2,3) by simp
  moreover from this have "k < 4" using r(2,4) by simp
  ultimately have "k = 3" by simp
  then have "uint r = uint (0xC0000000 :: u32)" using r(2) by simp
  then have "r = 0xC0000000" by (rule word_uint_eqI)
  then show ?thesis using r(1) by simp
qed

text \<open>Without a base the truncation does lose: a memory of 4 GiB at address 0 counts as none.\<close>

lemma memory_size_at_0: "memory_size 0 [0x100000000] = Some 0"
  by (simp add: memory_size_def physical_memory_size_def fit_4gb.simps)

text \<open>A chain of three tags.\<close>

definition arg0 :: "unit boot_argument" where
  "arg0 = \<lparr>ba_magic = 0, ba_boot_reason = 0, ba_boot_mode = 0, ba_meta_com = [], ba_log_com = [],
     ba_dram_rank_num = 0, ba_dram_rank_size = (\<lambda>_. 0), ba_mblock_info = (), ba_orig_dram_info = (),
     ba_lca_reserved_mem = (), ba_tee_reserved_mem = (), ba_md_type = (\<lambda>_. 0), ba_boot_time = 0, ba_da_info = (),
     ba_sec_limit = (), ba_part_num = 0, ba_part_info = 0, ba_e_flag = 0, ba_ddr_reserve = (0, 0, 0),
     ba_dram_buf_size = 0, ba_non_secure_sram = (0, 0), ba_plat_dbg_info_max = 0,
     ba_plat_dbg_info = (\<lambda>_. (0, 0, 0)), ba_ptp_volt_info = (), ba_emi_info = (), ba_pl_imgver_status = 0,
     ba_max_cpus = 0, ba_boot_voltage = 0, ba_shutdown_time = 0, ba_ram_console = (0, 0, 0, 0),
     ba_charger_type = 0, ba_gz_md_shm = (0, 0), ba_socid = ()\<rparr>"

definition three_tags :: "unit boot_memory" where
  "three_tags = \<lparr>boot_location = 0x100, BOOT_ARGUMENT_MAGIC = 0x504C504C, sizeof_BOOT_ARGUMENT = 4096,
     arg_at = arg0, magic_at = 0,
     tag_at = (\<lambda>a. if a = 0x100 then (3, BOOT_TAG_BOOT_REASON 5)
       else if a = 0x10C then (8, BOOT_TAG_MEM 2 (\<lambda>i. 100) () () () ())
       else if a = 0x12C then (3, BOOT_TAG_BOOT_MODE 7) else (0, BOOT_TAG_OTHER 0)),
     boot_tag_next = (\<lambda>a. if a = 0x100 then 0x10C else if a = 0x10C then 0x12C else 0x138),
     MAX_NR_BANK = 4, INFO_TYPE_MAX = 8, WITH_GZ_MD_SHAREMEM = False\<rparr>"

lemma three_tags_chain:
  "tag_chain three_tags 0x100 [(3, BOOT_TAG_BOOT_REASON 5), (8, BOOT_TAG_MEM 2 (\<lambda>i. 100) () () () ()),
     (3, BOOT_TAG_BOOT_MODE 7)]"
proof -
  have "tag_chain three_tags 0x138 []" by (rule chain_end) (simp add: three_tags_def)
  then have "tag_chain three_tags 0x12C [tag_at three_tags 0x12C]"
    by (intro chain_tag) (simp_all add: three_tags_def)
  then have "tag_chain three_tags 0x10C [tag_at three_tags 0x10C, tag_at three_tags 0x12C]"
    by (intro chain_tag) (simp_all add: three_tags_def)
  then have "tag_chain three_tags 0x100 [tag_at three_tags 0x100, tag_at three_tags 0x10C, tag_at three_tags 0x12C]"
    by (intro chain_tag) (simp_all add: three_tags_def)
  then show ?thesis by (simp add: three_tags_def)
qed

definition no_globals :: "unit boot_globals" where
  "no_globals = \<lparr>g_boot_arg = arg0, bootarg_addr = 0, bootarg_size = 0, m_sec_usb_dl = 0, m_sec_boot = 0,
     m_seccfg_ac_en = 0, g_nr_bank = 0, g_dram_init_ret = 0\<rparr>"


end
