(* ===== verification/Hal_Battery.thy ===== *)
theory Hal_Battery
  imports Prelude
begin

text \<open>
  The vendor's battery service of user space (Battery.cpp, Battery.h): each method reads or
  writes a file the kernel shows.  What the service asks of the system is a record of
  functions on an abstract world.
\<close>

section \<open>The service's surroundings\<close>

text \<open>Files are named by their paths; a read gives its success and what it put in the buffer.
  \<open>Trim\<close> and \<open>ParseInt\<close> are Android's; \<open>ParseInt\<close> leaves its result alone when it fails.
  Opening with ``wb'' empties a file.\<close>

record 'w hal_io =
  ReadFileToString :: "string \<Rightarrow> 'w \<Rightarrow> bool \<times> string \<times> 'w"
  WriteStringToFile :: "string \<Rightarrow> string \<Rightarrow> 'w \<Rightarrow> bool \<times> 'w"
  fopen_wb :: "string \<Rightarrow> 'w \<Rightarrow> bool \<times> 'w"
  open_rdwr :: "string \<Rightarrow> 'w \<Rightarrow> int \<times> 'w"
  write_fd :: "int \<Rightarrow> string \<Rightarrow> 'w \<Rightarrow> int \<times> 'w"
  close_fd :: "int \<Rightarrow> 'w \<Rightarrow> 'w"
  Trim :: "string \<Rightarrow> string"
  ParseInt :: "string \<Rightarrow> int option"

section \<open>Paths\<close>

definition CHARGING_ENABLED :: string where "CHARGING_ENABLED = ''/sys/class/power_supply/battery/charging_enable''"
definition INPUT_SUSPEND :: string where "INPUT_SUSPEND = ''/sys/class/power_supply/usb/input_suspend''"
definition CHARGING_REAL_TYPE :: string where "CHARGING_REAL_TYPE = ''/sys/class/power_supply/usb/real_type''"
definition BATTERY_MAINTENANCE_V1 :: string where "BATTERY_MAINTENANCE_V1 = ''/sys/class/power_supply/battery/battery_maintenance''"
definition BATTERY_MAINTENANCE_V2 :: string where "BATTERY_MAINTENANCE_V2 = ''/sys/class/power_supply/battery/battery_maintenance20''"
definition SHIPPING_MODE_PATH :: string where "SHIPPING_MODE_PATH = ''/sys/class/power_supply/usb/ship_mode''"
definition BAT_ACTIVATE_DATE :: string where "BAT_ACTIVATE_DATE = ''/sys/devices/platform/11016000.i2c/i2c-5/5-0055/activate_date''"
definition READ_PDATE_PATH :: string where "READ_PDATE_PATH = ''/sys/devices/platform/11016000.i2c/i2c-5/5-0055/produce_date''"
definition BAT_PROTECTLEVEL_PATH :: string where "BAT_PROTECTLEVEL_PATH = ''/sys/class/power_supply/battery/battery_protection_setting''"
definition MAX_CHG_LEVEL_PATH :: string where "MAX_CHG_LEVEL_PATH = ''/sys/class/power_supply/battery/battery_protection_setting_eu''"
definition BAT_RECHGPERCENT_PATH :: string where "BAT_RECHGPERCENT_PATH = ''sys/class/power_supply/battery/battery_recharge_setting''"
definition BAT_SOH_PATH :: string where "BAT_SOH_PATH = ''/sys/devices/platform/11016000.i2c/i2c-5/5-0055/soh''"
definition BAT_CV_PATH :: string where "BAT_CV_PATH = ''/sys/class/power_supply/battery/cv''"
definition BAT_VOLT_NOW_PATH :: string where "BAT_VOLT_NOW_PATH = ''sys/class/power_supply/battery/voltage_now''"
definition BAT_CURR_NOW_PATH :: string where "BAT_CURR_NOW_PATH = ''sys/class/power_supply/battery/current_now''"
definition BAT_TTF_PATH :: string where "BAT_TTF_PATH = ''/sys/class/power_supply/battery/time_to_full_now''"
definition BAT_TTE_PATH :: string where "BAT_TTE_PATH = ''/sys/class/power_supply/mm8013c10-0/time_to_empty_now''"
definition BAT_GPIO_PATH :: string where "BAT_GPIO_PATH = []"
definition STYLS_CMD_PATH :: string where "STYLS_CMD_PATH = ''/sys/class/power_supply/battery/cycle_count''"
definition BATTERY_ACTIVATE_DATE :: string where "BATTERY_ACTIVATE_DATE = ''/sys/class/qcom-battery/fg1_activate_date''"
definition BATTERY_ACTIVATE_DATE_NUM2 :: string where "BATTERY_ACTIVATE_DATE_NUM2 = ''/sys/class/qcom-battery/fg2_activate_date''"
definition BATTERY_PRODUCED_DATE :: string where "BATTERY_PRODUCED_DATE = ''/sys/class/qcom-battery/fg1_produce_date''"
definition BATTERY_PRODUCED_DATE_NUM2 :: string where "BATTERY_PRODUCED_DATE_NUM2 = ''/sys/class/qcom-battery/fg2_produce_date''"
definition BATTERY_SOH :: string where "BATTERY_SOH = ''/sys/class/qcom-battery/fg1_soh''"
definition BATTERY_SOH_NUM2 :: string where "BATTERY_SOH_NUM2 = ''/sys/class/qcom-battery/fg2_soh''"
definition BATTERY_CYCLE_COUNT :: string where "BATTERY_CYCLE_COUNT = ''/sys/class/qcom-battery/fg1_cycle_count''"
definition BATTERY_CYCLE_COUNT_NUM2 :: string where "BATTERY_CYCLE_COUNT_NUM2 = ''/sys/class/qcom-battery/fg2_cycle_count''"
definition BATTERY_TEMPERATURE :: string where "BATTERY_TEMPERATURE = ''/sys/class/qcom-battery/fg1_temp''"
definition BATTERY_TEMPERATURE_NUM2 :: string where "BATTERY_TEMPERATURE_NUM2 = ''/sys/class/qcom-battery/fg2_temp''"
definition BATTERY_VOLTAGE :: string where "BATTERY_VOLTAGE = ''/sys/class/qcom-battery/fg1_voltage''"
definition BATTERY_VOLTAGE_NUM2 :: string where "BATTERY_VOLTAGE_NUM2 = ''/sys/class/qcom-battery/fg2_voltage''"
definition BATTERY_CURRENT :: string where "BATTERY_CURRENT = ''/sys/class/qcom-battery/fg1_current''"
definition BATTERY_CURRENT_NUM2 :: string where "BATTERY_CURRENT_NUM2 = ''/sys/class/qcom-battery/fg2_current''"
definition BATTERY_CV_NUM1 :: string where "BATTERY_CV_NUM1 = ''/sys/class/power_supply/battery/cv''"
definition BATTERY_CV_NUM2 :: string where "BATTERY_CV_NUM2 = ''/sys/class/qcom_battery/fg2_cv''"
definition BATTERY_MANUFACTURER :: string where "BATTERY_MANUFACTURER = ''/sys/class/qcom-battery/battery1_manufacturer''"
definition BATTERY_MANUFACTURER_NUM2 :: string where "BATTERY_MANUFACTURER_NUM2 = ''/sys/class/qcom-battery/battery2_manufacturer''"

definition EN_BM_PERSIST_PATH :: string where "EN_BM_PERSIST_PATH = ''/mnt/vendor/persist/flag''"
definition MAINTENFORCE_PATH :: string where "MAINTENFORCE_PATH = ''maintenance_enabled''"
definition BATTERYCHARGINGLEVEL :: string where "BATTERYCHARGINGLEVEL = ''battery_chargine_level''"
definition MAINTENFORCE20_PATH :: string where "MAINTENFORCE20_PATH = ''maintenance20_enabled''"
definition PROTECT_SET_PATH :: string where "PROTECT_SET_PATH = ''protect_setting_enabled''"

section \<open>Reading and writing\<close>

definition readFromFile :: "'w hal_io \<Rightarrow> string \<Rightarrow> 'w \<Rightarrow> int \<times> string \<times> 'w" where
  "readFromFile io path w =
    (let (ok, buf, w) = ReadFileToString io path w;
         buf = (if ok then Trim io buf else buf)
     in (s32 (int (length buf)), buf, w))"

definition writeToFile :: "'w hal_io \<Rightarrow> string \<Rightarrow> string \<Rightarrow> 'w \<Rightarrow> bool \<times> 'w" where
  "writeToFile io path in_value w = WriteStringToFile io in_value path w"

definition writeToFile_int :: "'w hal_io \<Rightarrow> string \<Rightarrow> int \<Rightarrow> 'w \<Rightarrow> bool \<times> 'w" where
  "writeToFile_int io path in_value w = WriteStringToFile io (show_int in_value) path w"

definition write_persist_file :: "'w hal_io \<Rightarrow> string \<Rightarrow> int \<Rightarrow> 'w \<Rightarrow> int \<times> 'w" where
  "write_persist_file io name in_value w =
    (let path = EN_BM_PERSIST_PATH @ ''/'' @ name; (fp, w) = fopen_wb io path w in
     if fp then let (_, w) = writeToFile_int io path in_value w in (0, w) else (- 1, w))"

definition getIntField :: "'w hal_io \<Rightarrow> string \<Rightarrow> 'w \<Rightarrow> int \<times> 'w" where
  "getIntField io path w =
    (let (len, buf, w) = readFromFile io path w in
     (if 0 \<le> len then (case ParseInt io buf of Some v \<Rightarrow> v | None \<Rightarrow> - 1) else - 1, w))"

definition readFromFile_int :: "'w hal_io \<Rightarrow> string \<Rightarrow> 'w \<Rightarrow> int \<times> int \<times> 'w" where
  "readFromFile_int io path w = (let (value, w) = getIntField io path w in (0, value, w))"

section \<open>The kind of charger\<close>

datatype ChargerType = ANDORID_CHARGER_NORMAL | ANDROID_CHARGER_FAST | ANDROID_CHARGER_FLOAT

fun mapSupplyString :: "string \<Rightarrow> (string \<times> ChargerType) list \<Rightarrow> ChargerType" where
  "mapSupplyString str [] = ANDORID_CHARGER_NORMAL"
| "mapSupplyString str ((s, val) # rest) = (if str = s then val else mapSupplyString str rest)"

definition supplyTypeMap :: "(string \<times> ChargerType) list" where
  "supplyTypeMap =
    [(''Unknown'', ANDORID_CHARGER_NORMAL), (''PD_PPS'', ANDROID_CHARGER_FAST),
     (''USB_PD'', ANDROID_CHARGER_FAST), (''USB'', ANDORID_CHARGER_NORMAL),
     (''USB_CDP'', ANDORID_CHARGER_NORMAL), (''USB_DCP'', ANDORID_CHARGER_NORMAL),
     (''SCP'', ANDORID_CHARGER_NORMAL), (''BrickID'', ANDROID_CHARGER_FLOAT)]"

definition readPowerSupplyType :: "string \<Rightarrow> ChargerType" where
  "readPowerSupplyType str = mapSupplyString (takeWhile (\<lambda>c. c \<noteq> CHR 0x00) str) supplyTypeMap"

section \<open>Getters\<close>

text \<open>A method returns its status, always ok, and stores its answer through a pointer: \<open>out\<close> is
  what is there before.  The common shapes: an answer only for a number that is not negative;
  a number as it is; a file for each of two batteries.\<close>

definition unless_negative :: "(int \<Rightarrow> 'a) \<Rightarrow> 'w hal_io \<Rightarrow> string \<Rightarrow> 'a \<Rightarrow> 'w \<Rightarrow> 'a \<times> 'w" where
  "unless_negative f io path out w =
    (let (ret, w) = getIntField io path w in (if ret < 0 then out else f ret, w))"

definition text_unless_negative :: "'w hal_io \<Rightarrow> string \<Rightarrow> string \<Rightarrow> 'w \<Rightarrow> string \<times> 'w" where
  "text_unless_negative io path out w =
    (let (ret, buf, w) = readFromFile io path w in (if ret < 0 then out else buf, w))"

definition number_as_is :: "'w hal_io \<Rightarrow> string \<Rightarrow> 'w \<Rightarrow> int \<times> 'w" where
  "number_as_is io path w = (let (ret, tmp, w) = readFromFile_int io path w in (tmp, w))"

definition for_num ::
  "(string \<Rightarrow> 'w \<Rightarrow> int \<times> 'a \<times> 'w) \<Rightarrow> int \<Rightarrow> string \<Rightarrow> string \<Rightarrow> 'a \<Rightarrow> 'w \<Rightarrow> 'a \<times> 'w" where
  "for_num read num path1 path2 out w =
    (if num = 1 then let (_, v, w) = read path1 w in (v, w)
     else if num = 2 then let (_, v, w) = read path2 w in (v, w)
     else (out, w))"

definition getBatteryMaintenanceEnabledV2 ::
  "'w hal_io \<Rightarrow> bool \<Rightarrow> 'w \<Rightarrow> bool \<times> 'w" where
  "getBatteryMaintenanceEnabledV2 io out w =
    unless_negative (\<lambda>ret. ret = 1) io BATTERY_MAINTENANCE_V2 out w"

definition isBatteryMaintenanceEnabled ::
  "'w hal_io \<Rightarrow> bool \<Rightarrow> 'w \<Rightarrow> bool \<times> 'w" where
  "isBatteryMaintenanceEnabled io out w =
    unless_negative (\<lambda>ret. ret = 1) io BATTERY_MAINTENANCE_V1 out w"

definition getBatteryProtectedLevel ::
  "'w hal_io \<Rightarrow> int \<Rightarrow> 'w \<Rightarrow> int \<times> 'w" where
  "getBatteryProtectedLevel io out w =
    unless_negative (\<lambda>ret. ret) io BAT_PROTECTLEVEL_PATH out w"

definition getMaxBatteryChargingLevel ::
  "'w hal_io \<Rightarrow> int \<Rightarrow> 'w \<Rightarrow> int \<times> 'w" where
  "getMaxBatteryChargingLevel io out w =
    unless_negative (\<lambda>ret. ret) io MAX_CHG_LEVEL_PATH out w"

definition getBatteryRechargingPercent ::
  "'w hal_io \<Rightarrow> int \<Rightarrow> 'w \<Rightarrow> int \<times> 'w" where
  "getBatteryRechargingPercent io out w =
    unless_negative (\<lambda>ret. ret) io BAT_RECHGPERCENT_PATH out w"

definition getBatterySOH ::
  "'w hal_io \<Rightarrow> int \<Rightarrow> 'w \<Rightarrow> int \<times> 'w" where
  "getBatterySOH io out w =
    unless_negative (\<lambda>ret. ret) io BAT_SOH_PATH out w"

definition getBatteryCV ::
  "'w hal_io \<Rightarrow> int \<Rightarrow> 'w \<Rightarrow> int \<times> 'w" where
  "getBatteryCV io out w =
    unless_negative (\<lambda>ret. ret) io BAT_CV_PATH out w"

definition getBatteryTimeToFullNow ::
  "'w hal_io \<Rightarrow> int \<Rightarrow> 'w \<Rightarrow> int \<times> 'w" where
  "getBatteryTimeToFullNow io out w =
    unless_negative (\<lambda>ret. ret) io BAT_TTF_PATH out w"

definition getBatteryTimeToEmptyNow ::
  "'w hal_io \<Rightarrow> int \<Rightarrow> 'w \<Rightarrow> int \<times> 'w" where
  "getBatteryTimeToEmptyNow io out w =
    unless_negative (\<lambda>ret. ret) io BAT_TTE_PATH out w"

definition getChargerType ::
  "'w hal_io \<Rightarrow> string \<Rightarrow> 'w \<Rightarrow> string \<times> 'w" where
  "getChargerType io out w =
    text_unless_negative io CHARGING_REAL_TYPE out w"

definition getBatteryActivateDate ::
  "'w hal_io \<Rightarrow> string \<Rightarrow> 'w \<Rightarrow> string \<times> 'w" where
  "getBatteryActivateDate io out w =
    text_unless_negative io BAT_ACTIVATE_DATE out w"

definition getBatteryProduceDate ::
  "'w hal_io \<Rightarrow> string \<Rightarrow> 'w \<Rightarrow> string \<times> 'w" where
  "getBatteryProduceDate io out w =
    text_unless_negative io READ_PDATE_PATH out w"

definition getBatteryTemperature ::
  "'w hal_io \<Rightarrow> 'w \<Rightarrow> int \<times> 'w" where
  "getBatteryTemperature io w =
    number_as_is io BATTERY_TEMPERATURE w"

definition getBatteryCycleCount ::
  "'w hal_io \<Rightarrow> 'w \<Rightarrow> int \<times> 'w" where
  "getBatteryCycleCount io w =
    number_as_is io BATTERY_CYCLE_COUNT w"

definition getBatteryVoltage ::
  "'w hal_io \<Rightarrow> 'w \<Rightarrow> int \<times> 'w" where
  "getBatteryVoltage io w =
    number_as_is io BATTERY_VOLTAGE w"

definition getBatteryCurrent ::
  "'w hal_io \<Rightarrow> 'w \<Rightarrow> int \<times> 'w" where
  "getBatteryCurrent io w =
    number_as_is io BATTERY_CURRENT w"

definition getBatterySOHForNum ::
  "'w hal_io \<Rightarrow> int \<Rightarrow> int \<Rightarrow> 'w \<Rightarrow> int \<times> 'w" where
  "getBatterySOHForNum io num out w =
    for_num (readFromFile_int io) num BATTERY_SOH BATTERY_SOH_NUM2 out w"

definition getBatteryCVForNum ::
  "'w hal_io \<Rightarrow> int \<Rightarrow> int \<Rightarrow> 'w \<Rightarrow> int \<times> 'w" where
  "getBatteryCVForNum io num out w =
    for_num (readFromFile_int io) num BATTERY_CV_NUM1 BATTERY_CV_NUM2 out w"

definition getBatteryCycleCountForNum ::
  "'w hal_io \<Rightarrow> int \<Rightarrow> int \<Rightarrow> 'w \<Rightarrow> int \<times> 'w" where
  "getBatteryCycleCountForNum io num out w =
    for_num (readFromFile_int io) num BATTERY_CYCLE_COUNT BATTERY_CYCLE_COUNT_NUM2 out w"

definition getBatteryVoltageForNum ::
  "'w hal_io \<Rightarrow> int \<Rightarrow> int \<Rightarrow> 'w \<Rightarrow> int \<times> 'w" where
  "getBatteryVoltageForNum io num out w =
    for_num (readFromFile_int io) num BATTERY_VOLTAGE BATTERY_VOLTAGE_NUM2 out w"

definition getBatteryCurrentForNum ::
  "'w hal_io \<Rightarrow> int \<Rightarrow> int \<Rightarrow> 'w \<Rightarrow> int \<times> 'w" where
  "getBatteryCurrentForNum io num out w =
    for_num (readFromFile_int io) num BATTERY_CURRENT BATTERY_CURRENT_NUM2 out w"

definition getBatteryTemperatureForNum ::
  "'w hal_io \<Rightarrow> int \<Rightarrow> int \<Rightarrow> 'w \<Rightarrow> int \<times> 'w" where
  "getBatteryTemperatureForNum io num out w =
    for_num (readFromFile_int io) num BATTERY_TEMPERATURE BATTERY_TEMPERATURE_NUM2 out w"

definition getBatteryActivateDateForNum ::
  "'w hal_io \<Rightarrow> int \<Rightarrow> string \<Rightarrow> 'w \<Rightarrow> string \<times> 'w" where
  "getBatteryActivateDateForNum io num out w =
    for_num (readFromFile io) num BATTERY_ACTIVATE_DATE BATTERY_ACTIVATE_DATE_NUM2 out w"

definition getBatteryProduceDateForNum ::
  "'w hal_io \<Rightarrow> int \<Rightarrow> string \<Rightarrow> 'w \<Rightarrow> string \<times> 'w" where
  "getBatteryProduceDateForNum io num out w =
    for_num (readFromFile io) num BATTERY_PRODUCED_DATE BATTERY_PRODUCED_DATE_NUM2 out w"

text \<open>Port 1 is the battery itself; any other port leaves the answer as it is.\<close>

definition getPortxVoltageNow ::
  "'w hal_io \<Rightarrow> int \<Rightarrow> int \<Rightarrow> 'w \<Rightarrow> int \<times> 'w" where
  "getPortxVoltageNow io port out w =
    (if port = 1 then getIntField io BAT_VOLT_NOW_PATH w else (out, w))"

definition getPortxCurrentNow ::
  "'w hal_io \<Rightarrow> int \<Rightarrow> int \<Rightarrow> 'w \<Rightarrow> int \<times> 'w" where
  "getPortxCurrentNow io port out w =
    (if port = 1 then getIntField io BAT_CURR_NOW_PATH w else (out, w))"

definition getPortxGPIO ::
  "'w hal_io \<Rightarrow> int \<Rightarrow> bool \<Rightarrow> 'w \<Rightarrow> bool \<times> 'w" where
  "getPortxGPIO io port out w =
    (if port = 1 then let (ret, w) = getIntField io BAT_GPIO_PATH w in (ret \<noteq> 0, w) else (out, w))"

definition getBatteryManufacturerForNum ::
  "'w hal_io \<Rightarrow> int \<Rightarrow> 'w \<Rightarrow> string \<times> 'w" where
  "getBatteryManufacturerForNum io num w =
    (let (ret, w) =
           (if num = 1 then getIntField io BATTERY_MANUFACTURER w
            else if num = 2 then getIntField io BATTERY_MANUFACTURER_NUM2 w
            else (- 1, w))
     in (show_int ret, w))"

section \<open>Setters\<close>

definition setBatteryMaintenanceEnabled ::
  "'w hal_io \<Rightarrow> bool \<Rightarrow> 'w \<Rightarrow> bool \<times> 'w" where
  "setBatteryMaintenanceEnabled io in_enable w =
    (let (ok, w) = writeToFile_int io BATTERY_MAINTENANCE_V1 (b2i in_enable) w in
     if \<not> ok then (ok, w) else let (_, w) = write_persist_file io MAINTENFORCE_PATH (b2i in_enable) w in (ok, w))"

definition setBatteryMaintenanceEnabledV2 ::
  "'w hal_io \<Rightarrow> bool \<Rightarrow> 'w \<Rightarrow> bool \<times> 'w" where
  "setBatteryMaintenanceEnabledV2 io in_enable w =
    (let (ok, w) = writeToFile_int io BATTERY_MAINTENANCE_V2 (b2i in_enable) w in
     if \<not> ok then (ok, w) else let (_, w) = write_persist_file io MAINTENFORCE20_PATH (b2i in_enable) w in (ok, w))"

definition setBatteryChargeDisabled ::
  "'w hal_io \<Rightarrow> bool \<Rightarrow> 'w \<Rightarrow> bool \<times> 'w" where
  "setBatteryChargeDisabled io in_enable w =
    writeToFile_int io CHARGING_ENABLED (b2i in_enable) w"

definition setUsbSupplyDisabled ::
  "'w hal_io \<Rightarrow> bool \<Rightarrow> 'w \<Rightarrow> bool \<times> 'w" where
  "setUsbSupplyDisabled io in_enable w =
    writeToFile_int io INPUT_SUSPEND (b2i in_enable) w"

definition setBatteryProtectedLevel ::
  "'w hal_io \<Rightarrow> int \<Rightarrow> 'w \<Rightarrow> bool \<times> 'w" where
  "setBatteryProtectedLevel io in_bp_level w =
    (let (ok, w) = writeToFile_int io BAT_PROTECTLEVEL_PATH in_bp_level w in
     if \<not> ok then (ok, w) else let (_, w) = write_persist_file io PROTECT_SET_PATH in_bp_level w in (ok, w))"

definition setMaxBatteryChargingLevel ::
  "'w hal_io \<Rightarrow> int \<Rightarrow> 'w \<Rightarrow> bool \<times> 'w" where
  "setMaxBatteryChargingLevel io in_maxLevel w =
    (let (ok, w) = writeToFile_int io MAX_CHG_LEVEL_PATH in_maxLevel w in
     if \<not> ok then (ok, w) else let (_, w) = write_persist_file io BATTERYCHARGINGLEVEL in_maxLevel w in (ok, w))"

definition setBatteryRechargingPercent ::
  "'w hal_io \<Rightarrow> int \<Rightarrow> 'w \<Rightarrow> bool \<times> 'w" where
  "setBatteryRechargingPercent io in_percentage w =
    writeToFile_int io BAT_RECHGPERCENT_PATH in_percentage w"

definition setShipModeState ::
  "'w hal_io \<Rightarrow> int \<Rightarrow> 'w \<Rightarrow> bool \<times> 'w" where
  "setShipModeState io in_shipMode w =
    (if in_shipMode = 1 then writeToFile_int io SHIPPING_MODE_PATH 1 w else (False, w))"

definition setBatteryActivateDate ::
  "'w hal_io \<Rightarrow> string \<Rightarrow> 'w \<Rightarrow> bool \<times> 'w" where
  "setBatteryActivateDate io in_date w =
    (let (fd, w) = open_rdwr io BAT_ACTIVATE_DATE w in
     if 0 \<le> fd then
       let (amt, w) = write_fd io fd (takeWhile (\<lambda>c. c \<noteq> CHR 0x00) in_date) w; w = close_fd io fd w
       in (amt \<noteq> - 1, w)
     else (False, w))"

definition setBatteryActivateDateForNum ::
  "'w hal_io \<Rightarrow> int \<Rightarrow> string \<Rightarrow> 'w \<Rightarrow> bool \<times> 'w" where
  "setBatteryActivateDateForNum io num in_date w =
    (let (fd, w) = open_rdwr io BAT_ACTIVATE_DATE w in
     if 0 \<le> fd then
       let (amt, w) = write_fd io fd (takeWhile (\<lambda>c. c \<noteq> CHR 0x00) in_date) w; w = close_fd io fd w
       in (amt \<noteq> - 1, w)
     else (False, w))"

text \<open>The command of the stylus is not sent: a file is read, and the command given back.\<close>

definition setStylusQiCommand ::
  "'w hal_io \<Rightarrow> int \<Rightarrow> bool \<Rightarrow> 'w \<Rightarrow> bool \<times> 'w" where
  "setStylusQiCommand io cmd out w =
    (let (ret, w) = getIntField io STYLS_CMD_PATH w in (if ret < 0 then out else cmd \<noteq> 0, w))"

end
