(* ===== verification/Hal_Kernel.thy ===== *)
theory Hal_Kernel
  imports Hal_Battery Lenovo_Settings Decimal
begin

text \<open>
  The battery service on the kernel's charge settings: a setter of the service stores its
  number in the kernel and a getter reads it back, over any sequence of calls.  The locale
  \<open>charge_files\<close> states how the files reach the kernel's store and show methods.
\<close>

section \<open>The files and the texts\<close>

text \<open>A relative path starts at the working directory of the service.\<close>

definition resolve :: "string \<Rightarrow> string \<Rightarrow> string" where
  "resolve cwd path = (case path of [] \<Rightarrow> [] | c # _ \<Rightarrow> if c = CHR ''/'' then path else cwd @ CHR ''/'' # path)"

definition sysfs_path :: "string \<Rightarrow> string \<Rightarrow> string" where
  "sysfs_path psy name = ''/sys/class/power_supply/'' @ psy @ CHR ''/'' # name"

definition charge_files_tbl :: "(string \<times> sysfs_property \<times> bool) list" where
  "charge_files_tbl =
    map (\<lambda>(n, p, rw). (sysfs_path ''battery'' n, p, rw)) battery_sysfs_field_tbl
    @ map (\<lambda>(n, p, rw). (sysfs_path ''usb'' n, p, rw)) usb_sysfs_field_tbl"

abbreviation is_s32 :: "int \<Rightarrow> bool" where
  "is_s32 n \<equiv> - (2 ^ 31) \<le> n \<and> n < 2 ^ 31"

lemma b2i_s32 [simp]: "- 2147483648 \<le> b2i b" "b2i b < 2147483648" "\<not> b2i b < 0" "b2i b = 1 \<longleftrightarrow> b"
  by (simp_all add: b2i_def)

text \<open>The number of a file that keeps its value, and its text, whatever the surroundings.\<close>

definition kept_num :: "sysfs_property \<Rightarrow> sysfs_info_data \<Rightarrow> int" where
  "kept_num p D =
    (case fst (snd (lenovo_charge_sysfs_get_property lenovo_env0 0 p D)) of intval n \<Rightarrow> n | _ \<Rightarrow> 0)"

abbreviation kept_text :: "sysfs_property \<Rightarrow> sysfs_info_data \<Rightarrow> string" where
  "kept_text p D \<equiv> show_int (kept_num p D) @ [CHR 0x0A]"

lemma kept_text_any: "kept p \<Longrightarrow> file_text p D E g = kept_text p D"
  by (cases p) (simp_all add: kept_num_def settings show_propval_def)

lemma kept_num_write:
  "kept p \<Longrightarrow> kept_num p (write_file q (E, v) D) = (if q = p then kept_value p v else kept_num p D)"
  by (cases p; cases q) (auto simp: kept_num_def settings case_prod_beta Let_def)

lemma core_getters:
  "get_battery_protection_setting D = kept_num POWER_SUPPLY_PROP_BATTERY_PROTECTION_SETTING D"
  "get_battery_protection_setting_eu D = kept_num POWER_SUPPLY_PROP_BATTERY_PROTECTION_SETTING_EU D"
  "get_input_suspend D = kept_num POWER_SUPPLY_PROP_INPUT_SUSPEND D"
  "get_charging_enable D = kept_num POWER_SUPPLY_PROP_CHARGING_ENABLE D"
  by (simp_all add: kept_num_def settings get_battery_protection_setting_def
      get_battery_protection_setting_eu_def get_input_suspend_def get_charging_enable_def)

text \<open>How a file of the table reaches the kernel: a read shows the property, a write stores the
  number it parses to; no other file touches the settings.  The readers of numbers read back
  what \<open>%d\<close> prints.\<close>

locale charge_files =
  fixes io :: "'w hal_io" and charge :: "'w \<Rightarrow> sysfs_info_data" and env :: "'w \<Rightarrow> lenovo_env"
    and cwd :: string and kstrtos32 :: "string \<Rightarrow> int + int"
  assumes file_read: "(resolve cwd path, p, rw) \<in> set charge_files_tbl \<Longrightarrow> kept p \<Longrightarrow>
      \<exists>w'. ReadFileToString io path w = (True, kept_text p (charge w), w') \<and> charge w' = charge w"
    and file_written: "(resolve cwd path, p, True) \<in> set charge_files_tbl \<Longrightarrow> kstrtos32 t = Inr v \<Longrightarrow>
      \<exists>w'. WriteStringToFile io t path w = (True, w') \<and> charge w' = write_file p (env w, v) (charge w)"
    and other_written: "resolve cwd path \<notin> fst ` set charge_files_tbl \<Longrightarrow>
      charge (snd (WriteStringToFile io t path w)) = charge w"
    and other_emptied: "resolve cwd path \<notin> fst ` set charge_files_tbl \<Longrightarrow>
      charge (snd (fopen_wb io path w)) = charge w"
    and trimmed: "is_s32 n \<Longrightarrow> Trim io (show_int n @ [CHR 0x0A]) = show_int n"
    and parsed: "is_s32 n \<Longrightarrow> ParseInt io (show_int n) = Some n"
    and kernel_parsed: "is_s32 n \<Longrightarrow> kstrtos32 (show_int n) = Inr n"
begin

text \<open>What a getter makes of a text.\<close>

definition number_of :: "string \<Rightarrow> int" where
  "number_of t =
    (if 0 \<le> s32 (int (length (Trim io t))) then (case ParseInt io (Trim io t) of Some v \<Rightarrow> v | None \<Rightarrow> - 1)
     else - 1)"

lemma get_file:
  assumes "(resolve cwd path, p, rw) \<in> set charge_files_tbl" "kept p"
  shows "fst (getIntField io path w) = number_of (kept_text p (charge w))"
    "charge (snd (getIntField io path w)) = charge w"
  using file_read [OF assms, of w] by (auto simp: getIntField_def readFromFile_def number_of_def Let_def)

lemma number_of_shown: "is_s32 n \<Longrightarrow> number_of (show_int n @ [CHR 0x0A]) = n"
  using length_show_int [of n] by (simp add: number_of_def trimmed parsed)

lemma set_file:
  assumes "(resolve cwd path, p, True) \<in> set charge_files_tbl" "is_s32 v"
  shows "fst (writeToFile_int io path v w)"
    "charge (snd (writeToFile_int io path v w)) = write_file p (env w, v) (charge w)"
  using file_written [OF assms(1) kernel_parsed [OF assms(2)], of w] by (auto simp: writeToFile_int_def)

end

section \<open>Paths of the service\<close>

lemma charge_files_tbl_paths:
  "charge_files_tbl =
    [(BATTERY_MAINTENANCE_V1, POWER_SUPPLY_PROP_BATTERY_MAINTENANCE, True),
     (BATTERY_MAINTENANCE_V2, POWER_SUPPLY_PROP_BATTERY_MAINTENANCE20, True),
     (CHR ''/'' # BAT_RECHGPERCENT_PATH, POWER_SUPPLY_PROP_BATTERY_RECHARGE_SETTING, True),
     (BAT_PROTECTLEVEL_PATH, POWER_SUPPLY_PROP_BATTERY_PROTECTION_SETTING, True),
     (MAX_CHG_LEVEL_PATH, POWER_SUPPLY_PROP_BATTERY_PROTECTION_SETTING_EU, True),
     (''/sys/class/power_supply/battery/charging_level'', POWER_SUPPLY_PROP_CHARGING_LEVEL, True),
     (CHARGING_ENABLED, POWER_SUPPLY_PROP_CHARGING_ENABLE, True),
     (BAT_CV_PATH, POWER_SUPPLY_PROP_CV, False),
     (CHARGING_REAL_TYPE, POWER_SUPPLY_PROP_REAL_TYPE, False),
     (INPUT_SUSPEND, POWER_SUPPLY_PROP_INPUT_SUSPEND, True),
     (SHIPPING_MODE_PATH, POWER_SUPPLY_PROP_SHIP_MODE, True)]"
  by (simp add: charge_files_tbl_def battery_sysfs_field_tbl_def usb_sysfs_field_tbl_def sysfs_path_def
      BATTERY_MAINTENANCE_V1_def BATTERY_MAINTENANCE_V2_def BAT_RECHGPERCENT_PATH_def
      BAT_PROTECTLEVEL_PATH_def MAX_CHG_LEVEL_PATH_def CHARGING_ENABLED_def BAT_CV_PATH_def
      CHARGING_REAL_TYPE_def INPUT_SUSPEND_def SHIPPING_MODE_PATH_def)


section \<open>Calls\<close>

text \<open>What a client asks to be set; the numbers arrive as 32-bit integers.\<close>

datatype hal_call =
    Maintenance bool
  | Maintenance20 bool
  | ChargeDisabled bool
  | UsbSupply bool
  | ShipMode int
  | ProtectedLevel int
  | MaxLevel int
  | RechargingPercent int

fun perform_call :: "'w hal_io \<Rightarrow> hal_call \<Rightarrow> 'w \<Rightarrow> bool \<times> 'w" where
  "perform_call io (Maintenance b) w = setBatteryMaintenanceEnabled io b w"
| "perform_call io (Maintenance20 b) w = setBatteryMaintenanceEnabledV2 io b w"
| "perform_call io (ChargeDisabled b) w = setBatteryChargeDisabled io b w"
| "perform_call io (UsbSupply b) w = setUsbSupplyDisabled io b w"
| "perform_call io (ShipMode n) w = setShipModeState io (s32 n) w"
| "perform_call io (ProtectedLevel n) w = setBatteryProtectedLevel io (s32 n) w"
| "perform_call io (MaxLevel n) w = setMaxBatteryChargingLevel io (s32 n) w"
| "perform_call io (RechargingPercent n) w = setBatteryRechargingPercent io (s32 n) w"

definition hal_calls :: "'w hal_io \<Rightarrow> hal_call list \<Rightarrow> 'w \<Rightarrow> 'w" where
  "hal_calls io cs w = fold (\<lambda>c w. snd (perform_call io c w)) cs w"

text \<open>The setting a call stores: none for a ship mode other than 1, and none for the recharge
  level when the service does not run in the root directory.\<close>

fun hal_effect :: "string \<Rightarrow> hal_call \<Rightarrow> (sysfs_property \<times> int) option" where
  "hal_effect cwd (Maintenance b) = Some (POWER_SUPPLY_PROP_BATTERY_MAINTENANCE, b2i b)"
| "hal_effect cwd (Maintenance20 b) = Some (POWER_SUPPLY_PROP_BATTERY_MAINTENANCE20, b2i b)"
| "hal_effect cwd (ChargeDisabled b) = Some (POWER_SUPPLY_PROP_CHARGING_ENABLE, b2i b)"
| "hal_effect cwd (UsbSupply b) = Some (POWER_SUPPLY_PROP_INPUT_SUSPEND, b2i b)"
| "hal_effect cwd (ShipMode n) = (if s32 n = 1 then Some (POWER_SUPPLY_PROP_SHIP_MODE, 1) else None)"
| "hal_effect cwd (ProtectedLevel n) = Some (POWER_SUPPLY_PROP_BATTERY_PROTECTION_SETTING, s32 n)"
| "hal_effect cwd (MaxLevel n) = Some (POWER_SUPPLY_PROP_BATTERY_PROTECTION_SETTING_EU, s32 n)"
| "hal_effect cwd (RechargingPercent n) =
    (if cwd = [] then Some (POWER_SUPPLY_PROP_BATTERY_RECHARGE_SETTING, s32 n) else None)"

lemma hal_effect_stored: "hal_effect cwd c = Some (p, v) \<Longrightarrow> kept p \<and> is_s32 v"
  using s32_range by (cases c) (auto split: if_splits)

lemma persist_path_other: "resolve cwd (EN_BM_PERSIST_PATH @ CHR ''/'' # name) \<notin> fst ` set charge_files_tbl"
  by (simp add: resolve_def charge_files_tbl_def sysfs_path_def EN_BM_PERSIST_PATH_def
      battery_sysfs_field_tbl_def usb_sysfs_field_tbl_def)

text \<open>A path that ends like the recharge file is that file only from the root directory.\<close>

lemma last_bytes: "cwd @ s = t \<Longrightarrow> rev s = take (length s) (rev t)"
  by auto

lemma recharge_path_other:
  assumes "cwd \<noteq> []"
  shows "resolve cwd BAT_RECHGPERCENT_PATH \<notin> fst ` set charge_files_tbl"
proof
  let ?s = "CHR ''/'' # BAT_RECHGPERCENT_PATH"
  assume "resolve cwd BAT_RECHGPERCENT_PATH \<in> fst ` set charge_files_tbl"
  then obtain t where t: "t \<in> fst ` set charge_files_tbl" "cwd @ ?s = t"
    by (simp add: resolve_def BAT_RECHGPERCENT_PATH_def)
  then have "take (length ?s) (rev t) = rev ?s" using last_bytes [of cwd ?s t] by simp
  moreover from t(1) have "t \<noteq> ?s \<Longrightarrow> take (length ?s) (rev t) \<noteq> rev ?s"
    by (auto simp: charge_files_tbl_def sysfs_path_def BAT_RECHGPERCENT_PATH_def
        battery_sysfs_field_tbl_def usb_sysfs_field_tbl_def)
  ultimately have "t = ?s" by blast
  with t(2) assms show False by simp
qed

context charge_files
begin

lemma persist_keeps [simp]: "charge (snd (write_persist_file io name v w)) = charge w"
  using other_emptied [OF persist_path_other, of name w]
    other_written [OF persist_path_other [of cwd name], of "show_int v"]
  by (auto simp: write_persist_file_def writeToFile_int_def case_prod_beta Let_def)

lemma absolute [simp]: "resolve cwd (CHR ''/'' # s) = CHR ''/'' # s"
  by (simp add: resolve_def)

lemmas path_defs = BATTERY_MAINTENANCE_V1_def BATTERY_MAINTENANCE_V2_def BAT_RECHGPERCENT_PATH_def
  BAT_PROTECTLEVEL_PATH_def MAX_CHG_LEVEL_PATH_def CHARGING_ENABLED_def BAT_CV_PATH_def
  CHARGING_REAL_TYPE_def INPUT_SUSPEND_def SHIPPING_MODE_PATH_def

text \<open>The files the setters write to, at any working directory.\<close>

lemma setting_files:
  "(resolve cwd BATTERY_MAINTENANCE_V1, POWER_SUPPLY_PROP_BATTERY_MAINTENANCE, True) \<in> set charge_files_tbl"
  "(resolve cwd BATTERY_MAINTENANCE_V2, POWER_SUPPLY_PROP_BATTERY_MAINTENANCE20, True) \<in> set charge_files_tbl"
  "(resolve cwd BAT_PROTECTLEVEL_PATH, POWER_SUPPLY_PROP_BATTERY_PROTECTION_SETTING, True) \<in> set charge_files_tbl"
  "(resolve cwd MAX_CHG_LEVEL_PATH, POWER_SUPPLY_PROP_BATTERY_PROTECTION_SETTING_EU, True) \<in> set charge_files_tbl"
  "(resolve cwd CHARGING_ENABLED, POWER_SUPPLY_PROP_CHARGING_ENABLE, True) \<in> set charge_files_tbl"
  "(resolve cwd INPUT_SUSPEND, POWER_SUPPLY_PROP_INPUT_SUSPEND, True) \<in> set charge_files_tbl"
  "(resolve cwd SHIPPING_MODE_PATH, POWER_SUPPLY_PROP_SHIP_MODE, True) \<in> set charge_files_tbl"
  unfolding charge_files_tbl_paths by (simp_all add: path_defs)

lemma recharge_file:
  "cwd = [] \<Longrightarrow>
   (resolve cwd BAT_RECHGPERCENT_PATH, POWER_SUPPLY_PROP_BATTERY_RECHARGE_SETTING, True) \<in> set charge_files_tbl"
  unfolding charge_files_tbl_paths by (simp add: resolve_def BAT_RECHGPERCENT_PATH_def)

text \<open>Every call does its effect, in the surroundings of that moment, and nothing else.\<close>

lemma call_effect:
  "charge (snd (perform_call io c w)) =
    (case hal_effect cwd c of None \<Rightarrow> charge w
     | Some (p, v) \<Rightarrow> write_file p (env w, v) (charge w))"
proof (cases c)
  case (RechargingPercent n)
  show ?thesis
  proof (cases "cwd = []")
    case True
    then show ?thesis
      using set_file [OF recharge_file [OF True], of "s32 n"] s32_range [of n]
      by (simp add: RechargingPercent setBatteryRechargingPercent_def)
  next
    case False
    then show ?thesis
      using other_written [OF recharge_path_other [OF False]]
      by (simp add: RechargingPercent setBatteryRechargingPercent_def writeToFile_int_def)
  qed
qed (use s32_range in \<open>auto simp: setBatteryMaintenanceEnabled_def setBatteryMaintenanceEnabledV2_def
  setBatteryChargeDisabled_def setUsbSupplyDisabled_def setShipModeState_def
  setBatteryProtectedLevel_def setMaxBatteryChargingLevel_def case_prod_beta Let_def
  set_file [OF setting_files(1)] set_file [OF setting_files(2)] set_file [OF setting_files(3)]
  set_file [OF setting_files(4)] set_file [OF setting_files(5)] set_file [OF setting_files(6)]
  set_file [OF setting_files(7)]\<close>)

end

end
