(* ===== verification/Hal_Service.thy ===== *)
theory Hal_Service
  imports Hal_Kernel
begin

text \<open>
  What the clients of the battery service may rely on: a getter reports the last setting, the
  charger core is notified of it and reads it.  The settings are an instance of the write log
  of \<open>Lenovo_Settings\<close>.
\<close>

section \<open>The last setting\<close>

definition last_setting :: "string \<Rightarrow> sysfs_property \<Rightarrow> hal_call list \<Rightarrow> int option" where
  "last_setting cwd q cs =
    (case filter (\<lambda>(p, _). p = q) (rev (List.map_filter (hal_effect cwd) cs)) of
       [] \<Rightarrow> None | (_, v) # _ \<Rightarrow> Some v)"

lemma map_filter_snoc:
  "List.map_filter f (xs @ [x]) = List.map_filter f xs @ (case f x of None \<Rightarrow> [] | Some y \<Rightarrow> [y])"
  by (simp add: List.map_filter_def split: option.splits)

lemma log_of_effects:
  "filter (\<lambda>(q, v). q = p) (rev (List.map_filter (\<lambda>c. map_option (\<lambda>(q, v). (q, f q v)) (e c)) cs))
    = map (\<lambda>(q, v). (q, f q v)) (filter (\<lambda>(q, v). q = p) (rev (List.map_filter e cs)))"
  by (induction cs rule: rev_induct) (auto simp: map_filter_snoc List.map_filter_def split: option.splits)

lemma last_setting_s32: "last_setting cwd q cs = Some v \<Longrightarrow> kept q \<and> is_s32 v"
proof -
  assume "last_setting cwd q cs = Some v"
  then obtain p rest where f: "filter (\<lambda>(p, _). p = q) (rev (List.map_filter (hal_effect cwd) cs)) = (p, v) # rest"
    by (auto simp: last_setting_def split: list.splits)
  have "(p, v) \<in> set ((p, v) # rest)" by simp
  then have "(q, v) \<in> set (List.map_filter (hal_effect cwd) cs)" unfolding f [symmetric] by auto
  then obtain c where "hal_effect cwd c = Some (q, v)" by (auto simp: List.map_filter_def)
  then show ?thesis by (rule hal_effect_stored)
qed

sublocale charge_files \<subseteq> calls: write_log "\<lambda>p w. kept_num p (charge w)"
  "\<lambda>c w. snd (perform_call io c w)"
  "\<lambda>c. map_option (\<lambda>(q, v). (q, kept_value q v)) (hal_effect cwd c)" kept
  by unfold_locales (auto simp: call_effect kept_num_write split: option.splits)

context charge_files
begin

lemma setting_after:
  assumes "kept q"
  shows "kept_num q (charge (hal_calls io cs w)) =
    (case last_setting cwd q cs of None \<Rightarrow> kept_num q (charge w) | Some v \<Rightarrow> kept_value q v)"
  using calls.look_log [OF assms, of cs w] unfolding log_of_effects
  by (auto simp: hal_calls_def last_setting_def split: list.splits dest!: filter_eq_ConsD)

lemma kept_value_s32: "is_s32 v \<Longrightarrow> is_s32 (kept_value p v)"
  by (cases p) auto

lemma read_after:
  assumes "(resolve cwd path, q, rw) \<in> set charge_files_tbl" "kept q"
  shows "fst (getIntField io path (hal_calls io cs w)) =
    (case last_setting cwd q cs of None \<Rightarrow> fst (getIntField io path w) | Some v \<Rightarrow> kept_value q v)"
proof (cases "last_setting cwd q cs")
  case None
  then show ?thesis by (simp add: get_file [OF assms] setting_after [OF assms(2)])
next
  case (Some v)
  then show ?thesis
    using last_setting_s32 [OF Some] kept_value_s32 [of v q]
    by (simp add: get_file [OF assms] setting_after [OF assms(2)] number_of_shown)
qed

lemma events_after:
  "sysfs_noitify_chain (charge (hal_calls io cs w)) = sysfs_noitify_chain (charge w)
    @ concat (map (\<lambda>(p, v). write_events (p, lenovo_env0, v)) (List.map_filter (hal_effect cwd) cs))"
proof (induction cs rule: rev_induct)
  case Nil
  then show ?case by (simp add: hal_calls_def List.map_filter_def)
next
  case (snoc c cs)
  have "write_events (p, E, v) = write_events (p, E', v)" for p E E' v by (cases p) simp_all
  then show ?case using snoc
    by (auto simp: hal_calls_def map_filter_snoc call_effect write_file_events split: option.splits)
qed

end


section \<open>The service over the kernel\<close>



text \<open>A service that does not run in the root directory never changes the recharge level.\<close>

lemma recharge_level_needs_root_directory:
  assumes "charge_files io charge env cwd kstrtos32" "cwd \<noteq> []"
  shows "charge (snd (setBatteryRechargingPercent io (s32 n) w)) = charge w"
  using charge_files.call_effect [OF assms(1), of "RechargingPercent n" w] assms(2) by simp

text \<open>The kinds of charger the service knows and the texts the kernel shows hardly meet: no text
  is a float charger, and only a programmable supply is fast.\<close>

lemma kernel_texts_kind:
  "map readPowerSupplyType POWER_SUPPLY_REAL_TYPE_TEXT =
    map (\<lambda>t. if t = ''PD_PPS'' then ANDROID_CHARGER_FAST else ANDORID_CHARGER_NORMAL)
      POWER_SUPPLY_REAL_TYPE_TEXT"
  by (simp add: POWER_SUPPLY_REAL_TYPE_TEXT_def readPowerSupplyType_def supplyTypeMap_def)

text \<open>The detection pin of port 1 has an empty path: nothing is read, and -1 is taken for true.\<close>

lemma gpio_always_present:
  "ReadFileToString io [] w = (False, [], w') \<Longrightarrow> ParseInt io [] = None \<Longrightarrow> fst (getPortxGPIO io 1 out w)"
  by (simp add: getPortxGPIO_def getIntField_def readFromFile_def BAT_GPIO_PATH_def)

section \<open>A system with the files\<close>

record hal_world =
  hw_charge :: sysfs_info_data
  hw_files :: "string \<rightharpoonup> string"

definition hal_world0 :: hal_world where
  "hal_world0 = \<lparr>hw_charge = info_data0, hw_files = (\<lambda>_. None)\<rparr>"

definition read_s32 :: "string \<Rightarrow> int option" where
  "read_s32 t = (let n = atoi t in if is_s32 n \<and> show_int n = t then Some n else None)"

definition kernel_s32 :: "string \<Rightarrow> int + int" where
  "kernel_s32 t = (case read_s32 t of None \<Rightarrow> Inl (- EINVAL) | Some n \<Rightarrow> Inr n)"

definition strip :: "string \<Rightarrow> string" where
  "strip t =
    (let space = (\<lambda>c. c \<in> {CHR '' '', CHR 0x0A, CHR 0x09}) in
     rev (dropWhile space (rev (dropWhile space t))))"

definition hal_read :: "string \<Rightarrow> string \<Rightarrow> hal_world \<Rightarrow> bool \<times> string \<times> hal_world" where
  "hal_read cwd path w =
    (case map_of charge_files_tbl (resolve cwd path) of
       Some (p, _) \<Rightarrow>
         let (t, D) = lenovo_charge_sysfs_show lenovo_env0 0 True p (hw_charge w)
         in (True, t, w\<lparr>hw_charge := D\<rparr>)
     | None \<Rightarrow> (case hw_files w (resolve cwd path) of None \<Rightarrow> (False, [], w) | Some t \<Rightarrow> (True, t, w)))"

definition hal_write :: "string \<Rightarrow> string \<Rightarrow> string \<Rightarrow> hal_world \<Rightarrow> bool \<times> hal_world" where
  "hal_write cwd t path w =
    (case map_of charge_files_tbl (resolve cwd path) of
       Some (p, rw) \<Rightarrow>
         if \<not> rw then (False, w)
         else
           let (ret, D) = lenovo_charge_sysfs_store lenovo_env0 True (kernel_s32 t) (int (length t)) p (hw_charge w)
           in (0 \<le> ret, w\<lparr>hw_charge := D\<rparr>)
     | None \<Rightarrow> (True, w\<lparr>hw_files := (hw_files w)(resolve cwd path \<mapsto> t)\<rparr>))"

definition hal_empty :: "string \<Rightarrow> string \<Rightarrow> hal_world \<Rightarrow> bool \<times> hal_world" where
  "hal_empty cwd path w =
    (if resolve cwd path \<in> fst ` set charge_files_tbl then (True, w)
     else (True, w\<lparr>hw_files := (hw_files w)(resolve cwd path \<mapsto> [])\<rparr>))"

definition system_io :: "string \<Rightarrow> hal_world hal_io" where
  "system_io cwd = \<lparr>ReadFileToString = hal_read cwd, WriteStringToFile = hal_write cwd,
     fopen_wb = hal_empty cwd, open_rdwr = (\<lambda>path w. (- 1, w)), write_fd = (\<lambda>fd t w. (- 1, w)),
     close_fd = (\<lambda>fd w. w), Trim = strip, ParseInt = read_s32\<rparr>"

lemma charge_file_found: "(r, p, rw) \<in> set charge_files_tbl \<Longrightarrow> map_of charge_files_tbl r = Some (p, rw)"
proof (rule map_of_is_SomeI)
  show "distinct (map fst charge_files_tbl)"
    by (simp add: charge_files_tbl_def sysfs_path_def battery_sysfs_field_tbl_def usb_sysfs_field_tbl_def)
qed

lemma read_s32_shown: "is_s32 n \<Longrightarrow> read_s32 (show_int n) = Some n"
  by (simp add: read_s32_def atoi_show_int Let_def)

lemma show_int_no_space: "c \<in> set (show_int n) \<Longrightarrow> c \<notin> {CHR '' '', CHR 0x0A, CHR 0x09}"
  using show_nat_no_space by (fastforce simp: show_int_def split: if_splits)

lemma strip_shown: "strip (show_int n @ [CHR 0x0A]) = show_int n"
proof -
  let ?space = "\<lambda>c. c \<in> {CHR '' '', CHR 0x0A, CHR 0x09}"
  have ne: "show_int n \<noteq> []" by (simp add: show_int_def) (subst show_nat.simps, simp)
  have "dropWhile ?space (show_int n @ [CHR 0x0A]) = show_int n @ [CHR 0x0A]"
    using ne show_int_no_space [of "hd (show_int n)" n]
    by (intro dropWhile_eq_self_iff [THEN iffD2]) auto
  moreover have "dropWhile ?space (rev (show_int n)) = rev (show_int n)"
    using ne show_int_no_space [of "last (show_int n)" n]
    by (intro dropWhile_eq_self_iff [THEN iffD2]) (auto simp: hd_rev)
  ultimately show ?thesis by (simp add: strip_def Let_def)
qed

interpretation system: charge_files "system_io cwd" hw_charge "\<lambda>_. lenovo_env0" cwd kernel_s32 for cwd
proof (unfold_locales, goal_cases)
  case (1 path p rw w)
  have "fst (lenovo_charge_sysfs_show lenovo_env0 0 True p D) = kept_text p D
      \<and> snd (lenovo_charge_sysfs_show lenovo_env0 0 True p D) = D" for D
    using 1(2) kept_text_any [OF 1(2), of D lenovo_env0 0] by (cases p) (simp_all add: settings)
  then show ?case
    by (simp add: system_io_def hal_read_def charge_file_found [OF 1(1)] case_prod_beta)
next
  case (2 path p t v w)
  then show ?case
    by (simp add: system_io_def hal_write_def charge_file_found [OF 2(1)] case_prod_beta
        write_file_def lenovo_charge_sysfs_store_def)
next
  case (3 path t w)
  then have "map_of charge_files_tbl (resolve cwd path) = None" by (simp add: map_of_eq_None_iff)
  then show ?case by (simp add: system_io_def hal_write_def)
next
  case (4 path w)
  then show ?case by (simp add: system_io_def hal_empty_def)
qed (simp_all add: system_io_def strip_shown read_s32_shown kernel_s32_def)



end
