(* ===== verification/Kpoc_Anim.thy ===== *)
theory Kpoc_Anim
  imports Lk_Logo Decimal
begin

text \<open>
  The pictures of power-off charging (libshowlogo/charging_animation.cpp): the readings of the
  kernel's files, the buffers that are put on the display, and the picture of the bypass.
\<close>

section \<open>The kernel's files\<close>

text \<open>What opening and reading a file gives: nothing when it does not open, no text when the read
  fails.\<close>

type_synonym file_reads = "string \<Rightarrow> string option option"

definition strip_newlines :: "string \<Rightarrow> string" where
  "strip_newlines t = rev (dropWhile (\<lambda>c. c = CHR 0x0A) (rev t))"

text \<open>The count returned and the text in the buffer; the buffer is not written when the file does
  not open.\<close>

definition read_from_file :: "string option option \<Rightarrow> nat \<Rightarrow> int \<times> string" where
  "read_from_file file sz =
    (case file of
       None \<Rightarrow> (0, [])
     | Some None \<Rightarrow> (- 1, [])
     | Some (Some t) \<Rightarrow>
         let got = take sz t in
         if got = [] then (0, [])
         else
           let buf = strip_newlines (take (if length got < sz then length got else sz - 1) got)
           in (int (length buf), buf))"

definition get_int_value :: "file_reads \<Rightarrow> string \<Rightarrow> int" where
  "get_int_value R path = (let (count, buf) = read_from_file (R path) 32 in if count = 0 then 0 else atoi buf)"

definition get_charging_type :: "file_reads \<Rightarrow> string \<Rightarrow> int" where
  "get_charging_type R path =
    (let (count, buf) = read_from_file (R path) 32 in
     if count = 0 then 0
     else
       let num = atoi buf in
       if num = 0 then 0
       else if num \<in> {1, 2, 3, 4} then 1
       else if num \<in> {5, 6, 7, 8} then 2
       else if num = 9 then 3
       else 0)"

definition CHARGER_FAST_PATH :: string where
  "CHARGER_FAST_PATH = ''/sys/devices/platform/charger/usb_type''"
definition FLOAT_TYPE_FLAG_PATH :: string where
  "FLOAT_TYPE_FLAG_PATH = ''/sys/devices/platform/charger/usb_type''"
definition BATTERY_TEMPERATURE_PATH :: string where
  "BATTERY_TEMPERATURE_PATH = ''/sys/devices/platform/charger/battery_temp''"
definition CHARGER_ONLINE_PATH :: string where
  "CHARGER_ONLINE_PATH = ''/sys/devices/platform/charger/battery_status''"
definition BATTERY_PRESENT_PATH :: string where
  "BATTERY_PRESENT_PATH = ''/sys/devices/platform/charger/battery_present''"
definition BYPASS_SETTING :: string where
  "BYPASS_SETTING =
    ''/sys/devices/platform/11016000.i2c/i2c-5/5-0055/power_supply/mm8013c10-0/device/bypass_setting''"

definition get_fast_charging_state :: "file_reads \<Rightarrow> int" where
  "get_fast_charging_state R =
    (let state = get_charging_type R CHARGER_FAST_PATH; charge_online = get_int_value R CHARGER_ONLINE_PATH
     in if state = 2 \<and> charge_online = 1 then state else 0)"

definition get_charge_online_state :: "file_reads \<Rightarrow> int" where
  "get_charge_online_state R =
    (let charge_online = get_int_value R CHARGER_ONLINE_PATH in if charge_online = 1 then charge_online else 0)"

definition get_bypass_setting :: "file_reads \<Rightarrow> bool" where
  "get_bypass_setting R \<longleftrightarrow> get_int_value R BYPASS_SETTING sdiv 100000 \<noteq> 0"

definition get_float_charging_state :: "file_reads \<Rightarrow> bool" where
  "get_float_charging_state R \<longleftrightarrow> get_charging_type R FLOAT_TYPE_FLAG_PATH = 3"

definition get_battery_online_status :: "file_reads \<Rightarrow> bool" where
  "get_battery_online_status R \<longleftrightarrow> get_int_value R BATTERY_PRESENT_PATH > 0"

definition get_battery_temperature :: "file_reads \<Rightarrow> int" where
  "get_battery_temperature R = get_int_value R BATTERY_TEMPERATURE_PATH"

section \<open>State\<close>

type_synonym frame = "int \<Rightarrow> u32"

text \<open>The addresses of the three buffers.  With DRM all three are mappings of the buffer object
  that is next on the display; otherwise they are the thirds of the frame buffer.\<close>

datatype fb_which = Lk_fb | Charging_fb | Kernel_fb

record kpoc_anim =
  draw_anim_mode :: int
  show_animationm_ver :: int
  kernel_logo_position :: int
  error_flag :: bool
  check_float_first :: bool
  float_index :: int
  use_double_addr :: int
  IS_DRM :: int
  phical_screen :: lcm_screen
  mPinPon :: nat
  fb_addr :: fb_which
  buffers :: "nat \<Rightarrow> frame"
  frames :: "frame list"
  is_multibin :: bool

definition DRAW_ANIM_MODE_FB :: int where "DRAW_ANIM_MODE_FB = 1"
definition DRAW_ANIM_MODE_SURFACE :: int where "DRAW_ANIM_MODE_SURFACE = 0"
definition MAX_BO_SIZE :: nat where "MAX_BO_SIZE = 2"

text \<open>What is not in the repository: the painters, the pictures of the bypass with their sizes, the
  numbers of the pictures and of the animations; and whether mapping the buffers anew gives
  the addresses they had.\<close>

record kpoc_pictures =
  fill_animation_logo :: "int \<Rightarrow> frame \<Rightarrow> frame"
  fill_animation_battery_by_ver :: "int \<Rightarrow> int \<Rightarrow> frame \<Rightarrow> frame"
  fill_animation_battery_fast_charging :: "int \<Rightarrow> frame \<Rightarrow> frame"
  g_logo_argb :: "nat \<Rightarrow> u8"
  g_word_logo_argb_en :: "nat \<Rightarrow> u8"
  logo_w :: nat
  logo_h :: nat
  word_w :: nat
  word_h :: nat
  same_address :: bool
  BOOT_LOGO_INDEX :: int
  LOW_BATTERY_INDEX :: int
  CHARGER_OV_INDEX :: int
  BAT_TEMP_LOW_INDEX :: int
  BAT_TEMP_HIGH_INDEX :: int
  CHARGE_NO_BATTERY_INDEX :: int
  CHARGER_FLOAT_INDEX_1 :: int
  V1_BACKGROUND_INDEX :: int
  VERION_OLD_ANIMATION :: int
  VERION_NEW_ANIMATION :: int
  VERION_WIRELESS_CHARGING_ANIMATION :: int
  VERION_PLUGOUT_CHARGING_ANIMATION :: int
  MAX_SUPPORT_ANIM_VER :: int
  ANIM_V0_LOGO_NUM :: int
  ANIM_V1_LOGO_NUM :: int
  ANIM_V2_LOGO_NUM :: int

definition set_anim_version :: "kpoc_pictures \<Rightarrow> int \<Rightarrow> kpoc_anim \<Rightarrow> kpoc_anim" where
  "set_anim_version P version s =
    (if version > MAX_SUPPORT_ANIM_VER P \<or> version < VERION_OLD_ANIMATION P
     then s\<lparr>show_animationm_ver := VERION_NEW_ANIMATION P\<rparr>
     else s\<lparr>show_animationm_ver := VERION_NEW_ANIMATION P\<rparr>)"

definition set_draw_mode :: "int \<Rightarrow> kpoc_anim \<Rightarrow> kpoc_anim" where
  "set_draw_mode draw_mode s =
    (if draw_mode \<noteq> DRAW_ANIM_MODE_FB \<and> draw_mode \<noteq> DRAW_ANIM_MODE_SURFACE
     then s\<lparr>draw_anim_mode := DRAW_ANIM_MODE_SURFACE\<rparr> else s\<lparr>draw_anim_mode := draw_mode\<rparr>)"

definition set_logo_multibin_status :: "bool \<Rightarrow> kpoc_anim \<Rightarrow> kpoc_anim" where
  "set_logo_multibin_status b s = s\<lparr>is_multibin := b\<rparr>"

section \<open>The logo partition\<close>

text \<open>A header of the partition: name, size of the data and alignment.\<close>

record part_hdr =
  hdr_name :: string
  hdr_dsz :: u32
  hdr_align_sz :: u32

definition MKIMG_HDR_SZ :: nat where "MKIMG_HDR_SZ = 0x200"

definition ROUNDUP :: "u32 \<Rightarrow> u32 \<Rightarrow> u32" where
  "ROUNDUP a b = ((a + (b - 1)) AND NOT (b - 1))"

text \<open>The search passes over three headers, each found where the last ends, unless one is the
  logo: \<open>header\<close> reads the header at an offset, \<open>seek\<close> moves there.\<close>

fun skip_headers ::
  "(nat \<Rightarrow> part_hdr) \<Rightarrow> (nat \<Rightarrow> bool) \<Rightarrow> nat \<Rightarrow> nat \<Rightarrow> kpoc_anim \<Rightarrow> nat \<times> kpoc_anim" where
  "skip_headers header seek 0 offset s = (offset, set_logo_multibin_status True s)"
| "skip_headers header seek (Suc n) offset s =
    (let para = header offset in
     if hdr_name para = ''logo'' then (offset, set_logo_multibin_status False s)
     else
       let offset = offset + (MKIMG_HDR_SZ + unat (ROUNDUP (hdr_dsz para) (hdr_align_sz para))) in
       if \<not> seek offset then (0, s) else skip_headers header seek n offset s)"

definition calculate_logo2_offset ::
  "(nat \<Rightarrow> part_hdr) \<Rightarrow> (nat \<Rightarrow> bool) \<Rightarrow> kpoc_anim \<Rightarrow> nat \<times> kpoc_anim" where
  "calculate_logo2_offset header seek s = skip_headers header seek 3 0 s"

text \<open>The version of the animation after the partition was read: \<open>logos\<close> is the number of its
  pictures, None an error while reading.\<close>

definition anim_logo_init ::
  "kpoc_pictures \<Rightarrow> (nat \<Rightarrow> part_hdr) \<Rightarrow> (nat \<Rightarrow> bool) \<Rightarrow> int option \<Rightarrow> kpoc_anim \<Rightarrow> kpoc_anim" where
  "anim_logo_init P header seek logos s =
    (let (_, s) = calculate_logo2_offset header seek s in
     case logos of
       None \<Rightarrow> s\<lparr>error_flag := True\<rparr>
     | Some n \<Rightarrow>
         if show_animationm_ver s > 0 then
           let s = (if show_animationm_ver s = VERION_WIRELESS_CHARGING_ANIMATION P \<and> n < ANIM_V2_LOGO_NUM P
                    then set_anim_version P (VERION_NEW_ANIMATION P) s else s)
           in if n < ANIM_V1_LOGO_NUM P
              then set_anim_version P (VERION_OLD_ANIMATION P)
                     (s\<lparr>kernel_logo_position := ANIM_V0_LOGO_NUM P - 1\<rparr>)
              else s
         else s)"

section \<open>Buffers\<close>

definition buffer_of :: "kpoc_anim \<Rightarrow> fb_which \<Rightarrow> nat" where
  "buffer_of s a =
    (if IS_DRM s = 1 then mPinPon s else case a of Lk_fb \<Rightarrow> 0 | Charging_fb \<Rightarrow> 1 | Kernel_fb \<Rightarrow> 2)"

text \<open>Painting into the current buffer; without a display there is none, and painting faults.\<close>

definition paint :: "(frame \<Rightarrow> frame) \<Rightarrow> kpoc_anim \<Rightarrow> kpoc_anim option" where
  "paint f s =
    (if IS_DRM s = - 1 then None
     else let k = buffer_of s (fb_addr s) in Some (s\<lparr>buffers := (buffers s)(k := f (buffers s k))\<rparr>))"

definition anim_fb_addr_switch :: "kpoc_anim \<Rightarrow> kpoc_anim" where
  "anim_fb_addr_switch s =
    (if use_double_addr s = 0 then s\<lparr>use_double_addr := use_double_addr s + 1, fb_addr := Kernel_fb\<rparr>
     else s\<lparr>use_double_addr := 0, fb_addr := Charging_fb\<rparr>)"

definition anim_set_buffer_address :: "kpoc_pictures \<Rightarrow> int \<Rightarrow> kpoc_anim \<Rightarrow> kpoc_anim" where
  "anim_set_buffer_address P i s =
    (if i = BOOT_LOGO_INDEX P then s\<lparr>fb_addr := Lk_fb\<rparr>
     else if i = kernel_logo_position s then s\<lparr>fb_addr := Kernel_fb\<rparr>
     else anim_fb_addr_switch s)"

text \<open>The buffer goes to the display; with DRM the other buffer object is mapped for painting.
  Without the DRM resources this faults.\<close>

definition anim_drm_disp_update :: "kpoc_anim \<Rightarrow> kpoc_anim option" where
  "anim_drm_disp_update s =
    (if IS_DRM s \<noteq> 1 then None
     else Some (s\<lparr>frames := frames s @ [buffers s (mPinPon s)], mPinPon := (mPinPon s + 1) mod MAX_BO_SIZE,
                  fb_addr := Lk_fb\<rparr>))"

definition anim_fb_disp_update :: "kpoc_anim \<Rightarrow> kpoc_anim option" where
  "anim_fb_disp_update s = Some (s\<lparr>frames := frames s @ [buffers s (buffer_of s (fb_addr s))]\<rparr>)"

definition disp_update :: "kpoc_anim \<Rightarrow> kpoc_anim option" where
  "disp_update s = (if IS_DRM s = 1 then anim_drm_disp_update s else anim_fb_disp_update s)"

definition is_drm :: "kpoc_anim \<Rightarrow> int" where
  "is_drm s = IS_DRM s"

definition paint_and_show :: "(frame \<Rightarrow> frame) \<Rightarrow> kpoc_anim \<Rightarrow> kpoc_anim option" where
  "paint_and_show f s = (case paint f s of None \<Rightarrow> None | Some s \<Rightarrow> disp_update s)"

section \<open>Pictures\<close>

text \<open>A picture of the logo partition.  Drawing through the surface flinger faults: nothing
  creates the surface (\<open>anim_surface_init\<close> is empty).\<close>

definition anim_show_logo :: "kpoc_pictures \<Rightarrow> int \<Rightarrow> kpoc_anim \<Rightarrow> kpoc_anim option" where
  "anim_show_logo P i s =
    (if draw_anim_mode s = DRAW_ANIM_MODE_FB
     then paint_and_show (fill_animation_logo P i) (anim_set_buffer_address P i s)
     else None)"

definition unless_error :: "(kpoc_anim \<Rightarrow> kpoc_anim option) \<Rightarrow> kpoc_anim \<Rightarrow> kpoc_anim option" where
  "unless_error f s = (if \<not> error_flag s then f s else Some s)"

definition show_boot_logo :: "kpoc_pictures \<Rightarrow> kpoc_anim \<Rightarrow> kpoc_anim option" where
  "show_boot_logo P = unless_error (anim_show_logo P (BOOT_LOGO_INDEX P))"

definition show_kernel_logo :: "kpoc_pictures \<Rightarrow> kpoc_anim \<Rightarrow> kpoc_anim option" where
  "show_kernel_logo P = unless_error (\<lambda>s. anim_show_logo P (kernel_logo_position s) s)"

definition show_low_battery :: "kpoc_pictures \<Rightarrow> kpoc_anim \<Rightarrow> kpoc_anim option" where
  "show_low_battery P = unless_error (anim_show_logo P (LOW_BATTERY_INDEX P))"

definition show_charger_ov_logo :: "kpoc_pictures \<Rightarrow> kpoc_anim \<Rightarrow> kpoc_anim option" where
  "show_charger_ov_logo P = unless_error (anim_show_logo P (CHARGER_OV_INDEX P))"

definition show_battery_temperature_low :: "kpoc_pictures \<Rightarrow> kpoc_anim \<Rightarrow> kpoc_anim option" where
  "show_battery_temperature_low P = unless_error (anim_show_logo P (BAT_TEMP_LOW_INDEX P))"

definition show_battery_temperature_high :: "kpoc_pictures \<Rightarrow> kpoc_anim \<Rightarrow> kpoc_anim option" where
  "show_battery_temperature_high P = unless_error (anim_show_logo P (BAT_TEMP_HIGH_INDEX P))"

definition show_charging_no_battery :: "kpoc_pictures \<Rightarrow> kpoc_anim \<Rightarrow> kpoc_anim option" where
  "show_charging_no_battery P = unless_error (anim_show_logo P (CHARGE_NO_BATTERY_INDEX P))"

definition show_charger_bad_contact :: "kpoc_pictures \<Rightarrow> kpoc_anim \<Rightarrow> kpoc_anim option" where
  "show_charger_bad_contact P = unless_error (anim_show_logo P (CHARGER_FLOAT_INDEX_1 P))"

definition show_black_logo :: "kpoc_anim \<Rightarrow> kpoc_anim option" where
  "show_black_logo s =
    (if draw_anim_mode s = DRAW_ANIM_MODE_FB then paint_and_show (\<lambda>fb i. if 0 \<le> i \<and> i < uint (fb_size (phical_screen s)) div 4 then 0 else fb i)
            (anim_fb_addr_switch s)
     else None)"

text \<open>The capacity, with the version the picture calls for.  Fast charging makes no difference in
  the frame buffer mode.\<close>

definition show_capacity ::
  "kpoc_pictures \<Rightarrow> int \<Rightarrow> int \<Rightarrow> kpoc_anim \<Rightarrow> kpoc_anim option" where
  "show_capacity P ver capacity s =
    (let s = s\<lparr>show_animationm_ver := ver\<rparr> in
     if IS_DRM s = - 1 then Some s
     else if draw_anim_mode s = DRAW_ANIM_MODE_FB
     then paint_and_show (fill_animation_battery_by_ver P capacity ver) (anim_fb_addr_switch s)
     else None)"

definition show_plug_out_capacity :: "kpoc_pictures \<Rightarrow> int \<Rightarrow> kpoc_anim \<Rightarrow> kpoc_anim option" where
  "show_plug_out_capacity P = show_capacity P (VERION_PLUGOUT_CHARGING_ANIMATION P)"

definition show_battery_capacity :: "kpoc_pictures \<Rightarrow> int \<Rightarrow> kpoc_anim \<Rightarrow> kpoc_anim option" where
  "show_battery_capacity P = show_capacity P (VERION_NEW_ANIMATION P)"

definition show_fast_charging :: "kpoc_pictures \<Rightarrow> int \<Rightarrow> kpoc_anim \<Rightarrow> kpoc_anim option" where
  "show_fast_charging P capacity s =
    (if draw_anim_mode s = DRAW_ANIM_MODE_FB
     then paint_and_show (fill_animation_battery_fast_charging P capacity) (anim_fb_addr_switch s)
     else None)"

text \<open>The picture of a float charger, two pictures in turn, after a background the first time:
  \<open>in_time\<close>, the half second had not passed when the background was to be shown.\<close>

definition show_float_photo :: "kpoc_pictures \<Rightarrow> bool \<Rightarrow> kpoc_anim \<Rightarrow> kpoc_anim option" where
  "show_float_photo P in_time s =
    (let first = (if check_float_first s then
                    (case (if in_time then anim_show_logo P (V1_BACKGROUND_INDEX P) s else Some s) of
                       None \<Rightarrow> None | Some s \<Rightarrow> Some (s\<lparr>check_float_first := False\<rparr>))
                  else Some s);
         pic = (\<lambda>s. anim_show_logo P (CHARGER_FLOAT_INDEX_1 P + float_index s mod 2) (anim_fb_addr_switch s))
     in case first of
          None \<Rightarrow> None
        | Some s \<Rightarrow>
            if draw_anim_mode s = DRAW_ANIM_MODE_FB then
              (case pic s of
                 None \<Rightarrow> None
               | Some s \<Rightarrow> pic (s\<lparr>float_index := float_index s + 1\<rparr>))
            else pic s)"

section \<open>The picture of the bypass\<close>

text \<open>A pixel is four bytes of the picture, as they are in memory.\<close>

definition le_pixel :: "(nat \<Rightarrow> u8) \<Rightarrow> nat \<Rightarrow> u32" where
  "le_pixel pic i =
    (ucast (pic (4 * i)) OR push_bit 8 (ucast (pic (4 * i + 1))) OR push_bit 16 (ucast (pic (4 * i + 2)))
     OR push_bit 24 (ucast (pic (4 * i + 3))))"

text \<open>Indices are unsigned and wrap.\<close>

definition copy_picture ::
  "(nat \<Rightarrow> u8) \<Rightarrow> nat \<Rightarrow> nat \<Rightarrow> u32 \<Rightarrow> u32 \<Rightarrow> u32 \<Rightarrow> frame \<Rightarrow> frame" where
  "copy_picture pic pw ph screen_w start_x start_y fb =
    fold (\<lambda>y. fold (\<lambda>x fb.
        fb(uint ((start_y + of_nat y) * screen_w + (start_x + of_nat x)) := le_pixel pic (y * pw + x)))
      [0..<pw]) [0..<ph] fb"

definition display_bypass_logo_word :: "kpoc_pictures \<Rightarrow> int \<Rightarrow> int \<Rightarrow> frame \<Rightarrow> frame" where
  "display_bypass_logo_word P screen_w screen_h =
    (let ww = int (word_w P); wh = int (word_h P) in
     copy_picture (g_word_logo_argb_en P) (word_w P) (word_h P) (word_of_int screen_w)
       (word_of_int ((screen_w - ww) sdiv 2 - (int (logo_w P) + ww) div 2 - 70))
       (word_of_int ((screen_h - wh) sdiv 2)))"

text \<open>The mode is the frame buffer's while the picture is drawn, and the surface flinger's
  afterwards, whatever it was.  The pointer to the buffer is used again after the first update
  unmapped it.\<close>

definition display_bypass_logo :: "kpoc_pictures \<Rightarrow> kpoc_anim \<Rightarrow> kpoc_anim option" where
  "display_bypass_logo P s =
    (let s = (if draw_anim_mode s = DRAW_ANIM_MODE_SURFACE then s\<lparr>draw_anim_mode := DRAW_ANIM_MODE_FB\<rparr>
              else s)
     in
     if IS_DRM s = - 1 then Some s
     else
       let w = scr_width (phical_screen s); h = scr_height (phical_screen s);
           black = (\<lambda>fb i. if 0 \<le> i \<and> i < uint (h * w) then 0xff000000 else fb i);
           logo = copy_picture (g_logo_argb P) (logo_w P) (logo_h P) w
                    ((w - of_nat (logo_w P)) div 2) ((h - of_nat (logo_h P)) div 2);
           words = display_bypass_logo_word P (sint w) (sint h)
       in case paint black (s\<lparr>fb_addr := Charging_fb\<rparr>) of
            None \<Rightarrow> None
          | Some s \<Rightarrow>
              (case anim_drm_disp_update s of
                 None \<Rightarrow> None
               | Some s \<Rightarrow>
                   if \<not> same_address P then None
                   else
                     (case paint (\<lambda>fb. words (logo fb)) s of
                        None \<Rightarrow> None
                      | Some s \<Rightarrow>
                          (case anim_drm_disp_update s of
                             None \<Rightarrow> None
                           | Some s \<Rightarrow>
                               Some (if draw_anim_mode s = DRAW_ANIM_MODE_FB
                                     then s\<lparr>draw_anim_mode := DRAW_ANIM_MODE_SURFACE\<rparr> else s)))))"

end
