(* ===== verification/Kpoc_Control.thy ===== *)
theory Kpoc_Control
  imports Kpoc_Anim
begin

text \<open>
  Power-off charging (charging_control.cpp, bootlogo.cpp, common.cpp): the health service, the
  lights, the choice of the picture, and the draw thread.  What other code is asked to do is
  kept in a log.
\<close>

section \<open>State\<close>

datatype kpoc_call =
    Signal_draw | Signal_timer
  | Lights string
  | Backlight u32
  | Exit_charger string
  | Wake_lock bool
  | Blank_fb bool
  | Display_off
  | Set_property string string

record kpoc =
  anim :: kpoc_anim
  inDraw :: bool
  firstTime :: bool
  key_trigger_suspend :: bool
  backlight_on :: bool
  oneshot :: bool
  pre_usb_online :: bool
  pre_ac_online :: bool
  inExiting :: bool
  showLowBattLogo :: bool
  nCurrentState :: int
  lcd_backlight_level :: int
  bc :: int
  kcalls :: "kpoc_call list"

definition kcall :: "kpoc_call \<Rightarrow> kpoc \<Rightarrow> kpoc" where
  "kcall c s = s\<lparr>kcalls := kcalls s @ [c]\<rparr>"

definition on_anim :: "(kpoc_anim \<Rightarrow> kpoc_anim option) \<Rightarrow> kpoc \<Rightarrow> kpoc option" where
  "on_anim f s = (case f (anim s) of None \<Rightarrow> None | Some a \<Rightarrow> Some (s\<lparr>anim := a\<rparr>))"

text \<open>The constants of \<open>main.h\<close>, which is not in the repository, the build options and the
  pictures.\<close>

record kpoc_build =
  pictures :: kpoc_pictures
  LIGHTS_STATE_UNKNOWN :: int
  LIGHTS_STATE_CHGON :: int
  LIGHTS_STATE_CHGFULL :: int
  LIGHTS_STATE_EXIT :: int
  LIGHTS_CHGON :: int
  VBAT_POWER_ON :: int
  LCD_LOW_BAT_BL_LEVEL :: int
  MTK_BATLOWV_NO_PANEL_ON_EARLY :: bool
  ANIMATION_NEW :: bool

section \<open>The health service\<close>

record health_info =
  chargerAcOnline :: bool
  chargerUsbOnline :: bool
  chargerWirelessOnline :: bool
  batteryStatus :: int
  batteryVoltage :: int

definition no_health_info :: health_info where
  "no_health_info = \<lparr>chargerAcOnline = False, chargerUsbOnline = False, chargerWirelessOnline = False,
     batteryStatus = 0, batteryVoltage = 0\<rparr>"

text \<open>The answer of the service: there is none, the transaction fails, the service refuses (only the
  older of its two interfaces does, which then leaves the caller's value), or a value.\<close>

datatype 'a reply = No_service | Transaction_error | Refused | Answer 'a

definition get_health_info :: "health_info reply \<Rightarrow> health_info \<Rightarrow> int \<times> health_info" where
  "get_health_info r info =
    (case r of
       No_service \<Rightarrow> (- EINVAL, info)
     | Transaction_error \<Rightarrow> (- EINVAL, info)
     | Refused \<Rightarrow> (0, info)
     | Answer i \<Rightarrow> (0, i))"

definition get_health_capacity :: "int reply \<Rightarrow> int \<Rightarrow> int \<times> int" where
  "get_health_capacity r capacity =
    (case r of
       No_service \<Rightarrow> (- EINVAL, capacity)
     | Transaction_error \<Rightarrow> (- EINVAL, capacity)
     | Refused \<Rightarrow> (0, capacity)
     | Answer c \<Rightarrow> (0, c))"

text \<open>The capacity is asked for until it is not -1; the list holds the answers, None while they
  are all -1.\<close>

fun wait_capacity :: "int \<Rightarrow> int reply list \<Rightarrow> int option" where
  "wait_capacity bat_level [] = None"
| "wait_capacity bat_level (r # rs) =
    (let (ret, bat_level) = get_health_capacity r bat_level in
     if ret < 0 then Some 0
     else if bat_level = - 1 then wait_capacity bat_level rs
     else Some bat_level)"

definition get_capacity :: "int reply list \<Rightarrow> int option" where
  "get_capacity rs = wait_capacity 0 rs"

definition get_voltage :: "health_info reply \<Rightarrow> int" where
  "get_voltage r =
    (let (ret, info) = get_health_info r no_health_info in
     if ret < 0 then 0 else s32 (batteryVoltage info * 1000))"

definition is_wireless_charging :: "health_info reply \<Rightarrow> int" where
  "is_wireless_charging r =
    (let (ret, info) = get_health_info r no_health_info in
     if ret < 0 then 0 else b2i (chargerWirelessOnline info))"

definition is_charging_source_status :: "health_info reply \<Rightarrow> int" where
  "is_charging_source_status r =
    (let (ret, info) = get_health_info r no_health_info in if ret < 0 then 0 else batteryStatus info)"

section \<open>Files\<close>

text \<open>The application's own reader: -1 for a file that is not there or is empty.\<close>

definition app_get_int_value :: "file_reads \<Rightarrow> string \<Rightarrow> int" where
  "app_get_int_value R path =
    (let (count, buf) = read_from_file (R path) 32 in if count = 0 then - 1 else atoi buf)"

fun first_value :: "file_reads \<Rightarrow> int \<Rightarrow> string list \<Rightarrow> int" where
  "first_value R v [] = v"
| "first_value R v (p # ps) = (let v = app_get_int_value R p in if v \<noteq> - 1 then v else first_value R v ps)"

definition chg_volt_path :: "string list" where
  "chg_volt_path =
    [''/sys/devices/platform/charger/ADC_Charger_Voltage'', ''/sys/devices/platform/battery/ADC_Charger_Voltage'']"

definition bat_notify_path :: "string list" where
  "bat_notify_path =
    [''/sys/devices/platform/charger/BatteryNotify'', ''/sys/devices/platform/mt-battery/BatteryNotify'']"

definition get_battnotify_status :: "file_reads \<Rightarrow> bool" where
  "get_battnotify_status R \<longleftrightarrow> first_value R 0 bat_notify_path > 0"

text \<open>The boot mode is the third word of a tag: None when it does not open, with the number of the
  error; no words when the read gives nothing.\<close>

definition readSys_int :: "int \<Rightarrow> u32 list option \<Rightarrow> int" where
  "readSys_int errno file =
    (case file of
       None \<Rightarrow> - errno
     | Some ws \<Rightarrow> if ws = [] then - errno else s32 (uint ((ws @ replicate 8 0) ! 2)))"

text \<open>Writing: whether the file opens, and the bytes written.\<close>

definition write_to_file :: "(string \<Rightarrow> int) option \<Rightarrow> string \<Rightarrow> int" where
  "write_to_file file buf =
    (case file of None \<Rightarrow> 0 | Some wr \<Rightarrow> if wr buf \<noteq> int (length buf) then 0 else wr buf)"

definition set_int_value :: "(string \<Rightarrow> int) option \<Rightarrow> int \<Rightarrow> int" where
  "set_int_value file value = write_to_file file (show_int value)"

section \<open>What is found at a moment\<close>

record kpoc_now =
  reads :: file_reads
  health :: "health_info reply"
  capacities :: "int reply list"
  boot_mode :: int
  in_time :: bool

definition is_charging_source_available :: "kpoc_now \<Rightarrow> kpoc \<Rightarrow> bool \<times> kpoc" where
  "is_charging_source_available N s =
    (let (ret, info) = get_health_info (health N) no_health_info in
     if ret < 0 then (False, s)
     else
       let usb = chargerUsbOnline info; ac = chargerAcOnline info;
           s = (if (pre_usb_online s \<and> \<not> usb \<or> pre_ac_online s \<and> \<not> ac) \<and> \<not> inDraw s
                then kcall Signal_draw (s\<lparr>key_trigger_suspend := False\<rparr>) else s);
           s = s\<lparr>pre_usb_online := usb, pre_ac_online := ac\<rparr>;
           vchr = first_value (reads N) 0 chg_volt_path
       in (usb \<or> ac \<or> chargerWirelessOnline info \<or> vchr \<ge> 2500, s))"

definition start_backlight :: "kpoc_build \<Rightarrow> kpoc_now \<Rightarrow> kpoc \<Rightarrow> kpoc" where
  "start_backlight B N s =
    (let (ret, info) = get_health_info (health N) no_health_info in
     if ret < 0 then s
     else
       let vbat_microvolt = s32 (batteryVoltage info * 1000);
           s = (if boot_mode N = 9 \<and> \<not> chargerAcOnline info then
                  (if MTK_BATLOWV_NO_PANEL_ON_EARLY B
                   then s\<lparr>lcd_backlight_level :=
                          (if vbat_microvolt \<ge> VBAT_POWER_ON B then LCD_LOW_BAT_BL_LEVEL B else 0)\<rparr>
                   else s\<lparr>lcd_backlight_level := LCD_LOW_BAT_BL_LEVEL B\<rparr>)
                else s);
           l = word_of_int (lcd_backlight_level s) :: u32
       in kcall (Backlight (0xff000000 OR push_bit 16 l OR push_bit 8 l OR l)) s)"

definition stop_backlight :: "kpoc \<Rightarrow> kpoc" where
  "stop_backlight s = (kcall (Backlight 0) s)\<lparr>backlight_on := False\<rparr>"

definition trigger_anim :: "kpoc_now \<Rightarrow> kpoc \<Rightarrow> kpoc" where
  "trigger_anim N s =
    (if inDraw s then s\<lparr>key_trigger_suspend := True\<rparr>
     else
       let (available, s) = is_charging_source_available N s in
       if \<not> available then s else kcall Signal_draw (s\<lparr>key_trigger_suspend := False\<rparr>))"

definition start_charging_anim :: "kpoc_now \<Rightarrow> kpoc \<Rightarrow> kpoc" where
  "start_charging_anim N s = trigger_anim N s"

section \<open>Lights\<close>

definition set_light_state :: "int \<Rightarrow> kpoc \<Rightarrow> kpoc" where
  "set_light_state st s = s\<lparr>nCurrentState := st\<rparr>"

definition lights_full :: "kpoc_build \<Rightarrow> kpoc \<Rightarrow> kpoc" where
  "lights_full B s = kcall (Lights ''chgfull'') (set_light_state (LIGHTS_STATE_CHGFULL B) s)"

definition lights_on :: "kpoc_build \<Rightarrow> kpoc \<Rightarrow> int \<times> kpoc" where
  "lights_on B s =
    (if nCurrentState s \<noteq> LIGHTS_STATE_CHGON B then (1, s) else (0, kcall (Lights ''chgon'') s))"

definition lights_exit :: "kpoc_build \<Rightarrow> kpoc \<Rightarrow> kpoc" where
  "lights_exit B s = kcall (Lights ''exit'') (set_light_state (LIGHTS_STATE_EXIT B) s)"

text \<open>An event of the kernel: \<open>battery\<close>, it is one of the battery.\<close>

definition on_uevent :: "kpoc_build \<Rightarrow> kpoc_now \<Rightarrow> bool \<Rightarrow> kpoc \<Rightarrow> kpoc option" where
  "on_uevent B N battery s =
    (if \<not> battery then Some s
     else
       let (available, s) = is_charging_source_available N s in
       if \<not> available then Some s
       else
         (case get_capacity (capacities N) of
            None \<Rightarrow> None
          | Some c \<Rightarrow>
              let s = s\<lparr>bc := c\<rparr> in
              if c \<ge> 90 then Some (lights_full B s)
              else
                let s = (if nCurrentState s \<noteq> LIGHTS_STATE_CHGON B
                         then set_light_state (LIGHTS_CHGON B) s else s)
                in Some (snd (lights_on B s))))"

section \<open>The choice of the picture\<close>

definition sync_anim_version :: "kpoc_build \<Rightarrow> kpoc_now \<Rightarrow> kpoc_anim \<Rightarrow> kpoc_anim" where
  "sync_anim_version B N a =
    (let P = pictures B in
     if is_wireless_charging (health N) \<noteq> 0 then set_anim_version P (VERION_WIRELESS_CHARGING_ANIMATION P) a
     else if ANIMATION_NEW B then set_anim_version P (VERION_NEW_ANIMATION P) a
     else set_anim_version P (VERION_OLD_ANIMATION P) a)"

definition set_draw_anim_mode :: "int \<Rightarrow> kpoc_anim \<Rightarrow> kpoc_anim" where
  "set_draw_anim_mode running_mode a =
    set_draw_mode (if running_mode = 1 then DRAW_ANIM_MODE_FB else DRAW_ANIM_MODE_SURFACE) a"

text \<open>What follows when the bypass does not take the screen.\<close>

definition show_charge_state :: "kpoc_build \<Rightarrow> kpoc_now \<Rightarrow> bool \<Rightarrow> int \<Rightarrow> kpoc \<Rightarrow> kpoc option" where
  "show_charge_state B N is_float capacity s =
    (if is_float then on_anim (show_float_photo (pictures B) (in_time N)) s
     else
       let (available, s) = is_charging_source_available N s in
       if available \<and> is_charging_source_status (health N) = 2
       then on_anim (show_battery_capacity (pictures B) capacity) s
       else on_anim (show_plug_out_capacity (pictures B) capacity) s)"

definition bootlogo_show_charging :: "kpoc_build \<Rightarrow> kpoc_now \<Rightarrow> int \<Rightarrow> kpoc \<Rightarrow> kpoc option" where
  "bootlogo_show_charging B N capacity s =
    (let P = pictures B; R = reads N;
         battery_temperature = get_battery_temperature R;
         battery_present = get_battery_online_status R;
         is_float = get_float_charging_state R
     in
     if \<not> battery_present then on_anim (show_charging_no_battery P) s
     else if get_battnotify_status R then
       (if battery_temperature \<le> 0 then on_anim (show_battery_temperature_low P) s
        else if battery_temperature \<ge> 50 then on_anim (show_battery_temperature_high P) s
        else Some s)
     else if showLowBattLogo s then on_anim (show_low_battery P) s
     else if battery_temperature \<le> 0 then on_anim (show_battery_temperature_low P) s
     else if battery_temperature \<ge> 50 then on_anim (show_battery_temperature_high P) s
     else if get_bypass_setting R then
       (if get_fast_charging_state R \<noteq> 0
        then show_charge_state B N is_float capacity (kcall (Exit_charger ''EXIT_REBOOT_UBOOT'') s)
        else on_anim (display_bypass_logo P) s)
     else show_charge_state B N is_float capacity s)"

definition bootlogo_show_boot :: "kpoc_build \<Rightarrow> kpoc \<Rightarrow> kpoc option" where
  "bootlogo_show_boot B s = on_anim (show_boot_logo (pictures B)) s"

definition bootlogo_show_kernel :: "kpoc_build \<Rightarrow> kpoc \<Rightarrow> kpoc option" where
  "bootlogo_show_kernel B s = on_anim (show_kernel_logo (pictures B)) s"

section \<open>Drawing\<close>

text \<open>The picture after the charger was pulled out, once: \<open>goes_on\<close>, the loop is entered.\<close>

definition plug_out_animation :: "kpoc_build \<Rightarrow> kpoc_now \<Rightarrow> bool \<Rightarrow> kpoc \<Rightarrow> kpoc option" where
  "plug_out_animation B N goes_on s =
    (case get_capacity (capacities N) of
       None \<Rightarrow> None
     | Some c \<Rightarrow>
         if goes_on \<and> \<not> key_trigger_suspend s
         then map_option (start_backlight B N) (on_anim (show_plug_out_capacity (pictures B) c) s)
         else Some s)"

text \<open>The first round unblanks the frame buffer, when there is no DRM, and lights the screen.
  A round of the drawing loop finds the world twice: when it starts, and after the six seconds
  of the picture of a missing charger.  A key may come before the round.\<close>

record kpoc_round =
  key_before :: bool
  now1 :: kpoc_now
  now2 :: kpoc_now
  plug_goes_on :: bool

definition draw_round ::
  "kpoc_build \<Rightarrow> (kpoc_now \<Rightarrow> kpoc \<Rightarrow> kpoc option) \<Rightarrow> bool \<Rightarrow> kpoc_round \<Rightarrow> kpoc \<Rightarrow> kpoc option" where
  "draw_round B func started r s =
    (let s = (if \<not> started \<and> is_drm (anim s) \<noteq> 1 then kcall (Blank_fb False) s else s);
         (available, s) = is_charging_source_available (now1 r) s;
         drawn = (if \<not> available \<and> \<not> get_float_charging_state (reads (now1 r)) then
             (case plug_out_animation B (now1 r) (plug_goes_on r) s of
                None \<Rightarrow> None
              | Some s \<Rightarrow>
                  let (available, s) = is_charging_source_available (now2 r) s in
                  Some (if \<not> available then kcall (Exit_charger ''EXIT_CHARGING_MODE'') s else s))
           else func (now1 r) s)
     in case drawn of
          None \<Rightarrow> None
        | Some s \<Rightarrow> Some (if \<not> started then start_backlight B (now2 r) s else s))"

text \<open>The rounds until the time is up.\<close>

fun draw_rounds ::
  "kpoc_build \<Rightarrow> (kpoc_now \<Rightarrow> kpoc \<Rightarrow> kpoc option) \<Rightarrow> bool \<Rightarrow> kpoc_round list \<Rightarrow> kpoc \<Rightarrow> kpoc option" where
  "draw_rounds B func started [] s = Some s"
| "draw_rounds B func started (r # rs) s =
    (let s = (if key_before r then trigger_anim (now1 r) s else s) in
     if key_trigger_suspend s \<or> inExiting s then Some s
     else (case draw_round B func started r s of None \<Rightarrow> None | Some s \<Rightarrow> draw_rounds B func True rs s))"

definition draw_with_interval ::
  "kpoc_build \<Rightarrow> (kpoc_now \<Rightarrow> kpoc \<Rightarrow> kpoc option) \<Rightarrow> kpoc_round list \<Rightarrow> kpoc \<Rightarrow> kpoc option" where
  "draw_with_interval B func rs s = draw_rounds B func False rs s"

section \<open>The draw thread\<close>

text \<open>What a turn of the thread finds: the moments of the wait for a charger at the start, the
  capacity, the rounds, the end, and whether properties can be set and the frame buffer opens.\<close>

record kpoc_turn =
  waits :: "kpoc_now list"
  turn_capacities :: "int reply list"
  rounds :: "kpoc_round list"
  turn_end :: kpoc_now
  property_ok :: bool
  fb_opens :: bool

fun wait_until_available :: "kpoc_now list \<Rightarrow> kpoc \<Rightarrow> kpoc" where
  "wait_until_available [] s = s"
| "wait_until_available (N # Ns) s =
    (let (available, s) = is_charging_source_available N s in
     if available then s else wait_until_available Ns s)"

definition draw_begin :: "kpoc_turn \<Rightarrow> kpoc \<Rightarrow> kpoc" where
  "draw_begin t s =
    (let s = (if firstTime s then (wait_until_available (waits t) s)\<lparr>firstTime := False\<rparr> else s)
     in (kcall (Wake_lock True) s)\<lparr>inDraw := True\<rparr>)"

definition draw_pictures :: "kpoc_build \<Rightarrow> kpoc_turn \<Rightarrow> kpoc \<Rightarrow> kpoc option" where
  "draw_pictures B t s =
    (case get_capacity (turn_capacities t) of
       None \<Rightarrow> None
     | Some c \<Rightarrow>
         (case draw_with_interval B (\<lambda>N. bootlogo_show_charging B N c) (rounds t) s of
            None \<Rightarrow> None
          | Some s \<Rightarrow> bootlogo_show_charging B (turn_end t) c (stop_backlight s)))"

definition KERNEL_DRIVER_PROP :: string where
  "KERNEL_DRIVER_PROP = ''debug.mediatek.kpoc.charger_kerenl_drvier_init''"

text \<open>Once, the property that the kernel's driver is there; the thread ends (False) when it cannot
  be set.\<close>

definition draw_oneshot :: "kpoc_turn \<Rightarrow> kpoc \<Rightarrow> bool \<times> kpoc" where
  "draw_oneshot t s =
    (if \<not> oneshot s then (True, s)
     else
       let v = (if get_charging_type (reads (turn_end t)) CHARGER_FAST_PATH = - 1 then ''0'' else ''1'')
       in if \<not> property_ok t then (False, s)
          else (True, (kcall (Set_property KERNEL_DRIVER_PROP v) s)\<lparr>oneshot := False\<rparr>))"

text \<open>The end of a turn; the thread also ends when the frame buffer does not open.\<close>

definition draw_end :: "kpoc_turn \<Rightarrow> kpoc \<Rightarrow> bool \<times> kpoc" where
  "draw_end t s =
    (let (goes_on, s) = draw_oneshot t s in
     if \<not> goes_on then (False, s)
     else if is_drm (anim s) \<noteq> 1 \<and> \<not> fb_opens t then (False, s)
     else
       let s = (if is_drm (anim s) \<noteq> 1 then kcall (Blank_fb True) s else kcall Display_off s);
           s = (kcall (Wake_lock False) s)\<lparr>inDraw := False\<rparr>
       in (True, if get_float_charging_state (reads (turn_end t)) then kcall Signal_timer s else s))"

definition draw_thread_turn :: "kpoc_build \<Rightarrow> kpoc_turn \<Rightarrow> kpoc \<Rightarrow> (bool \<times> kpoc) option" where
  "draw_thread_turn B t s =
    (case draw_pictures B t (draw_begin t s) of None \<Rightarrow> None | Some s \<Rightarrow> Some (draw_end t s))"

section \<open>The timer thread and the start\<close>

text \<open>A minute after it was woken: \<open>drew\<close>, a drawing was seen in that time, and the wait starts
  over.\<close>

definition timer_thread_turn :: "kpoc_now \<Rightarrow> bool \<Rightarrow> kpoc \<Rightarrow> kpoc" where
  "timer_thread_turn N drew s =
    (if drew then s
     else if get_float_charging_state (reads N) \<and> \<not> inDraw s then start_charging_anim N s
     else s)"

text \<open>\<open>made\<close>: the three threads are created, in the order uevent, draw, timer.\<close>

definition charging_control :: "kpoc_build \<Rightarrow> kpoc_now \<Rightarrow> (nat \<Rightarrow> bool) \<Rightarrow> kpoc \<Rightarrow> kpoc" where
  "charging_control B N made s =
    (let (available, s) = is_charging_source_available N s;
         s = (if \<not> available then lights_exit B s else s);
         s = s\<lparr>inDraw := False\<rparr>;
         failed = (\<lambda>i s. if made i then s else kcall (Exit_charger ''EXIT_ERROR_SHUTDOWN'') s);
         s = (failed 0 s)\<lparr>firstTime := True\<rparr>
     in failed 2 (failed 1 s))"

end
