(* ===== verification/Kpoc_Bypass.thy ===== *)
theory Kpoc_Bypass
  imports Kpoc_Control Mm_I2c
begin

text \<open>
  The bypass in power-off charging: the application reads the setting the gauge's driver shows,
  the picture it draws, and what is left after it.
\<close>

section \<open>Reading what the kernel shows\<close>

lemma strip_newlines_shown:
  assumes "t \<noteq> []" "last t \<noteq> CHR 0x0A"
  shows "strip_newlines (t @ [CHR 0x0A]) = t" "strip_newlines t = t"
proof -
  have "dropWhile (\<lambda>c. c = CHR 0x0A) (rev t) = rev t" using assms by (cases t rule: rev_cases) auto
  then show "strip_newlines (t @ [CHR 0x0A]) = t" "strip_newlines t = t" by (simp_all add: strip_newlines_def)
qed

lemma show_int_ends: "show_int n \<noteq> []" "last (show_int n) \<noteq> CHR 0x0A"
proof -
  have ne: "show_nat k \<noteq> []" for k by (subst show_nat.simps) simp
  have nl: "last (show_nat k) \<noteq> CHR 0x0A" for k
    using show_nat_no_space [OF last_in_set [OF ne [of k]]] by auto
  show "show_int n \<noteq> []" "last (show_int n) \<noteq> CHR 0x0A" using ne nl by (auto simp: show_int_def)
qed

lemma read_shown:
  assumes "- (2 ^ 31) \<le> n" "n < 2 ^ 31"
  shows "read_from_file (Some (Some (show_int n @ [CHR 0x0A]))) 32 = (int (length (show_int n)), show_int n)"
proof -
  have "length (show_int n) \<le> 11" using assms by (intro length_show_int) auto
  then show ?thesis
    using show_int_ends [of n] by (simp add: read_from_file_def Let_def strip_newlines_shown)
qed

lemma int_value_shown:
  assumes "R path = Some (Some (show_int n @ [CHR 0x0A]))" "- (2 ^ 31) \<le> n" "n < 2 ^ 31"
  shows "get_int_value R path = n" "app_get_int_value R path = n"
  using show_int_ends(1) [of n]
  by (simp_all add: get_int_value_def app_get_int_value_def assms(1) read_shown [OF assms(2,3)] atoi_show_int)

text \<open>The library's reader and the application's of the same name differ only where there is nothing
  to read, and no reading of the library tells 0 from -1.\<close>

lemma readers_agree:
  "app_get_int_value R path = get_int_value R path
   \<or> get_int_value R path = 0 \<and> app_get_int_value R path = - 1"
  by (auto simp: get_int_value_def app_get_int_value_def case_prod_beta Let_def)

lemma readings_of_either_reader:
  "get_bypass_setting R \<longleftrightarrow> app_get_int_value R BYPASS_SETTING sdiv 100000 \<noteq> 0"
  "get_battery_online_status R \<longleftrightarrow> app_get_int_value R BATTERY_PRESENT_PATH > 0"
  "get_charge_online_state R = (if app_get_int_value R CHARGER_ONLINE_PATH = 1 then 1 else 0)"
  "get_battery_temperature R \<le> 0 \<longleftrightarrow> app_get_int_value R BATTERY_TEMPERATURE_PATH \<le> 0"
  "get_battery_temperature R \<ge> 50 \<longleftrightarrow> app_get_int_value R BATTERY_TEMPERATURE_PATH \<ge> 50"
proof -
  have m: "(- 1 :: int) sdiv 100000 = 0" "(0 :: int) sdiv 100000 = 0" by (simp_all add: signed_divide_int_def)
  show "get_bypass_setting R \<longleftrightarrow> app_get_int_value R BYPASS_SETTING sdiv 100000 \<noteq> 0"
    using readers_agree [of R BYPASS_SETTING] m by (auto simp: get_bypass_setting_def)
  show "get_battery_online_status R \<longleftrightarrow> app_get_int_value R BATTERY_PRESENT_PATH > 0"
    using readers_agree [of R BATTERY_PRESENT_PATH] by (auto simp: get_battery_online_status_def)
  show "get_charge_online_state R = (if app_get_int_value R CHARGER_ONLINE_PATH = 1 then 1 else 0)"
    using readers_agree [of R CHARGER_ONLINE_PATH] by (auto simp: get_charge_online_state_def Let_def)
  show "get_battery_temperature R \<le> 0 \<longleftrightarrow> app_get_int_value R BATTERY_TEMPERATURE_PATH \<le> 0"
    "get_battery_temperature R \<ge> 50 \<longleftrightarrow> app_get_int_value R BATTERY_TEMPERATURE_PATH \<ge> 50"
    using readers_agree [of R BATTERY_TEMPERATURE_PATH] by (auto simp: get_battery_temperature_def)
qed

text \<open>C14: the application draws the bypass for the setting the gauge's driver acts on: when the
  file shows what the driver read from the gauge, the application's flag is the driver's.\<close>

theorem kpoc_reads_driver_bypass:
  assumes "mm8xxx_get_bypass_setting A di = (Inr (dec n), di')" "n < 2 ^ 31"
    and "R BYPASS_SETTING = Some (Some (show_int n @ [CHR 0x0A]))"
  shows "get_bypass_setting R \<longleftrightarrow> bp_enable (bypass_setting di')"
proof -
  have n: "0 \<le> n" and parsed: "bypass_setting di' = mm8xxx_parse_bypass_setting n"
    using assms(1) by (auto simp: mm8xxx_get_bypass_setting_def mm8xxx_read_bypass_setting_def case_prod_beta
        Let_def split: if_splits)
  have "n div 100000 < 65536" "0 \<le> n div 100000" using n assms(2) by simp_all
  then have "uint (word_of_int (n div 100000) :: u16) = n div 100000" by (simp add: take_bit_int_eq_self unsigned_of_int)
  then have "(word_of_int (n div 100000) :: u16) = 0 \<longleftrightarrow> n div 100000 = 0"
    by (metis unsigned_0 word_of_int_0)
  moreover have "get_int_value R BYPASS_SETTING = n"
    using assms(2,3) n by (intro int_value_shown(1)) auto
  ultimately show ?thesis
    using n by (simp add: get_bypass_setting_def parsed mm8xxx_parse_bypass_setting_def)
qed

section \<open>The picture\<close>

lemma copy_picture_painted:
  assumes "uint sx + int pw \<le> uint w" "uint sy + int ph \<le> h" "uint w * h < 2 ^ 32"
  shows "copy_picture pic pw ph w sx sy fb k =
    painted (uint w) (uint w) h (uint sx) (uint sy) (int pw) (int ph) (\<lambda>y x. le_pixel pic (y * pw + x)) fb k"
proof -
  define idx where "idx x y = uint (word_of_int y * w + word_of_int x)" for x y
  have idx: "idx x y = y * uint w + x" if "0 \<le> x" "x < uint w" "0 \<le> y" "y < h" for x y
  proof -
    have "(y + 1) * uint w \<le> h * uint w" using that(4) by (intro mult_right_mono) auto
    then have "0 \<le> y * uint w + x \<and> y * uint w + x < 2 ^ 32"
      using that assms(3) by (simp add: algebra_simps)
    moreover have e: "word_of_int y * w + word_of_int x = (word_of_int (y * uint w + x) :: u32)"
      by (simp add: word_of_int_uint)
    moreover have "uint (word_of_int z :: u32) = z" if "0 \<le> z" "z < 2 ^ 32" for z
      using that by (simp add: take_bit_int_eq_self unsigned_of_int)
    ultimately show ?thesis unfolding idx_def e by blast
  qed
  have "copy_picture pic pw ph w sx sy fb = fold (\<lambda>y. fold (\<lambda>x fb.
        if 0 \<le> uint sx + int x \<and> uint sx + int x < uint w \<and> 0 \<le> uint sy + int y \<and> uint sy + int y < h
        then fb(idx (uint sx + int x) (uint sy + int y) := le_pixel pic (y * pw + x)) else fb) [0..<pw]) [0..<ph] fb"
    unfolding copy_picture_def
  proof (rule fold_cong [OF refl refl], rule ext, rule fold_cong [OF refl refl], rule ext)
    fix y x fb
    assume "y \<in> set [0..<ph]" "x \<in> set [0..<pw]"
    then show "fb(uint ((sy + of_nat y) * w + (sx + of_nat x)) := le_pixel pic (y * pw + x)) =
      (if 0 \<le> uint sx + int x \<and> uint sx + int x < uint w \<and> 0 \<le> uint sy + int y \<and> uint sy + int y < h
       then fb(idx (uint sx + int x) (uint sy + int y) := le_pixel pic (y * pw + x)) else fb)"
      using assms(1,2) by (simp add: idx_def word_of_int_uint)
  qed
  then show ?thesis by (simp only: rows_painted [of "uint w" "uint w" h idx, OF order_refl idx])
qed

text \<open>The screen holds both pictures, the words to the left of the middle.\<close>

definition word_start :: "kpoc_pictures \<Rightarrow> int \<Rightarrow> int" where
  "word_start P w = (w - int (word_w P)) div 2 - (int (logo_w P) + int (word_w P)) div 2 - 70"

definition pictures_fit :: "kpoc_pictures \<Rightarrow> lcm_screen \<Rightarrow> bool" where
  "pictures_fit P scr \<longleftrightarrow>
    (let w = uint (scr_width scr); h = uint (scr_height scr) in
     int (logo_w P) \<le> w \<and> int (logo_h P) \<le> h \<and> int (word_w P) \<le> w \<and> int (word_h P) \<le> h
     \<and> 0 \<le> word_start P w \<and> w * h < 2 ^ 31 \<and> w < 2 ^ 31 \<and> h < 2 ^ 31)"

definition bypass_frame :: "kpoc_pictures \<Rightarrow> lcm_screen \<Rightarrow> frame \<Rightarrow> frame" where
  "bypass_frame P scr fb =
    (let w = uint (scr_width scr); h = uint (scr_height scr);
         logo = painted w w h ((w - int (logo_w P)) div 2) ((h - int (logo_h P)) div 2)
                  (int (logo_w P)) (int (logo_h P)) (\<lambda>y x. le_pixel (g_logo_argb P) (y * logo_w P + x)) fb
     in painted w w h (word_start P w) ((h - int (word_h P)) div 2) (int (word_w P)) (int (word_h P))
          (\<lambda>y x. le_pixel (g_word_logo_argb_en P) (y * word_w P + x)) logo)"

lemma centre:
  assumes "int n \<le> uint w"
  shows "uint ((w - of_nat n) div 2 :: u32) = (uint w - int n) div 2"
proof -
  have "int n < 2 ^ 32" using assms uint_lt2p [of w] by simp
  then have n: "uint (of_nat n :: u32) = int n" by (simp add: unsigned_of_nat take_bit_nat_eq_self_iff nat_less_iff)
  then have "uint (w - of_nat n) = uint w - int n"
    using assms by (simp add: uint_sub_lem [THEN iffD1])
  then show ?thesis by (simp add: uint_div_distrib)
qed

lemma bypass_frame_drawn:
  assumes "pictures_fit P scr"
  defines "w \<equiv> scr_width scr" and "h \<equiv> scr_height scr"
  shows "display_bypass_logo_word P (sint w) (sint h)
      (copy_picture (g_logo_argb P) (logo_w P) (logo_h P) w ((w - of_nat (logo_w P)) div 2)
        ((h - of_nat (logo_h P)) div 2) fb) = bypass_frame P scr fb"
proof
  fix k
  note fit = assms(1) [unfolded pictures_fit_def Let_def, folded w_def h_def]
  have logo: "copy_picture (g_logo_argb P) (logo_w P) (logo_h P) w ((w - of_nat (logo_w P)) div 2)
        ((h - of_nat (logo_h P)) div 2) fb
    = painted (uint w) (uint w) (uint h) ((uint w - int (logo_w P)) div 2) ((uint h - int (logo_h P)) div 2)
        (int (logo_w P)) (int (logo_h P)) (\<lambda>y x. le_pixel (g_logo_argb P) (y * logo_w P + x)) fb"
  proof
    fix k
    show "copy_picture (g_logo_argb P) (logo_w P) (logo_h P) w ((w - of_nat (logo_w P)) div 2)
        ((h - of_nat (logo_h P)) div 2) fb k
      = painted (uint w) (uint w) (uint h) ((uint w - int (logo_w P)) div 2) ((uint h - int (logo_h P)) div 2)
        (int (logo_w P)) (int (logo_h P)) (\<lambda>y x. le_pixel (g_logo_argb P) (y * logo_w P + x)) fb k"
      using copy_picture_painted [of "(w - of_nat (logo_w P)) div 2" "logo_w P" w
          "(h - of_nat (logo_h P)) div 2" "logo_h P" "uint h" "g_logo_argb P" fb k]
        centre [of "logo_w P" w] centre [of "logo_h P" h] fit by fastforce
  qed
  have s: "sint w = uint w" "sint h = uint h" using fit by (simp_all add: sint_small)
  have sx: "(uint w - int (word_w P)) sdiv 2 - (int (logo_w P) + int (word_w P)) div 2 - 70 = word_start P (uint w)"
    using fit by (simp add: word_start_def)
  have sy: "(uint h - int (word_h P)) sdiv 2 = (uint h - int (word_h P)) div 2" using fit by simp
  have half: "n div 2 \<le> n" if "0 \<le> n" for n :: int using that by presburger
  have halves: "(uint w - int (word_w P)) div 2 \<le> uint w - int (word_w P)"
    "(uint h - int (word_h P)) div 2 \<le> uint h - int (word_h P)" using fit by (intro half; linarith)+
  have small: "0 \<le> (int (logo_w P) + int (word_w P)) div 2" "0 \<le> int (word_w P)" "0 \<le> int (word_h P)"
    by simp_all
  have "word_start P (uint w) < 2 ^ 32" "(uint h - int (word_h P)) div 2 < 2 ^ 32"
    using fit small halves by (auto simp: word_start_def)
  moreover have "0 \<le> (uint h - int (word_h P)) div 2" using fit by simp
  ultimately have places:
    "uint (word_of_int (word_start P (uint w)) :: u32) = word_start P (uint w)"
    "uint (word_of_int ((uint h - int (word_h P)) div 2) :: u32) = (uint h - int (word_h P)) div 2"
    using fit by (simp_all add: unsigned_of_int take_bit_int_eq_self)
  have inside: "word_start P (uint w) + int (word_w P) \<le> uint w"
    "(uint h - int (word_h P)) div 2 + int (word_h P) \<le> uint h"
    using fit halves small by (auto simp: word_start_def)
  show "display_bypass_logo_word P (sint w) (sint h)
      (copy_picture (g_logo_argb P) (logo_w P) (logo_h P) w ((w - of_nat (logo_w P)) div 2)
        ((h - of_nat (logo_h P)) div 2) fb) k = bypass_frame P scr fb k"
    unfolding logo display_bypass_logo_word_def bypass_frame_def Let_def s sx sy w_def [symmetric] h_def [symmetric]
    using copy_picture_painted [of "word_of_int (word_start P (uint w))" "word_w P" w
        "word_of_int ((uint h - int (word_h P)) div 2)" "word_h P" "uint h"] places inside fit
    by (simp add: word_of_int_uint)
qed

definition black_frame :: "lcm_screen \<Rightarrow> frame \<Rightarrow> frame" where
  "black_frame scr fb =
    (\<lambda>i. if 0 \<le> i \<and> i < uint (scr_height scr * scr_width scr) then 0xff000000 else fb i)"


section \<open>After the bypass\<close>

text \<open>After the picture of the bypass every other picture faults: the mode is left at the surface
  flinger's, for which there is no surface.\<close>

theorem no_picture_after_bypass:
  assumes "display_bypass_logo P s = Some s'" "IS_DRM s \<noteq> - 1"
    and "draw_anim_mode s = DRAW_ANIM_MODE_FB \<or> draw_anim_mode s = DRAW_ANIM_MODE_SURFACE"
  shows "draw_anim_mode s' = DRAW_ANIM_MODE_SURFACE \<and> anim_show_logo P i s' = None
    \<and> show_battery_capacity P c s' = None \<and> show_plug_out_capacity P c s' = None
    \<and> show_float_photo P b s' = None \<and> show_black_logo s' = None"
proof -
  have modes: "DRAW_ANIM_MODE_SURFACE \<noteq> DRAW_ANIM_MODE_FB"
    by (simp add: DRAW_ANIM_MODE_SURFACE_def DRAW_ANIM_MODE_FB_def)
  have "draw_anim_mode s' = DRAW_ANIM_MODE_SURFACE \<and> IS_DRM s' \<noteq> - 1"
    using assms modes
    by (auto simp: display_bypass_logo_def paint_def anim_drm_disp_update_def Let_def split: if_splits)
  then show ?thesis
    using modes by (auto simp: anim_show_logo_def show_battery_capacity_def show_plug_out_capacity_def
        show_capacity_def show_float_photo_def show_black_logo_def anim_fb_addr_switch_def Let_def)
qed

section \<open>Pulling out the charger\<close>

definition source_online :: "kpoc_now \<Rightarrow> bool" where
  "source_online N \<longleftrightarrow>
    (let (ret, info) = get_health_info (health N) no_health_info in
     0 \<le> ret \<and> (chargerUsbOnline info \<or> chargerAcOnline info \<or> chargerWirelessOnline info
       \<or> first_value (reads N) 0 chg_volt_path \<ge> 2500))"

lemma available_online: "fst (is_charging_source_available N s) = source_online N"
  by (auto simp: is_charging_source_available_def source_online_def Let_def split: prod.splits)

lemma kcall_keeps [simp]:
  "anim (kcall c s) = anim s" "inDraw (kcall c s) = inDraw s" "inExiting (kcall c s) = inExiting s"
  "key_trigger_suspend (kcall c s) = key_trigger_suspend s" "showLowBattLogo (kcall c s) = showLowBattLogo s"
  "nCurrentState (kcall c s) = nCurrentState s" "oneshot (kcall c s) = oneshot s"
  "kcalls (kcall c s) = kcalls s @ [c]" "firstTime (kcall c s) = firstTime s"
  by (simp_all add: kcall_def)

lemma available_keeps [simp]:
  "anim (snd (is_charging_source_available N s)) = anim s"
  "inDraw (snd (is_charging_source_available N s)) = inDraw s"
  "inExiting (snd (is_charging_source_available N s)) = inExiting s"
  "showLowBattLogo (snd (is_charging_source_available N s)) = showLowBattLogo s"
  "nCurrentState (snd (is_charging_source_available N s)) = nCurrentState s"
  "oneshot (snd (is_charging_source_available N s)) = oneshot s"
  "firstTime (snd (is_charging_source_available N s)) = firstTime s"
  by (simp_all add: is_charging_source_available_def kcall_def case_prod_beta Let_def)

lemma available_key [simp]:
  "\<not> key_trigger_suspend s \<Longrightarrow> \<not> key_trigger_suspend (snd (is_charging_source_available N s))"
  by (simp add: is_charging_source_available_def kcall_def case_prod_beta Let_def)

lemma start_backlight_keeps [simp]:
  "anim (start_backlight B N s) = anim s" "inDraw (start_backlight B N s) = inDraw s"
  "inExiting (start_backlight B N s) = inExiting s"
  "key_trigger_suspend (start_backlight B N s) = key_trigger_suspend s"
  "showLowBattLogo (start_backlight B N s) = showLowBattLogo s"
  "nCurrentState (start_backlight B N s) = nCurrentState s" "oneshot (start_backlight B N s) = oneshot s"
  by (simp_all add: start_backlight_def kcall_def case_prod_beta Let_def)

lemma on_anim_keeps:
  "on_anim f s = Some s' \<Longrightarrow> \<exists>a. f (anim s) = Some a \<and> s' = s\<lparr>anim := a\<rparr>"
  by (auto simp: on_anim_def split: option.splits)

text \<open>The moments at which the picture of the bypass is chosen.\<close>

definition shows_bypass :: "kpoc_now \<Rightarrow> kpoc \<Rightarrow> bool" where
  "shows_bypass N s \<longleftrightarrow>
    (let R = reads N in
     get_battery_online_status R \<and> \<not> get_battnotify_status R \<and> \<not> showLowBattLogo s
     \<and> 0 < get_battery_temperature R \<and> get_battery_temperature R < 50
     \<and> get_bypass_setting R \<and> get_fast_charging_state R = 0)"

lemma bypass_chosen:
  "shows_bypass N s \<Longrightarrow> bootlogo_show_charging B N c s = on_anim (display_bypass_logo (pictures B)) s"
  by (auto simp: shows_bypass_def bootlogo_show_charging_def Let_def)

definition has_mode :: "kpoc \<Rightarrow> bool" where
  "has_mode s \<longleftrightarrow> draw_anim_mode (anim s) = DRAW_ANIM_MODE_FB \<or> draw_anim_mode (anim s) = DRAW_ANIM_MODE_SURFACE"

lemma bypass_keeps_display:
  "display_bypass_logo P a = Some a' \<Longrightarrow> IS_DRM a \<noteq> - 1 \<Longrightarrow> IS_DRM a' \<noteq> - 1"
  by (auto simp: display_bypass_logo_def paint_def anim_drm_disp_update_def Let_def split: if_splits)

text \<open>A round without a charger, at both moments: the picture of the missing charger and the exit,
  in the frame buffer mode, a fault otherwise.\<close>

lemma bare_round:
  assumes "\<not> source_online (now1 r)" "\<not> get_float_charging_state (reads (now1 r))"
    and "plug_goes_on r" "get_capacity (capacities (now1 r)) = Some c" "\<not> key_trigger_suspend s"
    and "IS_DRM (anim s) \<noteq> - 1" "draw_anim_mode (anim s) = DRAW_ANIM_MODE_SURFACE"
  shows "draw_round B func started r s = None"
proof -
  define s1 where "s1 = snd (is_charging_source_available (now1 r)
    (if \<not> started \<and> is_drm (anim s) \<noteq> 1 then kcall (Blank_fb False) s else s))"
  have s1: "anim s1 = anim s" "\<not> key_trigger_suspend s1"
    using assms(5) by (simp_all add: s1_def)
  have "on_anim (show_plug_out_capacity (pictures B) c) s1 = None"
    using assms(6,7) by (simp add: on_anim_def s1 show_plug_out_capacity_def show_capacity_def
        DRAW_ANIM_MODE_SURFACE_def DRAW_ANIM_MODE_FB_def Let_def)
  then have "plug_out_animation B (now1 r) (plug_goes_on r) s1 = None"
    by (simp add: plug_out_animation_def assms(3,4) s1)
  then show ?thesis
    using assms(1,2) available_online [of "now1 r"]
    by (simp add: draw_round_def case_prod_beta Let_def s1_def)
qed

text \<open>C16: when the charger is pulled out of a phone that shows the bypass, the drawing faults in the
  next round, and never reaches the orderly end of power-off charging.\<close>

theorem unplug_in_bypass_faults:
  assumes "\<not> key_trigger_suspend s" "\<not> inExiting s" "IS_DRM (anim s) \<noteq> - 1" "has_mode s"
    and "\<not> key_before r1" "source_online (now1 r1)" "shows_bypass (now1 r1) s"
    and "\<not> key_before r2" "\<not> source_online (now1 r2)" "\<not> get_float_charging_state (reads (now1 r2))"
    and "plug_goes_on r2" "get_capacity (capacities (now1 r2)) = Some c2"
  shows "draw_with_interval B (\<lambda>N. bootlogo_show_charging B N c) (r1 # r2 # rs) s = None"
proof -
  let ?func = "\<lambda>N. bootlogo_show_charging B N c"
  have "draw_rounds B ?func True (r2 # rs) s2 = None" if r: "draw_round B ?func False r1 s = Some s2" for s2
  proof -
    define s1 where "s1 = snd (is_charging_source_available (now1 r1)
      (if is_drm (anim s) \<noteq> 1 then kcall (Blank_fb False) s else s))"
    have keeps: "anim s1 = anim s" "showLowBattLogo s1 = showLowBattLogo s" "inExiting s1 = inExiting s"
      "\<not> key_trigger_suspend s1"
      using assms(1) by (simp_all add: s1_def)
    then have "shows_bypass (now1 r1) s1" using assms(7) by (simp add: shows_bypass_def)
    then obtain s1' where s1': "on_anim (display_bypass_logo (pictures B)) s1 = Some s1'"
      and s2: "s2 = start_backlight B (now2 r1) s1'"
      using r available_online [of "now1 r1"] assms(6)
      by (auto simp: draw_round_def case_prod_beta Let_def s1_def bypass_chosen split: option.splits)
    then obtain a where a: "display_bypass_logo (pictures B) (anim s) = Some a" "s1' = s1\<lparr>anim := a\<rparr>"
      using on_anim_keeps [OF s1'] by (auto simp: keeps)
    have "draw_anim_mode a = DRAW_ANIM_MODE_SURFACE" "IS_DRM a \<noteq> - 1"
      using a(1) assms(3,4) bypass_keeps_display [OF a(1)]
      by (auto simp: has_mode_def display_bypass_logo_def paint_def anim_drm_disp_update_def Let_def
          split: if_splits)
    then have "draw_round B ?func True r2 s2 = None"
      using assms(9-12) keeps by (intro bare_round [of r2 c2]) (auto simp: s2 a(2))
    then show ?thesis using assms(2,8) keeps by (simp add: s2 a(2))
  qed
  then show ?thesis using assms(1,2,5) by (simp add: draw_with_interval_def split: option.split)
qed

lemma switch_display [simp]: "IS_DRM (anim_fb_addr_switch a) = IS_DRM a"
  by (simp add: anim_fb_addr_switch_def)

lemma painted_and_shown: "IS_DRM a \<noteq> - 1 \<Longrightarrow> \<exists>a'. paint_and_show f a = Some a'"
  by (simp add: paint_and_show_def paint_def disp_update_def anim_drm_disp_update_def
      anim_fb_disp_update_def Let_def)

lemma capacity_shown:
  assumes "IS_DRM a = 0 \<or> IS_DRM a = 1" "draw_anim_mode a = DRAW_ANIM_MODE_FB"
  shows "\<exists>a'. show_capacity P v c a = Some a'"
  unfolding show_capacity_def Let_def
  using assms painted_and_shown [of "anim_fb_addr_switch (a\<lparr>show_animationm_ver := v\<rparr>)"] by auto

text \<open>In the frame buffer mode a charger that stays away for the six seconds ends power-off
  charging.\<close>

theorem unplugged_leaves_charging_mode:
  assumes "\<not> source_online (now1 r)" "\<not> get_float_charging_state (reads (now1 r))"
    and "\<not> source_online (now2 r)" "get_capacity (capacities (now1 r)) = Some c"
    and "IS_DRM (anim s) = 0 \<or> IS_DRM (anim s) = 1" "draw_anim_mode (anim s) = DRAW_ANIM_MODE_FB"
  shows "\<exists>s'. draw_round B func True r s = Some s' \<and> Exit_charger ''EXIT_CHARGING_MODE'' \<in> set (kcalls s')"
proof -
  define s1 where "s1 = snd (is_charging_source_available (now1 r) s)"
  have s1: "anim s1 = anim s" by (simp add: s1_def)
  obtain a where "show_plug_out_capacity (pictures B) c (anim s1) = Some a"
    using capacity_shown [OF assms(5,6)] unfolding s1 show_plug_out_capacity_def by blast
  then have "\<exists>s2. plug_out_animation B (now1 r) (plug_goes_on r) s1 = Some s2"
    by (simp add: plug_out_animation_def assms(4) on_anim_def)
  then obtain s2 where s2: "plug_out_animation B (now1 r) (plug_goes_on r) s1 = Some s2" ..
  then show ?thesis
    using assms(1-3) available_online [of "now1 r" s] available_online [of "now2 r" s2]
    by (simp add: draw_round_def case_prod_beta Let_def s1_def [symmetric])
qed

end
