(* ===== verification/Kpoc_Threads.thy ===== *)
theory Kpoc_Threads
  imports Kpoc_Bypass
begin

text \<open>
  The threads of power-off charging as a transition system: the draw thread with the points at
  which it can be, and the keys, kernel events and the timer that run beside it.
\<close>

section \<open>The system\<close>

text \<open>The draw thread before a turn, drawing, ending a turn, between the end of the turn and the wait,
  waiting for the condition, and ended.\<close>

datatype draw_pc = Turn_start | Drawing | Turn_end | Before_wait | Waiting | Ended

text \<open>A signal wakes the draw thread when it waits; otherwise it is lost.\<close>

definition signals :: "kpoc_call list \<Rightarrow> nat" where
  "signals cs = count_list cs Signal_draw"

definition after_signals :: "draw_pc \<Rightarrow> kpoc \<Rightarrow> kpoc \<Rightarrow> draw_pc" where
  "after_signals pc s s' = (if pc = Waiting \<and> signals (kcalls s') > signals (kcalls s) then Turn_start else pc)"

inductive kpoc_step :: "kpoc_build \<Rightarrow> draw_pc \<times> kpoc \<Rightarrow> draw_pc \<times> kpoc \<Rightarrow> bool" for B where
  turn_begins: "kpoc_step B (Turn_start, s) (Drawing, draw_begin t s)"
| pictures_drawn: "draw_pictures B t s = Some s' \<Longrightarrow> kpoc_step B (Drawing, s) (Turn_end, s')"
| turn_ends: "draw_end t s = (goes_on, s') \<Longrightarrow>
    kpoc_step B (Turn_end, s) (if goes_on then Before_wait else Ended, s')"
| waits_now: "kpoc_step B (Before_wait, s) (Waiting, s)"
| wakes_up: "kpoc_step B (Waiting, s) (Turn_start, s)"
| key: "kpoc_step B (pc, s) (after_signals pc s (start_charging_anim N s), start_charging_anim N s)"
| uevent: "on_uevent B N b s = Some s' \<Longrightarrow> kpoc_step B (pc, s) (after_signals pc s s', s')"
| timer: "kpoc_step B (pc, s) (after_signals pc s (timer_thread_turn N d s), timer_thread_turn N d s)"

inductive_cases kpoc_stepE: "kpoc_step B (pc, s) x"

abbreviation kpoc_run :: "kpoc_build \<Rightarrow> draw_pc \<times> kpoc \<Rightarrow> draw_pc \<times> kpoc \<Rightarrow> bool" where
  "kpoc_run B \<equiv> rtranclp (kpoc_step B)"

section \<open>What an operation leaves alone\<close>

text \<open>The wake lock: what was last asked for.\<close>

definition lock_of :: "bool \<Rightarrow> kpoc_call list \<Rightarrow> bool" where
  "lock_of b cs = fold (\<lambda>c b. case c of Wake_lock x \<Rightarrow> x | _ \<Rightarrow> b) cs b"

lemma lock_of_simps [simp]:
  "lock_of b [] = b" "lock_of b (c # cs) = lock_of (case c of Wake_lock x \<Rightarrow> x | _ \<Rightarrow> b) cs"
  "lock_of b (cs @ ds) = lock_of (lock_of b cs) ds"
  by (simp_all add: lock_of_def)

text \<open>The fields the protocol of the draw thread is about, and the lights.\<close>

definition protocol :: "kpoc \<Rightarrow> bool \<times> bool" where
  "protocol s = (inDraw s, lock_of False (kcalls s))"

fun is_lights :: "kpoc_call \<Rightarrow> bool" where
  "is_lights (Lights _) = True"
| "is_lights _ = False"

definition lights :: "kpoc \<Rightarrow> int \<times> kpoc_call list" where
  "lights s = (nCurrentState s, filter is_lights (kcalls s))"

definition watched :: "kpoc \<Rightarrow> (bool \<times> bool) \<times> int \<times> kpoc_call list" where
  "watched s = (protocol s, lights s)"

lemma watched_simps [simp]:
  "watched (s\<lparr>key_trigger_suspend := b\<rparr>) = watched s" "watched (s\<lparr>firstTime := b\<rparr>) = watched s"
  "watched (s\<lparr>backlight_on := b\<rparr>) = watched s" "watched (s\<lparr>oneshot := b\<rparr>) = watched s"
  "watched (s\<lparr>pre_usb_online := b\<rparr>) = watched s" "watched (s\<lparr>pre_ac_online := b\<rparr>) = watched s"
  "watched (s\<lparr>lcd_backlight_level := n\<rparr>) = watched s"
  "watched (s\<lparr>bc := n\<rparr>) = watched s" "watched (s\<lparr>anim := a\<rparr>) = watched s"
  by (simp_all add: watched_def protocol_def lights_def)

lemma watched_kcall [simp]:
  "watched (kcall Signal_draw s) = watched s" "watched (kcall Signal_timer s) = watched s"
  "watched (kcall (Backlight c) s) = watched s" "watched (kcall (Exit_charger e) s) = watched s"
  "watched (kcall (Blank_fb x) s) = watched s" "watched (kcall Display_off s) = watched s"
  "watched (kcall (Set_property p v) s) = watched s"
  by (simp_all add: watched_def protocol_def lights_def)

lemma watched_available [simp]: "watched (snd (is_charging_source_available N s)) = watched s"
  by (simp add: is_charging_source_available_def case_prod_beta Let_def)

lemma watched_backlight [simp]:
  "watched (start_backlight B N s) = watched s" "watched (stop_backlight s) = watched s"
  by (simp_all add: start_backlight_def stop_backlight_def case_prod_beta Let_def)

lemma watched_key [simp]:
  "watched (trigger_anim N s) = watched s" "watched (start_charging_anim N s) = watched s"
  by (simp_all add: start_charging_anim_def trigger_anim_def case_prod_beta Let_def)

lemma watched_timer [simp]: "watched (timer_thread_turn N d s) = watched s"
  by (simp add: timer_thread_turn_def)

lemma watched_on_anim: "on_anim f s = Some s' \<Longrightarrow> watched s' = watched s"
  by (auto dest!: on_anim_keeps)

lemma watched_charge_state: "show_charge_state B N fl c s = Some s' \<Longrightarrow> watched s' = watched s"
  by (auto simp: show_charge_state_def case_prod_beta Let_def dest!: watched_on_anim split: if_splits)

lemma watched_picture: "bootlogo_show_charging B N c s = Some s' \<Longrightarrow> watched s' = watched s"
  by (auto simp: bootlogo_show_charging_def Let_def dest!: watched_on_anim watched_charge_state
      split: if_splits)

lemma watched_plug_out: "plug_out_animation B N g s = Some s' \<Longrightarrow> watched s' = watched s"
  by (auto simp: plug_out_animation_def dest!: watched_on_anim split: if_splits option.splits)

lemma watched_round:
  assumes func: "\<And>N s s'. func N s = Some s' \<Longrightarrow> watched s' = watched s"
    and r: "draw_round B func started r s = Some s'"
  shows "watched s' = watched s"
proof -
  define s0 where "s0 = (if \<not> started \<and> is_drm (anim s) \<noteq> 1 then kcall (Blank_fb False) s else s)"
  define s1 where "s1 = snd (is_charging_source_available (now1 r) s0)"
  have w1: "watched s1 = watched s" by (simp add: s1_def s0_def)
  obtain s2 where s2: "s' = (if \<not> started then start_backlight B (now2 r) s2 else s2)" "watched s2 = watched s"
  proof (cases "\<not> fst (is_charging_source_available (now1 r) s0) \<and> \<not> get_float_charging_state (reads (now1 r))")
    case True
    then show thesis
      using r that watched_plug_out w1
      by (auto simp: draw_round_def case_prod_beta Let_def s0_def [symmetric] s1_def [symmetric]
          split: option.splits)
  next
    case False
    then show thesis
      using r that func w1
      by (auto simp: draw_round_def case_prod_beta Let_def s0_def [symmetric] s1_def [symmetric]
          split: option.splits)
  qed
  then show ?thesis by simp
qed

lemma watched_rounds:
  assumes "\<And>N s s'. func N s = Some s' \<Longrightarrow> watched s' = watched s"
  shows "draw_rounds B func started rs s = Some s' \<Longrightarrow> watched s' = watched s"
proof (induction rs arbitrary: started s)
  case (Cons r rs)
  define s1 where "s1 = (if key_before r then trigger_anim (now1 r) s else s)"
  have same: "watched s1 = watched s" by (simp add: s1_def)
  show ?case
  proof (cases "key_trigger_suspend s1 \<or> inExiting s1")
    case True
    then show ?thesis using Cons.prems same by (simp add: s1_def [symmetric])
  next
    case False
    then obtain s2 where d: "draw_round B func started r s1 = Some s2" "draw_rounds B func True rs s2 = Some s'"
      using Cons.prems by (auto simp: s1_def [symmetric] split: option.splits)
    show ?thesis using Cons.IH [OF d(2)] watched_round [of func, OF assms d(1)] same by simp
  qed
qed simp

lemma watched_pictures: "draw_pictures B t s = Some s' \<Longrightarrow> watched s' = watched s"
proof -
  assume d: "draw_pictures B t s = Some s'"
  then obtain c s2 where r: "draw_rounds B (\<lambda>N. bootlogo_show_charging B N c) False (rounds t) s = Some s2"
    and p: "bootlogo_show_charging B (turn_end t) c (stop_backlight s2) = Some s'"
    by (auto simp: draw_pictures_def draw_with_interval_def split: option.splits)
  have "watched s2 = watched s"
    by (rule watched_rounds [of "\<lambda>N. bootlogo_show_charging B N c", OF _ r]) (rule watched_picture)
  then show ?thesis using watched_picture [OF p] by simp
qed

lemma watched_wait [simp]: "watched (wait_until_available Ns s) = watched s"
  by (induction Ns arbitrary: s) (simp_all add: case_prod_beta)

lemma begin_watched: "protocol (draw_begin t s) = (True, True)" "lights (draw_begin t s) = lights s"
proof -
  have "lights s = lights s'" if "watched s = watched s'" for s s' using that by (simp add: watched_def)
  from this [OF watched_wait, of "waits t" s] show "lights (draw_begin t s) = lights s"
    by (simp add: draw_begin_def lights_def Let_def)
qed (simp add: draw_begin_def protocol_def Let_def)

lemma end_watched:
  assumes "draw_end t s = (goes_on, s')"
  shows "protocol s' = (if goes_on then (False, False) else protocol s)" "lights s' = lights s"
  using assms
  by (auto simp: draw_end_def draw_oneshot_def protocol_def lights_def case_prod_beta Let_def split: if_splits)

section \<open>Kernel events\<close>

lemma uevent_protocol: "on_uevent B N b s = Some s' \<Longrightarrow> protocol s' = protocol s"
proof -
  assume u: "on_uevent B N b s = Some s'"
  define s1 where "s1 = snd (is_charging_source_available N s)"
  have "protocol s1 = protocol s" using watched_available [of N s] by (simp add: s1_def watched_def)
  then show ?thesis
    using u by (auto simp: on_uevent_def lights_full_def lights_on_def set_light_state_def case_prod_beta
        Let_def s1_def [symmetric] protocol_def split: if_splits option.splits)
qed

text \<open>No event lights the lamp of a charge going on, when the state it sets is not the one it looks
  for.\<close>

definition never_on :: "kpoc_build \<Rightarrow> int \<times> kpoc_call list \<Rightarrow> bool" where
  "never_on B l \<longleftrightarrow> fst l \<noteq> LIGHTS_STATE_CHGON B \<and> Lights ''chgon'' \<notin> set (snd l)"

lemma never_on_lights: "never_on B (lights s) \<longleftrightarrow>
    nCurrentState s \<noteq> LIGHTS_STATE_CHGON B \<and> Lights ''chgon'' \<notin> set (kcalls s)"
  by (simp add: never_on_def lights_def)

lemma uevent_never_on:
  assumes "on_uevent B N b s = Some s'" "never_on B (lights s)"
    and "LIGHTS_CHGON B \<noteq> LIGHTS_STATE_CHGON B" "LIGHTS_STATE_CHGFULL B \<noteq> LIGHTS_STATE_CHGON B"
  shows "never_on B (lights s')"
proof -
  define s1 where "s1 = snd (is_charging_source_available N s)"
  have "lights s1 = lights s" using watched_available [of N s] by (simp add: s1_def watched_def)
  then have "never_on B (lights s1)" using assms(2) by metis
  then show ?thesis
    using assms
    by (cases b) (auto simp: on_uevent_def lights_full_def lights_on_def set_light_state_def case_prod_beta
        Let_def s1_def [symmetric] never_on_lights split: if_splits option.splits)
qed

section \<open>Properties\<close>

definition draw_protocol :: "draw_pc \<times> kpoc \<Rightarrow> bool" where
  "draw_protocol x \<longleftrightarrow> (case x of (pc, s) \<Rightarrow>
    protocol s = (let drawing = pc \<in> {Drawing, Turn_end, Ended} in (drawing, drawing)))"

lemma same_protocol: "watched s' = watched s \<Longrightarrow> protocol s' = protocol s"
  and same_lights: "watched s' = watched s \<Longrightarrow> lights s' = lights s"
  by (simp_all add: watched_def)

lemmas step_protocol = same_protocol [OF watched_key(2)] same_protocol [OF watched_timer]
  same_protocol [OF watched_pictures]
lemmas step_lights = same_lights [OF watched_key(2)] same_lights [OF watched_timer]
  same_lights [OF watched_pictures]

lemma draw_protocol_step: "kpoc_step B x y \<Longrightarrow> draw_protocol x \<Longrightarrow> draw_protocol y"
  by (induction rule: kpoc_step.induct)
    (auto simp: draw_protocol_def begin_watched after_signals_def step_protocol uevent_protocol Let_def
      dest: end_watched(1))

lemma draw_protocol_run: "kpoc_run B x y \<Longrightarrow> draw_protocol x \<Longrightarrow> draw_protocol y"
  by (induction rule: rtranclp_induct) (auto intro: draw_protocol_step)


lemma ended_step:
  assumes "kpoc_step B (Ended, s) (pc, s')"
  shows "pc = Ended \<and> anim s' = anim s"
proof -
  have "anim (trigger_anim N s) = anim s" for N s
    by (simp add: trigger_anim_def case_prod_beta Let_def)
  moreover have "anim s' = anim s" if "on_uevent B N b s = Some s'" for N b s s'
    using that by (auto simp: on_uevent_def lights_full_def lights_on_def set_light_state_def case_prod_beta
        Let_def split: if_splits option.splits)
  ultimately show ?thesis
    using assms by (auto elim!: kpoc_stepE simp: after_signals_def start_charging_anim_def timer_thread_turn_def)
qed

text \<open>Once the draw thread has ended, nothing brings a picture back: whatever keys, events and
  timer do, it stays ended, the pictures stay as they are, the application counts as
  drawing, and the wake lock is never given back.\<close>

theorem ended_for_ever:
  assumes "kpoc_run B (Turn_start, s0) (Ended, s)" "\<not> inDraw s0" "kcalls s0 = []"
    and "kpoc_run B (Ended, s) (pc, s')"
  shows "pc = Ended \<and> anim s' = anim s \<and> inDraw s' \<and> lock_of False (kcalls s')"
proof -
  have "fst x = Ended \<and> anim (snd x) = anim s" if "kpoc_run B (Ended, s) x" for x
    using that
  proof (induction rule: rtranclp_induct)
    case (step y z)
    then show ?case using ended_step [of B "snd y" "fst z" "snd z"] by (cases y; cases z) auto
  qed simp
  from this [OF assms(4)] have e: "pc = Ended" "anim s' = anim s" by simp_all
  have "draw_protocol (Turn_start, s0)" using assms(2,3) by (simp add: draw_protocol_def protocol_def)
  from draw_protocol_run [OF rtranclp_trans [OF assms(1,4)] this] e show ?thesis
    by (simp add: draw_protocol_def protocol_def)
qed

text \<open>When the state an event sets for a charge going on is not the state the lamp looks for, the
  lamp of a charge going on is never lit, whatever happens.\<close>

theorem charging_lamp_never_lit:
  assumes "kpoc_run B (pc0, s0) (pc, s)" "kcalls s0 = []" "nCurrentState s0 \<noteq> LIGHTS_STATE_CHGON B"
    and "LIGHTS_CHGON B \<noteq> LIGHTS_STATE_CHGON B" "LIGHTS_STATE_CHGFULL B \<noteq> LIGHTS_STATE_CHGON B"
  shows "Lights ''chgon'' \<notin> set (kcalls s)"
proof -
  have step: "kpoc_step B x y \<Longrightarrow> never_on B (lights (snd x)) \<Longrightarrow> never_on B (lights (snd y))" for x y
    by (induction rule: kpoc_step.induct)
      (auto simp: begin_watched step_lights dest: end_watched(2) uevent_never_on [OF _ _ assms(4,5)])
  have "never_on B (lights (snd x))" if "kpoc_run B (pc0, s0) x" for x
    using that
  proof (induction rule: rtranclp_induct)
    case base
    then show ?case using assms(2,3) by (simp add: never_on_def lights_def)
  qed (rule step)
  from this [OF assms(1)] show ?thesis by (simp add: never_on_def lights_def)
qed

text \<open>A key between the end of a turn and the wait is lost: the signal finds no one waiting.\<close>

lemma key_before_wait_lost:
  "kpoc_step B (Before_wait, s) (pc, s') \<Longrightarrow> pc = Before_wait \<or> pc = Waiting \<and> s' = s"
  by (auto elim!: kpoc_stepE simp: after_signals_def)

text \<open>The property that the kernel's driver is there is always set to 1.\<close>

lemma driver_property_is_1:
  assumes "draw_oneshot t s = (b, s')"
  shows "Set_property KERNEL_DRIVER_PROP ''0'' \<in> set (kcalls s') \<longleftrightarrow>
    Set_property KERNEL_DRIVER_PROP ''0'' \<in> set (kcalls s)"
proof -
  have "get_charging_type R p \<noteq> - 1" for R p
    by (simp add: get_charging_type_def case_prod_beta Let_def)
  then show ?thesis using assms by (auto simp: draw_oneshot_def Let_def split: if_splits)
qed

text \<open>The capacity is waited for as long as the service says -1, and for no other answer.\<close>

lemma get_capacity_waits: "get_capacity rs = None \<longleftrightarrow> (\<forall>r \<in> set rs. r = Answer (- 1) \<or> r = Refused) \<and> (rs = [] \<or> hd rs = Answer (- 1))"
proof -
  have "wait_capacity (- 1) rs = None \<longleftrightarrow> (\<forall>r \<in> set rs. r = Answer (- 1) \<or> r = Refused)" for rs
    by (induction rs) (auto simp: get_health_capacity_def EINVAL_def split: reply.splits)
  then show ?thesis
    by (cases rs) (auto simp: get_capacity_def get_health_capacity_def EINVAL_def split: reply.splits)
qed

end
