(* ===== verification/Kpoc_Demo.thy ===== *)
theory Kpoc_Demo
  imports Kpoc_Threads Mm_Nvm
begin

text \<open>
  A phone in power-off charging, at which the properties of the application are applied: the
  gauge holds an enabled bypass, the battery is there and warm, the charger is plugged in and
  later pulled out.
\<close>

section \<open>The phone\<close>

definition bypass_chip :: nvm_chip where
  "bypass_chip = chip0\<lparr>committed := (\<lambda>_. replicate 10 0 @ [0x50, 0x71, 0x02] @ replicate 19 0)\<rparr>"

definition number_file :: "int \<Rightarrow> string option option" where
  "number_file n = Some (Some (show_int n @ [CHR 0x0A]))"

definition phone_files :: file_reads where
  "phone_files = (\<lambda>_. None)(BATTERY_PRESENT_PATH := number_file 1,
     BATTERY_TEMPERATURE_PATH := number_file 25, BYPASS_SETTING := number_file 160080)"

definition phone_now :: "bool \<Rightarrow> kpoc_now" where
  "phone_now plugged = \<lparr>reads = phone_files,
     health = Answer (no_health_info\<lparr>chargerUsbOnline := plugged\<rparr>), capacities = [Answer 50],
     boot_mode = 8, in_time = True\<rparr>"

definition phone_round :: "bool \<Rightarrow> kpoc_round" where
  "phone_round plugged =
    \<lparr>key_before = False, now1 = phone_now plugged, now2 = phone_now plugged, plug_goes_on = True\<rparr>"

definition phone_pictures :: kpoc_pictures where
  "phone_pictures = \<lparr>fill_animation_logo = (\<lambda>_ fb. fb), fill_animation_battery_by_ver = (\<lambda>_ _ fb. fb),
     fill_animation_battery_fast_charging = (\<lambda>_ fb. fb), g_logo_argb = (\<lambda>i. of_nat i),
     g_word_logo_argb_en = (\<lambda>i. of_nat i), logo_w = 119, logo_h = 220, word_w = 319, word_h = 67,
     same_address = True, BOOT_LOGO_INDEX = 0, LOW_BATTERY_INDEX = 2, CHARGER_OV_INDEX = 3,
     BAT_TEMP_LOW_INDEX = 41, BAT_TEMP_HIGH_INDEX = 42, CHARGE_NO_BATTERY_INDEX = 43,
     CHARGER_FLOAT_INDEX_1 = 44, V1_BACKGROUND_INDEX = 38, VERION_OLD_ANIMATION = 0,
     VERION_NEW_ANIMATION = 1, VERION_WIRELESS_CHARGING_ANIMATION = 2,
     VERION_PLUGOUT_CHARGING_ANIMATION = 3, MAX_SUPPORT_ANIM_VER = 3, ANIM_V0_LOGO_NUM = 38,
     ANIM_V1_LOGO_NUM = 45, ANIM_V2_LOGO_NUM = 60\<rparr>"

definition phone_build :: kpoc_build where
  "phone_build = \<lparr>pictures = phone_pictures, LIGHTS_STATE_UNKNOWN = 0, LIGHTS_STATE_CHGON = 1,
     LIGHTS_STATE_CHGFULL = 2, LIGHTS_STATE_EXIT = 3, LIGHTS_CHGON = 4, VBAT_POWER_ON = 3450000,
     LCD_LOW_BAT_BL_LEVEL = 5, MTK_BATLOWV_NO_PANEL_ON_EARLY = False, ANIMATION_NEW = True\<rparr>"

definition phone_display :: kpoc_anim where
  "phone_display = \<lparr>draw_anim_mode = DRAW_ANIM_MODE_FB, show_animationm_ver = 1,
     kernel_logo_position = 38, error_flag = False, check_float_first = True, float_index = 0,
     use_double_addr = 0, IS_DRM = 1, phical_screen = tablet_screen, mPinPon = 0, fb_addr = Lk_fb,
     buffers = (\<lambda>_ _. 0), frames = [], is_multibin = False\<rparr>"

definition phone :: kpoc where
  "phone = \<lparr>anim = phone_display, inDraw = False, firstTime = True, key_trigger_suspend = False,
     backlight_on = False, oneshot = True, pre_usb_online = False, pre_ac_online = False,
     inExiting = False, showLowBattLogo = False, nCurrentState = 0, lcd_backlight_level = 255,
     bc = 0, kcalls = []\<rparr>"

lemma phone_reads:
  "get_battery_online_status phone_files" "\<not> get_battnotify_status phone_files"
  "get_battery_temperature phone_files = 25" "get_bypass_setting phone_files"
  "get_fast_charging_state phone_files = 0" "\<not> get_float_charging_state phone_files"
proof -
  note paths = BATTERY_PRESENT_PATH_def BATTERY_TEMPERATURE_PATH_def BYPASS_SETTING_def
    CHARGER_FAST_PATH_def FLOAT_TYPE_FLAG_PATH_def CHARGER_ONLINE_PATH_def bat_notify_path_def
  have shown: "get_int_value phone_files BATTERY_PRESENT_PATH = 1"
    "get_int_value phone_files BATTERY_TEMPERATURE_PATH = 25"
    "get_int_value phone_files BYPASS_SETTING = 160080"
    by (simp_all add: int_value_shown(1) phone_files_def number_file_def paths)
  then show "get_battery_online_status phone_files" "get_battery_temperature phone_files = 25"
    "get_bypass_setting phone_files"
    by (simp_all add: get_battery_online_status_def get_battery_temperature_def get_bypass_setting_def)
  show "\<not> get_battnotify_status phone_files" "get_fast_charging_state phone_files = 0"
    "\<not> get_float_charging_state phone_files"
    by (simp_all add: get_battnotify_status_def get_fast_charging_state_def get_float_charging_state_def
        get_charging_type_def app_get_int_value_def read_from_file_def phone_files_def paths Let_def)
qed

lemma phone_online: "source_online (phone_now plugged) \<longleftrightarrow> plugged"
  by (simp add: source_online_def phone_now_def get_health_info_def no_health_info_def chg_volt_path_def
      app_get_int_value_def read_from_file_def phone_files_def BATTERY_PRESENT_PATH_def
      BATTERY_TEMPERATURE_PATH_def BYPASS_SETTING_def Let_def)

lemma phone_capacity: "get_capacity (capacities (phone_now plugged)) = Some 50"
  by (simp add: phone_now_def get_capacity_def get_health_capacity_def EINVAL_def)

section \<open>The properties at the phone\<close>

lemma kpoc_reads_driver_bypass_witness:
  "get_bypass_setting phone_files
    \<and> bp_enable (bypass_setting (snd (mm8xxx_get_bypass_setting (nvm_ref True) (nvm_device bypass_chip))))"
proof -
  let ?r = "mm8xxx_get_bypass_setting (nvm_ref True) (nvm_device bypass_chip)"
  have "fst (mm8xxx_read_bypass_setting (nvm_ref True) (nvm_device bypass_chip)) = 160080"
    by (simp add: mm8xxx_read_bypass_setting_def mm8xxx_read_bypass_data_def nvm_open_def nvm_seal_def
        ref_write ref_read Let_def MM8XXX_BYPASS_LEN_def MM8XXX_BYPASS_ADDR_def upt_rec bypass_chip_def
        chip0_def nvm_device_def chip_data_def mm_device0_def chip_cmd_def chip_ctrl_def chip_select_def
        MM8XXX_BYPASS_UNSEAL_CODE_def MM8XXX_CMD_LENOVO_SETTING_def byte_of_def fill_def nth_append)
  then have "?r = (Inr (dec 160080), snd ?r)"
    by (simp add: mm8xxx_get_bypass_setting_def case_prod_beta)
  from kpoc_reads_driver_bypass [OF this] show ?thesis
    using phone_reads(4) by (simp add: phone_files_def number_file_def)
qed


lemma unplug_in_bypass_faults_witness:
  "draw_with_interval phone_build (\<lambda>N. bootlogo_show_charging phone_build N 50)
    [phone_round True, phone_round False] phone = None"
proof (rule unplug_in_bypass_faults)
  show "has_mode phone" by (simp add: has_mode_def phone_def phone_display_def)
  show "shows_bypass (now1 (phone_round True)) phone"
    using phone_reads by (simp add: shows_bypass_def phone_round_def phone_now_def phone_def Let_def)
  show "get_capacity (capacities (now1 (phone_round False))) = Some 50"
    by (simp add: phone_round_def phone_capacity)
  show "\<not> get_float_charging_state (reads (now1 (phone_round False)))"
    using phone_reads(6) by (simp add: phone_round_def phone_now_def)
qed (simp_all add: phone_round_def phone_online, simp_all add: phone_def phone_display_def)

lemma unplugged_leaves_charging_mode_witness:
  "\<exists>s. draw_round phone_build func True (phone_round False) phone = Some s
    \<and> Exit_charger ''EXIT_CHARGING_MODE'' \<in> set (kcalls s)"
proof (rule unplugged_leaves_charging_mode)
  show "get_capacity (capacities (now1 (phone_round False))) = Some 50"
    by (simp add: phone_round_def phone_capacity)
  show "\<not> get_float_charging_state (reads (now1 (phone_round False)))"
    using phone_reads(6) by (simp add: phone_round_def phone_now_def)
qed (simp_all add: phone_round_def phone_online, simp_all add: phone_def phone_display_def)

section \<open>A turn\<close>

text \<open>A turn without rounds; \<open>ok\<close>, the property of the driver can be set.\<close>

definition phone_turn :: "bool \<Rightarrow> kpoc_turn" where
  "phone_turn ok = \<lparr>waits = [], turn_capacities = [Answer 50], rounds = [], turn_end = phone_now True,
     property_ok = ok, fb_opens = True\<rparr>"

definition phone_drawing :: kpoc where
  "phone_drawing = draw_begin (phone_turn True) phone"

lemma phone_drawn: "\<exists>s. draw_pictures phone_build (phone_turn ok) phone_drawing = Some s \<and> oneshot s \<and> is_drm (anim s) = 1"
proof -
  let ?s = "stop_backlight phone_drawing"
  have a: "anim ?s = phone_display" "\<not> showLowBattLogo ?s" "oneshot ?s"
    by (simp_all add: stop_backlight_def phone_drawing_def draw_begin_def phone_def phone_turn_def Let_def)
  have "shows_bypass (phone_now True) ?s"
    using phone_reads a(2) by (simp add: shows_bypass_def phone_now_def Let_def)
  note chosen = bypass_chosen [OF this, of phone_build 50]
  obtain d where "display_bypass_logo phone_pictures phone_display = Some d" "IS_DRM d = 1"
    by (simp add: display_bypass_logo_def paint_def anim_drm_disp_update_def phone_display_def
        phone_pictures_def DRAW_ANIM_MODE_FB_def DRAW_ANIM_MODE_SURFACE_def Let_def)
  then have "on_anim (display_bypass_logo (pictures phone_build)) ?s = Some (?s\<lparr>anim := d\<rparr>)"
    by (simp add: on_anim_def a phone_build_def)
  then show ?thesis
    using chosen \<open>IS_DRM d = 1\<close> a(3)
    by (simp add: draw_pictures_def draw_with_interval_def phone_turn_def get_capacity_def
        get_health_capacity_def is_drm_def)
qed

lemma phone_run:
  "\<exists>s. kpoc_run phone_build (Turn_start, phone) (if ok then Before_wait else Ended, s)"
proof -
  obtain s where s: "draw_pictures phone_build (phone_turn ok) phone_drawing = Some s" "oneshot s"
    "is_drm (anim s) = 1" using phone_drawn by blast
  have "draw_begin (phone_turn ok) phone = phone_drawing"
    by (simp add: phone_drawing_def draw_begin_def phone_turn_def)
  then have "kpoc_step phone_build (Turn_start, phone) (Drawing, phone_drawing)"
    using kpoc_step.turn_begins [of phone_build phone "phone_turn ok"] by simp
  moreover have "kpoc_step phone_build (Drawing, phone_drawing) (Turn_end, s)"
    using s(1) by (rule kpoc_step.pictures_drawn)
  moreover have "fst (draw_end (phone_turn ok) s) = ok"
    using s(2,3) by (simp add: draw_end_def draw_oneshot_def phone_turn_def Let_def)
  then have "kpoc_step phone_build (Turn_end, s)
      (if ok then Before_wait else Ended, snd (draw_end (phone_turn ok) s))"
    using kpoc_step.turn_ends [of "phone_turn ok" s ok "snd (draw_end (phone_turn ok) s)"]
    by (metis prod.collapse)
  ultimately show ?thesis by (meson converse_rtranclp_into_rtranclp rtranclp.rtrancl_refl)
qed


lemma ended_for_ever_witness:
  "\<exists>s. kpoc_run phone_build (Turn_start, phone) (Ended, s) \<and> inDraw s \<and> lock_of False (kcalls s)
    \<and> anim (start_charging_anim (phone_now True) s) = anim s"
proof -
  obtain s where s: "kpoc_run phone_build (Turn_start, phone) (Ended, s)"
    using phone_run [of False] by auto
  let ?s = "start_charging_anim (phone_now True) s"
  have "kpoc_step phone_build (Ended, s) (Ended, ?s)"
    using kpoc_step.key [of phone_build Ended s "phone_now True"] by (simp add: after_signals_def)
  with s ended_for_ever [OF s, of Ended s] ended_for_ever [OF s, of Ended ?s] show ?thesis
    by (auto simp: phone_def)
qed

end
