(* ===== verification/Spec2Isabelle.thy ===== *)
theory Spec2Isabelle
  imports Sgm_Limits Sgm_Safety Sgm_Init Mm_Nvm Mm_Gauge Lenovo_Settings Charger_Contract
    Mtk_Chip Mtk_Safety Mtk_Power Mtk_Pass Mtk_Setup Mtk_Sysfs Lk_Phone Lk_Show Lk_Tags Hal_Service Kpoc_Demo
begin

text \<open>
  Verification of the charging stack of the phone (virtual-battery): the kernel drivers
  under \<open>kernel/kernel_device_modules-6.6/drivers/power/supply/\<close> that charge a real
  battery, measure it, or run the phone from the adapter while the battery rests
  (bypass, "no battery" charging), the boot loader (lk, under
  \<open>vendor/mediatek/proprietary/bootable/bootloader/lk/\<close>) that decides at power on whether to
  boot or to show the virtual battery and turn off, and the two programs of user space on
  top of them: the battery service, and the application that runs while a phone that is
  off is charged.

  \<^bold>\<open>The program.\<close>  From the chip upwards:

    \<^item> \<open>sgm415xx.c\<close>, \<open>sgm415xx.h\<close>: the SGM4154x charger chip over SMBus - charge current and
      voltage, input limits, the high impedance mode that cuts the input, detection of
      the adapter, HVDCP, OTG, its interrupt, its power-supply properties, initialisation
      and shutdown;
    \<^item> \<open>mm8xxx_battery.c\<close>, \<open>mm8xxx_battery_i2c.c\<close>, \<open>mm8xxx_battery.h\<close>: the MM8013 gauge - cached
      readings and properties, data memory, and the bypass setting and dates in its NVM;
    \<^item> \<open>charger_class.c\<close>, \<open>charger_class.h\<close>: the class between charger drivers and the core;
    \<^item> \<open>lenovo_charge_sysfs.c\<close>, \<open>lenovo_charge_sysfs.h\<close>: the files by which user space holds
      charging back (protection ranges, charging switch, input suspend, maintenance);
    \<^item> \<open>mtk_charger.c\<close>, \<open>mtk_charger.h\<close>: the core that reads all of them and decides whether
      to charge;
    \<^item> the boot loader: \<open>platform/mt6768/platform.c\<close> (the boot sequence and the decision),
      \<open>platform/mt6768/mt_logo.c\<close> (the screens), \<open>lib/libshowlogo/show_animation_common.c\<close>
      (the pictures, the charging animation, the pixels of the virtual battery);
    \<^item> the battery service, \<open>Battery.cpp\<close> and \<open>Battery.h\<close> under
      \<open>xxx/lgsi/drvonly/interfaces_impl/battery/aidl/default/\<close>;
    \<^item> power-off charging (kpoc, under \<open>vendor/mediatek/proprietary/external/\<close>):
      \<open>charger/charging_control.cpp\<close>, \<open>charger/bootlogo.cpp\<close>, \<open>charger/common.cpp\<close> (threads, lights,
      the choice of the picture) and \<open>libshowlogo/charging_animation.cpp\<close> (readings, buffers,
      pictures).

  The core calls the charger through the class; the class calls the function table the
  SGM driver registers; the core reads the bypass setting of the gauge driver
  (\<open>mm8xxx_get_bypass_data\<close>) and the settings of the files, which notify it of a write;
  the gauge driver reads the core's settings back for its CV property.  The boot loader reads
  the byte of the \<open>proinfo\<close> partition that enables the bypass, and the charger voltage.  The
  battery service writes and reads the settings files; the application reads the bypass
  setting from the gauge driver's file.

  \<^bold>\<open>The theories\<close>, in the order of their imports:

    \<^item> \<open>Prelude\<close>: words, error codes, bytes, C division (\<open>sdiv\<close>, truncating; division by 0
      yields 0 and is flagged where the code admits it), decimal output.
    \<^item> \<open>Decimal\<close>: \<open>atoi\<close>, and that it reads back what \<open>%d\<close> prints.
    \<^item> \<open>Power_Supply\<close>: the kernel's property identifiers and values.
    \<^item> \<open>Sgm_Bus\<close>: the SMBus as two functions of an abstract world, register reads, writes and
      masked updates, the register map.  \<open>Sgm_Charger\<close>: one definition per setter and
      getter.  \<open>Sgm_Detect\<close>: BC1.2 and HVDCP detection, the interrupt thread.  \<open>Sgm_Driver\<close>: the
      operation table, properties, sysfs files, init, suspend, shutdown.
    \<^item> \<open>Sgm_Limits\<close>, \<open>Sgm_Safety\<close>, \<open>Sgm_Init\<close>: round trips of the current and voltage settings,
      safety of high impedance and the charging switch over any run of operations, the
      register contents after initialisation.
    \<^item> \<open>Mm_Battery\<close>, \<open>Mm_I2c\<close>: the two halves of the gauge driver; \<open>Mm_Nvm\<close>, \<open>Mm_Gauge\<close>: the
      NVM round trips (with the locale of a gauge that answers), error paths and the
      bypass override of the reported status.
    \<^item> \<open>Charger_Class\<close>, \<open>Charger_Contract\<close>: the class functions, registration and lookup, the
      SGM table as a class table; every class function reaches its driver operation.
    \<^item> \<open>Lenovo_Sysfs\<close>, \<open>Lenovo_Settings\<close>: the settings and their files; a file shows its last
      write, the getters agree, the core is notified in order.
    \<^item> \<open>Hal_Battery\<close>: the getters and setters of the battery service and their paths, over the
      file primitives they call (\<open>hal_io\<close>).  \<open>Hal_Kernel\<close>: the locale \<open>charge_files\<close> of how the
      files reach the kernel's show and store methods, and the effect of each call.
      \<open>Hal_Service\<close>: what the getters report and the core sees after any calls (\<open>write_log\<close>
      again), and a system of files on which the locale is interpreted.
    \<^item> \<open>Mtk_Charger\<close>: the core's state (\<open>mtk_charger\<close>), what it calls (\<open>mtk_env\<close>), notification,
      power path, power supplies.  \<open>Mtk_Smart\<close>: bypass phase and smart charging, plug in and
      out.  \<open>Mtk_Status\<close>: JEITA, thermal protection, the status check, the decision of the
      thread.
    \<^item> \<open>Mtk_Board\<close>: the device tree (\<open>mtk_charger_parse_dt\<close>).  \<open>Mtk_Files\<close>: the files, as texts and
      writes (\<open>write_mtk_file\<close>), the master supply, the boot command line.  \<open>Mtk_Sysfs\<close>: the
      other files, their creation, the time of day.  \<open>Mtk_Events\<close>: adapter events, the alarm, suspend and resume.  \<open>Mtk_Init\<close>: finding chargers and
      algorithms, the probe (\<open>mtk_charger_probe\<close>), shutdown.  \<open>Mtk_Thread\<close>: one pass of
      \<open>charger_routine_thread\<close> (\<open>charger_routine_pass\<close>) and powering off.
    \<^item> \<open>Mtk_Policy\<close>: the abstract automaton of the decision flags (\<open>spec_decide\<close>) and the locales
      \<open>latch\<close> and \<open>charger_core\<close>.  \<open>Mtk_Phone\<close>: the core on the SGM driver, the interpretation
      of \<open>charger_core\<close>.  \<open>Mtk_Frame\<close>: what leaves the decision flags alone.  \<open>Mtk_Bypass\<close>: smart
      charging refines the automaton, the invariant of its flags over all interleavings of
      the core's entry points (\<open>core_step\<close>), the bypass hysteresis over a run of samples.
      \<open>Mtk_Chip\<close>: what a turn of the bypass phase writes to the chip.
    \<^item> \<open>Mtk_Safety\<close>: JEITA hysteresis, temperature limits, power path, time window.  \<open>Mtk_Pass\<close>: the
      temperature limits over a whole pass of the thread (locale \<open>thread_core\<close>).  \<open>Mtk_Power\<close>:
      powering off, the alarm across a suspend, the adapter kind the charger is given.
      \<open>Mtk_Setup\<close>: the chargers the start waits for, the limits a device tree gives, what the
      core's files show after any writes (an interpretation of \<open>write_log\<close>, which
      \<open>Lenovo_Settings\<close> shares).
    \<^item> \<open>Lk_Logo\<close>: the virtual battery, pixel by pixel.  \<open>Lk_Anim\<close>: the logo partition and the three
      versions of the animation.  \<open>Lk_Show\<close>: the search for the resolution ends and is done
      once, the animation returns and keeps its frames in range, the regions of its bar.
      \<open>Lk_Display\<close>: the screens, over a state with a log of calls (\<open>lk_boot\<close>).  \<open>Lk_Platform\<close>,
      \<open>Lk_Init\<close>: the bypass byte, the decision (\<open>battery_decision\<close>), \<open>platform_init\<close> as a
      sequence of steps.  \<open>Lk_Boot\<close>: the locale \<open>log_language\<close> of what steps may log, with its
      two interpretations.  \<open>Lk_Decision\<close>: when the phone is turned off, the order of picture
      and backlight, that the boot returns.  \<open>Lk_Phone\<close>: phones that boot.  \<open>Lk_Tags\<close>: the boot
      arguments (\<open>dram_init\<close>) and the memory size.
    \<^item> \<open>Kpoc_Anim\<close>: the readings, buffers and pictures of power-off charging.  \<open>Kpoc_Control\<close>: the
      choice of the picture and the bodies of its threads.  \<open>Kpoc_Bypass\<close>: the application
      shows the bypass the driver acts on, the frames it draws for it, what follows when the
      charger is pulled out.  \<open>Kpoc_Threads\<close>: the threads as a step relation (\<open>kpoc_step\<close>), the
      wake lock over every interleaving.  \<open>Kpoc_Demo\<close>: a phone at which these are applied.

  \<^bold>\<open>Correspondence.\<close>  A definition has the name of its C function.  A driver's \<open>struct\<close> is a
  record; a pointer out-parameter is an extra result; a result is the C return code
  (0, a count, or \<open>- errno\<close>); a static variable is a field or an extra argument.  Bytes,
  registers and \<open>u32\<close> are words, \<open>int\<close> is \<open>int\<close> with \<open>s32\<close> where a product can leave the
  32-bit range.  The bus, the chips, the charging algorithm (\<open>mtk_basic_charger.c\<close> is not in
  the repository), the readings (battery temperature, VBUS, state of charge) and the
  other adapters are parameters: fields of \<open>smbus_ops\<close>, \<open>mm8xxx_bus\<close>, \<open>mtk_env\<close> and
  \<open>lenovo_env\<close>; for the boot loader the decompressor, the rectangle painters, the storage and the
  build options, fields of \<open>lk_env\<close>, \<open>lk_board\<close> and \<open>lk_platform\<close>, whose calls may change
  the world in any way.  The files are functions of user space's programs: \<open>hal_io\<close> over a
  world for the service, \<open>file_reads\<close> at each moment (\<open>kpoc_now\<close>) for the application, whose
  painters, pictures and build constants are \<open>kpoc_pictures\<close> and \<open>kpoc_build\<close>; what it asks
  others to do (wake lock, lights, exit) is a log (\<open>kcalls\<close>), and a fault is None.  What is assumed of them is stated by the locales \<open>charger_core\<close> (the
  algorithm does not touch the decision flags), \<open>thread_core\<close> (nor the temperature limits),
  \<open>charge_files\<close> (reads and writes of the settings files reach the kernel's methods)
  and those of the buses, and each is
  interpreted on the model.

  \<^bold>\<open>Bounds.\<close>  The gauge's wait for configuration mode reads the flags at most 100 times, as the
  code does; the HVDCP work reschedules itself at most three times; the loop that powers off
  takes 20000 rounds (\<open>KPOC_ROUNDS\<close>, a constant of the code); the attempts to initialise
  are a list, whose length is the number of attempts looked at; all other loops of the
  code are over fixed tables.  Three loops of the boot loader have no bound of their own
  (\<open>find_logos\<close>, \<open>walk_tags\<close>, \<open>fit_4gb\<close>): they are partial functions into \<open>option\<close>, None for
  not returning, and theorems give the conditions under which they return.  The
  application's loops run until a time is up: their rounds, and the answers of the health
  service it waits for, are lists of any length.  A failed
  assertion does not return either.  Nothing in the model needs fuel beyond these bounds.

  \<^bold>\<open>Not modelled.\<close>  Logging, mutexes and sleeps (one thread of control; the
  interleavings of the core's entry points are steps of \<open>core_step\<close>); module glue, netlink
  and the registration of power supplies (its result is an argument of the probe); of the boot loader the debug
  log, time stamps, the MMU table and the security calls after the boot; the reference copies
  under \<open>batterygai\<close> (byte for byte the gauge driver modelled here) and the reference code
  directory (\<open>mmc_core.c\<close>, \<open>bio.c\<close>, boot loader code, another project's service), which no
  build uses; of power-off charging the opening of the display (\<open>drm_resource\<close>), the second
  display, and drawing through the surface flinger, for which the code creates no surface.  A build with
  \<open>__SGM41543D_CHIP_ID__\<close> is assumed, and one device of each kind.
\<close>

end
